(* ===== verification/Prelude.thy ===== *)
theory Prelude
  imports Main
begin

section \<open>Prelude: shared collections, slices and list lemmas\<close>

text \<open>
  What every component of the development shares: the collections of simplification rules,
  Go slices that may be nil, and the generic lemmas on lists that the component theories use
  (first-occurrence deduplication, lists that are distinct under a key, searching and
  replacing by key).

  Collections: \<open>go_simps\<close> holds the equations of the control-flow combinators of
  \<open>Go_Errors\<close>; \<open>cond_defs\<close>, \<open>js_defs\<close> and \<open>rec_defs\<close> are filled by the component theories
  with the definitions that a proof about one branch unfolds.
\<close>

named_theorems go_simps "equations of the control-flow combinators"
named_theorems cond_defs "definitions of the condition operations"
named_theorems js_defs "definitions of the JetStream operations"
named_theorems rec_defs "definitions of the reconcilers"

subsection \<open>Slices that may be nil\<close>

text \<open>
  A Go slice is modelled as a list where nil and the empty slice cannot be told apart by the
  code, and as a list option (\<open>None\<close> is nil) where they can: in a comparison with nil and
  under \<^verbatim>\<open>reflect.DeepEqual\<close>. Ranging over a nil slice visits nothing.
\<close>

type_synonym 'a slice = "'a list option"

definition items :: "'a slice \<Rightarrow> 'a list" where
  "items s = (case s of None \<Rightarrow> [] | Some xs \<Rightarrow> xs)"

text \<open>A slice declared with \<^verbatim>\<open>var\<close> and only appended to is nil exactly when it is empty.\<close>

definition appended :: "'a list \<Rightarrow> 'a slice" where
  "appended xs = (if xs = [] then None else Some xs)"

lemma items_simps [simp]: "items None = []" "items (Some xs) = xs"
  by (simp_all add: items_def)

lemma items_appended [simp]: "items (appended xs) = xs"
  by (simp add: appended_def)

lemma appended_inject [simp]: "appended xs = appended ys \<longleftrightarrow> xs = ys"
  by (metis items_appended)

subsection \<open>First-occurrence deduplication\<close>

text \<open>
  The specification that the repository's three deduplication loops implement: keep the
  first occurrence of every element, in order.
\<close>

fun dedup :: "'a list \<Rightarrow> 'a list" where
  "dedup [] = []"
| "dedup (x # xs) = x # dedup (filter (\<lambda>y. y \<noteq> x) xs)"

text \<open>The loop that all of them run, with the elements seen so far as an accumulator.\<close>

fun dedup_acc :: "'a list \<Rightarrow> 'a list \<Rightarrow> 'a list" where
  "dedup_acc acc [] = acc"
| "dedup_acc acc (x # xs) = dedup_acc (if x \<in> set acc then acc else acc @ [x]) xs"

lemma dedup_acc_eq: "dedup_acc acc xs = acc @ dedup (filter (\<lambda>y. y \<notin> set acc) xs)"
proof (induction xs arbitrary: acc)
  case Nil
  show ?case by simp
next
  case (Cons x xs)
  have "filter (\<lambda>y. y \<notin> set (acc @ [x])) xs
      = filter (\<lambda>y. y \<noteq> x) (filter (\<lambda>y. y \<notin> set acc) xs)"
    by (auto simp: filter_filter intro: filter_cong)
  with Cons.IH show ?case by simp
qed

lemma dedup_acc_Nil [simp]: "dedup_acc [] xs = dedup xs"
  by (simp add: dedup_acc_eq)

lemma set_dedup [simp]: "set (dedup xs) = set xs"
  by (induction xs rule: dedup.induct) auto

lemma distinct_dedup [simp]: "distinct (dedup xs)"
  by (induction xs rule: dedup.induct) auto

lemma dedup_distinct_id: "distinct xs \<Longrightarrow> dedup xs = xs"
proof (induction xs rule: dedup.induct)
  case (2 x xs)
  then have "filter (\<lambda>y. y \<noteq> x) xs = xs" by (auto simp: filter_id_conv)
  with 2 show ?case by simp
qed simp

lemma length_dedup_le: "length (dedup xs) \<le> length xs"
proof (induction xs rule: dedup.induct)
  case (2 x xs)
  then show ?case using le_trans [OF _ length_filter_le] by fastforce
qed simp

lemma length_dedup_eq_iff: "length (dedup xs) = length xs \<longleftrightarrow> distinct xs"
proof
  assume "length (dedup xs) = length xs"
  then have "card (set xs) = length xs"
    using distinct_card [OF distinct_dedup, of xs] by simp
  then show "distinct xs" by (rule card_distinct)
qed (simp add: dedup_distinct_id)

subsection \<open>Lists that are distinct under a key\<close>

abbreviation distinct_on :: "('a \<Rightarrow> 'k) \<Rightarrow> 'a list \<Rightarrow> bool" where
  "distinct_on f xs \<equiv> distinct (map f xs)"

lemma find_Some_in:
  "find P xs = Some x \<Longrightarrow> x \<in> set xs \<and> P x"
  by (auto simp: find_Some_iff)

lemma list_ex_key: "list_ex (\<lambda>y. f y = k) xs \<longleftrightarrow> k \<in> f ` set xs"
  by (auto simp: list_ex_iff)

lemma map_zip_fst: "length xs = length ys \<Longrightarrow> map (\<lambda>p. f (fst p)) (zip xs ys) = map f xs"
  by (induction xs ys rule: list_induct2) auto

lemma find_append:
  "find P (xs @ ys) = (case find P xs of Some x \<Rightarrow> Some x | None \<Rightarrow> find P ys)"
  by (induction xs) auto

lemma map_of_rev:
  "distinct (map fst xs) \<Longrightarrow> map_of (rev xs) = map_of xs"
  by (rule map_of_inject_set [THEN iffD2]) (simp_all add: rev_map [symmetric])

lemma find_distinct_on:
  assumes "distinct_on f xs" and "x \<in> set xs"
  shows "find (\<lambda>y. f y = f x) xs = Some x"
  using assms by (induction xs) (auto simp: rev_image_eqI)

lemma find_map_replace:
  "find (\<lambda>y. f y = k) (map (\<lambda>y. if f y = f c then c else y) xs)
     = (if k = f c then (if f c \<in> f ` set xs then Some c else None)
        else find (\<lambda>y. f y = k) xs)"
  by (induction xs) auto

lemma map_key_replace:
  "map f (map (\<lambda>y. if f y = f c then c else y) xs) = map f xs"
  by (induction xs) auto

lemma distinct_on_filter: "distinct_on f xs \<Longrightarrow> distinct_on f (filter P xs)"
  by (simp add: distinct_map_filter)

lemma distinct_on_inj: "distinct_on f xs \<Longrightarrow> x \<in> set xs \<Longrightarrow> y \<in> set xs \<Longrightarrow> f x = f y \<Longrightarrow> x = y"
  by (auto simp: distinct_map inj_on_def)

lemma distinct_on_imp_distinct: "distinct_on f xs \<Longrightarrow> distinct xs"
  by (simp add: distinct_map)

text \<open>
  Two lists of equal length, the second distinct under the key: if every key of the second
  occurs in the first, the keys are the same and the first is distinct under the key too.
\<close>

lemma same_length_subset_keys:
  assumes "length xs = length ys" and "distinct ys" and "set ys \<subseteq> set xs"
  shows "set xs = set ys" and "distinct xs"
proof -
  have "card (set ys) = length ys" using assms(2) by (rule distinct_card)
  moreover have "card (set ys) \<le> card (set xs)" using assms(3) by (simp add: card_mono)
  moreover have "card (set xs) \<le> length xs" by (rule card_length)
  ultimately have "card (set xs) = length xs" and "card (set xs) = card (set ys)"
    using assms(1) by simp_all
  then show "distinct xs" and "set xs = set ys"
    using assms(3) card_subset_eq [of "set xs" "set ys"] by (auto intro: card_distinct)
qed

subsection \<open>Integers\<close>

text \<open>\<^verbatim>\<open>int64(hash)\<close> of an unsigned 64-bit hash.\<close>

definition int64 :: "nat \<Rightarrow> int" where
  "int64 n = signed_take_bit 63 (int n)"

end
