(* ===== verification/Go_Errors.thy ===== *)
theory Go_Errors
  imports Go_Strings
begin

section \<open>Errors and control flow\<close>

text \<open>
  The model of Go error values and of \<^verbatim>\<open>errors.Is\<close> (\<^verbatim>\<open>pkg/errors/errors.go\<close>,
  \<^verbatim>\<open>internal/controller/errors/skip.go\<close> and the standard library), and the result of a Go
  function: a returned value, a returned error, or a run-time panic. \<open>bindR\<close> sequences two
  calls the way \<^verbatim>\<open>if err != nil { return err }\<close> does.
\<close>

subsection \<open>Error values\<close>

text \<open>
  \<open>Sentinel\<close> is a package-level \<^verbatim>\<open>errors.New\<close> value of the repository, identified by its
  message (the messages of the repository's sentinels are pairwise distinct). \<open>Plain\<close> is an
  error without an identity the code compares: one a library or a service returned, with the
  kind the code can ask for, or one built with \<^verbatim>\<open>errors.New\<close> or \<^verbatim>\<open>%v\<close> on the spot, of kind
  \<open>KOther\<close>. \<open>ArgError\<close> is \<^verbatim>\<open>ArgumentError\<close>. \<open>Wrapped\<close> is the result of \<^verbatim>\<open>fmt.Errorf\<close> with
  \<^verbatim>\<open>%w\<close> verbs (or of \<^verbatim>\<open>errors.Join\<close> or \<^verbatim>\<open>errors.Wrap\<close>): the pieces of text around the wrapped
  errors, and these. \<open>Terminal\<close> is \<^verbatim>\<open>reconcile.TerminalError\<close>, \<open>Skippable\<close> is
  \<^verbatim>\<open>skippableError\<close>.
\<close>

datatype ext_kind = KNotFound | KConsumerNotFound | KStreamNotFound | KOther

datatype goerr =
    Sentinel string
  | Plain ext_kind string
  | ArgError string string
  | Wrapped "string list" "goerr list"
  | Terminal goerr
  | Skippable goerr

text \<open>
  Two errors count as the same for \<^verbatim>\<open>errors.Is\<close> when they are equal or the \<^verbatim>\<open>Is\<close> method of
  the first accepts the second; the one \<^verbatim>\<open>Is\<close> method that matters is \<^verbatim>\<open>ArgumentError.Is\<close>,
  which looks for an \<^verbatim>\<open>ArgumentError\<close> in the chain of its target (\<^verbatim>\<open>errors.As\<close>) and compares
  the formats only.
\<close>

fun as_ArgumentError :: "goerr \<Rightarrow> string option" where
  "as_ArgumentError (ArgError f a) = Some f"
| "as_ArgumentError (Wrapped ps es) =
     foldr (\<lambda>e r. case as_ArgumentError e of Some f \<Rightarrow> Some f | None \<Rightarrow> r) es None"
| "as_ArgumentError (Terminal e) = as_ArgumentError e"
| "as_ArgumentError (Skippable e) = as_ArgumentError e"
| "as_ArgumentError e = None"

fun ArgumentError_Is :: "goerr \<Rightarrow> goerr \<Rightarrow> bool" where
  "ArgumentError_Is (ArgError f a) t \<longleftrightarrow> as_ArgumentError t = Some f"
| "ArgumentError_Is e t \<longleftrightarrow> False"

fun errors_Is :: "goerr \<Rightarrow> goerr \<Rightarrow> bool" where
  "errors_Is (Wrapped ps es) t \<longleftrightarrow> Wrapped ps es = t \<or> list_ex (\<lambda>e. errors_Is e t) es"
| "errors_Is (Terminal e) t \<longleftrightarrow> Terminal e = t \<or> errors_Is e t"
| "errors_Is (Skippable e) t \<longleftrightarrow> Skippable e = t \<or> errors_Is e t"
| "errors_Is e t \<longleftrightarrow> e = t \<or> ArgumentError_Is e t"

text \<open>
  \<^verbatim>\<open>kerrors.IsNotFound\<close> and \<^verbatim>\<open>pkgerrors.Is(err, nats.ErrConsumerNotFound)\<close> look for an error of
  that kind in the chain.
\<close>

fun err_has_kind :: "ext_kind \<Rightarrow> goerr \<Rightarrow> bool" where
  "err_has_kind k (Plain k' m) \<longleftrightarrow> k = k'"
| "err_has_kind k (Wrapped ps es) \<longleftrightarrow> list_ex (err_has_kind k) es"
| "err_has_kind k (Terminal e) \<longleftrightarrow> err_has_kind k e"
| "err_has_kind k (Skippable e) \<longleftrightarrow> err_has_kind k e"
| "err_has_kind k e \<longleftrightarrow> False"

lemma errors_Is_refl [simp]: "errors_Is e e"
  by (cases e) auto

subsection \<open>Error texts\<close>

text \<open>
  \<^verbatim>\<open>%q\<close> of a string: quotes around it, escapes for quotes, backslashes and control
  characters. Bytes from 0x80 on are copied, which is what \<^verbatim>\<open>strconv.Quote\<close> does with
  printable UTF-8.
\<close>

definition hex_digit :: "nat \<Rightarrow> char" where
  "hex_digit n = (if n < 10 then char_of (48 + n) else char_of (87 + n))"

definition quote_char :: "char \<Rightarrow> string" where
  "quote_char c =
     (let n = of_char c :: nat in
      if n = 34 then [CHR 0x5C, c]
      else if n = 92 then [c, c]
      else if n = 7 then [CHR 0x5C, CHR ''a'']
      else if n = 8 then [CHR 0x5C, CHR ''b'']
      else if n = 9 then [CHR 0x5C, CHR ''t'']
      else if n = 10 then [CHR 0x5C, CHR ''n'']
      else if n = 11 then [CHR 0x5C, CHR ''v'']
      else if n = 12 then [CHR 0x5C, CHR ''f'']
      else if n = 13 then [CHR 0x5C, CHR ''r'']
      else if n < 32 \<or> n = 127 then [CHR 0x5C, CHR ''x'', hex_digit (n div 16), hex_digit (n mod 16)]
      else [c])"

definition Quote :: "string \<Rightarrow> string" where
  "Quote s = CHR 0x22 # concat (map quote_char s) @ [CHR 0x22]"

text \<open>\<^verbatim>\<open>fmt.Sprintf(format, argument)\<close> for a format with one \<^verbatim>\<open>%q\<close>.\<close>

fun sprintf_q :: "string \<Rightarrow> string \<Rightarrow> string" where
  "sprintf_q [] a = []"
| "sprintf_q [x] a = [x]"
| "sprintf_q (x # y # fs) a =
     (if x = CHR ''%'' \<and> y = CHR ''q'' then Quote a @ fs else x # sprintf_q (y # fs) a)"

text \<open>The text of a wrapping error: the pieces with the texts of the wrapped errors between.\<close>

fun interleave :: "string list \<Rightarrow> string list \<Rightarrow> string" where
  "interleave [] ts = concat ts"
| "interleave (p # ps) [] = concat (p # ps)"
| "interleave (p # ps) (t # ts) = p @ t @ interleave ps ts"

fun Error :: "goerr \<Rightarrow> string" where
  "Error (Sentinel m) = m"
| "Error (Plain k m) = m"
| "Error (ArgError f a) = sprintf_q f a"
| "Error (Wrapped ps es) = interleave ps (map Error es)"
| "Error (Terminal e) = ''terminal error: '' @ Error e"
| "Error (Skippable e) = Error e"

subsection \<open>pkg/errors and internal/controller/errors\<close>

definition MakeError :: "goerr \<Rightarrow> goerr \<Rightarrow> goerr" where
  "MakeError actualError underlyingError = Wrapped ['''', '': ''] [actualError, underlyingError]"

text \<open>\<^verbatim>\<open>MakeError(err, nil)\<close>: the verb \<^verbatim>\<open>%w\<close> prints a nil error as \<^verbatim>\<open>%!w(<nil>)\<close>.\<close>

definition MakeError_nil :: "goerr \<Rightarrow> goerr" where
  "MakeError_nil actualError = Wrapped ['''', '': %!w(<nil>)''] [actualError]"

definition MakeSubscriptionError :: "goerr \<Rightarrow> goerr \<Rightarrow> string \<Rightarrow> goerr" where
  "MakeSubscriptionError actualError underlyingError subscription =
     Wrapped ['''', '': '', '', subscription: '' @ subscription] [actualError, underlyingError]"

definition MakeConsumerError :: "goerr \<Rightarrow> goerr \<Rightarrow> string \<Rightarrow> goerr" where
  "MakeConsumerError actualError underlyingError consumer =
     Wrapped ['''', '': '', '', consumer: '' @ consumer] [actualError, underlyingError]"

definition NewArgumentError :: "string \<Rightarrow> goerr" where
  "NewArgumentError errorFormatType = ArgError errorFormatType ''''"

fun WithArg :: "goerr \<Rightarrow> string \<Rightarrow> goerr" where
  "WithArg (ArgError f a) argument = ArgError f argument"
| "WithArg e argument = e"

text \<open>\<^verbatim>\<open>fmt.Errorf(text + "%w", err)\<close> and \<^verbatim>\<open>errors.Wrap\<close>: one wrapped error after a text.\<close>

definition wrap_text :: "string \<Rightarrow> goerr \<Rightarrow> goerr" where
  "wrap_text t e = Wrapped [t] [e]"

text \<open>\<^verbatim>\<open>errors.Join\<close> of two errors that may be nil.\<close>

fun errors_Join :: "goerr option \<Rightarrow> goerr option \<Rightarrow> goerr option" where
  "errors_Join None None = None"
| "errors_Join (Some e) None = Some (Wrapped [''''] [e])"
| "errors_Join None (Some e) = Some (Wrapped [''''] [e])"
| "errors_Join (Some e) (Some e') = Some (Wrapped ['''', [CHR 0x0A]] [e, e'])"

fun IsSkippable :: "goerr option \<Rightarrow> bool" where
  "IsSkippable None \<longleftrightarrow> True"
| "IsSkippable (Some (Skippable e)) \<longleftrightarrow> True"
| "IsSkippable (Some e) \<longleftrightarrow> False"

definition NewSkippable :: "goerr \<Rightarrow> goerr" where
  "NewSkippable err = Skippable err"

lemma errors_Is_Make [simp]:
  "errors_Is (MakeError a u) (Sentinel m) \<longleftrightarrow> errors_Is a (Sentinel m) \<or> errors_Is u (Sentinel m)"
  "errors_Is (MakeSubscriptionError a u s) (Sentinel m)
     \<longleftrightarrow> errors_Is a (Sentinel m) \<or> errors_Is u (Sentinel m)"
  "errors_Is (MakeConsumerError a u s) (Sentinel m)
     \<longleftrightarrow> errors_Is a (Sentinel m) \<or> errors_Is u (Sentinel m)"
  "errors_Is (MakeError_nil a) (Sentinel m) \<longleftrightarrow> errors_Is a (Sentinel m)"
  "errors_Is (wrap_text t a) (Sentinel m) \<longleftrightarrow> errors_Is a (Sentinel m)"
  by (simp_all add: MakeError_def MakeSubscriptionError_def MakeConsumerError_def
      MakeError_nil_def wrap_text_def)

subsection \<open>Results\<close>

text \<open>
  What a call ends with: a value, a non-nil error (the other results are then ignored by
  every caller), or a panic that unwinds the whole reconciliation. A function with an effect
  also returns the state after it.
\<close>

datatype 'a result = Ret 'a | Err goerr | Crash string

type_synonym ('s, 'a) outcome = "'a result \<times> 's"

fun bindR :: "('s, 'a) outcome \<Rightarrow> ('a \<Rightarrow> 's \<Rightarrow> ('s, 'b) outcome) \<Rightarrow> ('s, 'b) outcome" where
  "bindR (Ret a, s) f = f a s"
| "bindR (Err e, s) f = (Err e, s)"
| "bindR (Crash p, s) f = (Crash p, s)"

text \<open>Calling a method whose only result is an error.\<close>

definition of_err :: "goerr option \<Rightarrow> unit result" where
  "of_err e = (case e of None \<Rightarrow> Ret () | Some x \<Rightarrow> Err x)"

lemma of_err_simps [simp, go_simps]: "of_err None = Ret ()" "of_err (Some x) = Err x"
  by (simp_all add: of_err_def)

lemma of_err_eq_simps [simp]:
  "of_err e = Ret u \<longleftrightarrow> e = None" "of_err e = Err x \<longleftrightarrow> e = Some x" "of_err e \<noteq> Crash p"
  by (auto simp: of_err_def split: option.splits)

declare bindR.simps [go_simps]

lemma bindR_RetE:
  assumes "bindR m f = (Ret b, t)"
  obtains a s where "m = (Ret a, s)" and "f a s = (Ret b, t)"
  using assms by (cases m; cases "fst m") auto

lemma bindR_Ret_iff:
  "bindR m f = (Ret b, t) \<longleftrightarrow> (\<exists>a s. m = (Ret a, s) \<and> f a s = (Ret b, t))"
  by (auto elim: bindR_RetE)

lemma bindR_split:
  "P (bindR m f) \<longleftrightarrow>
     (\<forall>a s. m = (Ret a, s) \<longrightarrow> P (f a s)) \<and>
     (\<forall>e s. m = (Err e, s) \<longrightarrow> P (Err e, s)) \<and>
     (\<forall>p s. m = (Crash p, s) \<longrightarrow> P (Crash p, s))"
  by (cases m; cases "fst m") auto

text \<open>\<^verbatim>\<open>fmt.Errorf\<close> with \<^verbatim>\<open>%w\<close> and \<^verbatim>\<open>errors.Wrap\<close> around a call.\<close>

definition wrap_err :: "string \<Rightarrow> ('s, 'a) outcome \<Rightarrow> ('s, 'a) outcome" where
  "wrap_err t m = (case m of (Err err, s) \<Rightarrow> (Err (wrap_text t err), s) | _ \<Rightarrow> m)"

lemma wrap_err_Ret: "wrap_err t m = (Ret a, s) \<longleftrightarrow> m = (Ret a, s)"
  by (auto simp: wrap_err_def split: prod.splits result.splits)

subsection \<open>Loops\<close>

text \<open>A loop over a slice whose body returns early with an error.\<close>

fun for_each :: "('a \<Rightarrow> 's \<Rightarrow> ('s, unit) outcome) \<Rightarrow> 'a list \<Rightarrow> 's \<Rightarrow> ('s, unit) outcome" where
  "for_each f [] s = (Ret (), s)"
| "for_each f (x # xs) s = bindR (f x s) (\<lambda>_ s'. for_each f xs s')"

text \<open>
  A transitive relation between the state before and the state after holds for a sequence if
  it holds for its parts; these are the rules by which frame conditions are proved.
\<close>

lemma bindR_rel:
  assumes "\<And>a b c. R a b \<Longrightarrow> R b c \<Longrightarrow> R a c"
    and "R s (snd m)" and "\<And>a. fst m = Ret a \<Longrightarrow> R (snd m) (snd (f a (snd m)))"
  shows "R s (snd (bindR m f))"
proof (cases m)
  case (Pair r t)
  then show ?thesis using assms(2,3) by (cases r) (auto intro: assms(1))
qed

lemma for_each_rel:
  assumes "\<And>a b c. R a b \<Longrightarrow> R b c \<Longrightarrow> R a c" and "\<And>a. R a a"
    and "\<And>x s. x \<in> set xs \<Longrightarrow> R s (snd (f x s))"
  shows "R s (snd (for_each f xs s))"
  using assms(3)
proof (induction xs arbitrary: s)
  case (Cons x xs)
  show ?case
    unfolding for_each.simps
    by (rule bindR_rel [where R = R]) (use Cons assms(1) in auto)
qed (simp add: assms(2))

lemma for_each_append: "for_each f (xs @ ys) s = bindR (for_each f xs s) (\<lambda>_. for_each f ys)"
proof (induction xs arbitrary: s)
  case (Cons x xs)
  show ?case
  proof (cases "f x s")
    case (Pair r t)
    then show ?thesis using Cons by (cases r) auto
  qed
qed simp

lemma for_each_RetE:
  assumes "for_each f xs s = (Ret u, t)" and "x \<in> set xs"
  obtains ys zs s1 s2 where "xs = ys @ x # zs" and "for_each f ys s = (Ret (), s1)"
    and "f x s1 = (Ret (), s2)" and "for_each f zs s2 = (Ret (), t)"
proof -
  obtain ys zs where xs: "xs = ys @ x # zs" using assms(2) by (auto dest: split_list)
  with assms(1) obtain s1 s2 where "for_each f ys s = (Ret (), s1)" and "f x s1 = (Ret (), s2)"
    and "for_each f zs s2 = (Ret (), t)"
    by (auto simp: for_each_append elim!: bindR_RetE)
  with xs show ?thesis by (rule that)
qed

lemma result_unit_Ret: "r = Ret (u :: unit) \<longleftrightarrow> r = Ret ()"
  by simp

lemma bindR_pure:
  "bindR (r, s) f = (case r of Ret a \<Rightarrow> f a s | Err e \<Rightarrow> (Err e, s) | Crash p \<Rightarrow> (Crash p, s))"
  by (cases r) auto

end
