(* ===== verification/Api_Subscription.thy ===== *)
theory Api_Subscription
  imports Go_Errors
begin

section \<open>The Subscription API (api/eventing/v1alpha2)\<close>

text \<open>
  The Subscription custom resource: its spec and status as records with the fields of
  \<^verbatim>\<open>subscription_types.go\<close> and \<^verbatim>\<open>status_types.go\<close>, and every operation of \<^verbatim>\<open>condition.go\<close>
  on the list of status conditions. Time stamps are numbers; \<^verbatim>\<open>kmetav1.Now()\<close> is the
  argument \<open>now\<close> of the operations that call it.

  The lemmas relate the list of conditions to the map from condition types to conditions it
  stands for (\<open>cond_view\<close>, time stamps left out): \<open>setCondition\<close> is the map update, and
  \<open>ConditionsEquals\<close> is equality of the maps.
\<close>

type_synonym time = int

subsection \<open>Constants\<close>

abbreviation TypeMatchingStandard :: string where "TypeMatchingStandard \<equiv> ''standard''"
abbreviation TypeMatchingExact :: string where "TypeMatchingExact \<equiv> ''exact''"
abbreviation MaxInFlightMessages :: string where "MaxInFlightMessages \<equiv> ''maxInFlightMessages''"
abbreviation ProtocolSettingsContentMode :: string where "ProtocolSettingsContentMode \<equiv> ''contentMode''"
abbreviation ProtocolSettingsExemptHandshake :: string where
  "ProtocolSettingsExemptHandshake \<equiv> ''exemptHandshake''"
abbreviation ProtocolSettingsQos :: string where "ProtocolSettingsQos \<equiv> ''qos''"
abbreviation WebhookAuthType :: string where "WebhookAuthType \<equiv> ''type''"
abbreviation WebhookAuthGrantType :: string where "WebhookAuthGrantType \<equiv> ''grantType''"
abbreviation WebhookAuthClientID :: string where "WebhookAuthClientID \<equiv> ''clientId''"
abbreviation WebhookAuthClientSecret :: string where "WebhookAuthClientSecret \<equiv> ''clientSecret''"
abbreviation WebhookAuthTokenURL :: string where "WebhookAuthTokenURL \<equiv> ''tokenUrl''"

abbreviation Finalizer :: string where "Finalizer \<equiv> ''eventing.kyma-project.io''"

abbreviation ConditionTrue :: string where "ConditionTrue \<equiv> ''True''"
abbreviation ConditionFalse :: string where "ConditionFalse \<equiv> ''False''"
abbreviation ConditionUnknown :: string where "ConditionUnknown \<equiv> ''Unknown''"

abbreviation ConditionSubscribed :: string where "ConditionSubscribed \<equiv> ''Subscribed''"
abbreviation ConditionSubscriptionActive :: string where
  "ConditionSubscriptionActive \<equiv> ''Subscription active''"
abbreviation ConditionSubscriptionSpecValid :: string where
  "ConditionSubscriptionSpecValid \<equiv> ''Subscription spec valid''"
abbreviation ConditionAPIRuleStatus :: string where "ConditionAPIRuleStatus \<equiv> ''APIRule status''"
abbreviation ConditionWebhookCallStatus :: string where
  "ConditionWebhookCallStatus \<equiv> ''Webhook call status''"

abbreviation ConditionReasonSubscriptionSpecHasValidationErrors :: string where
  "ConditionReasonSubscriptionSpecHasValidationErrors \<equiv> ''Subscription spec has validation errors''"
abbreviation ConditionReasonSubscriptionSpecHasNoValidationErrors :: string where
  "ConditionReasonSubscriptionSpecHasNoValidationErrors \<equiv>
     ''Subscription spec has no validation errors''"
abbreviation ConditionReasonNATSSubscriptionActive :: string where
  "ConditionReasonNATSSubscriptionActive \<equiv> ''NATS Subscription active''"
abbreviation ConditionReasonNATSSubscriptionNotActive :: string where
  "ConditionReasonNATSSubscriptionNotActive \<equiv> ''NATS Subscription not active''"
abbreviation ConditionReasonAPIRuleStatusReady :: string where
  "ConditionReasonAPIRuleStatusReady \<equiv> ''APIRule status ready''"
abbreviation ConditionReasonAPIRuleStatusNotReady :: string where
  "ConditionReasonAPIRuleStatusNotReady \<equiv> ''APIRule status not ready''"

subsection \<open>Data\<close>

record Condition =
  cond_type :: string
  cond_status :: string
  cond_lastTransitionTime :: time
  cond_reason :: string
  cond_message :: string

record EventType =
  et_originalType :: string
  et_cleanType :: string

record JetStreamTypes =
  jt_originalType :: string
  jt_consumerName :: string

record EventMeshTypes =
  emt_originalType :: string
  emt_eventMeshType :: string

record EventMeshSubscriptionStatus =
  ems_status :: string
  ems_statusReason :: string
  ems_lastSuccessfulDelivery :: string
  ems_lastFailedDelivery :: string
  ems_lastFailedDeliveryReason :: string

text \<open>
  The type lists of \<^verbatim>\<open>Backend\<close> carry \<^verbatim>\<open>omitempty\<close> and are only ever appended to, so they are nil
  exactly when they are empty and a list represents them; \<^verbatim>\<open>Status.Types\<close> is also set to an
  empty non-nil slice, so it is a \<open>slice\<close>.
\<close>

record Backend =
  bk_ev2hash :: int
  bk_eventMeshHash :: int
  bk_eventMeshLocalHash :: int
  bk_webhookAuthHash :: int
  bk_externalSink :: string
  bk_failedActivation :: string
  bk_apiRuleName :: string
  bk_eventMeshSubscriptionStatus :: "EventMeshSubscriptionStatus option"
  bk_types :: "JetStreamTypes list"
  bk_emsTypes :: "EventMeshTypes list"

record SubscriptionSpec =
  spec_id :: string
  spec_sink :: string
  spec_typeMatching :: string
  spec_source :: string
  spec_types :: "string list"
  spec_config :: "string \<rightharpoonup> string"

record SubscriptionStatus =
  st_conditions :: "Condition list"
  st_ready :: bool
  st_types :: "EventType slice"
  st_backend :: Backend

record Subscription =
  sub_apiVersion :: string
  sub_kind :: string
  sub_name :: string
  sub_namespace :: string
  sub_uid :: string
  sub_finalizers :: "string list"
  sub_deletionTimestamp :: "time option"
  sub_spec :: SubscriptionSpec
  sub_status :: SubscriptionStatus

definition empty_Backend :: Backend where
  "empty_Backend =
     \<lparr>bk_ev2hash = 0, bk_eventMeshHash = 0, bk_eventMeshLocalHash = 0, bk_webhookAuthHash = 0,
      bk_externalSink = '''', bk_failedActivation = '''', bk_apiRuleName = '''',
      bk_eventMeshSubscriptionStatus = None, bk_types = [], bk_emsTypes = []\<rparr>"

definition empty_SubscriptionStatus :: SubscriptionStatus where
  "empty_SubscriptionStatus =
     \<lparr>st_conditions = [], st_ready = False, st_types = None, st_backend = empty_Backend\<rparr>"

definition zero_Condition :: Condition where
  "zero_Condition =
     \<lparr>cond_type = '''', cond_status = '''', cond_lastTransitionTime = 0, cond_reason = '''',
      cond_message = ''''\<rparr>"

text \<open>\<^verbatim>\<open>CopyHashes\<close> of \<^verbatim>\<open>status_types.go\<close>.\<close>

definition CopyHashes :: "Backend \<Rightarrow> Backend \<Rightarrow> Backend" where
  "CopyHashes b src =
     b\<lparr>bk_ev2hash := bk_ev2hash src, bk_eventMeshHash := bk_eventMeshHash src,
       bk_webhookAuthHash := bk_webhookAuthHash src,
       bk_eventMeshLocalHash := bk_eventMeshLocalHash src\<rparr>"

subsection \<open>Operations of subscription_types.go\<close>

record DefaultSubscriptionConfig =
  dsc_maxInFlightMessages :: int
  dsc_dispatcherRetryPeriod :: time
  dsc_dispatcherMaxRetries :: int

definition GetMaxInFlightMessages :: "Subscription \<Rightarrow> DefaultSubscriptionConfig \<Rightarrow> int" where
  "GetMaxInFlightMessages s defaults =
     (case Atoi (case spec_config (sub_spec s) MaxInFlightMessages of None \<Rightarrow> '''' | Some v \<Rightarrow> v) of
        None \<Rightarrow> dsc_maxInFlightMessages defaults
      | Some val \<Rightarrow> val)"

definition InitializeEventTypes :: "SubscriptionStatus \<Rightarrow> SubscriptionStatus" where
  "InitializeEventTypes s = s\<lparr>st_types := Some []\<rparr>"

fun GetUniqueTypes_loop :: "string list \<Rightarrow> string list \<Rightarrow> string list" where
  "GetUniqueTypes_loop result [] = result"
| "GetUniqueTypes_loop result (t # ts) =
     GetUniqueTypes_loop (if \<not> List.member result t then result @ [t] else result) ts"

definition GetUniqueTypes :: "Subscription \<Rightarrow> string list" where
  "GetUniqueTypes s = GetUniqueTypes_loop [] (spec_types (sub_spec s))"

definition DuplicateWithStatusDefaults :: "Subscription \<Rightarrow> Subscription" where
  "DuplicateWithStatusDefaults s = s\<lparr>sub_status := empty_SubscriptionStatus\<rparr>"

text \<open>The custom marshaller replaces nil types by an empty list before encoding.\<close>

definition MarshalJSON_prepare :: "Subscription \<Rightarrow> Subscription" where
  "MarshalJSON_prepare s =
     (if st_types (sub_status s) = None
      then s\<lparr>sub_status := InitializeEventTypes (sub_status s)\<rparr> else s)"

subsection \<open>Operations of condition.go\<close>

definition initializeConditions :: "Condition list \<Rightarrow> Condition list \<Rightarrow> Condition list" where
  "initializeConditions initialConditions currentConditions =
     currentConditions @
     filter (\<lambda>c. \<not> list_ex (\<lambda>d. cond_type d = cond_type c) currentConditions) initialConditions"

definition MakeCondition :: "time \<Rightarrow> string \<Rightarrow> string \<Rightarrow> string \<Rightarrow> string \<Rightarrow> Condition" where
  "MakeCondition now conditionType reason status message =
     \<lparr>cond_type = conditionType, cond_status = status, cond_lastTransitionTime = now,
      cond_reason = reason, cond_message = message\<rparr>"

definition MakeSubscriptionConditions :: "time \<Rightarrow> Condition list" where
  "MakeSubscriptionConditions now =
     map (\<lambda>t. MakeCondition now t '''' ConditionUnknown '''')
       [ConditionAPIRuleStatus, ConditionSubscribed, ConditionSubscriptionActive,
        ConditionWebhookCallStatus, ConditionSubscriptionSpecValid]"

definition InitializeConditions :: "time \<Rightarrow> SubscriptionStatus \<Rightarrow> SubscriptionStatus" where
  "InitializeConditions now s =
     s\<lparr>st_conditions := initializeConditions (MakeSubscriptionConditions now) (st_conditions s)\<rparr>"

definition containConditionType :: "Condition list \<Rightarrow> string \<Rightarrow> bool" where
  "containConditionType conditions conditionType \<longleftrightarrow>
     list_ex (\<lambda>c. cond_type c = conditionType) conditions"

definition ContainSameConditionTypes :: "Condition list \<Rightarrow> Condition list \<Rightarrow> bool" where
  "ContainSameConditionTypes conditions1 conditions2 \<longleftrightarrow>
     length conditions1 = length conditions2 \<and>
     list_all (\<lambda>c. containConditionType conditions2 (cond_type c)) conditions1"

definition IsReady :: "time \<Rightarrow> SubscriptionStatus \<Rightarrow> bool" where
  "IsReady now s \<longleftrightarrow>
     ContainSameConditionTypes (MakeSubscriptionConditions now) (st_conditions s) \<and>
     list_all (\<lambda>c. cond_status c = ConditionTrue) (st_conditions s)"

definition FindCondition :: "SubscriptionStatus \<Rightarrow> string \<Rightarrow> Condition option" where
  "FindCondition s conditionType = find (\<lambda>c. cond_type c = conditionType) (st_conditions s)"

definition ShouldUpdateReadyStatus :: "time \<Rightarrow> SubscriptionStatus \<Rightarrow> bool" where
  "ShouldUpdateReadyStatus now s \<longleftrightarrow>
     (\<not> st_ready s \<and> IsReady now s) \<or> (st_ready s \<and> \<not> IsReady now s)"

definition IsConditionSubscribed :: "SubscriptionStatus \<Rightarrow> bool" where
  "IsConditionSubscribed s \<longleftrightarrow>
     list_ex (\<lambda>c. cond_type c = ConditionSubscribed \<and> cond_status c = ConditionTrue) (st_conditions s)"

definition IsConditionWebhookCall :: "SubscriptionStatus \<Rightarrow> bool" where
  "IsConditionWebhookCall s \<longleftrightarrow>
     list_ex (\<lambda>c. cond_type c = ConditionWebhookCallStatus \<and>
       (cond_status c = ConditionTrue \<or> cond_status c = ConditionUnknown)) (st_conditions s)"

definition GetConditionAPIRuleStatus :: "SubscriptionStatus \<Rightarrow> string" where
  "GetConditionAPIRuleStatus s =
     (case find (\<lambda>c. cond_type c = ConditionAPIRuleStatus) (st_conditions s) of
        Some c \<Rightarrow> cond_status c | None \<Rightarrow> ConditionUnknown)"

definition SetConditionAPIRuleStatus :: "time \<Rightarrow> goerr option \<Rightarrow> SubscriptionStatus \<Rightarrow> SubscriptionStatus" where
  "SetConditionAPIRuleStatus now err s =
     (let c = (case err of
          None \<Rightarrow> MakeCondition now ConditionAPIRuleStatus ConditionReasonAPIRuleStatusReady
                    ConditionTrue ''''
        | Some e \<Rightarrow> MakeCondition now ConditionAPIRuleStatus ConditionReasonAPIRuleStatusNotReady
                    ConditionFalse (Error e))
      in s\<lparr>st_conditions :=
           c # filter (\<lambda>d. cond_type d \<noteq> ConditionAPIRuleStatus) (st_conditions s)\<rparr>)"

definition ConditionEquals :: "Condition \<Rightarrow> Condition \<Rightarrow> bool" where
  "ConditionEquals existing expected \<longleftrightarrow>
     cond_status existing = cond_status expected \<and> cond_reason existing = cond_reason expected \<and>
     cond_message existing = cond_message expected \<and> cond_type existing = cond_type expected"

text \<open>
  A later condition of the same type overwrites an earlier one in \<^verbatim>\<open>existingMap\<close>, and a missing
  key reads as the zero condition.
\<close>

definition ConditionsEquals :: "Condition list \<Rightarrow> Condition list \<Rightarrow> bool" where
  "ConditionsEquals existing expected \<longleftrightarrow>
     length existing = length expected \<and>
     (let existingMap = map_of (rev (map (\<lambda>c. (cond_type c, c)) existing)) in
      list_all (\<lambda>v. ConditionEquals
        (case existingMap (cond_type v) of Some c \<Rightarrow> c | None \<Rightarrow> zero_Condition) v) expected)"

definition makeSubscriptionActiveCondition :: "time \<Rightarrow> goerr option \<Rightarrow> Condition" where
  "makeSubscriptionActiveCondition now err =
     (case err of
        Some e \<Rightarrow> MakeCondition now ConditionSubscriptionActive
                   ConditionReasonNATSSubscriptionNotActive ConditionFalse (Error e)
      | None \<Rightarrow> MakeCondition now ConditionSubscriptionActive
                   ConditionReasonNATSSubscriptionActive ConditionTrue '''')"

definition makeSubscriptionSpecValidCondition :: "time \<Rightarrow> goerr option \<Rightarrow> Condition" where
  "makeSubscriptionSpecValidCondition now err =
     (case err of
        Some e \<Rightarrow> MakeCondition now ConditionSubscriptionSpecValid
                   ConditionReasonSubscriptionSpecHasValidationErrors ConditionFalse (Error e)
      | None \<Rightarrow> MakeCondition now ConditionSubscriptionSpecValid
                   ConditionReasonSubscriptionSpecHasNoValidationErrors ConditionTrue '''')"

text \<open>The loop of \<^verbatim>\<open>setCondition\<close>: the flags \<open>isFound\<close> and \<open>isSet\<close>, and the rebuilt list.\<close>

fun setCondition_loop :: "Condition \<Rightarrow> Condition list \<Rightarrow> bool \<times> bool \<times> Condition list" where
  "setCondition_loop condition [] = (False, False, [])"
| "setCondition_loop condition (cond # conds) =
     (case setCondition_loop condition conds of (isFound, isSet, conditions) \<Rightarrow>
        if cond_type cond \<noteq> cond_type condition then (isFound, isSet, cond # conditions)
        else if \<not> ConditionEquals cond condition then (True, True, condition # conditions)
        else (True, isSet, conditions))"

definition setCondition :: "Condition \<Rightarrow> SubscriptionStatus \<Rightarrow> SubscriptionStatus" where
  "setCondition condition s =
     (case setCondition_loop condition (st_conditions s) of (isFound, isSet, conditions) \<Rightarrow>
        let isSet' = (if \<not> isFound then True else isSet);
            conditions' = (if \<not> isFound then conditions @ [condition] else conditions)
        in if isSet' then s\<lparr>st_conditions := conditions'\<rparr> else s)"

definition SetSubscriptionActiveCondition :: "time \<Rightarrow> goerr option \<Rightarrow> SubscriptionStatus \<Rightarrow> SubscriptionStatus" where
  "SetSubscriptionActiveCondition now err s = setCondition (makeSubscriptionActiveCondition now err) s"

definition SetSubscriptionSpecValidCondition :: "time \<Rightarrow> goerr option \<Rightarrow> SubscriptionStatus \<Rightarrow> SubscriptionStatus" where
  "SetSubscriptionSpecValidCondition now err s =
     setCondition (makeSubscriptionSpecValidCondition now err) s"

definition SetNotReady :: "SubscriptionStatus \<Rightarrow> SubscriptionStatus" where
  "SetNotReady s = s\<lparr>st_ready := False\<rparr>"

definition ClearConditions :: "SubscriptionStatus \<Rightarrow> SubscriptionStatus" where
  "ClearConditions s = s\<lparr>st_conditions := []\<rparr>"

definition ClearBackend :: "SubscriptionStatus \<Rightarrow> SubscriptionStatus" where
  "ClearBackend s = s\<lparr>st_backend := empty_Backend\<rparr>"

definition ClearTypes :: "SubscriptionStatus \<Rightarrow> SubscriptionStatus" where
  "ClearTypes s = s\<lparr>st_types := Some []\<rparr>"

text \<open>\<^verbatim>\<open>IsSubscriptionStatusEqual\<close> of \<^verbatim>\<open>pkg/object/equality.go\<close> compares everything but the
  conditions with \<^verbatim>\<open>reflect.DeepEqual\<close>.\<close>

definition IsSubscriptionStatusEqual :: "SubscriptionStatus \<Rightarrow> SubscriptionStatus \<Rightarrow> bool" where
  "IsSubscriptionStatusEqual oldStatus newStatus \<longleftrightarrow>
     oldStatus\<lparr>st_conditions := []\<rparr> = newStatus\<lparr>st_conditions := []\<rparr> \<and>
     ConditionsEquals (st_conditions oldStatus) (st_conditions newStatus)"

subsection \<open>Deduplication of types\<close>

lemma GetUniqueTypes_loop_eq: "GetUniqueTypes_loop acc ts = dedup_acc acc ts"
  by (induction ts arbitrary: acc) auto

lemma GetUniqueTypes_dedup: "GetUniqueTypes s = dedup (spec_types (sub_spec s))"
  by (simp add: GetUniqueTypes_def GetUniqueTypes_loop_eq)

subsection \<open>Conditions as a map\<close>

text \<open>
  What a list of conditions says about a type: status, reason and message of the condition
  with that type, without the time stamp.
\<close>

definition strip :: "Condition \<Rightarrow> Condition" where
  "strip c = c\<lparr>cond_lastTransitionTime := 0\<rparr>"

definition cond_view :: "Condition list \<Rightarrow> (string \<rightharpoonup> Condition)" where
  "cond_view cs t = map_option strip (find (\<lambda>c. cond_type c = t) cs)"

lemma strip_type [simp]: "cond_type (strip c) = cond_type c"
  by (simp add: strip_def)

lemma ConditionEquals_strip: "ConditionEquals a b \<longleftrightarrow> strip a = strip b"
  by (cases a; cases b) (auto simp: ConditionEquals_def strip_def)

lemma ConditionEquals_refl [simp]: "ConditionEquals c c"
  by (simp add: ConditionEquals_def)

lemma MakeCondition_type [simp]: "cond_type (MakeCondition now t r st m) = t"
  by (simp add: MakeCondition_def)

lemma MakeCondition_status [simp]: "cond_status (MakeCondition now t r st m) = st"
  by (simp add: MakeCondition_def)

lemma cond_view_eq_None: "cond_view cs t = None \<longleftrightarrow> t \<notin> cond_type ` set cs"
  by (auto simp: cond_view_def find_None_iff)

lemma dom_cond_view: "dom (cond_view cs) = cond_type ` set cs"
  by (auto simp: dom_def cond_view_eq_None)

lemma cond_view_Some:
  "distinct_on cond_type cs \<Longrightarrow> c \<in> set cs \<Longrightarrow> cond_view cs (cond_type c) = Some (strip c)"
  by (simp add: cond_view_def find_distinct_on)

lemma setCondition_loop_absent:
  "cond_type c \<notin> cond_type ` set cs \<Longrightarrow> setCondition_loop c cs = (False, False, cs)"
  by (induction cs) auto

lemma setCondition_loop_present:
  assumes "distinct_on cond_type cs" and "cond_type c \<in> cond_type ` set cs"
  shows "setCondition_loop c cs =
     (if cond_view cs (cond_type c) = Some (strip c)
      then (True, False, filter (\<lambda>d. cond_type d \<noteq> cond_type c) cs)
      else (True, True, map (\<lambda>d. if cond_type d = cond_type c then c else d) cs))"
  using assms
proof (induction cs)
  case (Cons d cs)
  show ?case
  proof (cases "cond_type d = cond_type c")
    case True
    with Cons.prems have absent: "cond_type c \<notin> cond_type ` set cs" by auto
    then have other: "\<forall>d\<in>set cs. cond_type d \<noteq> cond_type c" by (metis image_eqI)
    then have "filter (\<lambda>d. cond_type d \<noteq> cond_type c) cs = cs"
      and "map (\<lambda>d. if cond_type d = cond_type c then c else d) cs = cs"
      by (simp_all add: filter_id_conv map_idI)
    with True absent show ?thesis
      by (simp add: setCondition_loop_absent cond_view_def ConditionEquals_strip)
  next
    case False
    with Cons show ?thesis by (auto simp: cond_view_def)
  qed
qed simp

text \<open>\<open>setCondition\<close> leaves the status alone when the condition is there already.\<close>

lemma setCondition_cases:
  assumes "distinct_on cond_type (st_conditions s)"
  shows "st_conditions (setCondition c s) =
     (if cond_type c \<notin> cond_type ` set (st_conditions s) then st_conditions s @ [c]
      else if cond_view (st_conditions s) (cond_type c) = Some (strip c) then st_conditions s
      else map (\<lambda>d. if cond_type d = cond_type c then c else d) (st_conditions s))"
  using assms
  by (auto simp: setCondition_def setCondition_loop_absent setCondition_loop_present Let_def)

lemma setCondition_frame [simp]:
  "st_ready (setCondition c s) = st_ready s"
  "st_types (setCondition c s) = st_types s"
  "st_backend (setCondition c s) = st_backend s"
  by (auto simp: setCondition_def Let_def split: prod.splits)

lemma cond_view_append:
  assumes "cond_type c \<notin> cond_type ` set cs"
  shows "cond_view (cs @ [c]) = (cond_view cs)(cond_type c \<mapsto> strip c)"
proof -
  have "find (\<lambda>d. cond_type d = cond_type c) cs = None"
    using assms by (metis (mono_tags, lifting) find_None_iff image_eqI)
  then show ?thesis
    by (auto simp: cond_view_def fun_eq_iff find_append split: option.splits)
qed

lemma cond_view_replace:
  assumes "cond_type c \<in> cond_type ` set cs"
  shows "cond_view (map (\<lambda>d. if cond_type d = cond_type c then c else d) cs)
       = (cond_view cs)(cond_type c \<mapsto> strip c)"
  using assms by (auto simp: cond_view_def fun_eq_iff find_map_replace)

lemma setCondition_distinct:
  assumes "distinct_on cond_type (st_conditions s)"
  shows "distinct_on cond_type (st_conditions (setCondition c s))"
  unfolding setCondition_cases [OF assms] using assms
  by (simp add: map_key_replace del: map_map)

lemma setCondition_view:
  assumes "distinct_on cond_type (st_conditions s)"
  shows "cond_view (st_conditions (setCondition c s))
       = (cond_view (st_conditions s))(cond_type c \<mapsto> strip c)"
proof -
  have "cond_view (st_conditions s) (cond_type c) = Some (strip c) \<Longrightarrow>
      (cond_view (st_conditions s))(cond_type c \<mapsto> strip c) = cond_view (st_conditions s)"
    by (rule ext) simp
  then show ?thesis
    unfolding setCondition_cases [OF assms] by (simp add: cond_view_append cond_view_replace)
qed

lemma map_of_rev_distinct:
  assumes "distinct_on f xs"
  shows "map_of (rev (map (\<lambda>c. (f c, c)) xs)) k = find (\<lambda>c. f c = k) xs"
proof -
  have "distinct (map fst (map (\<lambda>c. (f c, c)) xs))"
    using assms by (simp add: comp_def)
  then have "map_of (rev (map (\<lambda>c. (f c, c)) xs)) k = map_of (map (\<lambda>c. (f c, c)) xs) k"
    by (simp add: map_of_rev)
  also have "map_of (map (\<lambda>c. (f c, c)) xs) k = find (\<lambda>c. f c = k) xs"
    by (induction xs) auto
  finally show ?thesis .
qed

lemma ConditionsEquals_view:
  assumes "distinct_on cond_type existing" and "distinct_on cond_type expected"
    and "'''' \<notin> cond_type ` set expected"
  shows "ConditionsEquals existing expected \<longleftrightarrow> cond_view existing = cond_view expected"
proof
  assume eq: "ConditionsEquals existing expected"
  have in_view: "cond_view existing (cond_type v) = Some (strip v)" if "v \<in> set expected" for v
  proof -
    have "ConditionEquals (case find (\<lambda>c. cond_type c = cond_type v) existing of
        Some c \<Rightarrow> c | None \<Rightarrow> zero_Condition) v"
      using eq that assms(1) by (auto simp: ConditionsEquals_def Let_def list_all_iff map_of_rev_distinct)
    moreover have "\<not> ConditionEquals zero_Condition v"
      using that assms(3) by (auto simp: ConditionEquals_def zero_Condition_def)
    ultimately show ?thesis
      by (auto simp: cond_view_def ConditionEquals_strip split: option.splits)
  qed
  have "set (map cond_type existing) = set (map cond_type expected)"
  proof (rule same_length_subset_keys(1))
    show "length (map cond_type existing) = length (map cond_type expected)"
      using eq by (simp add: ConditionsEquals_def)
    show "set (map cond_type expected) \<subseteq> set (map cond_type existing)"
    proof
      fix t assume "t \<in> set (map cond_type expected)"
      then have "cond_view existing t \<noteq> None" using in_view by auto
      then show "t \<in> set (map cond_type existing)" by (simp add: cond_view_eq_None)
    qed
  qed (rule assms(2))
  then have dom: "dom (cond_view existing) = dom (cond_view expected)"
    by (simp add: dom_cond_view)
  show "cond_view existing = cond_view expected"
  proof
    fix t
    show "cond_view existing t = cond_view expected t"
    proof (cases "t \<in> cond_type ` set expected")
      case True
      then show ?thesis using in_view cond_view_Some [OF assms(2)] by auto
    next
      case False
      then have "t \<notin> dom (cond_view expected)" by (simp add: dom_cond_view)
      with dom show ?thesis by (metis domIff)
    qed
  qed
next
  assume view: "cond_view existing = cond_view expected"
  then have "cond_type ` set existing = cond_type ` set expected"
    by (metis dom_cond_view)
  then have "length existing = length expected"
    using distinct_card [OF assms(1)] distinct_card [OF assms(2)] by simp
  moreover have "ConditionEquals (case find (\<lambda>c. cond_type c = cond_type v) existing of
        Some c \<Rightarrow> c | None \<Rightarrow> zero_Condition) v" if "v \<in> set expected" for v
  proof -
    have "cond_view existing (cond_type v) = Some (strip v)"
      using cond_view_Some [OF assms(2) that] view by simp
    then show ?thesis
      by (auto simp: cond_view_def ConditionEquals_strip split: option.splits)
  qed
  ultimately show "ConditionsEquals existing expected"
    using assms(1) by (simp add: ConditionsEquals_def Let_def list_all_iff map_of_rev_distinct)
qed

subsection \<open>Condition types\<close>

lemma MakeSubscriptionConditions_types:
  "cond_type ` set (MakeSubscriptionConditions now) = {ConditionAPIRuleStatus, ConditionSubscribed,
     ConditionSubscriptionActive, ConditionWebhookCallStatus, ConditionSubscriptionSpecValid}"
  by (simp add: MakeSubscriptionConditions_def)

lemma Make_distinct: "distinct_on cond_type (MakeSubscriptionConditions now)"
  by (simp add: MakeSubscriptionConditions_def)

lemma ContainSame_iff:
  assumes "distinct_on cond_type cs"
  shows "ContainSameConditionTypes cs ds \<longleftrightarrow>
     distinct_on cond_type ds \<and> cond_type ` set ds = cond_type ` set cs"
proof
  assume same: "ContainSameConditionTypes cs ds"
  have len: "length (map cond_type ds) = length (map cond_type cs)"
    and sub: "set (map cond_type cs) \<subseteq> set (map cond_type ds)"
    using same by (auto simp: ContainSameConditionTypes_def containConditionType_def list_all_iff list_ex_key)
  show "distinct_on cond_type ds \<and> cond_type ` set ds = cond_type ` set cs"
    using same_length_subset_keys [OF len assms sub] by simp
next
  assume r: "distinct_on cond_type ds \<and> cond_type ` set ds = cond_type ` set cs"
  then have "length cs = length ds"
    using distinct_card [OF assms] distinct_card [of "map cond_type ds"] by simp
  then show "ContainSameConditionTypes cs ds"
    using r by (simp add: ContainSameConditionTypes_def containConditionType_def list_all_iff list_ex_key)
qed

lemma InitializeConditions_types:
  "cond_type ` set (MakeSubscriptionConditions now)
     \<subseteq> cond_type ` set (st_conditions (InitializeConditions now s))"
  by (auto simp: InitializeConditions_def initializeConditions_def list_ex_key)

subsection \<open>Properties\<close>

text \<open>
  C27. Setting a condition is the update of one entry of the map from condition types to
  conditions: every other type keeps its condition, the list keeps at most one condition per
  type, and the rest of the status does not change.
\<close>

theorem setCondition_updates:
  assumes "distinct_on cond_type (st_conditions s)"
  shows "distinct_on cond_type (st_conditions (setCondition c s)) \<and>
     cond_view (st_conditions (setCondition c s))
       = (cond_view (st_conditions s))(cond_type c \<mapsto> strip c) \<and>
     (setCondition c s)\<lparr>st_conditions := []\<rparr> = s\<lparr>st_conditions := []\<rparr>"
  using setCondition_distinct [OF assms] setCondition_view [OF assms] by simp

theorem setCondition_updates_witness:
  "cond_view (st_conditions (setCondition (MakeCondition 7 ''B'' ''r'' ''True'' '''')
     (empty_SubscriptionStatus\<lparr>st_conditions := [MakeCondition 1 ''A'' ''r'' ''True'' '''']\<rparr>))) ''A''
   = Some (MakeCondition 0 ''A'' ''r'' ''True'' '''')"
  using setCondition_updates [of "empty_SubscriptionStatus\<lparr>st_conditions :=
      [MakeCondition 1 ''A'' ''r'' ''True'' '''']\<rparr>" "MakeCondition 7 ''B'' ''r'' ''True'' ''''"]
  by (simp add: cond_view_def strip_def MakeCondition_def)

text \<open>
  C28. Two condition lists with at most one condition per type compare as equal exactly when
  they give every type the same status, reason and message; order and time stamps do not
  matter.
\<close>

theorem ConditionsEquals_iff_view:
  assumes "distinct_on cond_type existing" and "distinct_on cond_type expected"
    and "'''' \<notin> cond_type ` set expected"
  shows "ConditionsEquals existing expected \<longleftrightarrow> cond_view existing = cond_view expected"
  using assms by (rule ConditionsEquals_view)

theorem ConditionsEquals_iff_view_witness:
  "ConditionsEquals [MakeCondition 1 ''A'' ''r'' ''True'' '''', MakeCondition 2 ''B'' ''q'' ''False'' ''m'']
     [MakeCondition 9 ''B'' ''q'' ''False'' ''m'', MakeCondition 8 ''A'' ''r'' ''True'' '''']
   \<and> cond_view [MakeCondition 1 ''A'' ''r'' ''True'' '''', MakeCondition 2 ''B'' ''q'' ''False'' ''m'']
     = cond_view [MakeCondition 9 ''B'' ''q'' ''False'' ''m'', MakeCondition 8 ''A'' ''r'' ''True'' '''']"
  using ConditionsEquals_iff_view
    [of "[MakeCondition 1 ''A'' ''r'' ''True'' '''', MakeCondition 2 ''B'' ''q'' ''False'' ''m'']"
        "[MakeCondition 9 ''B'' ''q'' ''False'' ''m'', MakeCondition 8 ''A'' ''r'' ''True'' '''']"]
  by (simp add: ConditionsEquals_def MakeCondition_def ConditionEquals_def)

text \<open>
  A status is ready exactly when it has each of the five condition types of a Subscription
  once, no other condition, and all of them are \<^verbatim>\<open>True\<close>.
\<close>

theorem IsReady_iff:
  "IsReady now s \<longleftrightarrow>
     distinct_on cond_type (st_conditions s) \<and>
     cond_type ` set (st_conditions s) = {ConditionAPIRuleStatus, ConditionSubscribed,
       ConditionSubscriptionActive, ConditionWebhookCallStatus, ConditionSubscriptionSpecValid} \<and>
     list_all (\<lambda>c. cond_status c = ConditionTrue) (st_conditions s)"
  using ContainSame_iff [OF Make_distinct, of now "st_conditions s"]
  by (simp add: IsReady_def MakeSubscriptionConditions_types)

text \<open>
  Initialising the conditions keeps every condition that is there, adds each missing type
  once with status \<^verbatim>\<open>Unknown\<close>, so that afterwards all five types are present; a second
  initialisation changes nothing.
\<close>

theorem InitializeConditions_complete:
  "cond_type ` set (MakeSubscriptionConditions now)
     \<subseteq> cond_type ` set (st_conditions (InitializeConditions now s)) \<and>
   (\<exists>added. st_conditions (InitializeConditions now s) = st_conditions s @ added \<and>
      distinct_on cond_type added \<and>
      cond_type ` set added = cond_type ` set (MakeSubscriptionConditions now) - cond_type ` set (st_conditions s) \<and>
      list_all (\<lambda>c. cond_status c = ConditionUnknown) added) \<and>
   InitializeConditions later (InitializeConditions now s) = InitializeConditions now s"
proof (intro conjI exI)
  let ?added = "filter (\<lambda>c. \<not> list_ex (\<lambda>d. cond_type d = cond_type c) (st_conditions s))
    (MakeSubscriptionConditions now)"
  show "st_conditions (InitializeConditions now s) = st_conditions s @ ?added"
    by (simp add: InitializeConditions_def initializeConditions_def)
  show "distinct_on cond_type ?added"
    by (rule distinct_on_filter) (rule Make_distinct)
  show "cond_type ` set ?added
      = cond_type ` set (MakeSubscriptionConditions now) - cond_type ` set (st_conditions s)"
    by (auto simp: list_ex_key)
  show "list_all (\<lambda>c. cond_status c = ConditionUnknown) ?added"
    by (auto simp: list_all_iff MakeSubscriptionConditions_def)
  show "cond_type ` set (MakeSubscriptionConditions now)
     \<subseteq> cond_type ` set (st_conditions (InitializeConditions now s))"
    by (rule InitializeConditions_types)
  have "list_ex (\<lambda>d. cond_type d = cond_type c) (st_conditions (InitializeConditions now s))"
    if "c \<in> set (MakeSubscriptionConditions later)" for c
  proof -
    have "cond_type c \<in> cond_type ` set (st_conditions (InitializeConditions now s))"
      using InitializeConditions_types [of now s] that
      unfolding MakeSubscriptionConditions_types [of now]
        MakeSubscriptionConditions_types [of later, symmetric] by blast
    then show ?thesis by (simp add: list_ex_key)
  qed
  then have "st_conditions (InitializeConditions later (InitializeConditions now s))
      = st_conditions (InitializeConditions now s)"
    by (simp add: InitializeConditions_def [of later] initializeConditions_def filter_empty_conv)
  then show "InitializeConditions later (InitializeConditions now s) = InitializeConditions now s"
    by (simp add: InitializeConditions_def)
qed

end
