(* ===== verification/Go_Url.thy ===== *)
theory Go_Url
  imports Go_Errors
begin

section \<open>The parts of Go's net/url the repository uses\<close>

text \<open>
  \<^verbatim>\<open>url.ParseRequestURI\<close> and \<^verbatim>\<open>URL.Port\<close> of the standard library, with the fields of \<^verbatim>\<open>url.URL\<close>
  that the repository reads: scheme, host and path. The text of an error is
  that of \<^verbatim>\<open>url.Error\<close> around the reason.
\<close>

record URL =
  u_scheme :: string
  u_host :: string
  u_path :: string

definition url_reason :: "string \<Rightarrow> goerr" where
  "url_reason m = Plain KOther m"

subsection \<open>Percent decoding\<close>

definition unhex :: "char \<Rightarrow> nat option" where
  "unhex c =
     (let n = of_char c :: nat in
      if 48 \<le> n \<and> n \<le> 57 then Some (n - 48)
      else if 97 \<le> n \<and> n \<le> 102 then Some (n - 87)
      else if 65 \<le> n \<and> n \<le> 70 then Some (n - 55)
      else None)"

definition hex_byte :: "char \<Rightarrow> char \<Rightarrow> nat option" where
  "hex_byte a b =
     (case (unhex a, unhex b) of (Some x, Some y) \<Rightarrow> Some (16 * x + y) | _ \<Rightarrow> None)"

datatype encoding = encodePath | encodeHost | encodeZone | encodeUserPassword

text \<open>\<^verbatim>\<open>shouldEscape(c, encodeHost)\<close>.\<close>

definition host_should_escape :: "char \<Rightarrow> bool" where
  "host_should_escape c \<longleftrightarrow>
     \<not> (is_alnum c \<or> List.member (''!$&()*+,;=:[]<>-_.~'' @ [CHR 0x27, CHR 0x22]) c)"

text \<open>Whether \<^verbatim>\<open>unescape\<close> accepts the byte \<open>n\<close> written as the escape \<open>ab\<close>.\<close>

definition escape_allowed :: "encoding \<Rightarrow> char \<Rightarrow> char \<Rightarrow> nat \<Rightarrow> bool" where
  "escape_allowed mode a b n \<longleftrightarrow>
     (case mode of
        encodeHost \<Rightarrow> n \<ge> 128 \<or> (a = CHR ''2'' \<and> b = CHR ''5'')
      | encodeZone \<Rightarrow> (a = CHR ''2'' \<and> b = CHR ''5'') \<or> n = 32 \<or> \<not> host_should_escape (char_of n)
      | _ \<Rightarrow> True)"

fun unescape :: "encoding \<Rightarrow> string \<Rightarrow> string option" where
  "unescape mode [] = Some []"
| "unescape mode (x # xs) =
     (if x = CHR ''%'' then
        (case xs of
           a # b # ys \<Rightarrow>
             (case hex_byte a b of
                Some n \<Rightarrow>
                  if escape_allowed mode a b n
                  then map_option (\<lambda>r. char_of n # r) (unescape mode ys) else None
              | None \<Rightarrow> None)
         | _ \<Rightarrow> None)
      else if (mode = encodeHost \<or> mode = encodeZone) \<and> (of_char x :: nat) < 128
              \<and> host_should_escape x then None
      else map_option (\<lambda>r. x # r) (unescape mode xs))"

subsection \<open>Scheme, authority, path\<close>

text \<open>\<^verbatim>\<open>getScheme\<close>: \<open>None\<close> for a URL that starts with a colon, else the scheme and the rest.\<close>

fun getScheme_loop :: "string \<Rightarrow> string \<Rightarrow> string \<Rightarrow> (string \<times> string) option" where
  "getScheme_loop raw seen [] = Some ([], raw)"
| "getScheme_loop raw seen (c # cs) =
     (if is_alpha c then getScheme_loop raw (seen @ [c]) cs
      else if is_digit c \<or> List.member ''+-.'' c then
        (if seen = [] then Some ([], raw) else getScheme_loop raw (seen @ [c]) cs)
      else if c = CHR '':'' then (if seen = [] then None else Some (seen, cs))
      else Some ([], raw))"

definition getScheme :: "string \<Rightarrow> (string \<times> string) option" where
  "getScheme raw = getScheme_loop raw [] raw"

definition validOptionalPort :: "string \<Rightarrow> bool" where
  "validOptionalPort port \<longleftrightarrow>
     (case port of [] \<Rightarrow> True | c # cs \<Rightarrow> c = CHR '':'' \<and> list_all is_digit cs)"

text \<open>The part of a string before the first \<open>c\<close> and the part from it on.\<close>

definition cut_at :: "char \<Rightarrow> string \<Rightarrow> string \<times> string" where
  "cut_at c s = (takeWhile (\<lambda>x. x \<noteq> c) s, dropWhile (\<lambda>x. x \<noteq> c) s)"

text \<open>The part of a string after the last \<open>c\<close>, if there is one.\<close>

definition after_last :: "char \<Rightarrow> string \<Rightarrow> string option" where
  "after_last c s = (if List.member s c then Some (rev (takeWhile (\<lambda>x. x \<noteq> c) (rev s))) else None)"

fun before_substring :: "string \<Rightarrow> string \<Rightarrow> string option" where
  "before_substring p [] = (if p = [] then Some [] else None)"
| "before_substring p (x # xs) =
     (if HasPrefix (x # xs) p then Some [] else map_option (\<lambda>r. x # r) (before_substring p xs))"

definition parseHost :: "string \<Rightarrow> string option" where
  "parseHost host =
     (if HasPrefix host ''['' then
        (case before_last (CHR '']'') host of
           None \<Rightarrow> None
         | Some pre \<Rightarrow>
             let post = drop (length pre) host in
             if \<not> validOptionalPort (drop 1 post) then None
             else case before_substring ''%25'' pre of
               Some h1 \<Rightarrow>
                 (case (unescape encodeHost h1, unescape encodeZone (drop (length h1) pre),
                        unescape encodeHost post) of
                    (Some a, Some b, Some d) \<Rightarrow> Some (a @ b @ d)
                  | _ \<Rightarrow> None)
             | None \<Rightarrow> unescape encodeHost host)
      else
        (case after_last (CHR '':'') host of
           Some p \<Rightarrow>
             if validOptionalPort (CHR '':'' # p) then unescape encodeHost host else None
         | None \<Rightarrow> unescape encodeHost host))"

definition validUserinfo :: "string \<Rightarrow> bool" where
  "validUserinfo s \<longleftrightarrow>
     list_all (\<lambda>c. is_alnum c \<or> List.member (''-._:~!$&()*+,;=%@'' @ [CHR 0x27]) c) s"

definition userinfo_ok :: "string \<Rightarrow> bool" where
  "userinfo_ok s \<longleftrightarrow>
     validUserinfo s \<and>
     (case cut_at (CHR '':'') s of (u, p) \<Rightarrow>
        unescape encodeUserPassword u \<noteq> None \<and> unescape encodeUserPassword (drop 1 p) \<noteq> None)"

definition parseAuthority :: "string \<Rightarrow> string option" where
  "parseAuthority authority =
     (case before_last (CHR ''@'') authority of
        None \<Rightarrow> parseHost authority
      | Some userinfo \<Rightarrow>
          (case parseHost (drop (length userinfo + 1) authority) of
             None \<Rightarrow> None
           | Some host \<Rightarrow> if userinfo_ok userinfo then Some host else None))"

definition has_ctl :: "string \<Rightarrow> bool" where
  "has_ctl s \<longleftrightarrow> list_ex (\<lambda>c. (of_char c :: nat) < 32 \<or> (of_char c :: nat) = 127) s"

text \<open>The query is cut off at the first question mark.\<close>

definition parse_rest :: "string \<Rightarrow> string \<Rightarrow> URL result" where
  "parse_rest scheme rest0 =
     (let rest = fst (cut_at (CHR ''?'') rest0) in
      if \<not> HasPrefix rest ''/'' then
        (if scheme \<noteq> [] then Ret \<lparr>u_scheme = scheme, u_host = [], u_path = []\<rparr>
         else Err (url_reason ''invalid URI for request''))
      else if scheme \<noteq> [] \<and> HasPrefix rest ''//'' then
        (case cut_at (CHR ''/'') (drop 2 rest) of (authority, p) \<Rightarrow>
           (case parseAuthority authority of
              None \<Rightarrow> Err (url_reason ''invalid host or user information'')
            | Some host \<Rightarrow>
                (case unescape encodePath p of
                   None \<Rightarrow> Err (url_reason ''invalid URL escape'')
                 | Some path \<Rightarrow> Ret \<lparr>u_scheme = scheme, u_host = host, u_path = path\<rparr>)))
      else
        (case unescape encodePath rest of
           None \<Rightarrow> Err (url_reason ''invalid URL escape'')
         | Some path \<Rightarrow> Ret \<lparr>u_scheme = scheme, u_host = [], u_path = path\<rparr>))"

definition ParseRequestURI :: "string \<Rightarrow> URL result" where
  "ParseRequestURI raw =
     (if has_ctl raw then Err (url_reason ''net/url: invalid control character in URL'')
      else if raw = [] then Err (url_reason ''empty url'')
      else if raw = ''*'' then Ret \<lparr>u_scheme = [], u_host = [], u_path = ''*''\<rparr>
      else case getScheme raw of
        None \<Rightarrow> Err (url_reason ''missing protocol scheme'')
      | Some (scheme, rest) \<Rightarrow> parse_rest (ToLower scheme) rest)"

text \<open>\<^verbatim>\<open>URL.Port()\<close>: the digits after the last colon of the host.\<close>

definition URL_Port :: "URL \<Rightarrow> string" where
  "URL_Port u =
     (case after_last (CHR '':'') (u_host u) of
        Some p \<Rightarrow> if validOptionalPort (CHR '':'' # p) then p else []
      | None \<Rightarrow> [])"

lemma parse_rest_no_crash [simp]: "parse_rest scheme rest \<noteq> Crash p"
  by (auto simp: parse_rest_def Let_def split: option.splits prod.splits)

lemma ParseRequestURI_no_crash [simp]: "ParseRequestURI raw \<noteq> Crash p"
  by (auto simp: ParseRequestURI_def split: option.splits prod.splits)

end
