(* ===== verification/Validation.thy ===== *)
theory Validation
  imports Api_Subscription Go_Url
begin

section \<open>Validation of Subscriptions (internal/controller/eventing/subscription/validator)\<close>

text \<open>
  The checks of a Subscription's spec, the check that the sink's Service exists, and the
  helpers of \<^verbatim>\<open>pkg/utils\<close> and \<^verbatim>\<open>pkg/ems/api/events/types\<close> they call. Three functions that are not
  the repository's are parameters, bundled in \<open>validator_env\<close>: the validation of a CloudEvent,
  the aggregation of field errors into one error, and the read of a Service from the API
  server.

  The main results: what an accepted Subscription guarantees to the reconcilers
  (\<open>Validate_sound\<close>), and what \<open>getDuplicates\<close> computes.
\<close>

subsection \<open>Helpers of pkg/utils and pkg/ems/api/events/types\<close>

abbreviation ErrParseSink :: goerr where
  "ErrParseSink \<equiv> Sentinel ''failed to parse subscription sink URL''"

definition GetPortNumberFromURL :: "URL \<Rightarrow> nat result" where
  "GetPortNumberFromURL u =
     (let sinkPort = URL_Port u;
          default = (if ToLower (u_scheme u) = ''https'' then 443 else 80)
      in if sinkPort \<noteq> [] then
           (case ParseUint32 sinkPort of
              None \<Rightarrow> Err (wrap_text (''convert port failed '' @ sinkPort @ '': '')
                        (Plain KOther (''strconv.ParseUint: parsing '' @ Quote sinkPort)))
            | Some port \<Rightarrow> Ret (if port = 0 then default else port))
         else Ret default)"

fun ContainsString :: "string list \<Rightarrow> string \<Rightarrow> bool" where
  "ContainsString [] s \<longleftrightarrow> False"
| "ContainsString (item # slice) s \<longleftrightarrow> (if item = s then True else ContainsString slice s)"

definition RemoveString :: "string list \<Rightarrow> string \<Rightarrow> string list" where
  "RemoveString slice s = filter (\<lambda>item. item \<noteq> s) slice"

definition IsValidScheme :: "string \<Rightarrow> bool" where
  "IsValidScheme sink \<longleftrightarrow> HasPrefix sink ''http://'' \<or> HasPrefix sink ''https://''"

definition GetSinkData :: "string \<Rightarrow> (string \<times> string list) result" where
  "GetSinkData sink =
     (case ParseRequestURI sink of
        Err err \<Rightarrow> Err (MakeError ErrParseSink err)
      | Crash p \<Rightarrow> Crash p
      | Ret sURL \<Rightarrow>
          let trimmedHost = split_on (CHR '':'') (u_host sURL) ! 0;
              subDomains = split_on (CHR ''.'') trimmedHost
          in Ret (trimmedHost, subDomains))"

definition IsEmpty :: "string \<Rightarrow> bool" where
  "IsEmpty s \<longleftrightarrow> TrimSpace s = []"

abbreviation QosAtMostOnce :: string where "QosAtMostOnce \<equiv> ''AT_MOST_ONCE''"
abbreviation QosAtLeastOnce :: string where "QosAtLeastOnce \<equiv> ''AT_LEAST_ONCE''"
abbreviation AuthTypeClientCredentials :: string where "AuthTypeClientCredentials \<equiv> ''oauth2''"
abbreviation GrantTypeClientCredentials :: string where
  "GrantTypeClientCredentials \<equiv> ''client_credentials''"

definition IsInvalidQoS :: "string \<Rightarrow> bool" where
  "IsInvalidQoS value =
     (let v = replace_char (CHR ''-'') (CHR ''_'') value
      in \<not> (v = QosAtLeastOnce \<or> v = QosAtMostOnce))"

definition GetQos :: "string \<Rightarrow> string" where
  "GetQos qosStr =
     (if replace_char (CHR ''-'') (CHR ''_'') qosStr = QosAtMostOnce then QosAtMostOnce
      else QosAtLeastOnce)"

definition IsInvalidAuthType :: "string \<Rightarrow> bool" where
  "IsInvalidAuthType value \<longleftrightarrow> value \<noteq> AuthTypeClientCredentials"

definition IsInvalidGrantType :: "string \<Rightarrow> bool" where
  "IsInvalidGrantType value \<longleftrightarrow> value \<noteq> GrantTypeClientCredentials"

subsection \<open>Field errors\<close>

record FieldError =
  fe_field :: string
  fe_value :: string
  fe_detail :: string

definition makeInvalidFieldError :: "string \<Rightarrow> string \<Rightarrow> string \<Rightarrow> FieldError" where
  "makeInvalidFieldError path subName detail =
     \<lparr>fe_field = path, fe_value = subName, fe_detail = detail\<rparr>"

abbreviation sourcePath :: string where "sourcePath \<equiv> ''spec.source''"
abbreviation typesPath :: string where "typesPath \<equiv> ''spec.types''"
abbreviation configPath :: string where "configPath \<equiv> ''spec.config''"
abbreviation sinkPath :: string where "sinkPath \<equiv> ''spec.sink''"
abbreviation typeMatchingPath :: string where "typeMatchingPath \<equiv> ''spec.typeMatching''"
abbreviation namespacePath :: string where "namespacePath \<equiv> ''metadata.namespace''"

abbreviation emptyErrDetail :: string where "emptyErrDetail \<equiv> ''must not be empty''"
abbreviation invalidURIErrDetail :: string where
  "invalidURIErrDetail \<equiv> ''must be valid as per RFC 3986''"
abbreviation duplicateTypesErrDetail :: string where
  "duplicateTypesErrDetail \<equiv> ''must not have duplicate types''"
abbreviation lengthErrDetail :: string where "lengthErrDetail \<equiv> ''must not be of length zero''"
abbreviation minSegmentErrDetail :: string where
  "minSegmentErrDetail \<equiv> ''must have minimum 2 segments''"
abbreviation invalidPrefixErrDetail :: string where
  "invalidPrefixErrDetail \<equiv> ''must not have sap.kyma.custom as type prefix''"
abbreviation stringIntErrDetail :: string where
  "stringIntErrDetail \<equiv> ''maxInFlightMessages must be a stringified int value''"
abbreviation invalidQosErrDetail :: string where
  "invalidQosErrDetail \<equiv> ''must be a valid QoS value AT_LEAST_ONCE or AT_MOST_ONCE''"
abbreviation invalidAuthTypeErrDetail :: string where
  "invalidAuthTypeErrDetail \<equiv> ''must be a valid Auth Type value oauth2''"
abbreviation invalidGrantTypeErrDetail :: string where
  "invalidGrantTypeErrDetail \<equiv> ''must be a valid Grant Type value client_credentials''"
abbreviation invalidTypeMatchingErrDetail :: string where
  "invalidTypeMatchingErrDetail \<equiv> ''must be a valid TypeMatching value exact or standard''"
abbreviation missingSchemeErrDetail :: string where
  "missingSchemeErrDetail \<equiv>
     ''must have URL scheme '' @ [CHR 0x27] @ ''http'' @ [CHR 0x27] @ '' or '' @ [CHR 0x27] @ ''https'' @ [CHR 0x27]"
abbreviation suffixMissingErrDetail :: string where
  "suffixMissingErrDetail \<equiv> ''must have valid sink URL suffix svc.cluster.local''"
abbreviation subDomainsErrDetail :: string where
  "subDomainsErrDetail \<equiv> ''must have sink URL with 5 sub-domains: ''"
abbreviation namespaceMismatchErrDetail :: string where
  "namespaceMismatchErrDetail \<equiv> ''must have the same namespace as the subscriber: ''"

text \<open>
  The code outside the repository. \<open>ve_event source eventType\<close> is the result of \<^verbatim>\<open>Validate\<close> on
  the event that \<^verbatim>\<open>GetCloudEvent(eventType)\<close> creates and \<^verbatim>\<open>SetSource(source)\<close> completes; its id,
  and its type if \<open>eventType\<close> is empty, are random strings of ten letters and digits.
\<close>

record validator_env =
  ve_event :: "string \<Rightarrow> string \<Rightarrow> goerr option"
  ve_ToAggregate :: "FieldError list \<Rightarrow> goerr"
  ve_GetService :: "string \<Rightarrow> string \<Rightarrow> goerr option"

subsection \<open>spec.go\<close>

abbreviation minEventTypeSegments :: nat where "minEventTypeSegments \<equiv> 2"
abbreviation subdomainSegments :: nat where "subdomainSegments \<equiv> 5"
abbreviation validPrefix :: string where "validPrefix \<equiv> ''sap.kyma.custom''"
abbreviation clusterLocalURLSuffix :: string where "clusterLocalURLSuffix \<equiv> ''svc.cluster.local''"

definition validateTypeMatching :: "string \<Rightarrow> FieldError option" where
  "validateTypeMatching typeMatching =
     (if typeMatching \<noteq> TypeMatchingExact \<and> typeMatching \<noteq> TypeMatchingStandard
      then Some (makeInvalidFieldError typeMatchingPath typeMatching invalidTypeMatchingErrDetail)
      else None)"

definition isInvalidCE :: "validator_env \<Rightarrow> string \<Rightarrow> string \<Rightarrow> bool" where
  "isInvalidCE env source eventType =
     (if source = [] then False else ve_event env source eventType \<noteq> None)"

definition validateSource :: "validator_env \<Rightarrow> string \<Rightarrow> string \<Rightarrow> FieldError option" where
  "validateSource env source typeMatching =
     (if source = [] \<and> typeMatching \<noteq> TypeMatchingExact
      then Some (makeInvalidFieldError sourcePath source emptyErrDetail)
      else if isInvalidCE env source []
      then Some (makeInvalidFieldError sourcePath source invalidURIErrDetail)
      else None)"

text \<open>The loop of \<^verbatim>\<open>getDuplicates\<close> with its counters; the zero count of a new key is 0.\<close>

fun getDuplicates_loop :: "(string \<Rightarrow> nat) \<Rightarrow> string list \<Rightarrow> string list \<Rightarrow> string list" where
  "getDuplicates_loop itemsMap duplicates [] = duplicates"
| "getDuplicates_loop itemsMap duplicates (t # xs) =
     (let itemsMap' = itemsMap(t := itemsMap t + 1) in
      getDuplicates_loop itemsMap' (if itemsMap' t = 2 then duplicates @ [t] else duplicates) xs)"

definition getDuplicates :: "string list \<Rightarrow> string list" where
  "getDuplicates xs =
     (if length xs = 0 then xs else getDuplicates_loop (\<lambda>_. 0) [] xs)"

fun validateTypes_loop :: "validator_env \<Rightarrow> string \<Rightarrow> string list \<Rightarrow> FieldError option" where
  "validateTypes_loop env typeMatching [] = None"
| "validateTypes_loop env typeMatching (eventType # types) =
     (if length eventType = 0
      then Some (makeInvalidFieldError typesPath eventType lengthErrDetail)
      else if length (split_on (CHR ''.'') eventType) < minEventTypeSegments
      then Some (makeInvalidFieldError typesPath eventType minSegmentErrDetail)
      else if typeMatching \<noteq> TypeMatchingExact \<and> HasPrefix eventType validPrefix
      then Some (makeInvalidFieldError typesPath eventType invalidPrefixErrDetail)
      else if isInvalidCE env ''source'' eventType
      then Some (makeInvalidFieldError typesPath eventType invalidURIErrDetail)
      else validateTypes_loop env typeMatching types)"

definition validateTypes :: "validator_env \<Rightarrow> string list \<Rightarrow> string \<Rightarrow> FieldError option" where
  "validateTypes env types typeMatching =
     (if length types = 0 then Some (makeInvalidFieldError typesPath [] emptyErrDetail)
      else if length (getDuplicates types) > 0
      then Some (makeInvalidFieldError typesPath (join_with '','' (getDuplicates types))
                   duplicateTypesErrDetail)
      else validateTypes_loop env typeMatching types)"

definition ifKeyExistsInConfig :: "(string \<rightharpoonup> string) \<Rightarrow> string \<Rightarrow> bool" where
  "ifKeyExistsInConfig config key \<longleftrightarrow> config key \<noteq> None"

definition isNotInt :: "string \<Rightarrow> bool" where
  "isNotInt value \<longleftrightarrow> Atoi value = None"

text \<open>\<^verbatim>\<open>config[key]\<close>: the empty string for a missing key.\<close>

definition config_get :: "(string \<rightharpoonup> string) \<Rightarrow> string \<Rightarrow> string" where
  "config_get config key = (case config key of Some v \<Rightarrow> v | None \<Rightarrow> [])"

definition validateConfig_key ::
  "(string \<rightharpoonup> string) \<Rightarrow> string \<Rightarrow> (string \<Rightarrow> bool) \<Rightarrow> string \<Rightarrow> FieldError list" where
  "validateConfig_key config key invalid detail =
     (if ifKeyExistsInConfig config key \<and> invalid (config_get config key)
      then [makeInvalidFieldError configPath (config_get config key) detail] else [])"

definition validateConfig :: "(string \<rightharpoonup> string) \<Rightarrow> FieldError list" where
  "validateConfig config =
     validateConfig_key config MaxInFlightMessages isNotInt stringIntErrDetail
     @ validateConfig_key config ProtocolSettingsQos IsInvalidQoS invalidQosErrDetail
     @ validateConfig_key config WebhookAuthType IsInvalidAuthType invalidAuthTypeErrDetail
     @ validateConfig_key config WebhookAuthGrantType IsInvalidGrantType invalidGrantTypeErrDetail"

definition validateSink :: "string \<Rightarrow> string \<Rightarrow> FieldError option" where
  "validateSink sink namespace =
     (if sink = [] then Some (makeInvalidFieldError sinkPath sink emptyErrDetail)
      else if \<not> IsValidScheme sink then Some (makeInvalidFieldError sinkPath sink missingSchemeErrDetail)
      else case GetSinkData sink of
        Err err \<Rightarrow> Some (makeInvalidFieldError sinkPath sink (Error err))
      | Crash p \<Rightarrow> None
      | Ret (trimmedHost, subDomains) \<Rightarrow>
          if \<not> HasSuffix trimmedHost clusterLocalURLSuffix
          then Some (makeInvalidFieldError sinkPath sink suffixMissingErrDetail)
          else if length subDomains \<noteq> subdomainSegments
          then Some (makeInvalidFieldError sinkPath sink (subDomainsErrDetail @ trimmedHost))
          else let svcNs = subDomains ! 1 in
            if namespace \<noteq> svcNs
            then Some (makeInvalidFieldError namespacePath sink (namespaceMismatchErrDetail @ svcNs))
            else None)"

definition list_of_option :: "'a option \<Rightarrow> 'a list" where
  "list_of_option x = (case x of None \<Rightarrow> [] | Some a \<Rightarrow> [a])"

definition validateSpec :: "validator_env \<Rightarrow> Subscription \<Rightarrow> FieldError list" where
  "validateSpec env s =
     list_of_option (validateTypeMatching (spec_typeMatching (sub_spec s)))
     @ list_of_option (validateSource env (spec_source (sub_spec s)) (spec_typeMatching (sub_spec s)))
     @ list_of_option (validateTypes env (spec_types (sub_spec s)) (spec_typeMatching (sub_spec s)))
     @ validateConfig (spec_config (sub_spec s))
     @ list_of_option (validateSink (spec_sink (sub_spec s)) (sub_namespace s))"

subsection \<open>sink.go and subscription.go\<close>

abbreviation ErrSinkValidationFailed :: goerr where
  "ErrSinkValidationFailed \<equiv> Sentinel ''Sink validation failed''"
abbreviation ErrSubscriptionValidationFailed :: goerr where
  "ErrSubscriptionValidationFailed \<equiv> Sentinel ''Subscription validation failed''"

definition serviceExists :: "validator_env \<Rightarrow> string \<Rightarrow> string \<Rightarrow> bool" where
  "serviceExists env namespace name \<longleftrightarrow> ve_GetService env namespace name = None"

definition sinkServiceValidator_validate :: "validator_env \<Rightarrow> string \<Rightarrow> goerr option" where
  "sinkServiceValidator_validate env sink =
     (case GetSinkData sink of
        Err err \<Rightarrow> Some (Wrapped ['''', '': ''] [ErrSinkValidationFailed, err])
      | Crash p \<Rightarrow> None
      | Ret (_, subDomains) \<Rightarrow>
          if length subDomains < 2
          then Some (Wrapped ['''', '': sink format should contain the service name.namespace'']
                 [ErrSinkValidationFailed])
          else let namespace = subDomains ! 1; name = subDomains ! 0 in
            if \<not> serviceExists env namespace name
            then Some (Wrapped ['''', '': service '' @ name @ ''.'' @ namespace @ '' not found in the cluster'']
                   [ErrSinkValidationFailed])
            else None)"

definition Validate_subscription :: "validator_env \<Rightarrow> Subscription \<Rightarrow> goerr option" where
  "Validate_subscription env s =
     (if length (validateSpec env s) > 0
      then Some (Wrapped ['''', '': '']
             [ErrSubscriptionValidationFailed, ve_ToAggregate env (validateSpec env s)])
      else case sinkServiceValidator_validate env (spec_sink (sub_spec s)) of
        Some err \<Rightarrow> Some (Wrapped ['''', '': ''] [ErrSubscriptionValidationFailed, err])
      | None \<Rightarrow> None)"

subsection \<open>Lemmas\<close>

lemma ContainsString_iff [simp]: "ContainsString xs s \<longleftrightarrow> s \<in> set xs"
  by (induction xs) auto

lemma GetSinkData_no_crash [simp]: "GetSinkData sink \<noteq> Crash p"
  by (auto simp: GetSinkData_def Let_def split: result.splits)

lemma list_of_option_Nil [simp]: "list_of_option x = [] \<longleftrightarrow> x = None"
  by (cases x) (simp_all add: list_of_option_def)

lemma getDuplicates_loop_set:
  "set (getDuplicates_loop m acc xs)
     = set acc \<union> {t. m t < 2 \<and> 2 \<le> m t + count_list xs t}"
  by (induction xs arbitrary: m acc) (auto simp: Let_def split: if_splits)

lemma getDuplicates_loop_distinct:
  assumes "distinct acc" and "\<forall>t\<in>set acc. 2 \<le> m t"
  shows "distinct (getDuplicates_loop m acc xs)"
  using assms
proof (induction xs arbitrary: m acc)
  case (Cons a xs)
  have "a \<notin> set acc" if "m a = Suc 0" using Cons.prems(2) that by fastforce
  moreover have "Suc 0 \<le> m a" if "a \<in> set acc" using Cons.prems(2) that by fastforce
  ultimately show ?case using Cons.prems by (auto simp: Let_def intro!: Cons.IH)
qed simp

lemma getDuplicates_set: "set (getDuplicates xs) = {t. 2 \<le> count_list xs t}"
  by (auto simp: getDuplicates_def getDuplicates_loop_set)

lemma count_list_le_1: "(\<forall>t. count_list xs t \<le> 1) \<longleftrightarrow> distinct xs"
proof
  assume "distinct xs"
  then show "\<forall>t. count_list xs t \<le> 1" by (induction xs) auto
next
  show "\<forall>t. count_list xs t \<le> 1 \<Longrightarrow> distinct xs"
  proof (induction xs)
    case (Cons x xs)
    have le: "count_list xs t \<le> 1" for t
      using spec [OF Cons.prems, of t] by (simp split: if_splits)
    have "count_list xs x = 0" using spec [OF Cons.prems, of x] by simp
    then have "x \<notin> set xs" by (simp add: count_list_0_iff)
    with Cons.IH le show ?case by simp
  qed simp
qed

lemma getDuplicates_Nil_iff: "getDuplicates xs = [] \<longleftrightarrow> distinct xs"
proof -
  have "getDuplicates xs = [] \<longleftrightarrow> set (getDuplicates xs) = {}" by simp
  also have "\<dots> \<longleftrightarrow> (\<forall>t. count_list xs t \<le> 1)"
    by (auto simp: getDuplicates_set not_le less_Suc_eq_le numeral_2_eq_2)
  finally show ?thesis by (simp only: count_list_le_1)
qed

lemma validateTypes_loop_None:
  "validateTypes_loop env tm types = None \<Longrightarrow>
     list_all (\<lambda>t. 2 \<le> length (split_on (CHR ''.'') t)
       \<and> (tm = TypeMatchingExact \<or> \<not> HasPrefix t validPrefix)) types"
  by (induction types) (auto split: if_splits)

lemma validateTypes_None:
  assumes "validateTypes env types tm = None"
  shows "types \<noteq> []" and "distinct types"
    and "list_all (\<lambda>t. 2 \<le> length (split_on (CHR ''.'') t)
           \<and> (tm = TypeMatchingExact \<or> \<not> HasPrefix t validPrefix)) types"
  using assms validateTypes_loop_None [of env tm types]
  by (auto simp: validateTypes_def getDuplicates_Nil_iff split: if_splits)

text \<open>A host that passes the suffix and the length check ends with \<^verbatim>\<open>cluster.local\<close>.\<close>

lemma cluster_local_segments:
  assumes "HasSuffix host clusterLocalURLSuffix" and "length (split_on (CHR ''.'') host) = 5"
  shows "\<exists>svc ns x. split_on (CHR ''.'') host = [svc, ns, x, ''cluster'', ''local'']"
proof -
  obtain r where "host = r @ ''svc.cluster.local''" using assms(1) by (rule HasSuffixE)
  then have host: "host = (r @ ''svc'') @ CHR ''.'' # ''cluster'' @ CHR ''.'' # ''local''" by simp
  have split: "split_on (CHR ''.'') host = split_on (CHR ''.'') (r @ ''svc'') @ [''cluster'', ''local'']"
    unfolding host split_on_append_sep by simp
  then have "length (split_on (CHR ''.'') (r @ ''svc'')) = Suc (Suc (Suc 0))" using assms(2) by simp
  then obtain a b d where "split_on (CHR ''.'') (r @ ''svc'') = [a, b, d]"
    by (auto simp: length_Suc_conv)
  with split show ?thesis by simp
qed

lemma validateSink_None:
  assumes "validateSink sink namespace = None"
  shows "\<exists>host svc x. GetSinkData sink = Ret (host, [svc, namespace, x, ''cluster'', ''local''])"
proof -
  obtain host ds where data: "GetSinkData sink = Ret (host, ds)"
    using assms by (cases "GetSinkData sink") (auto simp: validateSink_def split: if_splits)
  then have ds: "ds = split_on (CHR ''.'') host"
    by (auto simp: GetSinkData_def Let_def split: result.splits)
  have suffix: "HasSuffix host clusterLocalURLSuffix" and len: "length ds = 5" and ns: "ds ! 1 = namespace"
    using assms data by (auto simp: validateSink_def Let_def split: if_splits)
  obtain svc m x where "ds = [svc, m, x, ''cluster'', ''local'']"
    using cluster_local_segments [OF suffix] len ds by auto
  with data ns show ?thesis by simp
qed

lemma validated_types_distinct:
  "Validate_subscription env s = None \<Longrightarrow> distinct (spec_types (sub_spec s))"
  by (auto simp: Validate_subscription_def validateSpec_def dest: validateTypes_None(2) split: if_splits)

subsection \<open>Properties\<close>

text \<open>
  C26. A Subscription that passes validation has a known type matching, at least one event type,
  no duplicate types, at least two segments in every type, a number as \<^verbatim>\<open>maxInFlightMessages\<close> if
  that is set, and a sink of the form \<^verbatim>\<open>service.namespace.*.cluster.local\<close> whose namespace is the
  Subscription's and whose Service exists.
\<close>

theorem Validate_sound:
  assumes "Validate_subscription env s = None"
  shows "spec_typeMatching (sub_spec s) \<in> {TypeMatchingExact, TypeMatchingStandard} \<and>
     spec_types (sub_spec s) \<noteq> [] \<and> distinct (spec_types (sub_spec s)) \<and>
     list_all (\<lambda>t. 2 \<le> length (split_on (CHR ''.'') t)) (spec_types (sub_spec s)) \<and>
     (case spec_config (sub_spec s) MaxInFlightMessages of None \<Rightarrow> True | Some v \<Rightarrow> Atoi v \<noteq> None) \<and>
     (\<exists>host svc x. GetSinkData (spec_sink (sub_spec s))
         = Ret (host, [svc, sub_namespace s, x, ''cluster'', ''local'']) \<and>
       ve_GetService env (sub_namespace s) svc = None)"
proof -
  have spec: "validateSpec env s = []"
    and sink: "sinkServiceValidator_validate env (spec_sink (sub_spec s)) = None"
    using assms by (auto simp: Validate_subscription_def split: if_splits option.splits)
  have tm: "validateTypeMatching (spec_typeMatching (sub_spec s)) = None"
    and ty: "validateTypes env (spec_types (sub_spec s)) (spec_typeMatching (sub_spec s)) = None"
    and cf: "validateConfig (spec_config (sub_spec s)) = []"
    and sk: "validateSink (spec_sink (sub_spec s)) (sub_namespace s) = None"
    using spec by (auto simp: validateSpec_def)
  obtain host svc x where data: "GetSinkData (spec_sink (sub_spec s))
      = Ret (host, [svc, sub_namespace s, x, ''cluster'', ''local''])"
    using validateSink_None [OF sk] by blast
  have "ve_GetService env (sub_namespace s) svc = None"
    using sink data by (simp add: sinkServiceValidator_validate_def serviceExists_def Let_def split: if_splits)
  moreover have "spec_typeMatching (sub_spec s) \<in> {TypeMatchingExact, TypeMatchingStandard}"
    using tm by (auto simp: validateTypeMatching_def split: if_splits)
  moreover have "case spec_config (sub_spec s) MaxInFlightMessages of None \<Rightarrow> True | Some v \<Rightarrow> Atoi v \<noteq> None"
    using cf by (auto simp: validateConfig_def validateConfig_key_def ifKeyExistsInConfig_def
        config_get_def isNotInt_def split: option.splits if_splits)
  moreover have "list_all (\<lambda>t. 2 \<le> length (split_on (CHR ''.'') t)) (spec_types (sub_spec s))"
    using validateTypes_None(3) [OF ty] by (auto simp: list_all_iff)
  ultimately show ?thesis
    using validateTypes_None(1,2) [OF ty] data by blast
qed

definition example_env :: validator_env where
  "example_env =
     \<lparr>ve_event = (\<lambda>s t. None), ve_ToAggregate = (\<lambda>es. Plain KOther ''invalid''),
      ve_GetService = (\<lambda>ns name. if ns = ''ns'' \<and> name = ''svc'' then None
        else Some (Plain KNotFound ''not found''))\<rparr>"

definition example_subscription :: Subscription where
  "example_subscription =
     \<lparr>sub_apiVersion = ''eventing.kyma-project.io/v1alpha2'', sub_kind = ''Subscription'',
      sub_name = ''sub'', sub_namespace = ''ns'', sub_uid = ''1'', sub_finalizers = [Finalizer],
      sub_deletionTimestamp = None,
      sub_spec = \<lparr>spec_id = '''', spec_sink = ''http://svc.ns.svc.cluster.local'',
        spec_typeMatching = TypeMatchingStandard, spec_source = ''source'',
        spec_types = [''order.created.v1'', ''order.deleted.v1''],
        spec_config = [MaxInFlightMessages \<mapsto> ''10'']\<rparr>,
      sub_status = empty_SubscriptionStatus\<rparr>"

lemma example_sink:
  "GetSinkData ''http://svc.ns.svc.cluster.local''
     = Ret (''svc.ns.svc.cluster.local'', [''svc'', ''ns'', ''svc'', ''cluster'', ''local''])"
  by code_simp

lemma example_validateSink:
  "validateSink ''http://svc.ns.svc.cluster.local'' ''ns'' = None"
  by (simp add: validateSink_def example_sink IsValidScheme_def HasPrefix_def HasSuffix_def Let_def)

lemma example_Atoi: "Atoi ''10'' = Some 10"
  by code_simp

lemma example_validateSpec: "validateSpec example_env example_subscription = []"
  by (simp add: validateSpec_def example_subscription_def example_env_def validateTypeMatching_def
      validateSource_def isInvalidCE_def validateTypes_def getDuplicates_Nil_iff HasPrefix_def
      validateConfig_def validateConfig_key_def ifKeyExistsInConfig_def config_get_def isNotInt_def
      example_Atoi example_validateSink)

lemma example_subscription_valid: "Validate_subscription example_env example_subscription = None"
  unfolding Validate_subscription_def example_validateSpec
  by (simp add: sinkServiceValidator_validate_def example_subscription_def example_sink
      serviceExists_def example_env_def Let_def)

theorem Validate_sound_witness:
  "distinct (spec_types (sub_spec example_subscription)) \<and>
   (\<exists>host svc x. GetSinkData (spec_sink (sub_spec example_subscription))
      = Ret (host, [svc, ''ns'', x, ''cluster'', ''local'']) \<and> ve_GetService example_env ''ns'' svc = None)"
  using Validate_sound [OF example_subscription_valid]
  by (simp add: example_subscription_def)

text \<open>
  \<^verbatim>\<open>getDuplicates\<close> returns each item that occurs at least twice exactly once, so it returns
  nothing exactly for lists without duplicates.
\<close>

theorem getDuplicates_correct:
  "set (getDuplicates xs) = {t. 2 \<le> count_list xs t} \<and>
   distinct (getDuplicates xs) \<and> (getDuplicates xs = [] \<longleftrightarrow> distinct xs)"
  using getDuplicates_set getDuplicates_Nil_iff getDuplicates_loop_distinct [of "[]" "\<lambda>_. 0" xs]
  by (simp add: getDuplicates_def)

end
