(* ===== verification/Cleaners.thy ===== *)
theory Cleaners
  imports Go_Errors
begin

section \<open>Cleaners for sources and event types (pkg/backend/cleaner, pkg/backend/eventtype)\<close>

text \<open>
  The \<^verbatim>\<open>Cleaner\<close> interface with its two implementations, \<^verbatim>\<open>JetStreamCleaner\<close> and
  \<^verbatim>\<open>EventMeshCleaner\<close>, and the older event-type cleaner with its parser and builder.

  The locale \<open>event_cleaner\<close> states what the backends rely on: cleaning never fails, is
  idempotent, and its results can be put into a NATS subject (no wildcards, no white space, no
  slash; a cleaned source is a single segment). It is interpreted on both implementations.
\<close>

subsection \<open>The interface and its implementations\<close>

text \<open>A value of the interface type: its two methods, each returning a string and an error.\<close>

record Cleaner =
  cl_CleanSource :: "string \<Rightarrow> string \<times> goerr option"
  cl_CleanEventType :: "string \<Rightarrow> string \<times> goerr option"

text \<open>The character classes of \<^verbatim>\<open>jetstream.go\<close>: \<^verbatim>\<open>[\s.>*/\\]\<close> and \<^verbatim>\<open>[\s>*/\\]\<close>.\<close>

definition invalidEventTypeCharacters :: "char \<Rightarrow> bool" where
  "invalidEventTypeCharacters c \<longleftrightarrow>
     is_regex_space c \<or> c \<in> {CHR ''>'', CHR ''*'', CHR ''/'', CHR 0x5C}"

definition invalidSourceCharacters :: "char \<Rightarrow> bool" where
  "invalidSourceCharacters c \<longleftrightarrow> invalidEventTypeCharacters c \<or> c = CHR ''.''"

definition JetStreamCleaner_CleanSource :: "string \<Rightarrow> string \<times> goerr option" where
  "JetStreamCleaner_CleanSource source = (remove_class invalidSourceCharacters source, None)"

definition JetStreamCleaner_CleanEventType :: "string \<Rightarrow> string \<times> goerr option" where
  "JetStreamCleaner_CleanEventType eventType =
     (remove_class invalidEventTypeCharacters eventType, None)"

definition JetStreamCleaner :: Cleaner where
  "JetStreamCleaner =
     \<lparr>cl_CleanSource = JetStreamCleaner_CleanSource,
      cl_CleanEventType = JetStreamCleaner_CleanEventType\<rparr>"

text \<open>The character classes of \<^verbatim>\<open>eventmesh.go\<close>: \<^verbatim>\<open>[^a-zA-Z0-9.]\<close> and \<^verbatim>\<open>[^a-zA-Z0-9]\<close>.\<close>

definition invalidEventMeshTypeSegment :: "char \<Rightarrow> bool" where
  "invalidEventMeshTypeSegment c \<longleftrightarrow> \<not> (is_alnum c \<or> c = CHR ''.'')"

definition invalidEventMeshSourceSegment :: "char \<Rightarrow> bool" where
  "invalidEventMeshSourceSegment c \<longleftrightarrow> \<not> is_alnum c"

abbreviation maxEventMeshSegmentsLimit :: nat where "maxEventMeshSegmentsLimit \<equiv> 3"

definition getMergedSegments :: "string \<Rightarrow> string" where
  "getMergedSegments eventType =
     (let segments = split_on (CHR ''.'') eventType; totalSegments = length segments in
      if totalSegments > maxEventMeshSegmentsLimit then
        concat (take (totalSegments - 2) segments) @ ''.'' @ segments ! (totalSegments - 2) @ ''.''
          @ segments ! (totalSegments - 1)
      else eventType)"

definition EventMeshCleaner_CleanSource :: "string \<Rightarrow> string \<times> goerr option" where
  "EventMeshCleaner_CleanSource source = (remove_class invalidEventMeshSourceSegment source, None)"

definition EventMeshCleaner_CleanEventType :: "string \<Rightarrow> string \<times> goerr option" where
  "EventMeshCleaner_CleanEventType eventType =
     (let mergedEventType = getMergedSegments eventType
      in (remove_class invalidEventMeshTypeSegment mergedEventType, None))"

definition EventMeshCleaner :: Cleaner where
  "EventMeshCleaner =
     \<lparr>cl_CleanSource = EventMeshCleaner_CleanSource,
      cl_CleanEventType = EventMeshCleaner_CleanEventType\<rparr>"

subsection \<open>The event-type cleaner (pkg/backend/eventtype)\<close>

abbreviation ErrPrefixNotFound :: goerr where "ErrPrefixNotFound \<equiv> Sentinel ''prefix not found''"
abbreviation ErrInvalidFormat :: goerr where "ErrInvalidFormat \<equiv> Sentinel ''invalid format''"

abbreviation minSAPEventTypeLength :: nat where "minSAPEventTypeLength \<equiv> 4"

definition parse :: "string \<Rightarrow> string \<Rightarrow> (string \<times> string \<times> string) result" where
  "parse eventType prefix =
     (if \<not> HasPrefix eventType prefix then Err ErrPrefixNotFound
      else
        let rest = TrimPrefix (remove_all prefix eventType) ''.'';
            parts = split_on (CHR ''.'') rest
        in if length parts < minSAPEventTypeLength then Err ErrInvalidFormat
           else
             let applicationName = parts ! 0;
                 businessObject = concat (take (length parts - 3) (drop 1 parts));
                 operation = parts ! (length parts - 2);
                 version = parts ! (length parts - 1)
             in Ret (applicationName, businessObject @ ''.'' @ operation, version))"

definition build :: "string \<Rightarrow> string \<Rightarrow> string \<Rightarrow> string \<Rightarrow> string" where
  "build prefix applicationName event version =
     (if TrimSpace prefix = [] then applicationName @ ''.'' @ event @ ''.'' @ version
      else prefix @ ''.'' @ applicationName @ ''.'' @ event @ ''.'' @ version)"

text \<open>\<^verbatim>\<open>\W|_\<close> leaves the alphanumeric characters.\<close>

definition getCleanName :: "string \<Rightarrow> string" where
  "getCleanName name = filter is_alnum name"

definition cleanEventType :: "string \<Rightarrow> string" where
  "cleanEventType eventType = remove_class invalidEventMeshTypeSegment eventType"

text \<open>\<^verbatim>\<open>cleaner.Clean\<close>; \<^verbatim>\<open>simpleCleaner.Clean\<close> has the same body.\<close>

definition Clean :: "string \<Rightarrow> string \<Rightarrow> string result" where
  "Clean eventTypePrefix eventType =
     (case parse eventType eventTypePrefix of
        Ret (appName, event, version) \<Rightarrow>
          let eventTypeClean = build eventTypePrefix (getCleanName appName) event version
          in Ret (cleanEventType eventTypeClean)
      | Err e \<Rightarrow> Err e
      | Crash p \<Rightarrow> Crash p)"

definition simpleCleaner_Clean :: "string \<Rightarrow> string \<Rightarrow> string result" where
  "simpleCleaner_Clean eventTypePrefix eventType =
     (case parse eventType eventTypePrefix of
        Ret (appName, event, version) \<Rightarrow>
          let eventTypeClean = build eventTypePrefix (getCleanName appName) event version
          in Ret (cleanEventType eventTypeClean)
      | Err e \<Rightarrow> Err e
      | Crash p \<Rightarrow> Crash p)"

subsection \<open>What a cleaner promises\<close>

text \<open>Characters that must not appear inside a token of a NATS subject.\<close>

definition subject_reserved :: "char \<Rightarrow> bool" where
  "subject_reserved c \<longleftrightarrow> is_regex_space c \<or> c \<in> {CHR ''>'', CHR ''*'', CHR ''/''}"

locale event_cleaner =
  fixes c :: Cleaner
  assumes source_total: "snd (cl_CleanSource c s) = None"
    and type_total: "snd (cl_CleanEventType c s) = None"
    and source_chars: "x \<in> set (fst (cl_CleanSource c s)) \<Longrightarrow> \<not> subject_reserved x \<and> x \<noteq> CHR ''.''"
    and type_chars: "x \<in> set (fst (cl_CleanEventType c s)) \<Longrightarrow> \<not> subject_reserved x"
    and source_idem: "cl_CleanSource c (fst (cl_CleanSource c s)) = cl_CleanSource c s"
    and type_idem: "cl_CleanEventType c (fst (cl_CleanEventType c s)) = cl_CleanEventType c s"
begin

text \<open>The source takes exactly one segment of a subject built from it.\<close>

lemma subject_segments:
  "split_on (CHR ''.'') (p @ ''.'' @ fst (cl_CleanSource c s) @ ''.'' @ t)
     = split_on (CHR ''.'') p @ fst (cl_CleanSource c s) # split_on (CHR ''.'') t"
proof -
  have "CHR ''.'' \<notin> set (fst (cl_CleanSource c s))" using source_chars by blast
  then show ?thesis by (simp add: split_on_append_sep split_on_free)
qed

lemma subject_inject:
  assumes "p @ ''.'' @ fst (cl_CleanSource c s) @ ''.'' @ t = p @ ''.'' @ fst (cl_CleanSource c s') @ ''.'' @ t'"
  shows "fst (cl_CleanSource c s) = fst (cl_CleanSource c s') \<and> t = t'"
proof -
  have "split_on (CHR ''.'') p @ fst (cl_CleanSource c s) # split_on (CHR ''.'') t
      = split_on (CHR ''.'') p @ fst (cl_CleanSource c s') # split_on (CHR ''.'') t'"
    using assms subject_segments by metis
  then have "fst (cl_CleanSource c s) = fst (cl_CleanSource c s')"
    and "split_on (CHR ''.'') t = split_on (CHR ''.'') t'" by simp_all
  then show ?thesis by (metis join_split)
qed

lemma subject_no_slash:
  assumes "CHR ''/'' \<notin> set p"
  shows "CHR ''/'' \<notin> set (p @ ''.'' @ fst (cl_CleanSource c s) @ ''.'' @ fst (cl_CleanEventType c t))"
  using assms source_chars [of "CHR ''/''"] type_chars [of "CHR ''/''"]
  by (auto simp: subject_reserved_def)

end

subsection \<open>The JetStream cleaner\<close>

interpretation jsc: event_cleaner JetStreamCleaner
  by unfold_locales
    (auto simp: JetStreamCleaner_def JetStreamCleaner_CleanSource_def JetStreamCleaner_CleanEventType_def
      invalidSourceCharacters_def invalidEventTypeCharacters_def subject_reserved_def)

subsection \<open>The EventMesh cleaner\<close>

lemma split_merged:
  assumes many: "length (split_on (CHR ''.'') s) > 3"
  shows "split_on (CHR ''.'') (getMergedSegments s) =
     [concat (take (length (split_on (CHR ''.'') s) - 2) (split_on (CHR ''.'') s)),
      split_on (CHR ''.'') s ! (length (split_on (CHR ''.'') s) - 2),
      split_on (CHR ''.'') s ! (length (split_on (CHR ''.'') s) - 1)]"
proof -
  let ?ss = "split_on (CHR ''.'') s"
  have free: "CHR ''.'' \<notin> set p" if "p \<in> set ?ss" for p
    using that by (rule split_on_pieces_free)
  have a: "CHR ''.'' \<notin> set (concat (take (length ?ss - 2) ?ss))"
    using free by (auto dest: in_set_takeD)
  have b: "CHR ''.'' \<notin> set (?ss ! (length ?ss - 2))" and c: "CHR ''.'' \<notin> set (?ss ! (length ?ss - 1))"
    using many by (auto intro!: free nth_mem)
  show ?thesis
    unfolding getMergedSegments_def Let_def using many
    by (simp add: split_on_append_sep split_on_free [OF a] split_on_free [OF b] split_on_free [OF c]
        del: set_concat One_nat_def)
qed

lemma merged_few: "length (split_on (CHR ''.'') s) \<le> 3 \<Longrightarrow> getMergedSegments s = s"
  by (simp add: getMergedSegments_def Let_def)

lemma length_split_merged: "length (split_on (CHR ''.'') (getMergedSegments s)) \<le> 3"
  by (cases "length (split_on (CHR ''.'') s) > 3") (simp_all add: split_merged merged_few)

lemma count_list_filter: "P x \<Longrightarrow> count_list (filter P xs) x = count_list xs x"
  by (induction xs) auto

lemma length_split_filter:
  "P c \<Longrightarrow> length (split_on c (filter P s)) = length (split_on c s)"
  by (simp add: length_split_on count_list_filter)

lemma EventMesh_segments:
  "length (split_on (CHR ''.'') (fst (EventMeshCleaner_CleanEventType s))) \<le> 3"
  using length_split_merged [of s]
  by (simp add: EventMeshCleaner_CleanEventType_def Let_def length_split_filter
      invalidEventMeshTypeSegment_def)

lemma is_alnum_not_reserved: "is_alnum x \<Longrightarrow> \<not> subject_reserved x \<and> x \<noteq> CHR ''.''"
  by (auto simp: is_alnum_def is_alpha_def is_digit_def subject_reserved_def is_regex_space_def Let_def)

lemma EventMesh_type_idem:
  "EventMeshCleaner_CleanEventType (fst (EventMeshCleaner_CleanEventType s))
     = EventMeshCleaner_CleanEventType s"
proof -
  have "getMergedSegments (fst (EventMeshCleaner_CleanEventType s))
      = fst (EventMeshCleaner_CleanEventType s)"
    by (rule merged_few) (rule EventMesh_segments)
  then show ?thesis by (simp add: EventMeshCleaner_CleanEventType_def Let_def)
qed

lemma dot_not_reserved: "\<not> subject_reserved (CHR ''.'')"
  by (simp add: subject_reserved_def is_regex_space_def)

interpretation emc: event_cleaner EventMeshCleaner
proof unfold_locales
  fix s x
  show "x \<in> set (fst (cl_CleanEventType EventMeshCleaner s)) \<Longrightarrow> \<not> subject_reserved x"
    by (auto simp: EventMeshCleaner_def EventMeshCleaner_CleanEventType_def Let_def
        invalidEventMeshTypeSegment_def is_alnum_not_reserved dot_not_reserved)
  show "cl_CleanEventType EventMeshCleaner (fst (cl_CleanEventType EventMeshCleaner s))
      = cl_CleanEventType EventMeshCleaner s"
    by (simp add: EventMeshCleaner_def EventMesh_type_idem)
qed (auto simp: EventMeshCleaner_def EventMeshCleaner_CleanSource_def is_alnum_not_reserved
      EventMeshCleaner_CleanEventType_def Let_def invalidEventMeshSourceSegment_def)

subsection \<open>Properties\<close>

text \<open>
  Cleaning with either cleaner never fails and is idempotent for sources and for event
  types, a cleaned source never contains a dot, a NATS wildcard, white space or a slash, and a
  cleaned event type never contains a wildcard, white space or a slash.
\<close>

theorem cleaners_contract:
  fixes c :: Cleaner
  assumes "c = JetStreamCleaner \<or> c = EventMeshCleaner"
  shows "snd (cl_CleanSource c s) = None \<and> snd (cl_CleanEventType c s) = None \<and>
     filter (\<lambda>x. subject_reserved x \<or> x = CHR ''.'') (fst (cl_CleanSource c s)) = [] \<and>
     filter subject_reserved (fst (cl_CleanEventType c s)) = [] \<and>
     cl_CleanSource c (fst (cl_CleanSource c s)) = cl_CleanSource c s \<and>
     cl_CleanEventType c (fst (cl_CleanEventType c s)) = cl_CleanEventType c s"
  using assms
proof
  assume "c = JetStreamCleaner"
  then show ?thesis
    using jsc.source_total jsc.type_total jsc.source_idem jsc.type_idem jsc.source_chars jsc.type_chars
    by (simp add: filter_empty_conv)
next
  assume "c = EventMeshCleaner"
  then show ?thesis
    using emc.source_total emc.type_total emc.source_idem emc.type_idem emc.source_chars emc.type_chars
    by (simp add: filter_empty_conv)
qed

theorem cleaners_contract_witness:
  "cl_CleanEventType JetStreamCleaner (fst (cl_CleanEventType JetStreamCleaner ''or*der.cre ated.v1''))
     = (''order.created.v1'', None)
   \<and> filter subject_reserved (fst (cl_CleanEventType JetStreamCleaner ''or*der.cre ated.v1'')) = []"
  using cleaners_contract [of JetStreamCleaner "''or*der.cre ated.v1''"]
  by (simp add: JetStreamCleaner_def JetStreamCleaner_CleanEventType_def invalidEventTypeCharacters_def
      is_regex_space_def)

text \<open>
  An event type cleaned for EventMesh has at most three segments, as the SAP event
  specification asks, and consists of alphanumeric characters and dots; a type that has at
  most three segments keeps its segments, each cleaned on its own.
\<close>

theorem EventMesh_clean_type_segments:
  "length (split_on (CHR ''.'') (fst (EventMeshCleaner_CleanEventType s)))
     = min 3 (length (split_on (CHR ''.'') s)) \<and>
   list_all (\<lambda>x. is_alnum x \<or> x = CHR ''.'') (fst (EventMeshCleaner_CleanEventType s)) \<and>
   (if length (split_on (CHR ''.'') s) \<le> 3
    then split_on (CHR ''.'') (fst (EventMeshCleaner_CleanEventType s))
           = map (filter is_alnum) (split_on (CHR ''.'') s)
    else True)"
proof (intro conjI)
  let ?clean = "fst (EventMeshCleaner_CleanEventType s)"
  have len: "length (split_on (CHR ''.'') ?clean) = length (split_on (CHR ''.'') (getMergedSegments s))"
    by (simp add: EventMeshCleaner_CleanEventType_def Let_def length_split_filter
        invalidEventMeshTypeSegment_def)
  show "length (split_on (CHR ''.'') ?clean) = min 3 (length (split_on (CHR ''.'') s))"
  proof (cases "length (split_on (CHR ''.'') s) > 3")
    case True
    then show ?thesis using len split_merged [OF True] by simp
  next
    case False
    then show ?thesis using len by (simp add: merged_few)
  qed
  show "list_all (\<lambda>x. is_alnum x \<or> x = CHR ''.'') ?clean"
    by (auto simp: list_all_iff EventMeshCleaner_CleanEventType_def Let_def invalidEventMeshTypeSegment_def)
  show "if length (split_on (CHR ''.'') s) \<le> 3
    then split_on (CHR ''.'') ?clean = map (filter is_alnum) (split_on (CHR ''.'') s) else True"
    using split_on_filter [of "\<lambda>x. is_alnum x \<or> x = CHR ''.''" "CHR ''.''" s]
    by (auto simp: EventMeshCleaner_CleanEventType_def Let_def invalidEventMeshTypeSegment_def merged_few
        dest: split_on_pieces_free intro!: filter_cong)
qed

text \<open>
  Parsing an event type that \<^verbatim>\<open>build\<close> put together gives back the application name, the
  event and the version, provided the segments contain no dot and the prefix does not occur
  again in the rest of the event type.
\<close>

theorem parse_build:
  assumes "TrimSpace p \<noteq> []" and "CHR ''.'' \<notin> set a" and "CHR ''.'' \<notin> set obj"
    and "CHR ''.'' \<notin> set op" and "CHR ''.'' \<notin> set v"
    and "remove_all p (CHR ''.'' # a @ ''.'' @ obj @ ''.'' @ op @ ''.'' @ v)
       = CHR ''.'' # a @ ''.'' @ obj @ ''.'' @ op @ ''.'' @ v"
  shows "parse (build p a (obj @ ''.'' @ op) v) p = Ret (a, obj @ ''.'' @ op, v)"
proof -
  let ?rest = "CHR ''.'' # a @ ''.'' @ obj @ ''.'' @ op @ ''.'' @ v"
  have b: "build p a (obj @ ''.'' @ op) v = p @ ?rest"
    using assms(1) by (simp add: build_def)
  have "p \<noteq> []" using assms(1) by auto
  then have "TrimPrefix (remove_all p (p @ ?rest)) ''.'' = a @ ''.'' @ obj @ ''.'' @ op @ ''.'' @ v"
    using assms(6) by (simp add: remove_all_prefix TrimPrefix_def HasPrefix_def)
  moreover have "split_on (CHR ''.'') (a @ ''.'' @ obj @ ''.'' @ op @ ''.'' @ v) = [a, obj, op, v]"
    using assms(2-5) by (simp add: split_on_append_sep split_on_free)
  ultimately show ?thesis
    unfolding b by (simp add: parse_def Let_def)
qed

theorem parse_build_witness:
  "parse (build ''sap'' ''app'' ''order.created'' ''v1'') ''sap'' = Ret (''app'', ''order.created'', ''v1'')"
  using parse_build [of "''sap''" "''app''" "''order''" "''created''" "''v1''"]
  by (simp add: TrimSpace_def trim_left.simps trim_right.simps white_space_def HasPrefix_def
      HasSuffix_def remove_all.simps)

end
