(* ===== verification/Go_Sha256.thy ===== *)
theory Go_Sha256
  imports Go_Errors "HOL-Library.Word"
begin

section \<open>crypto/sha256 and encoding/hex\<close>

text \<open>
  \<^verbatim>\<open>sha256.Sum256\<close> on 32-bit words (FIPS 180-4) and \<^verbatim>\<open>hex.EncodeToString\<close>, which the consumer
  names of the JetStream backend and the mapped names of EventMesh are computed with. What
  the development uses of it is the length and the alphabet of the digest.
\<close>

unbundle bit_operations_syntax

text \<open>The round constants and the initial hash value, in decimal.\<close>

type_synonym w32 = "32 word"

definition sha_K :: "w32 list" where
  "sha_K =
    [1116352408, 1899447441, 3049323471, 3921009573, 961987163, 1508970993, 2453635748, 2870763221,
     3624381080, 310598401, 607225278, 1426881987, 1925078388, 2162078206, 2614888103, 3248222580,
     3835390401, 4022224774, 264347078, 604807628, 770255983, 1249150122, 1555081692, 1996064986,
     2554220882, 2821834349, 2952996808, 3210313671, 3336571891, 3584528711, 113926993, 338241895,
     666307205, 773529912, 1294757372, 1396182291, 1695183700, 1986661051, 2177026350, 2456956037,
     2730485921, 2820302411, 3259730800, 3345764771, 3516065817, 3600352804, 4094571909, 275423344,
     430227734, 506948616, 659060556, 883997877, 958139571, 1322822218, 1537002063, 1747873779,
     1955562222, 2024104815, 2227730452, 2361852424, 2428436474, 2756734187, 3204031479, 3329325298]"

definition sha_init :: "w32 list" where
  "sha_init =
    [1779033703, 3144134277, 1013904242, 2773480762, 1359893119, 2600822924, 528734635, 1541459225]"

definition sha_pad :: "string \<Rightarrow> nat list" where
  "sha_pad s =
     (let l = length s; zeros = (119 - l mod 64) mod 64 in
      map of_char s @ [128] @ replicate zeros 0
      @ map (\<lambda>i. (8 * l) div 256 ^ (7 - i) mod 256) [0..<8])"

fun words_of :: "nat list \<Rightarrow> w32 list" where
  "words_of (a # b # c # d # bs) = of_nat (((a * 256 + b) * 256 + c) * 256 + d) # words_of bs"
| "words_of bs = []"

text \<open>The message schedule: sixteen words of the block, then the recurrence for the other 48.\<close>

definition sched_next :: "w32 list \<Rightarrow> w32" where
  "sched_next ws =
     (let n = length ws; x = ws ! (n - 15); y = ws ! (n - 2);
          s0 = (word_rotr 7 x XOR word_rotr 18 x) XOR drop_bit 3 x;
          s1 = (word_rotr 17 y XOR word_rotr 19 y) XOR drop_bit 10 y
      in ws ! (n - 16) + s0 + ws ! (n - 7) + s1)"

definition schedule :: "w32 list \<Rightarrow> w32 list" where
  "schedule block = ((\<lambda>ws. ws @ [sched_next ws]) ^^ 48) block"

text \<open>One round on the eight working variables.\<close>

fun sha_round :: "w32 list \<Rightarrow> w32 \<times> w32 \<Rightarrow> w32 list" where
  "sha_round [a, b, c, d, e, f, g, h] (k, w) =
     (let s1 = (word_rotr 6 e XOR word_rotr 11 e) XOR word_rotr 25 e;
          ch = (e AND f) XOR (NOT e AND g);
          t1 = h + s1 + ch + k + w;
          s0 = (word_rotr 2 a XOR word_rotr 13 a) XOR word_rotr 22 a;
          maj = ((a AND b) XOR (a AND c)) XOR (b AND c)
      in [t1 + s0 + maj, a, b, c, d + t1, e, f, g])"
| "sha_round st kw = st"

definition sha_block :: "w32 list \<Rightarrow> w32 list \<Rightarrow> w32 list" where
  "sha_block st block = map2 (+) st (foldl sha_round st (zip sha_K (schedule block)))"

fun blocks_fuel :: "nat \<Rightarrow> w32 list \<Rightarrow> w32 list list" where
  "blocks_fuel 0 ws = []"
| "blocks_fuel (Suc n) ws = (if ws = [] then [] else take 16 ws # blocks_fuel n (drop 16 ws))"

definition sha256_words :: "string \<Rightarrow> w32 list" where
  "sha256_words s =
     (let ws = words_of (sha_pad s) in foldl sha_block sha_init (blocks_fuel (length ws) ws))"

definition hex_word :: "w32 \<Rightarrow> string" where
  "hex_word w = map (\<lambda>i. hex_digit (unat w div 16 ^ (7 - i) mod 16)) [0..<8]"

text \<open>\<^verbatim>\<open>hex.EncodeToString(sha256.Sum256([]byte(s))[:])\<close>.\<close>

definition sha256_hex :: "string \<Rightarrow> string" where
  "sha256_hex s = concat (map hex_word (sha256_words s))"

subsection \<open>Length and alphabet of the digest\<close>

lemma length_sha_round: "length st = 8 \<Longrightarrow> length (sha_round st kw) = 8"
  by (cases "(st, kw)" rule: sha_round.cases) (auto simp: Let_def)

lemma length_sha_rounds: "length st = 8 \<Longrightarrow> length (foldl sha_round st kws) = 8"
  by (induction kws arbitrary: st) (simp_all add: length_sha_round)

lemma length_sha_blocks: "length st = 8 \<Longrightarrow> length (foldl sha_block st bs) = 8"
  by (induction bs arbitrary: st) (simp_all add: sha_block_def length_sha_rounds)

lemma length_sha256_words: "length (sha256_words s) = 8"
  by (simp add: sha256_words_def Let_def length_sha_blocks sha_init_def)

lemma length_sha256_hex [simp]: "length (sha256_hex s) = 64"
proof -
  have "length (concat (map hex_word ws)) = 8 * length ws" for ws
    by (induction ws) (simp_all add: hex_word_def)
  then show ?thesis by (simp add: sha256_hex_def length_sha256_words)
qed

lemma hex_digit_alnum: "n < 16 \<Longrightarrow> is_alnum (hex_digit n)"
  by (auto simp: hex_digit_def is_alnum_def is_alpha_def is_digit_def Let_def)

lemma sha256_hex_alnum: "c \<in> set (sha256_hex s) \<Longrightarrow> is_alnum c"
  by (auto simp: sha256_hex_def hex_word_def intro!: hex_digit_alnum)

end
