(* ===== verification/K8s_Objects.thy ===== *)
theory K8s_Objects
  imports Go_Errors "HOL-Library.Finite_Map"
begin

section \<open>Kubernetes objects\<close>

text \<open>
  The Kubernetes objects that the operator creates, compares and deletes, with the fields the
  code reads or writes. A Go map of strings is a finite map, or \<open>None\<close> for the nil map, which
  \<^verbatim>\<open>reflect.DeepEqual\<close> tells apart from an empty one. Pointer fields are options, slices that
  are compared with \<^verbatim>\<open>reflect.DeepEqual\<close> may be nil.
\<close>

type_synonym gomap = "(string, string) fmap option"

definition entries :: "('k, 'v) fmap option \<Rightarrow> ('k, 'v) fmap" where
  "entries m = (case m of None \<Rightarrow> fmempty | Some f \<Rightarrow> f)"

lemma entries_simps [simp]: "entries None = fmempty" "entries (Some f) = f"
  by (simp_all add: entries_def)

text \<open>The congruence rule of the library keeps the simplifier from rewriting the filtered map.\<close>

declare fmfilter_cong [cong del]

text \<open>
  \<^verbatim>\<open>resource.Quantity\<close> by its canonical text, which \<^verbatim>\<open>String()\<close> returns, and the accessors
  \<^verbatim>\<open>ResourceList.Cpu()\<close> and \<^verbatim>\<open>Memory()\<close>, which return the zero quantity for a missing entry.
\<close>

record Quantity =
  q_text :: string

type_synonym ResourceList = "(string, Quantity) fmap option"

definition quantity_string :: "string \<Rightarrow> ResourceList \<Rightarrow> string" where
  "quantity_string k rl = (case fmlookup (entries rl) k of None \<Rightarrow> ''0'' | Some q \<Rightarrow> q_text q)"

record ResourceRequirements =
  rq_requests :: ResourceList
  rq_limits :: ResourceList

subsection \<open>Metadata\<close>

record TypeMeta =
  tm_kind :: string
  tm_apiVersion :: string

record OwnerReference =
  or_apiVersion :: string
  or_kind :: string
  or_name :: string
  or_uid :: string
  or_controller :: "bool option"
  or_blockOwnerDeletion :: "bool option"

record ObjectMeta =
  om_name :: string
  om_namespace :: string
  om_labels :: gomap
  om_annotations :: gomap
  om_ownerReferences :: "OwnerReference list"

abbreviation named_meta :: "string \<Rightarrow> string \<Rightarrow> ObjectMeta" where
  "named_meta name namespace \<equiv>
     \<lparr>om_name = name, om_namespace = namespace, om_labels = None, om_annotations = None,
      om_ownerReferences = []\<rparr>"

subsection \<open>Pods and deployments\<close>

record ContainerPort =
  cp_name :: string
  cp_containerPort :: int
  cp_protocol :: string

record EnvVar =
  ev_name :: string
  ev_value :: string
  ev_secretKeyRef :: "(string \<times> string) option"

record HTTPGetAction =
  hg_path :: string
  hg_port :: int
  hg_scheme :: string

record Probe =
  pb_httpGet :: "HTTPGetAction option"
  pb_initialDelaySeconds :: int
  pb_timeoutSeconds :: int
  pb_periodSeconds :: int
  pb_successThreshold :: int
  pb_failureThreshold :: int

record SecurityContext =
  sc_privileged :: "bool option"
  sc_allowPrivilegeEscalation :: "bool option"
  sc_runAsNonRoot :: "bool option"
  sc_dropCapabilities :: "string list"

record Container =
  c_name :: string
  c_image :: string
  c_ports :: "ContainerPort list"
  c_env :: "EnvVar list"
  c_resources :: ResourceRequirements
  c_livenessProbe :: "Probe option"
  c_readinessProbe :: "Probe option"
  c_imagePullPolicy :: string
  c_securityContext :: "SecurityContext option"

record PodSecurityContext =
  psc_fsGroup :: "int option"
  psc_runAsUser :: "int option"
  psc_runAsGroup :: "int option"
  psc_runAsNonRoot :: "bool option"
  psc_seccompProfile :: "string option"

record PodAffinityTerm =
  pa_weight :: int
  pa_matchLabels :: gomap
  pa_topologyKey :: string

record PodSpec =
  ps_containers :: "Container list"
  ps_serviceAccountName :: string
  ps_restartPolicy :: string
  ps_terminationGracePeriodSeconds :: "int option"
  ps_priorityClassName :: string
  ps_securityContext :: "PodSecurityContext option"
  ps_podAntiAffinity :: "PodAffinityTerm list option"

record PodTemplateSpec =
  pt_meta :: ObjectMeta
  pt_spec :: PodSpec

record DeploymentSpec =
  ds_replicas :: "int option"
  ds_selector :: "gomap option"
  ds_template :: PodTemplateSpec

record DeploymentStatus =
  dst_availableReplicas :: int
  dst_readyReplicas :: int
  dst_updatedReplicas :: int

record Deployment =
  dep_type :: TypeMeta
  dep_meta :: ObjectMeta
  dep_spec :: DeploymentSpec
  dep_status :: DeploymentStatus

subsection \<open>The other resources of the publisher proxy\<close>

record ServiceAccount =
  sa_type :: TypeMeta
  sa_meta :: ObjectMeta

record PolicyRule =
  pr_apiGroups :: "string list"
  pr_resources :: "string list"
  pr_verbs :: "string list"

record ClusterRole =
  cr_type :: TypeMeta
  cr_meta :: ObjectMeta
  cr_rules :: "PolicyRule slice"

record RoleRef =
  rf_kind :: string
  rf_name :: string
  rf_apiGroup :: string

record Subject =
  sj_kind :: string
  sj_name :: string
  sj_namespace :: string

record ClusterRoleBinding =
  crb_type :: TypeMeta
  crb_meta :: ObjectMeta
  crb_roleRef :: RoleRef
  crb_subjects :: "Subject slice"

record ServicePort =
  sp_name :: string
  sp_protocol :: string
  sp_port :: int
  sp_targetPort :: int

record Service =
  svc_type :: TypeMeta
  svc_meta :: ObjectMeta
  svc_selector :: gomap
  svc_ports :: "ServicePort slice"

record CrossVersionObjectReference =
  xr_kind :: string
  xr_name :: string
  xr_apiVersion :: string

record MetricSpec =
  ms_type :: string
  ms_resource :: string
  ms_targetType :: string
  ms_averageUtilization :: "int option"

record HorizontalPodAutoscaler =
  hpa_type :: TypeMeta
  hpa_meta :: ObjectMeta
  hpa_scaleTargetRef :: CrossVersionObjectReference
  hpa_minReplicas :: "int option"
  hpa_maxReplicas :: int
  hpa_metrics :: "MetricSpec slice"

record Secret =
  sec_type :: TypeMeta
  sec_meta :: ObjectMeta
  sec_data :: gomap
  sec_stringData :: gomap

text \<open>
  The APIRule of the API gateway, with the parts of it that the operator sets or reads; a host is
  a pointer to a name. The JWT configuration of a rule is the pair of its keys and its issuer.
\<close>

record APIService =
  as_name :: "string option"
  as_port :: "nat option"
  as_isExternal :: "bool option"

record APIRuleRule =
  rl_path :: string
  rl_methods :: "string list"
  rl_service :: "APIService option"
  rl_jwt :: "(string \<times> string) option"
  rl_extAuth :: bool

record APIRule =
  ar_meta :: ObjectMeta
  ar_service :: "APIService option"
  ar_rules :: "APIRuleRule slice"
  ar_gateway :: "string option"
  ar_hosts :: "string option slice"
  ar_generateName :: string
  ar_resourceVersion :: string
  ar_state :: string

text \<open>\<^verbatim>\<open>client.Object\<close>, for the objects that are applied and deleted.\<close>

datatype k8s_object =
    ODeployment Deployment
  | OServiceAccount ServiceAccount
  | OClusterRole ClusterRole
  | OClusterRoleBinding ClusterRoleBinding
  | OService Service
  | OHPA HorizontalPodAutoscaler
  | OSecret Secret

fun obj_type :: "k8s_object \<Rightarrow> TypeMeta" where
  "obj_type (ODeployment d) = dep_type d"
| "obj_type (OServiceAccount a) = sa_type a"
| "obj_type (OClusterRole r) = cr_type r"
| "obj_type (OClusterRoleBinding b) = crb_type b"
| "obj_type (OService v) = svc_type v"
| "obj_type (OHPA h) = hpa_type h"
| "obj_type (OSecret t) = sec_type t"

fun obj_meta :: "k8s_object \<Rightarrow> ObjectMeta" where
  "obj_meta (ODeployment d) = dep_meta d"
| "obj_meta (OServiceAccount a) = sa_meta a"
| "obj_meta (OClusterRole r) = cr_meta r"
| "obj_meta (OClusterRoleBinding b) = crb_meta b"
| "obj_meta (OService v) = svc_meta v"
| "obj_meta (OHPA h) = hpa_meta h"
| "obj_meta (OSecret t) = sec_meta t"

fun set_obj_meta :: "ObjectMeta \<Rightarrow> k8s_object \<Rightarrow> k8s_object" where
  "set_obj_meta m (ODeployment d) = ODeployment (d\<lparr>dep_meta := m\<rparr>)"
| "set_obj_meta m (OServiceAccount a) = OServiceAccount (a\<lparr>sa_meta := m\<rparr>)"
| "set_obj_meta m (OClusterRole r) = OClusterRole (r\<lparr>cr_meta := m\<rparr>)"
| "set_obj_meta m (OClusterRoleBinding b) = OClusterRoleBinding (b\<lparr>crb_meta := m\<rparr>)"
| "set_obj_meta m (OService v) = OService (v\<lparr>svc_meta := m\<rparr>)"
| "set_obj_meta m (OHPA h) = OHPA (h\<lparr>hpa_meta := m\<rparr>)"
| "set_obj_meta m (OSecret t) = OSecret (t\<lparr>sec_meta := m\<rparr>)"

text \<open>
  What identifies an object in the cluster: its kind, which the client derives from the Go type,
  the namespace (which is ignored for the cluster-scoped kinds) and the name.
\<close>

fun obj_key :: "k8s_object \<Rightarrow> string \<times> string \<times> string" where
  "obj_key (ODeployment d) = (''Deployment'', om_namespace (dep_meta d), om_name (dep_meta d))"
| "obj_key (OServiceAccount a) = (''ServiceAccount'', om_namespace (sa_meta a), om_name (sa_meta a))"
| "obj_key (OClusterRole r) = (''ClusterRole'', '''', om_name (cr_meta r))"
| "obj_key (OClusterRoleBinding b) = (''ClusterRoleBinding'', '''', om_name (crb_meta b))"
| "obj_key (OService v) = (''Service'', om_namespace (svc_meta v), om_name (svc_meta v))"
| "obj_key (OHPA h) = (''HorizontalPodAutoscaler'', om_namespace (hpa_meta h), om_name (hpa_meta h))"
| "obj_key (OSecret t) = (''Secret'', om_namespace (sec_meta t), om_name (sec_meta t))"

lemma obj_meta_set [simp]:
  "obj_meta (set_obj_meta m x) = m" "obj_type (set_obj_meta m x) = obj_type x"
  by (cases x; simp)+

lemma obj_key_set_meta:
  "om_name m = om_name (obj_meta x) \<Longrightarrow> om_namespace m = om_namespace (obj_meta x) \<Longrightarrow>
   obj_key (set_obj_meta m x) = obj_key x"
  by (cases x; simp)

end
