(* ===== verification/Object_Equality.thy ===== *)
theory Object_Equality
  imports K8s_Objects
begin

section \<open>Semantic equality of Kubernetes objects (pkg/object/equality.go)\<close>

text \<open>
  The comparisons behind \<^verbatim>\<open>object.Semantic.DeepEqual\<close>, with which the operator decides whether a
  publisher deployment has to be applied again and whether a watch event triggers a
  reconciliation. A pointer argument is an option. The comparison of the pointers themselves
  (\<^verbatim>\<open>a == b\<close>) is modelled by the comparison of what they point to: each function accepts equal
  objects anyway, which the lemmas \<open>..._refl\<close> show; the exceptions are \<^verbatim>\<open>hpaEqual\<close> and
  \<^verbatim>\<open>apiRuleEqual\<close>, which may panic and take the comparison of the pointers as an argument.
  \<^verbatim>\<open>podSpecEqual\<close>, \<^verbatim>\<open>containerEqual\<close> and \<^verbatim>\<open>handlerEqual\<close> get the addresses of variables, fields and
  slice elements, which are never nil.
\<close>

definition realProto :: "string \<Rightarrow> string" where
  "realProto pr = (if pr = '''' then ''TCP'' else pr)"

definition mapDeepEqual :: "gomap \<Rightarrow> gomap \<Rightarrow> bool" where
  "mapDeepEqual m1 m2 \<longleftrightarrow> (entries m1 = fmempty \<and> entries m2 = fmempty) \<or> m1 = m2"

definition ownerReferencesDeepEqual :: "OwnerReference list \<Rightarrow> OwnerReference list \<Rightarrow> bool" where
  "ownerReferencesDeepEqual ors1 ors2 \<longleftrightarrow>
     (if length ors1 \<noteq> length ors2 then False
      else list_all (\<lambda>or1. list_ex (\<lambda>or2. or1 = or2) ors2) ors1)"

definition serviceAccountEqual :: "ServiceAccount option \<Rightarrow> ServiceAccount option \<Rightarrow> bool" where
  "serviceAccountEqual a b \<longleftrightarrow>
     (if a = b then True
      else case (a, b) of
        (Some a, Some b) \<Rightarrow>
          if om_name (sa_meta a) \<noteq> om_name (sa_meta b) \<or> om_namespace (sa_meta a) \<noteq> om_namespace (sa_meta b)
          then False
          else if \<not> mapDeepEqual (om_labels (sa_meta a)) (om_labels (sa_meta b)) then False
          else ownerReferencesDeepEqual (om_ownerReferences (sa_meta a)) (om_ownerReferences (sa_meta b))
      | _ \<Rightarrow> False)"

definition clusterRoleEqual :: "ClusterRole option \<Rightarrow> ClusterRole option \<Rightarrow> bool" where
  "clusterRoleEqual a b \<longleftrightarrow>
     (if a = b then True
      else case (a, b) of
        (Some a, Some b) \<Rightarrow>
          if om_name (cr_meta a) \<noteq> om_name (cr_meta b) then False
          else if \<not> mapDeepEqual (om_labels (cr_meta a)) (om_labels (cr_meta b)) then False
          else if \<not> ownerReferencesDeepEqual (om_ownerReferences (cr_meta a)) (om_ownerReferences (cr_meta b))
          then False
          else cr_rules a = cr_rules b
      | _ \<Rightarrow> False)"

definition serviceEqual :: "Service option \<Rightarrow> Service option \<Rightarrow> bool" where
  "serviceEqual a b \<longleftrightarrow>
     (if a = b then True
      else case (a, b) of
        (Some a, Some b) \<Rightarrow>
          if \<not> ownerReferencesDeepEqual (om_ownerReferences (svc_meta a)) (om_ownerReferences (svc_meta b))
          then False
          else if om_name (svc_meta a) \<noteq> om_name (svc_meta b) \<or> om_namespace (svc_meta a) \<noteq> om_namespace (svc_meta b)
          then False
          else if svc_selector a \<noteq> svc_selector b then False
          else svc_ports a = svc_ports b
      | _ \<Rightarrow> False)"

definition nil_pointer :: string where
  "nil_pointer = ''invalid memory address or nil pointer dereference''"

definition hpaEqual ::
  "bool \<Rightarrow> HorizontalPodAutoscaler option \<Rightarrow> HorizontalPodAutoscaler option \<Rightarrow> bool result" where
  "hpaEqual same a b =
     (if same \<or> (a = None \<and> b = None) then Ret True
      else case (a, b) of
        (Some a, Some b) \<Rightarrow>
          if om_name (hpa_meta a) \<noteq> om_name (hpa_meta b) \<or> om_namespace (hpa_meta a) \<noteq> om_namespace (hpa_meta b)
          then Ret False
          else if \<not> ownerReferencesDeepEqual (om_ownerReferences (hpa_meta a)) (om_ownerReferences (hpa_meta b))
          then Ret False
          else if hpa_scaleTargetRef a \<noteq> hpa_scaleTargetRef b then Ret False
          else (case (hpa_minReplicas a, hpa_minReplicas b) of
                  (Some m, Some n) \<Rightarrow>
                    if m \<noteq> n then Ret False
                    else if hpa_maxReplicas a \<noteq> hpa_maxReplicas b then Ret False
                    else Ret (hpa_metrics a = hpa_metrics b)
                | _ \<Rightarrow> Crash nil_pointer)
      | _ \<Rightarrow> Ret False)"

definition clusterRoleBindingEqual ::
  "ClusterRoleBinding option \<Rightarrow> ClusterRoleBinding option \<Rightarrow> bool" where
  "clusterRoleBindingEqual a b \<longleftrightarrow>
     (if a = b then True
      else case (a, b) of
        (Some a, Some b) \<Rightarrow>
          if om_name (crb_meta a) \<noteq> om_name (crb_meta b) then False
          else if \<not> ownerReferencesDeepEqual (om_ownerReferences (crb_meta a)) (om_ownerReferences (crb_meta b))
          then False
          else if crb_roleRef a \<noteq> crb_roleRef b then False
          else crb_subjects a = crb_subjects b
      | _ \<Rightarrow> False)"

definition apiRuleEqual :: "bool \<Rightarrow> APIRule option \<Rightarrow> APIRule option \<Rightarrow> bool result" where
  "apiRuleEqual same rule1 rule2 =
     (if same \<or> (rule1 = None \<and> rule2 = None) then Ret True
      else case (rule1, rule2) of
        (Some rule1, Some rule2) \<Rightarrow>
          if om_labels (ar_meta rule1) \<noteq> om_labels (ar_meta rule2) then Ret False
          else if \<not> ownerReferencesDeepEqual (om_ownerReferences (ar_meta rule1))
                     (om_ownerReferences (ar_meta rule2))
          then Ret False
          else (case (ar_service rule1, ar_service rule2) of
                  (Some s1, Some s2) \<Rightarrow>
                    if as_name s1 \<noteq> as_name s2 then Ret False
                    else if as_isExternal s1 \<noteq> as_isExternal s2 then Ret False
                    else if as_port s1 \<noteq> as_port s2 then Ret False
                    else if ar_rules rule1 \<noteq> ar_rules rule2 then Ret False
                    else Ret (ar_gateway rule1 = ar_gateway rule2)
                | _ \<Rightarrow> Crash nil_pointer)
      | _ \<Rightarrow> Ret False)"

definition handlerEqual :: "HTTPGetAction option \<Rightarrow> HTTPGetAction option \<Rightarrow> bool" where
  "handlerEqual hg1 hg2 \<longleftrightarrow>
     (case hg1 of
        None \<Rightarrow> hg2 = None
      | Some h1 \<Rightarrow> (case hg2 of None \<Rightarrow> False | Some h2 \<Rightarrow> hg_path h1 = hg_path h2))"

definition probeEqual :: "Probe option \<Rightarrow> Probe option \<Rightarrow> bool" where
  "probeEqual a b \<longleftrightarrow>
     (if a = b then True
      else case (a, b) of
        (Some a, Some b) \<Rightarrow>
          let differ = (\<lambda>f. f a \<noteq> f b \<and> f a \<noteq> 0 \<and> f b \<noteq> (0 :: int)) in
          if pb_initialDelaySeconds a \<noteq> pb_initialDelaySeconds b \<or> differ pb_timeoutSeconds \<or>
             differ pb_periodSeconds \<or> differ pb_successThreshold \<or> differ pb_failureThreshold
          then False
          else handlerEqual (pb_httpGet a) (pb_httpGet b)
      | _ \<Rightarrow> False)"

text \<open>The loop of \<^verbatim>\<open>envEqual\<close> leaves with the last value of \<^verbatim>\<open>isFound\<close>.\<close>

fun envEqual_loop :: "bool \<Rightarrow> EnvVar list \<Rightarrow> EnvVar list \<Rightarrow> bool" where
  "envEqual_loop isFound [] b \<longleftrightarrow> isFound"
| "envEqual_loop isFound (ev1 # a) b \<longleftrightarrow>
     (let isFound' = list_ex (\<lambda>ev2. ev1 = ev2) b in if \<not> isFound' then isFound' else envEqual_loop isFound' a b)"

definition envEqual :: "EnvVar list \<Rightarrow> EnvVar list \<Rightarrow> bool" where
  "envEqual a b \<longleftrightarrow>
     (if length a \<noteq> length b then False else if length a = 0 then True else envEqual_loop False a b)"

definition portEqual :: "ContainerPort \<Rightarrow> ContainerPort \<Rightarrow> bool" where
  "portEqual p1 p2 \<longleftrightarrow>
     cp_name p1 = cp_name p2 \<and> cp_containerPort p1 = cp_containerPort p2 \<and>
     realProto (cp_protocol p1) = realProto (cp_protocol p2)"

definition containerEqual :: "Container \<Rightarrow> Container \<Rightarrow> bool" where
  "containerEqual a b \<longleftrightarrow>
     (if c_image a \<noteq> c_image b then False
      else if length (c_ports a) \<noteq> length (c_ports b) then False
      else if \<not> list_all (\<lambda>p1. list_ex (portEqual p1) (c_ports b)) (c_ports a) then False
      else if \<not> envEqual (c_env a) (c_env b) then False
      else if c_resources a \<noteq> c_resources b then False
      else probeEqual (c_readinessProbe a) (c_readinessProbe b))"

fun containers_equal :: "Container list \<Rightarrow> Container list \<Rightarrow> bool" where
  "containers_equal (c1 # cs1) (c2 # cs2) \<longleftrightarrow> containerEqual c1 c2 \<and> containers_equal cs1 cs2"
| "containers_equal cs1 cs2 \<longleftrightarrow> True"

definition podSpecEqual :: "PodSpec \<Rightarrow> PodSpec \<Rightarrow> bool" where
  "podSpecEqual ps1 ps2 \<longleftrightarrow>
     (if length (ps_containers ps1) \<noteq> length (ps_containers ps2) then False
      else if \<not> containers_equal (ps_containers ps1) (ps_containers ps2) then False
      else ps_serviceAccountName ps1 = ps_serviceAccountName ps2)"

definition publisherProxyDeploymentEqual :: "Deployment option \<Rightarrow> Deployment option \<Rightarrow> bool" where
  "publisherProxyDeploymentEqual a b \<longleftrightarrow>
     (case (a, b) of
        (Some a, Some b) \<Rightarrow>
          let cst1 = ds_template (dep_spec a); cst2 = ds_template (dep_spec b) in
          if om_labels (dep_meta a) \<noteq> om_labels (dep_meta b) then False
          else if \<not> mapDeepEqual (om_annotations (pt_meta cst1)) (om_annotations (pt_meta cst2)) then False
          else if \<not> mapDeepEqual (om_labels (pt_meta cst1)) (om_labels (pt_meta cst2)) then False
          else podSpecEqual (pt_spec cst1) (pt_spec cst2)
      | _ \<Rightarrow> False)"

subsection \<open>Equal objects are accepted\<close>

lemma mapDeepEqual_refl [simp]: "mapDeepEqual m m"
  by (simp add: mapDeepEqual_def)

lemma ownerReferencesDeepEqual_refl [simp]: "ownerReferencesDeepEqual xs xs"
  by (auto simp: ownerReferencesDeepEqual_def list_all_iff list_ex_iff)

lemma handlerEqual_refl [simp]: "handlerEqual h h"
  by (simp add: handlerEqual_def split: option.split)

lemma probeEqual_refl [simp]: "probeEqual p p"
  by (simp add: probeEqual_def)

lemma envEqual_loop_iff:
  "envEqual_loop f a b \<longleftrightarrow> (if a = [] then f else set a \<subseteq> set b)"
  by (induction f a b rule: envEqual_loop.induct) (auto simp: Let_def list_ex_iff)

lemma envEqual_iff: "envEqual a b \<longleftrightarrow> length a = length b \<and> set a \<subseteq> set b"
  by (auto simp: envEqual_def envEqual_loop_iff)

lemma envEqual_refl [simp]: "envEqual a a"
  by (simp add: envEqual_iff)

lemma portEqual_refl [simp]: "portEqual p p"
  by (simp add: portEqual_def)

lemma containerEqual_refl [simp]: "containerEqual c c"
  by (simp add: containerEqual_def list_all_iff list_ex_iff) (metis portEqual_refl)

lemma containers_equal_refl [simp]: "containers_equal cs cs"
  by (induction cs) auto

lemma podSpecEqual_refl [simp]: "podSpecEqual ps ps"
  by (simp add: podSpecEqual_def)

lemma publisherProxyDeploymentEqual_refl [simp]: "publisherProxyDeploymentEqual (Some d) (Some d)"
  by (simp add: publisherProxyDeploymentEqual_def Let_def)

lemma ownerReferencesDeepEqual_iff:
  "ownerReferencesDeepEqual a b \<longleftrightarrow> length a = length b \<and> set a \<subseteq> set b"
  by (auto simp: ownerReferencesDeepEqual_def list_all_iff list_ex_iff)

subsection \<open>What accepted objects agree on\<close>

lemma containers_equal_nth:
  "containers_equal cs ds \<Longrightarrow> i < length cs \<Longrightarrow> i < length ds \<Longrightarrow> containerEqual (cs ! i) (ds ! i)"
  by (induction cs ds arbitrary: i rule: containers_equal.induct)
     (auto simp: nth_Cons split: nat.splits)

text \<open>Two environments of equal length, the first without repeated entries.\<close>

lemma envEqual_distinct: "envEqual a b \<Longrightarrow> distinct a \<Longrightarrow> set a = set b \<and> distinct b"
  using same_length_subset_keys [of b a] by (auto simp: envEqual_iff)

lemma ownerReferencesDeepEqual_distinct:
  "ownerReferencesDeepEqual a b \<Longrightarrow> distinct a \<Longrightarrow> set a = set b \<and> distinct b"
  using same_length_subset_keys [of b a] by (auto simp: ownerReferencesDeepEqual_iff)

lemma containerEqual_agrees:
  assumes "containerEqual a b" and "distinct (c_env a)"
  shows "c_image a = c_image b \<and> c_resources a = c_resources b \<and> set (c_env a) = set (c_env b)"
  using assms envEqual_distinct by (auto simp: containerEqual_def split: if_splits)

text \<open>
  If the comparison accepts the deployment found in the cluster against the desired one, and
  no container found there repeats an environment variable, then the two agree on the labels of
  the deployment, the service account, and for every container on the image, the resources and
  the set of environment variables: skipping the update loses none of these.
\<close>

theorem publisherProxyDeploymentEqual_sound:
  assumes "publisherProxyDeploymentEqual (Some current) (Some desired)"
    and "\<And>c. c \<in> set (ps_containers (pt_spec (ds_template (dep_spec current)))) \<Longrightarrow> distinct (c_env c)"
  shows "om_labels (dep_meta current) = om_labels (dep_meta desired) \<and>
    ps_serviceAccountName (pt_spec (ds_template (dep_spec current)))
      = ps_serviceAccountName (pt_spec (ds_template (dep_spec desired))) \<and>
    list_all2 (\<lambda>c d. c_image c = c_image d \<and> c_resources c = c_resources d \<and> set (c_env c) = set (c_env d))
      (ps_containers (pt_spec (ds_template (dep_spec current))))
      (ps_containers (pt_spec (ds_template (dep_spec desired))))"
proof -
  let ?cs = "ps_containers (pt_spec (ds_template (dep_spec current)))"
  let ?ds = "ps_containers (pt_spec (ds_template (dep_spec desired)))"
  have eq: "length ?cs = length ?ds" "containers_equal ?cs ?ds"
    using assms(1) by (auto simp: publisherProxyDeploymentEqual_def podSpecEqual_def Let_def split: if_splits)
  have "containerEqual (?cs ! i) (?ds ! i)" if "i < length ?cs" for i
    using containers_equal_nth [OF eq(2)] eq(1) that by simp
  then have "list_all2 (\<lambda>c d. c_image c = c_image d \<and> c_resources c = c_resources d \<and> set (c_env c) = set (c_env d))
      ?cs ?ds"
    using eq(1) containerEqual_agrees assms(2) by (simp add: list_all2_conv_all_nth)
  then show ?thesis
    using assms(1) by (auto simp: publisherProxyDeploymentEqual_def podSpecEqual_def Let_def split: if_splits)
qed

definition example_container :: Container where
  "example_container =
     \<lparr>c_name = ''proxy'', c_image = ''image:1'',
      c_ports = [\<lparr>cp_name = ''http'', cp_containerPort = 8080, cp_protocol = ''''\<rparr>],
      c_env = [\<lparr>ev_name = ''BACKEND'', ev_value = ''nats'', ev_secretKeyRef = None\<rparr>,
               \<lparr>ev_name = ''PORT'', ev_value = ''8080'', ev_secretKeyRef = None\<rparr>],
      c_resources = \<lparr>rq_requests = None, rq_limits = None\<rparr>, c_livenessProbe = None,
      c_readinessProbe = None, c_imagePullPolicy = ''Always'', c_securityContext = None\<rparr>"

text \<open>The same container as an API server returns it: the protocol filled in, the variables in another order.\<close>

definition example_served :: Container where
  "example_served =
     example_container\<lparr>c_ports := [\<lparr>cp_name = ''http'', cp_containerPort = 8080, cp_protocol = ''TCP''\<rparr>],
       c_env := rev (c_env example_container)\<rparr>"

definition example_deployment :: "Container \<Rightarrow> Deployment" where
  "example_deployment c =
     \<lparr>dep_type = \<lparr>tm_kind = ''Deployment'', tm_apiVersion = ''apps/v1''\<rparr>,
      dep_meta = named_meta ''proxy'' ''kyma-system'',
      dep_spec = \<lparr>ds_replicas = Some 2, ds_selector = None, ds_template =
        \<lparr>pt_meta = named_meta ''proxy'' '''', pt_spec =
          \<lparr>ps_containers = [c], ps_serviceAccountName = ''proxy'', ps_restartPolicy = ''Always'',
           ps_terminationGracePeriodSeconds = None, ps_priorityClassName = '''',
           ps_securityContext = None, ps_podAntiAffinity = None\<rparr>\<rparr>\<rparr>,
      dep_status = \<lparr>dst_availableReplicas = 2, dst_readyReplicas = 2, dst_updatedReplicas = 2\<rparr>\<rparr>"

lemma example_served_equal:
  "publisherProxyDeploymentEqual (Some (example_deployment example_served))
     (Some (example_deployment example_container))"
  by (simp add: publisherProxyDeploymentEqual_def example_deployment_def podSpecEqual_def containerEqual_def
      example_served_def example_container_def portEqual_def realProto_def envEqual_iff Let_def)

theorem publisherProxyDeploymentEqual_sound_witness:
  "set (c_env example_served) = set (c_env example_container) \<and> c_env example_served \<noteq> c_env example_container"
  using publisherProxyDeploymentEqual_sound [OF example_served_equal]
  by (simp add: example_deployment_def example_served_def example_container_def)

text \<open>
  Without that condition the comparison is neither symmetric nor sound: a repeated variable in
  the first list hides that one of the second is missing.
\<close>

abbreviation env_named :: "string \<Rightarrow> EnvVar" where
  "env_named n \<equiv> \<lparr>ev_name = n, ev_value = '''', ev_secretKeyRef = None\<rparr>"

lemma envEqual_not_symmetric:
  "envEqual [env_named ''A'', env_named ''A''] [env_named ''A'', env_named ''B''] \<and>
   \<not> envEqual [env_named ''A'', env_named ''B''] [env_named ''A'', env_named ''A'']"
  by (simp add: envEqual_iff)

text \<open>Two autoscalers without \<^verbatim>\<open>minReplicas\<close>, which the API allows, make the comparison panic.\<close>

lemma hpaEqual_panics:
  assumes "hpa_minReplicas h = None"
  shows "hpaEqual False (Some h) (Some h) = Crash nil_pointer"
  using assms by (simp add: hpaEqual_def)

end
