(* ===== verification/Eventmesh_Utils.thy ===== *)
theory Eventmesh_Utils
  imports Validation Cleaners Go_Sha256 Object_Equality
begin

section \<open>EventMesh subscriptions and names (pkg/backend/utils, pkg/ems/api/events/types)\<close>

text \<open>
  The subscription as EventMesh knows it, its derivation from a Subscription resource, the name
  it gets, and the hashes by which changes are detected. \<^verbatim>\<open>hashstructure.Hash\<close> is the record
  \<open>hash_lib\<close>; the feature flag for the webhook authentication, a package variable, is an argument.
\<close>

record EMEvent =
  ev_source :: string
  ev_type :: string

record WebhookAuth =
  wa_type :: string
  wa_grantType :: string
  wa_clientID :: string
  wa_clientSecret :: string
  wa_tokenURL :: string

text \<open>\<^verbatim>\<open>types.Subscription\<close>; its events are nil exactly when they are empty after cleaning.\<close>

record EMSubscription =
  em_name :: string
  em_events :: "EMEvent slice"
  em_webhookURL :: string
  em_webhookAuth :: "WebhookAuth option"
  em_qos :: string
  em_exemptHandshake :: bool
  em_contentMode :: string
  em_handshakeStatus :: string
  em_subscriptionStatus :: string
  em_subscriptionStatusReason :: string
  em_lastSuccessfulDelivery :: string
  em_lastFailedDelivery :: string
  em_lastFailedDeliveryReason :: string

definition empty_EMSubscription :: EMSubscription where
  "empty_EMSubscription =
     \<lparr>em_name = '''', em_events = None, em_webhookURL = '''', em_webhookAuth = None, em_qos = '''',
      em_exemptHandshake = False, em_contentMode = '''', em_handshakeStatus = '''', em_subscriptionStatus = '''',
      em_subscriptionStatusReason = '''', em_lastSuccessfulDelivery = '''', em_lastFailedDelivery = '''',
      em_lastFailedDeliveryReason = ''''\<rparr>"

abbreviation SubscriptionStatusActive :: string where "SubscriptionStatusActive \<equiv> ''Active''"
abbreviation SubscriptionStatusPaused :: string where "SubscriptionStatusPaused \<equiv> ''Paused''"

record ProtocolSettings =
  ps_contentMode :: "string option"
  ps_exemptHandshake :: "bool option"
  ps_qos :: "string option"

record EventTypeInfo =
  ti_originalType :: string
  ti_cleanType :: string
  ti_processedType :: string

definition GetAuthType :: "string \<Rightarrow> string" where "GetAuthType authType = AuthTypeClientCredentials"
definition GetGrantType :: "string \<Rightarrow> string" where "GetGrantType grantType = GrantTypeClientCredentials"

subsection \<open>Names\<close>

record eventMeshSubscriptionNameMapper =
  nm_domainName :: string
  nm_maxLength :: nat

definition NewBEBSubscriptionNameMapper :: "string \<Rightarrow> nat \<Rightarrow> eventMeshSubscriptionNameMapper" where
  "NewBEBSubscriptionNameMapper domainName maxNameLength =
     \<lparr>nm_domainName = domainName, nm_maxLength = maxNameLength\<rparr>"

definition hashSubscriptionFullName :: "string \<Rightarrow> string \<Rightarrow> string \<Rightarrow> string" where
  "hashSubscriptionFullName domainName namespace name = take 40 (sha256_hex (domainName @ namespace @ name))"

definition shortenNameAndAppendHash :: "string \<Rightarrow> string \<Rightarrow> nat \<Rightarrow> string result" where
  "shortenNameAndAppendHash name hash maxLength =
     (if length hash > maxLength
      then Crash (''max name length ('' @ Itoa (int maxLength) @ '') used for EventMesh subscription mapper'' @
             '' is not large enough to hold the hash ('' @ hash @ '')'')
      else
        let maxNameLen = maxLength - length hash in
        if maxNameLen = 0 then Ret hash
        else Ret ((if length name > maxNameLen then take maxNameLen name else name) @ hash))"

definition MapSubscriptionName :: "eventMeshSubscriptionNameMapper \<Rightarrow> string \<Rightarrow> string \<Rightarrow> string result" where
  "MapSubscriptionName m subscriptionName subscriptionNamespace =
     shortenNameAndAppendHash subscriptionName
       (hashSubscriptionFullName (nm_domainName m) subscriptionNamespace subscriptionName) (nm_maxLength m)"

subsection \<open>Hashes\<close>

record hash_lib =
  hl_subscription :: "EMSubscription \<Rightarrow> goerr + nat"
  hl_webhookAuth :: "WebhookAuth option \<Rightarrow> goerr + nat"

definition GetHash :: "hash_lib \<Rightarrow> EMSubscription \<Rightarrow> int result" where
  "GetHash lib subscription =
     (case hl_subscription lib subscription of Inl err \<Rightarrow> Err err | Inr hash \<Rightarrow> Ret (int64 hash))"

definition GetWebhookAuthHash :: "hash_lib \<Rightarrow> WebhookAuth option \<Rightarrow> int result" where
  "GetWebhookAuthHash lib webhookAuth =
     (case hl_webhookAuth lib webhookAuth of Inl err \<Rightarrow> Err err | Inr hash \<Rightarrow> Ret (int64 hash))"

definition GetCleanedEventMeshSubscription :: "EMSubscription \<Rightarrow> EMSubscription" where
  "GetCleanedEventMeshSubscription s =
     empty_EMSubscription\<lparr>em_name := em_name s, em_contentMode := em_contentMode s,
       em_exemptHandshake := em_exemptHandshake s, em_qos := em_qos s, em_webhookURL := em_webhookURL s,
       em_events := appended (map (\<lambda>e. \<lparr>ev_source = ev_source e, ev_type = ev_type e\<rparr>) (items (em_events s)))\<rparr>"

definition IsEventMeshSubModified :: "hash_lib \<Rightarrow> bool \<Rightarrow> EMSubscription \<Rightarrow> int \<Rightarrow> bool result" where
  "IsEventMeshSubModified lib webhookAuthEnabled subscription hash =
     (case GetHash lib (if webhookAuthEnabled then GetCleanedEventMeshSubscription subscription else subscription) of
        Ret newHash \<Rightarrow> Ret (newHash \<noteq> hash) | Err err \<Rightarrow> Err err | Crash p \<Rightarrow> Crash p)"

subsection \<open>The EventMesh subscription of a Subscription resource\<close>

definition getDefaultSubscriptionV1Alpha2 :: "ProtocolSettings option \<Rightarrow> EMSubscription result" where
  "getDefaultSubscriptionV1Alpha2 protocolSettings =
     (case protocolSettings of
        Some p \<Rightarrow>
          (case (ps_contentMode p, ps_exemptHandshake p, ps_qos p) of
             (Some cm, Some eh, Some q) \<Rightarrow>
               Ret (empty_EMSubscription\<lparr>em_contentMode := cm, em_exemptHandshake := eh, em_qos := GetQos q\<rparr>)
           | _ \<Rightarrow> Crash nil_pointer)
      | None \<Rightarrow> Crash nil_pointer)"

definition setEventMeshProtocolSettings :: "Subscription \<Rightarrow> EMSubscription \<Rightarrow> EMSubscription" where
  "setEventMeshProtocolSettings subscription s =
     (let cfg = spec_config (sub_spec subscription);
          s1 = (case cfg ProtocolSettingsQos of Some q \<Rightarrow> s\<lparr>em_qos := GetQos q\<rparr> | None \<Rightarrow> s);
          s2 = (case cfg ProtocolSettingsContentMode of
                  Some m \<Rightarrow> if m \<noteq> '''' then s1\<lparr>em_contentMode := m\<rparr> else s1 | None \<Rightarrow> s1)
      in case cfg ProtocolSettingsExemptHandshake of
           Some h \<Rightarrow> s2\<lparr>em_exemptHandshake := (case ParseBool h of Some b \<Rightarrow> b | None \<Rightarrow> True)\<rparr>
         | None \<Rightarrow> s2)"

definition getEventMeshEvents :: "EventTypeInfo list \<Rightarrow> string \<Rightarrow> string \<Rightarrow> string \<Rightarrow> EMEvent list" where
  "getEventMeshEvents typeInfos typeMatching defaultNamespace source =
     (let ns = (if typeMatching = TypeMatchingExact \<and> source \<noteq> '''' then source else defaultNamespace) in
      map (\<lambda>i. \<lparr>ev_source = ns,
                ev_type = (if typeMatching = TypeMatchingExact then ti_originalType i else ti_processedType i)\<rparr>)
        typeInfos)"

definition or_empty :: "string option \<Rightarrow> string" where
  "or_empty x = (case x of None \<Rightarrow> '''' | Some v \<Rightarrow> v)"

definition getEventMeshWebhookAuth :: "Subscription \<Rightarrow> WebhookAuth option \<Rightarrow> WebhookAuth option" where
  "getEventMeshWebhookAuth subscription defaultWebhookAuth =
     (let cfg = spec_config (sub_spec subscription) in
      case cfg WebhookAuthType of
        None \<Rightarrow> defaultWebhookAuth
      | Some authType \<Rightarrow> Some
          \<lparr>wa_type = GetAuthType authType,
           wa_grantType = (case cfg WebhookAuthGrantType of Some g \<Rightarrow> GetGrantType g | None \<Rightarrow> ''''),
           wa_clientID = or_empty (cfg WebhookAuthClientID), wa_clientSecret = or_empty (cfg WebhookAuthClientSecret),
           wa_tokenURL = or_empty (cfg WebhookAuthTokenURL)\<rparr>)"

text \<open>The first host of an APIRule, and the path of a sink.\<close>

definition first_host :: "APIRule \<Rightarrow> string" where
  "first_host rule = (case items (ar_hosts rule) of Some h # _ \<Rightarrow> h | _ \<Rightarrow> '''')"

definition sink_path :: "URL \<Rightarrow> string" where
  "sink_path u = (if u_path u = '''' then ''/'' else u_path u)"

definition GetExposedURLFromAPIRule :: "APIRule \<Rightarrow> string \<Rightarrow> string result" where
  "GetExposedURLFromAPIRule apiRule targetURL =
     (case ParseRequestURI targetURL of
        Err err \<Rightarrow> Err err
      | Crash p \<Rightarrow> Crash p
      | Ret sURL \<Rightarrow>
          let path = (case find (\<lambda>r. rl_path r = sink_path sURL) (items (ar_rules apiRule)) of
                        Some r \<Rightarrow> rl_path r | None \<Rightarrow> '''')
          in Ret (''https://'' @ first_host apiRule @ path))"

definition ConvertKymaSubToEventMeshSub ::
  "Subscription \<Rightarrow> EventTypeInfo list \<Rightarrow> APIRule \<Rightarrow> WebhookAuth option \<Rightarrow> ProtocolSettings option \<Rightarrow> string \<Rightarrow>
   eventMeshSubscriptionNameMapper \<Rightarrow> EMSubscription result" where
  "ConvertKymaSubToEventMeshSub subscription typeInfos apiRule defaultWebhookAuth defaultProtocolSettings
     defaultNamespace nameMapper =
     (case getDefaultSubscriptionV1Alpha2 defaultProtocolSettings of
        Err err \<Rightarrow> Err err | Crash p \<Rightarrow> Crash p
      | Ret s0 \<Rightarrow>
          (case MapSubscriptionName nameMapper (sub_name subscription) (sub_namespace subscription) of
             Err err \<Rightarrow> Err err | Crash p \<Rightarrow> Crash p
           | Ret name \<Rightarrow>
               (case GetExposedURLFromAPIRule apiRule (spec_sink (sub_spec subscription)) of
                  Err err \<Rightarrow> Err (wrap_text ''get APIRule exposed URL failed: '' err) | Crash p \<Rightarrow> Crash p
                | Ret url \<Rightarrow> Ret ((setEventMeshProtocolSettings subscription (s0\<lparr>em_name := name\<rparr>))
                    \<lparr>em_events := Some (getEventMeshEvents typeInfos (spec_typeMatching (sub_spec subscription))
                       defaultNamespace (spec_source (sub_spec subscription))),
                     em_webhookURL := url,
                     em_webhookAuth := getEventMeshWebhookAuth subscription defaultWebhookAuth\<rparr>))))"

subsection \<open>Lemmas\<close>

lemma length_hash [simp]: "length (hashSubscriptionFullName d ns n) = 40"
  by (simp add: hashSubscriptionFullName_def)

lemma MapSubscriptionName_Ret:
  assumes "40 < nm_maxLength m"
  shows "MapSubscriptionName m n ns =
    Ret (take (nm_maxLength m - 40) n @ hashSubscriptionFullName (nm_domainName m) ns n)"
  using assms by (simp add: MapSubscriptionName_def shortenNameAndAppendHash_def Let_def)

text \<open>
  The name of a Subscription on EventMesh is its name, shortened, followed by forty hexadecimal
  digits: it never exceeds the maximal length of the mapper, and mapping never panics, if that
  length leaves room for the digits.
\<close>

theorem MapSubscriptionName_bounded:
  assumes "40 \<le> nm_maxLength m"
  shows "\<exists>x. MapSubscriptionName m n ns = Ret x \<and> length x \<le> nm_maxLength m \<and>
    drop (length x - 40) x = hashSubscriptionFullName (nm_domainName m) ns n \<and>
    take (length x - 40) x = take (nm_maxLength m - 40) n"
proof (cases "nm_maxLength m = 40")
  case True
  then show ?thesis by (simp add: MapSubscriptionName_def shortenNameAndAppendHash_def)
next
  case False
  with assms have "40 < nm_maxLength m" by simp
  from MapSubscriptionName_Ret [OF this, of n ns] this show ?thesis by (auto simp: min_def)
qed

theorem MapSubscriptionName_bounded_witness:
  "\<exists>x. MapSubscriptionName (NewBEBSubscriptionNameMapper ''kyma.io'' 50) ''orders'' ''default'' = Ret x \<and> length x \<le> 50"
proof -
  have "40 \<le> nm_maxLength (NewBEBSubscriptionNameMapper ''kyma.io'' 50)"
    by (simp add: NewBEBSubscriptionNameMapper_def)
  from MapSubscriptionName_bounded [OF this, of "''orders''" "''default''"]
  show ?thesis by (auto simp: NewBEBSubscriptionNameMapper_def)
qed

text \<open>
  The hash is taken over the domain, the namespace and the name without separators, and only
  the first characters of the name precede it: two Subscriptions whose namespaces and names
  concatenate to the same text and whose names agree in these characters get the same name on
  EventMesh.
\<close>

theorem MapSubscriptionName_collision:
  assumes "40 < nm_maxLength m" and "ns1 @ n1 = ns2 @ n2"
    and "take (nm_maxLength m - 40) n1 = take (nm_maxLength m - 40) n2"
  shows "MapSubscriptionName m n1 ns1 = MapSubscriptionName m n2 ns2"
  using MapSubscriptionName_Ret [OF assms(1)] assms(2,3) by (simp add: hashSubscriptionFullName_def)

theorem MapSubscriptionName_collision_witness:
  "MapSubscriptionName (NewBEBSubscriptionNameMapper ''kyma.io'' 50) ''aaaaaaaaaaa'' ''team'' =
   MapSubscriptionName (NewBEBSubscriptionNameMapper ''kyma.io'' 50) ''aaaaaaaaaa'' ''teama''"
  by (rule MapSubscriptionName_collision) (simp_all add: NewBEBSubscriptionNameMapper_def)

lemma cleaned_idem [simp]:
  "GetCleanedEventMeshSubscription (GetCleanedEventMeshSubscription s) = GetCleanedEventMeshSubscription s"
  by (simp add: GetCleanedEventMeshSubscription_def empty_EMSubscription_def)

lemma cleaned_name [simp]: "em_name (GetCleanedEventMeshSubscription s) = em_name s"
  by (simp add: GetCleanedEventMeshSubscription_def empty_EMSubscription_def)

lemma em_name_settings [simp]: "em_name (setEventMeshProtocolSettings sub s) = em_name s"
  by (simp add: setEventMeshProtocolSettings_def Let_def split: option.split)

lemma ConvertKymaSubToEventMeshSub_Ret:
  assumes "ConvertKymaSubToEventMeshSub sub infos rule auth ps ns m = Ret s"
  shows "MapSubscriptionName m (sub_name sub) (sub_namespace sub) = Ret (em_name s) \<and>
    GetExposedURLFromAPIRule rule (spec_sink (sub_spec sub)) = Ret (em_webhookURL s) \<and>
    em_events s = Some (getEventMeshEvents infos (spec_typeMatching (sub_spec sub)) ns (spec_source (sub_spec sub))) \<and>
    em_webhookAuth s = getEventMeshWebhookAuth sub auth"
  using assms by (auto simp: ConvertKymaSubToEventMeshSub_def split: result.splits)

end
