(* ===== verification/Ems_Client.thy ===== *)
theory Ems_Client
  imports Eventmesh_Utils
begin

section \<open>The EventMesh client (pkg/ems)\<close>

text \<open>
  The REST client of EventMesh: requests are built and sent by \<^verbatim>\<open>httpclient.Client\<close>, and
  \<^verbatim>\<open>client.Client\<close> offers the operations on subscriptions. JSON, URL handling and \<^verbatim>\<open>net/http\<close> are
  the record \<open>http_lib\<close> on a type \<open>'e\<close> of states of the service. The backend uses the client
  through the interface \<^verbatim>\<open>PublisherManager\<close>, which is the record \<open>publisher_manager\<close>.
\<close>

subsection \<open>httpclient/error.go\<close>

text \<open>The error joins the message, the status code and its cause, which it wraps.\<close>

definition NewError :: "nat \<Rightarrow> string \<Rightarrow> goerr \<Rightarrow> goerr" where
  "NewError statusCode message cause =
     wrap_text ((if message \<noteq> '''' then ''message: '' @ message @ ''; '' else '''') @
       (if statusCode \<noteq> 0 then ''status code: '' @ Itoa (int statusCode) @ ''; '' else '''') @ ''cause: '') cause"

subsection \<open>httpclient/client.go\<close>

datatype ems_body = NoBody | SubscriptionBody EMSubscription | StateBody string | EventBody string

record http_request =
  rq_method :: string
  rq_url :: string
  rq_body :: "string option"
  rq_headers :: "(string \<times> string) list"

record Status =
  ss_status :: string
  ss_statusCode :: nat

text \<open>
  \<^verbatim>\<open>http.Client.Do\<close> answers with an error, possibly with the status of a response, or with a
  response whose body may fail to be read.
\<close>

datatype http_answer = NoResponse goerr | FailedResponse Status goerr | Response Status "goerr + string"

text \<open>A URL as \<^verbatim>\<open>url.Parse\<close> returns it: what precedes the path, and the path.\<close>

type_synonym base_url = "string \<times> string"

record 'e http_lib =
  ht_encode :: "ems_body \<Rightarrow> goerr + string"
  ht_parse :: "string \<Rightarrow> goerr + base_url"
  ht_resolve :: "base_url \<Rightarrow> string \<Rightarrow> string"
  ht_new :: "string \<Rightarrow> string \<Rightarrow> goerr option"
  ht_do :: "http_request \<Rightarrow> 'e \<Rightarrow> http_answer \<times> 'e"
  ht_unmarshal :: "string \<Rightarrow> goerr + EMSubscription option"
  ht_unmarshalResponse :: "string \<Rightarrow> goerr option"
  ht_unmarshalList :: "string \<Rightarrow> goerr + EMSubscription list option"
  ht_unmarshalPublish :: "string \<Rightarrow> goerr + string list \<times> string list"

text \<open>
  \<^verbatim>\<open>NewHTTPClient\<close>: the path of the parsed URL is read before the error is looked at, and
  \<^verbatim>\<open>url.Parse\<close> returns nil with an error. The client is represented by its base URL.
\<close>

definition NewHTTPClient :: "'e http_lib \<Rightarrow> string \<Rightarrow> base_url result" where
  "NewHTTPClient lib baseURL =
     (case ht_parse lib baseURL of
        Inl err \<Rightarrow> Crash nil_pointer
      | Inr (prefix, path) \<Rightarrow> Ret (prefix, if HasSuffix path ''/'' then path else path @ ''/''))"

definition resolveReferenceAsRelative :: "'e http_lib \<Rightarrow> base_url \<Rightarrow> string \<Rightarrow> string" where
  "resolveReferenceAsRelative lib base refPath = ht_resolve lib base (TrimPrefix refPath ''/'')"

definition NewRequest :: "'e http_lib \<Rightarrow> base_url \<Rightarrow> string \<Rightarrow> string \<Rightarrow> ems_body \<Rightarrow> http_request result" where
  "NewRequest lib base method path body =
     (case (if body = NoBody then Inr None else map_sum id Some (ht_encode lib body)) of
        Inl err \<Rightarrow> Err (NewError 0 '''' err)
      | Inr jsonBody \<Rightarrow>
          (case ht_parse lib path of
             Inl err \<Rightarrow> Err (NewError 0 '''' err)
           | Inr pu \<Rightarrow>
               let u = resolveReferenceAsRelative lib base (snd pu) in
               (case ht_new lib method u of
                  Some err \<Rightarrow> Err (NewError 0 '''' err)
                | None \<Rightarrow> Ret \<lparr>rq_method = method, rq_url = u, rq_body = jsonBody,
                    rq_headers = (''Accept'', ''application/json'') #
                      (if body \<noteq> NoBody then [(''Content-Type'', ''application/json'')] else [])\<rparr>)))"

text \<open>
  \<^verbatim>\<open>Do\<close> with the decoding of the body as an argument: the result is the status, the body (empty if
  there was none) and the decoded value, if there was a body.
\<close>

definition Do :: "'e http_lib \<Rightarrow> (string \<Rightarrow> goerr + 'r) \<Rightarrow> http_request \<Rightarrow> 'e \<Rightarrow>
  ('e, Status \<times> string \<times> 'r option) outcome" where
  "Do lib decode req e =
     (case ht_do lib req e of
        (NoResponse err, e) \<Rightarrow> (Err (NewError 0 '''' err), e)
      | (FailedResponse st err, e) \<Rightarrow> (Err (NewError (ss_statusCode st) '''' err), e)
      | (Response st (Inl err), e) \<Rightarrow> (Err (NewError (ss_statusCode st) '''' err), e)
      | (Response st (Inr body), e) \<Rightarrow>
          if body = '''' then (Ret (st, '''', None), e)
          else (case decode body of
                  Inl err \<Rightarrow> (Err (wrap_text ''unmarshal response failed: '' (NewError (ss_statusCode st) body err)), e)
                | Inr r \<Rightarrow> (Ret (st, body, Some r), e)))"

subsection \<open>client.go\<close>

text \<open>
  \<^verbatim>\<open>types.Response\<close>. A message that the body contains is overwritten with the status, so the only
  effect of decoding such a response is that it may fail.
\<close>

record EMSResponse =
  rs_statusCode :: nat
  rs_message :: string

definition response_of :: "Status \<Rightarrow> string \<Rightarrow> EMSResponse" where
  "response_of st body =
     \<lparr>rs_statusCode = ss_statusCode st,
      rs_message = (if body \<noteq> '''' then ss_status st @ '';'' @ body else ss_status st)\<rparr>"

definition decode_response :: "'e http_lib \<Rightarrow> string \<Rightarrow> goerr + unit" where
  "decode_response lib body = (case ht_unmarshalResponse lib body of Some err \<Rightarrow> Inl err | None \<Rightarrow> Inr ())"

text \<open>A request whose response has no content that the client returns.\<close>

definition request :: "'e http_lib \<Rightarrow> base_url \<Rightarrow> string \<Rightarrow> string \<Rightarrow> ems_body \<Rightarrow> 'e \<Rightarrow> ('e, EMSResponse) outcome" where
  "request lib base method path body e =
     (case NewRequest lib base method path body of
        Err err \<Rightarrow> (Err err, e)
      | Crash p \<Rightarrow> (Crash p, e)
      | Ret req \<Rightarrow> bindR (Do lib (decode_response lib) req e) (\<lambda>(st, b, _) e. (Ret (response_of st b), e)))"

abbreviation subscriptions_url :: string where "subscriptions_url \<equiv> ''/events/subscriptions''"

definition Create_em :: "'e http_lib \<Rightarrow> base_url \<Rightarrow> EMSubscription \<Rightarrow> 'e \<Rightarrow> ('e, EMSResponse) outcome" where
  "Create_em lib base subscription = request lib base ''POST'' subscriptions_url (SubscriptionBody subscription)"

definition Get_em ::
  "'e http_lib \<Rightarrow> base_url \<Rightarrow> string \<Rightarrow> 'e \<Rightarrow> ('e, EMSubscription option \<times> EMSResponse) outcome" where
  "Get_em lib base name e =
     (case NewRequest lib base ''GET'' (subscriptions_url @ ''/'' @ name) NoBody of
        Err err \<Rightarrow> (Err err, e)
      | Crash p \<Rightarrow> (Crash p, e)
      | Ret req \<Rightarrow> bindR (Do lib (ht_unmarshal lib) req e) (\<lambda>(st, b, r) e.
          let subscription = (case r of Some (Some s) \<Rightarrow> Some s | _ \<Rightarrow> None) in
          (Ret (subscription, response_of st (if subscription = None then b else '''')), e)))"

definition Update_em :: "'e http_lib \<Rightarrow> base_url \<Rightarrow> string \<Rightarrow> WebhookAuth option \<Rightarrow> 'e \<Rightarrow> ('e, EMSResponse) outcome" where
  "Update_em lib base name webhookAuth =
     request lib base ''PATCH'' (subscriptions_url @ ''/'' @ name)
       (SubscriptionBody (empty_EMSubscription\<lparr>em_webhookAuth := webhookAuth\<rparr>))"

definition Delete_em :: "'e http_lib \<Rightarrow> base_url \<Rightarrow> string \<Rightarrow> 'e \<Rightarrow> ('e, EMSResponse) outcome" where
  "Delete_em lib base name = request lib base ''DELETE'' (subscriptions_url @ ''/'' @ name) NoBody"

definition TriggerHandshake :: "'e http_lib \<Rightarrow> base_url \<Rightarrow> string \<Rightarrow> 'e \<Rightarrow> ('e, EMSResponse) outcome" where
  "TriggerHandshake lib base name =
     request lib base ''POST'' (subscriptions_url @ ''/'' @ name @ ''/handshake'') NoBody"

definition UpdateState :: "'e http_lib \<Rightarrow> base_url \<Rightarrow> string \<Rightarrow> string \<Rightarrow> 'e \<Rightarrow> ('e, EMSResponse) outcome" where
  "UpdateState lib base name action =
     request lib base ''PUT'' (subscriptions_url @ ''/'' @ name @ ''/state'') (StateBody action)"

definition List_em ::
  "'e http_lib \<Rightarrow> base_url \<Rightarrow> 'e \<Rightarrow> ('e, EMSubscription list option \<times> EMSResponse) outcome" where
  "List_em lib base e =
     (case NewRequest lib base ''GET'' subscriptions_url NoBody of
        Err err \<Rightarrow> (Err err, e)
      | Crash p \<Rightarrow> (Crash p, e)
      | Ret req \<Rightarrow> bindR (Do lib (ht_unmarshalList lib) req e) (\<lambda>(st, b, r) e.
          let subscriptions = (case r of Some (Some s) \<Rightarrow> Some s | _ \<Rightarrow> None) in
          (Ret (subscriptions, response_of st (if subscriptions = None then b else '''')), e)))"

text \<open>\<^verbatim>\<open>Publish\<close>: the event is given as its JSON text; the result has the accepted and the failed types.\<close>

definition Publish_em ::
  "'e http_lib \<Rightarrow> base_url \<Rightarrow> string \<Rightarrow> string \<Rightarrow> 'e \<Rightarrow> ('e, EMSResponse \<times> string list \<times> string list) outcome" where
  "Publish_em lib base event qos e =
     (case NewRequest lib base ''POST'' ''/events'' (EventBody event) of
        Err err \<Rightarrow> (Err err, e)
      | Crash p \<Rightarrow> (Crash p, e)
      | Ret req \<Rightarrow> bindR (Do lib (ht_unmarshalPublish lib) (req\<lparr>rq_headers := rq_headers req @ [(''qos'', qos)]\<rparr>) e)
          (\<lambda>(st, b, r) e. (Ret (response_of st b, case r of Some p \<Rightarrow> p | None \<Rightarrow> ([], [])), e)))"

text \<open>The part of the interface \<^verbatim>\<open>PublisherManager\<close> that the backend calls.\<close>

record 'e publisher_manager =
  pm_Create :: "EMSubscription \<Rightarrow> 'e \<Rightarrow> ('e, EMSResponse) outcome"
  pm_Get :: "string \<Rightarrow> 'e \<Rightarrow> ('e, EMSubscription option \<times> EMSResponse) outcome"
  pm_Update :: "string \<Rightarrow> WebhookAuth option \<Rightarrow> 'e \<Rightarrow> ('e, EMSResponse) outcome"
  pm_Delete :: "string \<Rightarrow> 'e \<Rightarrow> ('e, EMSResponse) outcome"
  pm_UpdateState :: "string \<Rightarrow> string \<Rightarrow> 'e \<Rightarrow> ('e, EMSResponse) outcome"

definition NewClient :: "'e http_lib \<Rightarrow> base_url \<Rightarrow> 'e publisher_manager" where
  "NewClient lib base =
     \<lparr>pm_Create = Create_em lib base, pm_Get = Get_em lib base, pm_Update = Update_em lib base,
      pm_Delete = Delete_em lib base, pm_UpdateState = UpdateState lib base\<rparr>"

end
