(* ===== verification/Eventmesh_Backend.thy ===== *)
theory Eventmesh_Backend
  imports Ems_Client
begin

section \<open>The EventMesh backend (pkg/backend/eventmesh)\<close>

text \<open>
  The operations of the backend work on a pair of the Subscription, whose status they change, and
  the state \<open>'e\<close> of the EventMesh service. \<open>em_env\<close> holds the hash library and the feature flag for
  the webhook authentication.
\<close>

record em_env =
  ee_hash :: hash_lib
  ee_webhookAuthEnabled :: bool

record OAuth2ClientCredentials =
  cc_clientID :: string
  cc_clientSecret :: string
  cc_tokenURL :: string
  cc_certsURL :: string

text \<open>\<^verbatim>\<open>env.Config\<close>, as far as the backend reads it.\<close>

record EnvConfig =
  cfg_bebAPIURL :: string
  cfg_exemptHandshake :: bool
  cfg_qos :: string
  cfg_contentMode :: string
  cfg_bebNamespace :: string
  cfg_eventTypePrefix :: string

record 'e EventMesh =
  mb_client :: "'e publisher_manager option"
  mb_webhookAuth :: "WebhookAuth option"
  mb_protocolSettings :: "ProtocolSettings option"
  mb_namespace :: string
  mb_eventMeshPrefix :: string
  mb_oAuth2credentials :: OAuth2ClientCredentials
  mb_subNameMapper :: eventMeshSubscriptionNameMapper

abbreviation MaxSubscriptionNameLength :: nat where "MaxSubscriptionNameLength \<equiv> 50"
abbreviation eventTypeSegmentsLimit :: nat where "eventTypeSegmentsLimit \<equiv> 7"

abbreviation ErrEMSubjectInvalid :: goerr where "ErrEMSubjectInvalid \<equiv> Sentinel ''EventMesh subject invalid''"

text \<open>
  \<^verbatim>\<open>HTTPStatusError\<close> is wrapped and looked for as a value, so \<^verbatim>\<open>errors.Is\<close> compares the codes, as it
  does for sentinels with the code as their message.
\<close>

definition HTTPStatusError :: "nat \<Rightarrow> goerr" where
  "HTTPStatusError statusCode = Sentinel (Itoa (int statusCode))"

abbreviation StatusOK :: nat where "StatusOK \<equiv> 200"
abbreviation StatusAccepted :: nat where "StatusAccepted \<equiv> 202"
abbreviation StatusNoContent :: nat where "StatusNoContent \<equiv> 204"
abbreviation StatusNotFound :: nat where "StatusNotFound \<equiv> 404"
abbreviation StatusConflict :: nat where "StatusConflict \<equiv> 409"

subsection \<open>Initialisation\<close>

definition NewEventMesh :: "OAuth2ClientCredentials \<Rightarrow> eventMeshSubscriptionNameMapper \<Rightarrow> 'e EventMesh" where
  "NewEventMesh credentials mapper =
     \<lparr>mb_client = None, mb_webhookAuth = None, mb_protocolSettings = None, mb_namespace = '''',
      mb_eventMeshPrefix = '''', mb_oAuth2credentials = credentials, mb_subNameMapper = mapper\<rparr>"

definition getWebHookAuth :: "OAuth2ClientCredentials \<Rightarrow> WebhookAuth" where
  "getWebHookAuth credentials =
     \<lparr>wa_type = AuthTypeClientCredentials, wa_grantType = GrantTypeClientCredentials,
      wa_clientID = cc_clientID credentials, wa_clientSecret = cc_clientSecret credentials,
      wa_tokenURL = cc_tokenURL credentials\<rparr>"

text \<open>\<open>newAuthenticatedClient\<close> is \<^verbatim>\<open>auth.NewAuthenticatedClient\<close>, an OAuth2 client around \<^verbatim>\<open>net/http\<close>.\<close>

definition Initialize_em ::
  "(EnvConfig \<Rightarrow> goerr + 'e http_lib) \<Rightarrow> EnvConfig \<Rightarrow> 'e EventMesh \<Rightarrow> ('e EventMesh, unit) outcome" where
  "Initialize_em newAuthenticatedClient cfg em =
     (if mb_client em \<noteq> None then (Ret (), em)
      else case newAuthenticatedClient cfg of
        Inl err \<Rightarrow> (Err err, em)
      | Inr lib \<Rightarrow>
          bindR (NewHTTPClient lib (cfg_bebAPIURL cfg), em) (\<lambda>httpClient em.
            (Ret (), em\<lparr>mb_client := Some (NewClient lib httpClient),
               mb_webhookAuth := Some (getWebHookAuth (mb_oAuth2credentials em)),
               mb_protocolSettings := Some \<lparr>ps_contentMode = Some (cfg_contentMode cfg),
                 ps_exemptHandshake = Some (cfg_exemptHandshake cfg), ps_qos = Some (cfg_qos cfg)\<rparr>,
               mb_namespace := cfg_bebNamespace cfg, mb_eventMeshPrefix := cfg_eventTypePrefix cfg\<rparr>)))"

subsection \<open>utils.go\<close>

definition getEventMeshSubject :: "string \<Rightarrow> string \<Rightarrow> string \<Rightarrow> string" where
  "getEventMeshSubject source subject eventMeshPrefix = eventMeshPrefix @ ''.'' @ source @ ''.'' @ subject"

definition isEventTypeSegmentsOverLimit :: "string \<Rightarrow> bool" where
  "isEventTypeSegmentsOverLimit eventType \<longleftrightarrow> length (split_on (CHR ''.'') eventType) > eventTypeSegmentsLimit"

definition map_backend :: "(Backend \<Rightarrow> Backend) \<Rightarrow> Subscription \<Rightarrow> Subscription" where
  "map_backend f sub = sub\<lparr>sub_status := (sub_status sub)\<lparr>st_backend := f (st_backend (sub_status sub))\<rparr>\<rparr>"

definition setEventMeshLocalSubHashInStatus ::
  "em_env \<Rightarrow> EMSubscription \<Rightarrow> Subscription \<Rightarrow> (Subscription, unit) outcome" where
  "setEventMeshLocalSubHashInStatus env eventMeshSubscription sub =
     bindR (GetHash (ee_hash env) eventMeshSubscription, sub) (\<lambda>newHash sub.
     bindR (GetHash (ee_hash env) (GetCleanedEventMeshSubscription eventMeshSubscription),
            map_backend (\<lambda>b. b\<lparr>bk_ev2hash := newHash\<rparr>) sub) (\<lambda>newHash sub.
       (Ret (), map_backend (\<lambda>b. b\<lparr>bk_eventMeshLocalHash := newHash\<rparr>) sub)))"

definition setWebhookAuthHashInStatus ::
  "em_env \<Rightarrow> WebhookAuth option \<Rightarrow> Subscription \<Rightarrow> (Subscription, unit) outcome" where
  "setWebhookAuthHashInStatus env webhookAuth sub =
     bindR (GetWebhookAuthHash (ee_hash env) webhookAuth, sub) (\<lambda>newHash sub.
       (Ret (), map_backend (\<lambda>b. b\<lparr>bk_webhookAuthHash := newHash\<rparr>) sub))"

text \<open>The subscription of the server is dereferenced.\<close>

definition setEventMeshServerSubHashInStatus ::
  "em_env \<Rightarrow> EMSubscription option \<Rightarrow> Subscription \<Rightarrow> (Subscription, unit) outcome" where
  "setEventMeshServerSubHashInStatus env eventMeshSubscription sub =
     (case eventMeshSubscription of
        None \<Rightarrow> (Crash nil_pointer, sub)
      | Some s \<Rightarrow> bindR (GetHash (ee_hash env) (GetCleanedEventMeshSubscription s), sub) (\<lambda>newHash sub.
          (Ret (), map_backend (\<lambda>b. b\<lparr>bk_eventMeshHash := newHash\<rparr>) sub)))"

definition updateHashesInStatus ::
  "em_env \<Rightarrow> EMSubscription \<Rightarrow> EMSubscription option \<Rightarrow> Subscription \<Rightarrow> (Subscription, unit) outcome" where
  "updateHashesInStatus env localSub serverSub sub =
     bindR (setEventMeshLocalSubHashInStatus env localSub sub) (\<lambda>_ sub.
     bindR (setEventMeshServerSubHashInStatus env serverSub sub) (\<lambda>_ sub.
       setWebhookAuthHashInStatus env (em_webhookAuth localSub) sub))"

definition statusCleanEventTypes :: "EventTypeInfo list \<Rightarrow> EventType slice" where
  "statusCleanEventTypes typeInfos =
     appended (map (\<lambda>i. \<lparr>et_originalType = ti_originalType i, et_cleanType = ti_cleanType i\<rparr>) typeInfos)"

definition statusFinalEventTypes :: "EventTypeInfo list \<Rightarrow> EventMeshTypes list" where
  "statusFinalEventTypes typeInfos =
     map (\<lambda>i. \<lparr>emt_originalType = ti_originalType i, emt_eventMeshType = ti_processedType i\<rparr>) typeInfos"

definition server_status :: "EMSubscription \<Rightarrow> EventMeshSubscriptionStatus" where
  "server_status s =
     \<lparr>ems_status = em_subscriptionStatus s, ems_statusReason = em_subscriptionStatusReason s,
      ems_lastSuccessfulDelivery = em_lastSuccessfulDelivery s, ems_lastFailedDelivery = em_lastFailedDelivery s,
      ems_lastFailedDeliveryReason = em_lastFailedDeliveryReason s\<rparr>"

text \<open>Five fields are copied; the result tells whether one of them was different.\<close>

definition setEmsSubscriptionStatus :: "EMSubscription option \<Rightarrow> Subscription \<Rightarrow> (Subscription, bool) outcome" where
  "setEmsSubscriptionStatus eventMeshSubscription sub =
     (case eventMeshSubscription of
        None \<Rightarrow> (Crash nil_pointer, sub)
      | Some s \<Rightarrow>
          let old = (case bk_eventMeshSubscriptionStatus (st_backend (sub_status sub)) of
                       Some st \<Rightarrow> st
                     | None \<Rightarrow> \<lparr>ems_status = '''', ems_statusReason = '''', ems_lastSuccessfulDelivery = '''',
                                ems_lastFailedDelivery = '''', ems_lastFailedDeliveryReason = ''''\<rparr>)
          in (Ret (old \<noteq> server_status s),
              map_backend (\<lambda>b. b\<lparr>bk_eventMeshSubscriptionStatus := Some (server_status s)\<rparr>) sub))"

subsection \<open>Requests\<close>

type_synonym ('e, 'a) em_call = "'e \<Rightarrow> ('e, 'a) outcome"

definition status_err :: "string \<Rightarrow> EMSResponse \<Rightarrow> goerr" where
  "status_err t resp = Wrapped [t, ''; '' @ rs_message resp] [HTTPStatusError (rs_statusCode resp)]"

definition with_client :: "'e EventMesh \<Rightarrow> ('e publisher_manager \<Rightarrow> ('e, 'a) em_call) \<Rightarrow> ('e, 'a) em_call" where
  "with_client em f e = (case mb_client em of None \<Rightarrow> (Crash nil_pointer, e) | Some c \<Rightarrow> f c e)"

definition getSubscription :: "'e EventMesh \<Rightarrow> string \<Rightarrow> ('e, EMSubscription option) em_call" where
  "getSubscription em name e =
     bindR (wrap_err ''get subscription failed: '' (with_client em (\<lambda>c. pm_Get c name) e)) (\<lambda>(s, resp) e.
       if rs_statusCode resp \<noteq> StatusOK then (Err (status_err ''get subscription failed: '' resp), e)
       else (Ret s, e))"

definition getSubscriptionIgnoreNotFound :: "'e EventMesh \<Rightarrow> string \<Rightarrow> ('e, EMSubscription option) em_call" where
  "getSubscriptionIgnoreNotFound em name e =
     (case getSubscription em name e of
        (Err err, e) \<Rightarrow> if errors_Is err (HTTPStatusError StatusNotFound) then (Ret None, e) else (Err err, e)
      | r \<Rightarrow> r)"

definition deleteSubscription :: "'e EventMesh \<Rightarrow> string \<Rightarrow> ('e, unit) em_call" where
  "deleteSubscription em name e =
     bindR (wrap_err ''delete subscription failed: '' (with_client em (\<lambda>c. pm_Delete c name) e)) (\<lambda>resp e.
       if rs_statusCode resp \<noteq> StatusNoContent \<and> rs_statusCode resp \<noteq> StatusNotFound
       then (Err (status_err ''delete subscription failed: '' resp), e) else (Ret (), e))"

definition createSubscription :: "'e EventMesh \<Rightarrow> EMSubscription \<Rightarrow> ('e, unit) em_call" where
  "createSubscription em subscription e =
     bindR (wrap_err ''create subscription failed: '' (with_client em (\<lambda>c. pm_Create c subscription) e)) (\<lambda>resp e.
       if rs_statusCode resp > StatusAccepted \<and> rs_statusCode resp \<noteq> StatusConflict
       then (Err (status_err ''create subscription failed: '' resp), e) else (Ret (), e))"

definition createAndGetSubscription :: "'e EventMesh \<Rightarrow> EMSubscription \<Rightarrow> ('e, EMSubscription option) em_call" where
  "createAndGetSubscription em subscription e =
     bindR (createSubscription em subscription e) (\<lambda>_ e. getSubscription em (em_name subscription) e)"

definition DeleteSubscription_em :: "'e EventMesh \<Rightarrow> Subscription \<Rightarrow> ('e, unit) em_call" where
  "DeleteSubscription_em em subscription e =
     bindR (MapSubscriptionName (mb_subNameMapper em) (sub_name subscription) (sub_namespace subscription), e) (\<lambda>name e.
       deleteSubscription em name e)"

subsection \<open>Synchronisation\<close>

definition event_type_info :: "'e EventMesh \<Rightarrow> Subscription \<Rightarrow> Cleaner \<Rightarrow> string \<Rightarrow> EventTypeInfo result" where
  "event_type_info em sub cleaner utype =
     (if spec_typeMatching (sub_spec sub) = TypeMatchingExact
      then Ret \<lparr>ti_originalType = utype, ti_cleanType = utype, ti_processedType = utype\<rparr>
      else case cl_CleanSource cleaner (spec_source (sub_spec sub)) of
        (_, Some err) \<Rightarrow> Err err
      | (cleanedSource, None) \<Rightarrow>
          (case cl_CleanEventType cleaner utype of
             (_, Some err) \<Rightarrow> Err err
           | (cleanedType, None) \<Rightarrow>
               let eventMeshSubject = getEventMeshSubject cleanedSource cleanedType (mb_eventMeshPrefix em) in
               if isEventTypeSegmentsOverLimit eventMeshSubject
               then Err (wrap_text (''EventMesh subject exceeds the limit of segments, '' @
                      ''max number of segements allowed: '' @ Itoa (int eventTypeSegmentsLimit) @ '', '') ErrEMSubjectInvalid)
               else Ret \<lparr>ti_originalType = utype, ti_cleanType = cleanedType, ti_processedType = eventMeshSubject\<rparr>))"

fun collect :: "('a \<Rightarrow> 'b result) \<Rightarrow> 'a list \<Rightarrow> 'b list \<Rightarrow> 'b list result" where
  "collect f [] acc = Ret acc"
| "collect f (x # xs) acc =
     (case f x of Ret y \<Rightarrow> collect f xs (acc @ [y]) | Err err \<Rightarrow> Err err | Crash p \<Rightarrow> Crash p)"

definition getProcessedEventTypes :: "'e EventMesh \<Rightarrow> Subscription \<Rightarrow> Cleaner \<Rightarrow> EventTypeInfo list result" where
  "getProcessedEventTypes em kymaSubscription cleaner =
     collect (event_type_info em kymaSubscription cleaner) (GetUniqueTypes kymaSubscription) []"

text \<open>A changed subscription is deleted on the server, to be created again.\<close>

definition delete_if_modified :: "'e EventMesh \<Rightarrow> bool result \<Rightarrow> string \<Rightarrow> ('e, bool) em_call" where
  "delete_if_modified em modified name e =
     bindR (modified, e) (\<lambda>isModified e.
       if isModified
       then bindR (wrap_err ''failed to delete subscription on EventMesh: '' (deleteSubscription em name e)) (\<lambda>_ e.
              (Ret True, e))
       else (Ret False, e))"

definition handleKymaSubModified :: "em_env \<Rightarrow> 'e EventMesh \<Rightarrow> EMSubscription \<Rightarrow> Subscription \<Rightarrow> ('e, bool) em_call" where
  "handleKymaSubModified env em eventMeshSub kymaSub =
     (let b = st_backend (sub_status kymaSub);
          hash = (if ee_webhookAuthEnabled env then bk_eventMeshLocalHash b else bk_ev2hash b)
      in delete_if_modified em (IsEventMeshSubModified (ee_hash env) (ee_webhookAuthEnabled env) eventMeshSub hash)
           (em_name eventMeshSub))"

definition handleEventMeshSubModified ::
  "em_env \<Rightarrow> 'e EventMesh \<Rightarrow> EMSubscription \<Rightarrow> Subscription \<Rightarrow> ('e, bool) em_call" where
  "handleEventMeshSubModified env em serverSub kymaSub =
     delete_if_modified em (IsEventMeshSubModified (ee_hash env) (ee_webhookAuthEnabled env)
         (GetCleanedEventMeshSubscription serverSub) (bk_eventMeshHash (st_backend (sub_status kymaSub))))
       (em_name serverSub)"

text \<open>One of the three requests of a change of the credentials: \<open>Ret False\<close> ends the change early.\<close>

definition auth_step ::
  "string \<Rightarrow> nat \<Rightarrow> ('e, EMSResponse) outcome \<Rightarrow> ('e, bool) outcome" where
  "auth_step t expected m =
     bindR (wrap_err t m) (\<lambda>resp e.
       if rs_statusCode resp = StatusNotFound then (Ret False, e)
       else if rs_statusCode resp \<noteq> expected then (Err (status_err t resp), e)
       else (Ret True, e))"

definition handleWebhookAuthChange ::
  "em_env \<Rightarrow> 'e EventMesh \<Rightarrow> EMSubscription \<Rightarrow> Subscription \<Rightarrow> ('e, unit) em_call" where
  "handleWebhookAuthChange env em s kymaSub e =
     (case GetWebhookAuthHash (ee_hash env) (em_webhookAuth s) of
        Err err \<Rightarrow> (Err (wrap_text ''failed to get the EventMesh WebhookAuth hash: '' err), e)
      | Crash p \<Rightarrow> (Crash p, e)
      | Ret hash \<Rightarrow>
          if hash = bk_webhookAuthHash (st_backend (sub_status kymaSub)) then (Ret (), e)
          else
            bindR (auth_step ''failed to pause EventMesh subscription: '' StatusAccepted
                     (with_client em (\<lambda>c. pm_UpdateState c (em_name s) ''pause'') e)) (\<lambda>go e.
            if \<not> go then (Ret (), e)
            else bindR (auth_step ''failed to update webhook auth config: '' StatusNoContent
                     (with_client em (\<lambda>c. pm_Update c (em_name s) (em_webhookAuth s)) e)) (\<lambda>go e.
            if \<not> go then (Ret (), e)
            else bindR (auth_step ''failed to resume EventMesh subscription: '' StatusAccepted
                     (with_client em (\<lambda>c. pm_UpdateState c (em_name s) ''resume'') e)) (\<lambda>_ e.
              (Ret (), e)))))"

text \<open>The following calls change the Subscription as well.\<close>

definition on_server :: "('e, 'a) em_call \<Rightarrow> Subscription \<times> 'e \<Rightarrow> (Subscription \<times> 'e, 'a) outcome" where
  "on_server f se = (case f (snd se) of (r, e) \<Rightarrow> (r, (fst se, e)))"

definition on_sub :: "(Subscription \<Rightarrow> (Subscription, 'a) outcome) \<Rightarrow> Subscription \<times> 'e \<Rightarrow> (Subscription \<times> 'e, 'a) outcome" where
  "on_sub f se = (case f (fst se) of (r, sub) \<Rightarrow> (r, (sub, snd se)))"

definition handleCreateEventMeshSub ::
  "'e EventMesh \<Rightarrow> EMSubscription \<Rightarrow> Subscription \<times> 'e \<Rightarrow> (Subscription \<times> 'e, EMSubscription option) outcome" where
  "handleCreateEventMeshSub em eventMeshSub se =
     wrap_err ''failed to get subscription from EventMesh: ''
       (on_server (createAndGetSubscription em eventMeshSub)
          ((fst se)\<lparr>sub_status := InitializeEventTypes (sub_status (fst se))\<rparr>, snd se))"

definition handleKymaSubStatusUpdate ::
  "em_env \<Rightarrow> EMSubscription option \<Rightarrow> EMSubscription \<Rightarrow> EventTypeInfo list \<Rightarrow> Subscription \<Rightarrow> (Subscription, bool) outcome" where
  "handleKymaSubStatusUpdate env serverSub localSub typesInfo sub =
     bindR (wrap_err ''failed to update hashes in subscription status: ''
       (updateHashesInStatus env localSub serverSub
         (map_backend (\<lambda>b. b\<lparr>bk_emsTypes := statusFinalEventTypes typesInfo\<rparr>)
           (sub\<lparr>sub_status := (sub_status sub)\<lparr>st_types := statusCleanEventTypes typesInfo\<rparr>\<rparr>)))) (\<lambda>_ sub.
       setEmsSubscriptionStatus serverSub sub)"

text \<open>The handling of a subscription that exists on the server: was it changed there, or its credentials here?\<close>

definition check_server_sub ::
  "em_env \<Rightarrow> 'e EventMesh \<Rightarrow> EMSubscription \<Rightarrow> EMSubscription \<Rightarrow> Subscription \<Rightarrow> ('e, bool) em_call" where
  "check_server_sub env em serverSub eventMeshSub sub e =
     bindR (handleEventMeshSubModified env em serverSub sub e) (\<lambda>isEventMeshSubModified e.
       if ee_webhookAuthEnabled env \<and> \<not> isEventMeshSubModified
       then bindR (handleWebhookAuthChange env em eventMeshSub sub e) (\<lambda>_ e. (Ret isEventMeshSubModified, e))
       else (Ret isEventMeshSubModified, e))"

text \<open>From the fetched subscription on: create it if needed and update the status.\<close>

definition create_and_update ::
  "em_env \<Rightarrow> 'e EventMesh \<Rightarrow> EventTypeInfo list \<Rightarrow> EMSubscription \<Rightarrow> bool \<Rightarrow> bool \<Rightarrow> EMSubscription option \<Rightarrow>
   Subscription \<times> 'e \<Rightarrow> (Subscription \<times> 'e, bool) outcome" where
  "create_and_update env em typesInfo eventMeshSub isKymaSubModified isEventMeshSubModified serverSub se =
     bindR (if isKymaSubModified \<or> isEventMeshSubModified \<or> serverSub = None
            then handleCreateEventMeshSub em eventMeshSub se else (Ret serverSub, se)) (\<lambda>serverSub se.
     bindR (on_sub (handleKymaSubStatusUpdate env serverSub eventMeshSub typesInfo) se) (\<lambda>isUpdated se.
       (Ret (isKymaSubModified \<or> isEventMeshSubModified \<or> isUpdated), se)))"

definition SyncSubscription_em ::
  "em_env \<Rightarrow> 'e EventMesh \<Rightarrow> Cleaner \<Rightarrow> APIRule \<Rightarrow> Subscription \<times> 'e \<Rightarrow> (Subscription \<times> 'e, bool) outcome" where
  "SyncSubscription_em env em cleaner apiRule se =
     bindR (getProcessedEventTypes em (fst se) cleaner, se) (\<lambda>typesInfo se.
     bindR (ConvertKymaSubToEventMeshSub (fst se) typesInfo apiRule (mb_webhookAuth em) (mb_protocolSettings em)
              (mb_namespace em) (mb_subNameMapper em), se) (\<lambda>eventMeshSub se.
     bindR (on_server (handleKymaSubModified env em eventMeshSub (fst se)) se) (\<lambda>isKymaSubModified se.
     bindR (if \<not> isKymaSubModified
            then on_server (getSubscriptionIgnoreNotFound em (em_name eventMeshSub)) se
            else (Ret None, se)) (\<lambda>serverSub se.
     bindR (case serverSub of
              None \<Rightarrow> (Ret False, se)
            | Some s \<Rightarrow> on_server (check_server_sub env em s eventMeshSub (fst se)) se) (\<lambda>isEventMeshSubModified se.
       create_and_update env em typesInfo eventMeshSub isKymaSubModified isEventMeshSubModified serverSub se)))))"

definition SetCredentials_em :: "OAuth2ClientCredentials \<Rightarrow> 'e EventMesh \<Rightarrow> 'e EventMesh" where
  "SetCredentials_em credentials em = em\<lparr>mb_webhookAuth := Some (getWebHookAuth credentials)\<rparr>"

end
