(* ===== verification/Eventmesh_Sync.thy ===== *)
theory Eventmesh_Sync
  imports Eventmesh_Backend
begin

section \<open>Synchronisation with EventMesh\<close>

text \<open>
  What the EventMesh service promises to the backend is the locale \<open>ems_service\<close>, over the client
  that the backend calls and a view \<open>subs\<close> of the subscriptions of the service. The theorems about
  deletion and synchronisation are proved in it.
\<close>

subsection \<open>Calls that succeed\<close>

declare wrap_err_Ret [simp]

lemma wrap_err_pure [simp]: "wrap_err t (Ret a, s) = (Ret a, s)"
  by (simp add: wrap_err_def)

lemma on_server_Ret [simp]: "on_server f se = (Ret a, se') \<longleftrightarrow> f (snd se) = (Ret a, snd se') \<and> fst se' = fst se"
  by (cases se') (auto simp: on_server_def split: prod.splits)

lemma on_sub_Ret [simp]: "on_sub f se = (Ret a, se') \<longleftrightarrow> f (fst se) = (Ret a, fst se') \<and> snd se' = snd se"
  by (cases se') (auto simp: on_sub_def split: prod.splits)

lemma backend_map_backend [simp]: "st_backend (sub_status (map_backend f sub)) = f (st_backend (sub_status sub))"
  by (simp add: map_backend_def)

lemma map_backend_frame [simp]:
  "sub_spec (map_backend f sub) = sub_spec sub" "sub_name (map_backend f sub) = sub_name sub"
  "sub_namespace (map_backend f sub) = sub_namespace sub"
  "st_types (sub_status (map_backend f sub)) = st_types (sub_status sub)"
  by (simp_all add: map_backend_def)

lemma InitializeEventTypes_backend [simp]: "st_backend (InitializeEventTypes st) = st_backend st"
  by (simp add: InitializeEventTypes_def)

lemma IsEventMeshSubModified_Ret:
  "IsEventMeshSubModified lib auth s h = Ret m \<longleftrightarrow>
     (\<exists>h'. GetHash lib (if auth then GetCleanedEventMeshSubscription s else s) = Ret h' \<and> m = (h' \<noteq> h))"
  by (auto simp: IsEventMeshSubModified_def split: result.splits)

lemma auth_step_state [simp]: "snd (auth_step t expected m) = snd m"
  by (cases m; cases "fst m") (auto simp: auth_step_def wrap_err_def)

lemma string_of_nat_inj: "string_of_nat m = string_of_nat n \<Longrightarrow> m = n"
proof (induction m arbitrary: n rule: less_induct)
  case (less m)
  have digit: "(char_of (48 + i) :: char) = char_of (48 + j) \<longleftrightarrow> i = j" if "i < 10" "j < 10" for i j :: nat
    using that by (simp add: char_of_eq_iff take_bit_eq_mod)
  have nonempty: "string_of_nat k \<noteq> []" for k by (subst string_of_nat.simps) simp
  show ?case
  proof (cases "m < 10"; cases "n < 10")
    assume "\<not> m < 10" "\<not> n < 10"
    with less.prems have "string_of_nat (m div 10) = string_of_nat (n div 10)"
      and "(char_of (48 + m mod 10) :: char) = char_of (48 + n mod 10)"
      by (simp_all add: string_of_nat.simps [of m] string_of_nat.simps [of n])
    then have "m div 10 = n div 10" and "m mod 10 = n mod 10"
      using less.IH [of "m div 10" "n div 10"] \<open>\<not> m < 10\<close> digit by auto
    then show "m = n" by (metis div_mult_mod_eq)
  qed (use less.prems digit nonempty nonempty [symmetric] in \<open>auto simp: string_of_nat.simps [of m] string_of_nat.simps [of n]\<close>)
qed

lemma HTTPStatusError_inj [simp]: "HTTPStatusError m = HTTPStatusError n \<longleftrightarrow> m = n"
  by (auto simp: HTTPStatusError_def Itoa_def dest: string_of_nat_inj)

lemma errors_Is_status_err [simp]: "errors_Is (status_err t resp) (HTTPStatusError k) \<longleftrightarrow> rs_statusCode resp = k"
proof -
  have "errors_Is (HTTPStatusError n) (HTTPStatusError k) \<longleftrightarrow> n = k" for n
    using HTTPStatusError_inj [of n k] by (simp add: HTTPStatusError_def)
  then show ?thesis by (simp add: status_err_def HTTPStatusError_def)
qed

subsection \<open>Event types\<close>

lemma collect_Ret_iff:
  "collect f xs acc = Ret ys \<longleftrightarrow> (\<exists>zs. ys = acc @ zs \<and> list_all2 (\<lambda>x y. f x = Ret y) xs zs)"
proof (induction xs arbitrary: acc)
  case (Cons x xs)
  show ?case
    by (cases "f x") (auto simp: Cons.IH list_all2_Cons1)
qed auto

lemma getProcessedEventTypes_Ret:
  "getProcessedEventTypes em sub cleaner = Ret infos \<longleftrightarrow>
     list_all2 (\<lambda>t i. event_type_info em sub cleaner t = Ret i) (GetUniqueTypes sub) infos"
  by (simp add: getProcessedEventTypes_def collect_Ret_iff)

lemma event_type_info_Ret:
  assumes "event_type_info em sub cleaner t = Ret i"
  shows "ti_originalType i = t \<and>
    (if spec_typeMatching (sub_spec sub) = TypeMatchingExact then ti_processedType i = t
     else ti_processedType i =
            getEventMeshSubject (fst (cl_CleanSource cleaner (spec_source (sub_spec sub))))
              (fst (cl_CleanEventType cleaner t)) (mb_eventMeshPrefix em) \<and>
          length (split_on (CHR ''.'') (ti_processedType i)) \<le> eventTypeSegmentsLimit)"
  using assms
  by (auto simp: event_type_info_def isEventTypeSegmentsOverLimit_def Let_def
      split: if_splits prod.splits option.splits)

subsection \<open>What is recorded in the status\<close>

text \<open>The hashes that a status holds after the subscription \<open>s\<close> was found as \<open>server\<close> on EventMesh.\<close>

definition hashes_recorded :: "em_env \<Rightarrow> Backend \<Rightarrow> EMSubscription \<Rightarrow> EMSubscription \<Rightarrow> bool" where
  "hashes_recorded env b s server \<longleftrightarrow>
     GetHash (ee_hash env) s = Ret (bk_ev2hash b) \<and>
     GetHash (ee_hash env) (GetCleanedEventMeshSubscription s) = Ret (bk_eventMeshLocalHash b) \<and>
     GetHash (ee_hash env) (GetCleanedEventMeshSubscription server) = Ret (bk_eventMeshHash b) \<and>
     GetWebhookAuthHash (ee_hash env) (em_webhookAuth s) = Ret (bk_webhookAuthHash b)"

definition recorded_status :: "em_env \<Rightarrow> EventTypeInfo list \<Rightarrow> EMSubscription \<Rightarrow> EMSubscription \<Rightarrow> Subscription \<Rightarrow> bool" where
  "recorded_status env infos s server sub \<longleftrightarrow>
     hashes_recorded env (st_backend (sub_status sub)) s server \<and>
     st_types (sub_status sub) = statusCleanEventTypes infos \<and>
     bk_emsTypes (st_backend (sub_status sub)) = statusFinalEventTypes infos \<and>
     bk_eventMeshSubscriptionStatus (st_backend (sub_status sub)) = Some (server_status server)"

definition same_identity :: "Subscription \<Rightarrow> Subscription \<Rightarrow> bool" where
  "same_identity sub sub' \<longleftrightarrow>
     sub_spec sub' = sub_spec sub \<and> sub_name sub' = sub_name sub \<and> sub_namespace sub' = sub_namespace sub"

lemmas status_defs =
  handleKymaSubStatusUpdate_def updateHashesInStatus_def setEventMeshLocalSubHashInStatus_def
  setEventMeshServerSubHashInStatus_def setWebhookAuthHashInStatus_def setEmsSubscriptionStatus_def

lemma handleKymaSubStatusUpdate_Ret:
  assumes "handleKymaSubStatusUpdate env server s infos sub = (Ret b, sub')"
  obtains srv where "server = Some srv" and "recorded_status env infos s srv sub'" and "same_identity sub sub'"
  using assms
  by (auto simp: status_defs bindR_Ret_iff recorded_status_def hashes_recorded_def same_identity_def Let_def
      split: option.splits)

text \<open>
  What the status must promise before: if it holds the hash of the desired subscription, the hash
  of the subscription on the server in it is the one of the same settings.
\<close>

definition trusted :: "em_env \<Rightarrow> Backend \<Rightarrow> EMSubscription \<Rightarrow> bool" where
  "trusted env b s \<longleftrightarrow>
     (GetHash (ee_hash env) (if ee_webhookAuthEnabled env then GetCleanedEventMeshSubscription s else s) =
        Ret (if ee_webhookAuthEnabled env then bk_eventMeshLocalHash b else bk_ev2hash b) \<longrightarrow>
      GetHash (ee_hash env) (GetCleanedEventMeshSubscription s) = Ret (bk_eventMeshHash b))"

text \<open>The desired subscription of a Subscription resource.\<close>

definition desired :: "'e EventMesh \<Rightarrow> Cleaner \<Rightarrow> APIRule \<Rightarrow> Subscription \<Rightarrow> EventTypeInfo list \<Rightarrow> EMSubscription \<Rightarrow> bool" where
  "desired em cleaner apiRule sub infos s \<longleftrightarrow>
     getProcessedEventTypes em sub cleaner = Ret infos \<and>
     ConvertKymaSubToEventMeshSub sub infos apiRule (mb_webhookAuth em) (mb_protocolSettings em) (mb_namespace em)
       (mb_subNameMapper em) = Ret s"

lemma SyncSubscription_em_RetE:
  assumes "SyncSubscription_em env em cleaner apiRule (sub, e) = (Ret changed, (sub', e'))"
  obtains infos s m1 e1 server e2 m2 e3
  where "desired em cleaner apiRule sub infos s"
    and "handleKymaSubModified env em s sub e = (Ret m1, e1)"
    and "if m1 then server = None \<and> e2 = e1 else getSubscriptionIgnoreNotFound em (em_name s) e1 = (Ret server, e2)"
    and "case server of None \<Rightarrow> \<not> m2 \<and> e3 = e2 | Some srv \<Rightarrow> check_server_sub env em srv s sub e2 = (Ret m2, e3)"
    and "create_and_update env em infos s m1 m2 server (sub, e3) = (Ret changed, (sub', e'))"
proof -
  from assms obtain infos s m1 e1 where 1: "desired em cleaner apiRule sub infos s"
    "handleKymaSubModified env em s sub e = (Ret m1, e1)"
    and rest: "bindR (if \<not> m1 then on_server (getSubscriptionIgnoreNotFound em (em_name s)) (sub, e1)
                 else (Ret None, (sub, e1))) (\<lambda>server se.
       bindR (case server of None \<Rightarrow> (Ret False, se)
              | Some srv \<Rightarrow> on_server (check_server_sub env em srv s (fst se)) se) (\<lambda>m2 se.
         create_and_update env em infos s m1 m2 server se)) = (Ret changed, (sub', e'))"
    by (auto simp: SyncSubscription_em_def desired_def bindR_pure split: result.splits
        elim!: bindR_RetE [where f = "\<lambda>isKymaSubModified se. _ isKymaSubModified se"])
  from rest obtain server se2 m2 se3 where look: "(if \<not> m1
        then on_server (getSubscriptionIgnoreNotFound em (em_name s)) (sub, e1) else (Ret None, (sub, e1))) = (Ret server, se2)"
    and check: "(case server of None \<Rightarrow> (Ret False, se2)
       | Some srv \<Rightarrow> on_server (check_server_sub env em srv s (fst se2)) se2) = (Ret m2, se3)"
    and 3: "create_and_update env em infos s m1 m2 server se3 = (Ret changed, (sub', e'))"
    by (elim bindR_RetE)
  from look have "fst se2 = sub" by (auto split: if_splits)
  then obtain e2 where se2: "se2 = (sub, e2)" by (cases se2) simp
  note look = look [unfolded se2] and 2 = check [unfolded se2 fst_conv]
  from 2 have "fst se3 = sub" by (auto split: option.splits)
  then have se3: "se3 = (sub, snd se3)" by (cases se3) simp
  show ?thesis
  proof (rule that [OF 1(1,2)])
    show "if m1 then server = None \<and> e2 = e1 else getSubscriptionIgnoreNotFound em (em_name s) e1 = (Ret server, e2)"
      using look by (auto split: if_splits)
    show "case server of None \<Rightarrow> \<not> m2 \<and> snd se3 = e2
      | Some srv \<Rightarrow> check_server_sub env em srv s sub e2 = (Ret m2, snd se3)"
      using 2 by (auto split: option.splits)
    show "create_and_update env em infos s m1 m2 server (sub, snd se3) = (Ret changed, (sub', e'))"
      using 3 se3 by simp
  qed
qed

lemma create_and_update_recorded:
  assumes "create_and_update env em infos s m1 m2 server (sub, e) = (Ret changed, (sub', e'))"
  shows "\<exists>srv. recorded_status env infos s srv sub' \<and> same_identity sub sub'"
proof -
  from assms obtain server' sub1 e1 b where create: "(if m1 \<or> m2 \<or> server = None
        then handleCreateEventMeshSub em s (sub, e) else (Ret server, (sub, e))) = (Ret server', (sub1, e1))"
    and update: "handleKymaSubStatusUpdate env server' s infos sub1 = (Ret b, sub')"
    by (auto simp: create_and_update_def bindR_Ret_iff)
  from create have "same_identity sub sub1"
    by (auto simp: handleCreateEventMeshSub_def same_identity_def split: if_splits)
  moreover obtain srv where "recorded_status env infos s srv sub'" "same_identity sub1 sub'"
    using handleKymaSubStatusUpdate_Ret [OF update] by blast
  ultimately show ?thesis by (auto simp: same_identity_def)
qed

lemma SyncSubscription_em_recorded:
  assumes "SyncSubscription_em env em cleaner apiRule (sub, e) = (Ret changed, (sub', e'))"
  shows "\<exists>infos s srv. desired em cleaner apiRule sub infos s \<and> recorded_status env infos s srv sub' \<and>
    same_identity sub sub'"
proof (rule SyncSubscription_em_RetE [OF assms])
  fix infos s m1 m2 server e3
  assume "desired em cleaner apiRule sub infos s"
    and "create_and_update env em infos s m1 m2 server (sub, e3) = (Ret changed, (sub', e'))"
  with create_and_update_recorded [OF this(2)] show ?thesis by blast
qed

lemma desired_identity:
  assumes "same_identity sub sub'"
  shows "desired em cleaner apiRule sub' = desired em cleaner apiRule sub"
proof -
  have same: "sub_spec sub' = sub_spec sub" "sub_name sub' = sub_name sub" "sub_namespace sub' = sub_namespace sub"
    using assms by (simp_all add: same_identity_def)
  have fns: "event_type_info em sub' cleaner = event_type_info em sub cleaner"
    "setEventMeshProtocolSettings sub' = setEventMeshProtocolSettings sub"
    "getEventMeshWebhookAuth sub' = getEventMeshWebhookAuth sub"
    by (simp_all add: fun_eq_iff event_type_info_def setEventMeshProtocolSettings_def getEventMeshWebhookAuth_def same)
  show ?thesis
    by (intro ext)
      (unfold desired_def getProcessedEventTypes_def GetUniqueTypes_def ConvertKymaSubToEventMeshSub_def same fns, (rule refl)?)
qed

text \<open>Recording the same facts again changes only the status of the server subscription.\<close>

lemma handleKymaSubStatusUpdate_again:
  assumes "recorded_status env infos s srv sub"
    and "GetHash (ee_hash env) (GetCleanedEventMeshSubscription srv') = Ret (bk_eventMeshHash (st_backend (sub_status sub)))"
  shows "handleKymaSubStatusUpdate env (Some srv') s infos sub =
    (Ret (server_status srv' \<noteq> server_status srv),
     map_backend (\<lambda>b. b\<lparr>bk_eventMeshSubscriptionStatus := Some (server_status srv')\<rparr>) sub)"
  using assms
  by (auto simp: status_defs recorded_status_def hashes_recorded_def map_backend_def bindR_pure wrap_err_def Let_def)

subsection \<open>The EventMesh service\<close>

text \<open>
  The laws: reading changes no subscription and answers truthfully; an accepted creation stores a
  subscription with the given settings, a conflict means that the name is taken; a successful
  deletion removes the name; and changing the credentials or the state leaves the settings as
  they are.
\<close>

locale ems_service =
  fixes c :: "'e publisher_manager"
    and subs :: "'e \<Rightarrow> string \<Rightarrow> EMSubscription option"
  assumes named: "subs e n = Some s \<Longrightarrow> em_name s = n"
    and Get_law: "pm_Get c n e = (Ret (answer, resp), e') \<Longrightarrow>
      subs e' = subs e \<and> (rs_statusCode resp = StatusOK \<longrightarrow> answer = subs e n) \<and>
      (rs_statusCode resp = StatusNotFound \<longrightarrow> subs e n = None)"
    and Get_error: "pm_Get c n e = (Err err, e') \<Longrightarrow> subs e' = subs e \<and> \<not> errors_Is err (HTTPStatusError k)"
    and Create_law: "pm_Create c s e = (Ret resp, e') \<Longrightarrow>
      (rs_statusCode resp \<le> StatusAccepted \<longrightarrow> (\<exists>s'. subs e' = (subs e)(em_name s \<mapsto> s') \<and>
         GetCleanedEventMeshSubscription s' = GetCleanedEventMeshSubscription s)) \<and>
      (rs_statusCode resp = StatusConflict \<longrightarrow> subs e (em_name s) \<noteq> None \<and> subs e' = subs e)"
    and Delete_law: "pm_Delete c n e = (Ret resp, e') \<Longrightarrow>
      rs_statusCode resp = StatusNoContent \<or> rs_statusCode resp = StatusNotFound \<Longrightarrow> subs e' = (subs e)(n := None)"
    and Update_law: "pm_Update c n a e = (r1, e') \<Longrightarrow>
      map_option GetCleanedEventMeshSubscription (subs e' x) = map_option GetCleanedEventMeshSubscription (subs e x)"
    and UpdateState_law: "pm_UpdateState c n t e = (r2, e') \<Longrightarrow>
      map_option GetCleanedEventMeshSubscription (subs e' x) = map_option GetCleanedEventMeshSubscription (subs e x)"
begin

abbreviation settings :: "'e \<Rightarrow> string \<Rightarrow> EMSubscription option" where
  "settings e n \<equiv> map_option GetCleanedEventMeshSubscription (subs e n)"

lemma getSubscription_reads:
  assumes "mb_client em = Some c" and "getSubscription em n e = (Ret s, e')"
  shows "subs e' = subs e \<and> s = subs e n"
  using assms Get_law
  by (auto simp: getSubscription_def with_client_def bindR_Ret_iff split: if_splits)

lemma deleteSubscription_gone:
  assumes "mb_client em = Some c" and "deleteSubscription em n e = (Ret u, e')"
  shows "subs e' = (subs e)(n := None)"
  using assms Delete_law
  by (auto simp: deleteSubscription_def with_client_def bindR_Ret_iff split: if_splits)

lemma delete_if_modified_effect:
  assumes "mb_client em = Some c" and "delete_if_modified em m n e = (Ret b, e')"
  shows "m = Ret b \<and> subs e' = (if b then (subs e)(n := None) else subs e)"
  using assms deleteSubscription_gone
  by (auto simp: delete_if_modified_def bindR_Ret_iff split: if_splits)

lemma createAndGetSubscription_effect:
  assumes "mb_client em = Some c" and "subs e (em_name s) = None"
    and "createAndGetSubscription em s e = (Ret server, e')"
  shows "\<exists>s'. server = Some s' \<and> subs e' = (subs e)(em_name s \<mapsto> s') \<and>
    GetCleanedEventMeshSubscription s' = GetCleanedEventMeshSubscription s"
proof -
  from assms(3) obtain u e1 where create: "createSubscription em s e = (Ret u, e1)"
    and get: "getSubscription em (em_name s) e1 = (Ret server, e')"
    by (auto simp: createAndGetSubscription_def bindR_Ret_iff)
  from create assms(1,2) Create_law [of s e] obtain s' where "subs e1 = (subs e)(em_name s \<mapsto> s')"
    "GetCleanedEventMeshSubscription s' = GetCleanedEventMeshSubscription s"
    by (fastforce simp: createSubscription_def with_client_def bindR_Ret_iff not_less split: if_splits)
  with getSubscription_reads [OF assms(1) get] show ?thesis by auto
qed

lemma updates_settings:
  "settings (snd (pm_Update c n a e)) = settings e"
  "settings (snd (pm_UpdateState c n t e)) = settings e"
  by (rule ext, cases "pm_Update c n a e", simp add: Update_law)
    (rule ext, cases "pm_UpdateState c n t e", simp add: UpdateState_law)

lemma handleWebhookAuthChange_settings:
  assumes "mb_client em = Some c"
  shows "settings (snd (handleWebhookAuthChange env em s sub e)) = settings e"
proof -
  note chain = bindR_rel [where R = "\<lambda>e e'. settings e' = settings e"]
  show ?thesis
    unfolding handleWebhookAuthChange_def with_client_def assms option.case
    by (cases "GetWebhookAuthHash (ee_hash env) (em_webhookAuth s)")
      (auto intro!: chain simp: updates_settings split: if_splits)
qed

text \<open>
  The stages before a creation: afterwards either nothing has the name, or the subscription that
  has it is the one the status knows.
\<close>

lemma getSubscriptionIgnoreNotFound_reads:
  assumes "mb_client em = Some c" and "getSubscriptionIgnoreNotFound em n e = (Ret s, e')"
  shows "subs e' = subs e \<and> s = subs e n"
proof (cases "getSubscription em n e")
  case (Pair r e1)
  show ?thesis
  proof (cases r)
    case (Ret x)
    with Pair assms show ?thesis using getSubscription_reads by (auto simp: getSubscriptionIgnoreNotFound_def)
  next
    case (Err err)
    with Pair assms(2) have "errors_Is err (HTTPStatusError StatusNotFound)" and "s = None" "e' = e1"
      by (auto simp: getSubscriptionIgnoreNotFound_def split: if_splits)
    from Pair Err consider
        e0 where "pm_Get c n e = (Err e0, e1)" "err = wrap_text ''get subscription failed: '' e0"
      | a resp where "pm_Get c n e = (Ret (a, resp), e1)" "err = status_err ''get subscription failed: '' resp"
      by (cases "pm_Get c n e"; cases "fst (pm_Get c n e)")
        (auto simp: getSubscription_def with_client_def assms(1) wrap_err_def split: if_splits)
    then show ?thesis
    proof cases
      case 1
      from Get_error [OF 1(1), of StatusNotFound] 1(2) \<open>errors_Is err _\<close> show ?thesis
        by (simp add: wrap_text_def HTTPStatusError_def)
    next
      case 2
      with Get_law [OF 2(1)] \<open>errors_Is err _\<close> \<open>s = None\<close> \<open>e' = e1\<close> show ?thesis by simp
    qed
  next
    case (Crash p)
    with Pair assms(2) show ?thesis by (simp add: getSubscriptionIgnoreNotFound_def)
  qed
qed

lemma check_server_sub_effect:
  assumes "mb_client em = Some c" and "subs e n = Some srv" and "check_server_sub env em srv s sub e = (Ret m, e')"
  shows "if m then subs e' n = None \<and> (\<forall>x. x \<noteq> n \<longrightarrow> settings e' x = settings e x)
    else settings e' = settings e \<and>
      GetHash (ee_hash env) (GetCleanedEventMeshSubscription srv) = Ret (bk_eventMeshHash (st_backend (sub_status sub)))"
proof -
  from assms(3) obtain m' e1 where mod: "handleEventMeshSubModified env em srv sub e = (Ret m', e1)"
    and rest: "(if ee_webhookAuthEnabled env \<and> \<not> m'
       then bindR (handleWebhookAuthChange env em s sub e1) (\<lambda>_ e. (Ret m', e)) else (Ret m', e1)) = (Ret m, e')"
    unfolding check_server_sub_def by (elim bindR_RetE)
  have "m = m'" using rest by (auto simp: bindR_Ret_iff split: if_splits)
  have keeps: "settings e' = settings e1" if "\<not> m'"
    using rest handleWebhookAuthChange_settings [OF assms(1), of env s sub e1] that
    by (auto simp: bindR_Ret_iff split: if_splits)
  have gone: "e' = e1" if m' using rest that by simp
  from mod [unfolded handleEventMeshSubModified_def, THEN delete_if_modified_effect [OF assms(1)]] named [OF assms(2)]
  show ?thesis
    using keeps gone \<open>m = m'\<close> by (auto simp: IsEventMeshSubModified_Ret split: if_splits)
qed

lemma handleKymaSubModified_effect:
  assumes "mb_client em = Some c" and "handleKymaSubModified env em s sub e = (Ret m, e')"
  shows "if m then subs e' = (subs e)(em_name s := None)
    else subs e' = subs e \<and> (trusted env (st_backend (sub_status sub)) s \<longrightarrow>
      GetHash (ee_hash env) (GetCleanedEventMeshSubscription s) = Ret (bk_eventMeshHash (st_backend (sub_status sub))))"
  using delete_if_modified_effect [OF assms(1) assms(2) [unfolded handleKymaSubModified_def Let_def]]
  by (auto simp: IsEventMeshSubModified_Ret trusted_def split: if_splits)

lemma create_and_update_effect:
  assumes "mb_client em = Some c"
    and "create_and_update env em infos s m1 m2 server (sub, e) = (Ret changed, (sub', e'))"
    and "if m1 \<or> m2 \<or> server = None then subs e (em_name s) = None
      else settings e (em_name s) = map_option GetCleanedEventMeshSubscription server \<and>
        GetHash (ee_hash env) (GetCleanedEventMeshSubscription (the server)) =
        GetHash (ee_hash env) (GetCleanedEventMeshSubscription s)"
  shows "\<exists>srv. settings e' (em_name s) = Some (GetCleanedEventMeshSubscription srv) \<and>
    GetHash (ee_hash env) (GetCleanedEventMeshSubscription srv) =
    GetHash (ee_hash env) (GetCleanedEventMeshSubscription s) \<and>
    recorded_status env infos s srv sub' \<and> same_identity sub sub' \<and>
    (\<forall>x. x \<noteq> em_name s \<longrightarrow> subs e' x = subs e x)"
proof -
  from assms(2) obtain server' sub1 e1 b where create: "(if m1 \<or> m2 \<or> server = None
        then handleCreateEventMeshSub em s (sub, e) else (Ret server, (sub, e))) = (Ret server', (sub1, e1))"
    and update: "handleKymaSubStatusUpdate env server' s infos sub1 = (Ret b, sub')" and "e' = e1"
    by (auto simp: create_and_update_def bindR_Ret_iff)
  from handleKymaSubStatusUpdate_Ret [OF update] obtain srv where srv: "server' = Some srv"
    "recorded_status env infos s srv sub'" "same_identity sub1 sub'" .
  from create have ident: "same_identity sub sub1"
    by (auto simp: handleCreateEventMeshSub_def same_identity_def split: if_splits)
  show ?thesis
  proof (cases "m1 \<or> m2 \<or> server = None")
    case True
    with create have "createAndGetSubscription em s e = (Ret (Some srv), e1)"
      by (auto simp: handleCreateEventMeshSub_def srv(1))
    from createAndGetSubscription_effect [OF assms(1) _ this] assms(3) True
    have "subs e' = (subs e)(em_name s \<mapsto> srv)"
      "GetCleanedEventMeshSubscription srv = GetCleanedEventMeshSubscription s"
      by (auto simp: \<open>e' = e1\<close>)
    with srv ident show ?thesis by (auto simp: same_identity_def intro!: exI [of _ srv])
  next
    case False
    with create assms(3) srv ident \<open>e' = e1\<close> show ?thesis by (intro exI [of _ srv]) (auto simp: same_identity_def)
  qed
qed

lemma SyncSubscription_em_effect:
  assumes "mb_client em = Some c"
    and run: "SyncSubscription_em env em cleaner apiRule (sub, e) = (Ret changed, (sub', e'))"
    and trust: "\<And>infos s. desired em cleaner apiRule sub infos s \<Longrightarrow> trusted env (st_backend (sub_status sub)) s"
  shows "\<exists>infos s srv. desired em cleaner apiRule sub infos s \<and>
    settings e' (em_name s) = Some (GetCleanedEventMeshSubscription srv) \<and>
    GetHash (ee_hash env) (GetCleanedEventMeshSubscription srv) =
    GetHash (ee_hash env) (GetCleanedEventMeshSubscription s) \<and>
    recorded_status env infos s srv sub' \<and> same_identity sub sub' \<and>
    (\<forall>x. x \<noteq> em_name s \<longrightarrow> settings e' x = settings e x)"
proof (rule SyncSubscription_em_RetE [OF run])
  fix infos s m1 e1 server e2 m2 e3
  assume des: "desired em cleaner apiRule sub infos s"
    and kyma: "handleKymaSubModified env em s sub e = (Ret m1, e1)"
    and look: "if m1 then server = None \<and> e2 = e1 else getSubscriptionIgnoreNotFound em (em_name s) e1 = (Ret server, e2)"
    and check: "case server of None \<Rightarrow> \<not> m2 \<and> e3 = e2 | Some srv \<Rightarrow> check_server_sub env em srv s sub e2 = (Ret m2, e3)"
    and create: "create_and_update env em infos s m1 m2 server (sub, e3) = (Ret changed, (sub', e'))"
  note 1 = handleKymaSubModified_effect [OF assms(1) kyma]
  have 2: "subs e2 = subs e1 \<and> server = subs e2 (em_name s)"
    using look 1 getSubscriptionIgnoreNotFound_reads [OF assms(1)] by (fastforce split: if_splits)
  have "(if m1 \<or> m2 \<or> server = None then subs e3 (em_name s) = None
      else settings e3 (em_name s) = map_option GetCleanedEventMeshSubscription server \<and>
        GetHash (ee_hash env) (GetCleanedEventMeshSubscription (the server)) =
        GetHash (ee_hash env) (GetCleanedEventMeshSubscription s)) \<and>
    (\<forall>x. x \<noteq> em_name s \<longrightarrow> settings e3 x = settings e x)"
  proof (cases server)
    case None
    with 1 2 check show ?thesis by (auto split: if_splits)
  next
    case (Some srv)
    with look have "\<not> m1" by auto
    from Some check 2 have "subs e2 (em_name s) = Some srv" "check_server_sub env em srv s sub e2 = (Ret m2, e3)" by auto
    note effect = check_server_sub_effect [OF assms(1) this]
    show ?thesis
    proof (cases m2)
      case True
      with effect 1 2 \<open>\<not> m1\<close> show ?thesis by simp
    next
      case False
      with effect have "settings e3 = settings e2" by simp
      then have "settings e3 x = settings e2 x" for x by metis
      with effect False 1 2 \<open>\<not> m1\<close> Some trust [OF des] \<open>subs e2 (em_name s) = Some srv\<close> show ?thesis by simp
    qed
  qed
  then have ready: "if m1 \<or> m2 \<or> server = None then subs e3 (em_name s) = None
      else settings e3 (em_name s) = map_option GetCleanedEventMeshSubscription server \<and>
        GetHash (ee_hash env) (GetCleanedEventMeshSubscription (the server)) =
        GetHash (ee_hash env) (GetCleanedEventMeshSubscription s)"
    and frame: "\<And>x. x \<noteq> em_name s \<Longrightarrow> settings e3 x = settings e x" by simp_all
  from create_and_update_effect [OF assms(1) create ready] obtain srv where
    "settings e' (em_name s) = Some (GetCleanedEventMeshSubscription srv)"
    "GetHash (ee_hash env) (GetCleanedEventMeshSubscription srv) =
     GetHash (ee_hash env) (GetCleanedEventMeshSubscription s)"
    "recorded_status env infos s srv sub'" "same_identity sub sub'"
    and "\<forall>x. x \<noteq> em_name s \<longrightarrow> subs e' x = subs e3 x" by blast
  with frame des show ?thesis by (intro exI [of _ infos] exI [of _ s] exI [of _ srv]) simp
qed

end

subsection \<open>A service that keeps the laws\<close>

text \<open>
  The laws of \<open>ems_service\<close> can be kept, and the REST client of the previous theory is able to
  speak to a service that does: the list of subscriptions below, behind requests and bodies in
  the place of \<^verbatim>\<open>net/http\<close> and JSON. A text is written after its length in unary notation.
\<close>

definition put_text :: "string \<Rightarrow> string" where
  "put_text s = replicate (length s) (CHR ''1'') @ CHR ''0'' # s"

fun get_texts :: "string \<Rightarrow> string list" where
  "get_texts [] = []"
| "get_texts (x # xs) =
     (let n = length (takeWhile (\<lambda>ch. ch = CHR ''1'') (x # xs)); r = drop n xs
      in take n r # get_texts (drop n r))"

lemma get_texts_put [simp]: "get_texts (put_text s @ r) = s # get_texts r"
proof -
  have run: "takeWhile (\<lambda>ch. ch = CHR ''1'') (put_text s @ r) = replicate (length s) (CHR ''1'')"
    by (induction "length s") (auto simp: put_text_def takeWhile_append)
  obtain x xs where eq: "put_text s @ r = x # xs" by (cases "put_text s @ r") (auto simp: put_text_def)
  moreover have "drop (length s) xs = s @ r"
    using arg_cong [OF eq, of "drop (Suc (length s))"] by (simp add: put_text_def)
  moreover have "drop (length s) (s @ r) = r" by simp
  ultimately show ?thesis
    using run by (simp add: Let_def del: takeWhile.simps drop_drop drop_append)
qed

lemma get_texts_one [simp]: "get_texts (put_text s) = [s]"
  using get_texts_put [of s "''''"] by simp

definition sub_texts :: "EMSubscription \<Rightarrow> string list" where
  "sub_texts s =
     [em_name s, em_webhookURL s, em_qos s, if em_exemptHandshake s then ''1'' else '''', em_contentMode s,
      em_handshakeStatus s, em_subscriptionStatus s, em_subscriptionStatusReason s, em_lastSuccessfulDelivery s,
      em_lastFailedDelivery s, em_lastFailedDeliveryReason s] @
     (case em_webhookAuth s of
        None \<Rightarrow> ['''', '''', '''', '''', '''', '''']
      | Some a \<Rightarrow> [''1'', wa_type a, wa_grantType a, wa_clientID a, wa_clientSecret a, wa_tokenURL a]) @
     (case em_events s of None \<Rightarrow> [''''] | Some es \<Rightarrow> ''1'' # concat (map (\<lambda>v. [ev_source v, ev_type v]) es))"

fun pairs :: "string list \<Rightarrow> EMEvent list" where
  "pairs (a # b # r) = \<lparr>ev_source = a, ev_type = b\<rparr> # pairs r"
| "pairs _ = []"

definition texts_sub :: "string list \<Rightarrow> EMSubscription" where
  "texts_sub t =
     \<lparr>em_name = t ! 0, em_events = (if t ! 17 = '''' then None else Some (pairs (drop 18 t))), em_webhookURL = t ! 1,
      em_webhookAuth = (if t ! 11 = '''' then None
        else Some \<lparr>wa_type = t ! 12, wa_grantType = t ! 13, wa_clientID = t ! 14, wa_clientSecret = t ! 15,
                   wa_tokenURL = t ! 16\<rparr>),
      em_qos = t ! 2, em_exemptHandshake = (t ! 3 \<noteq> ''''), em_contentMode = t ! 4, em_handshakeStatus = t ! 5,
      em_subscriptionStatus = t ! 6, em_subscriptionStatusReason = t ! 7, em_lastSuccessfulDelivery = t ! 8,
      em_lastFailedDelivery = t ! 9, em_lastFailedDeliveryReason = t ! 10\<rparr>"

definition sub_body :: "EMSubscription \<Rightarrow> string" where
  "sub_body s = concat (map put_text (sub_texts s))"

definition body_sub :: "string \<Rightarrow> EMSubscription" where
  "body_sub b = texts_sub (get_texts b)"

lemma get_texts_concat: "get_texts (concat (map put_text ts)) = ts"
  by (induction ts) auto

lemma pairs_concat: "pairs (concat (map (\<lambda>v. [ev_source v, ev_type v]) es)) = es"
  by (induction es) auto

lemma body_roundtrip [simp]: "body_sub (sub_body s) = s"
  by (cases s) (simp add: body_sub_def sub_body_def get_texts_concat texts_sub_def sub_texts_def pairs_concat
      split: option.splits)

lemma sub_body_nonempty [simp]: "sub_body s \<noteq> ''''"
  by (simp add: sub_body_def sub_texts_def put_text_def)

type_synonym ems_store = "EMSubscription list"

definition stored :: "ems_store \<Rightarrow> string \<Rightarrow> EMSubscription option" where
  "stored e n = find (\<lambda>s. em_name s = n) e"

definition answer :: "nat \<Rightarrow> string \<Rightarrow> http_answer" where
  "answer code body = Response \<lparr>ss_status = '''', ss_statusCode = code\<rparr> (Inr body)"

abbreviation subscription_path :: string where "subscription_path \<equiv> ''/events/subscriptions/''"

text \<open>The requests on one subscription name it after the path, those on its state with a suffix.\<close>

definition serve :: "http_request \<Rightarrow> ems_store \<Rightarrow> http_answer \<times> ems_store" where
  "serve req e =
     (let n = drop (length subscription_path) (rq_url req);
          body = body_sub (case rq_body req of Some b \<Rightarrow> b | None \<Rightarrow> '''')
      in if rq_method req = ''GET''
         then (case stored e n of Some s \<Rightarrow> (answer 200 (sub_body s), e) | None \<Rightarrow> (answer 404 '''', e))
         else if rq_method req = ''DELETE''
         then (case stored e n of Some s \<Rightarrow> (answer 204 '''', filter (\<lambda>s. em_name s \<noteq> n) e)
               | None \<Rightarrow> (answer 404 '''', e))
         else if rq_method req = ''POST''
         then (if stored e (em_name body) = None
               then (answer 201 '''', body\<lparr>em_subscriptionStatus := SubscriptionStatusActive\<rparr> # e)
               else (answer 409 '''', e))
         else if rq_method req = ''PATCH''
         then (if stored e n = None then (answer 404 '''', e)
               else (answer 204 '''',
                     map (\<lambda>s. if em_name s = n then s\<lparr>em_webhookAuth := em_webhookAuth body\<rparr> else s) e))
         else (answer 202 '''', e))"

definition store_http :: "ems_store http_lib" where
  "store_http =
     \<lparr>ht_encode = (\<lambda>b. case b of SubscriptionBody s \<Rightarrow> Inr (sub_body s) | StateBody t \<Rightarrow> Inr t | EventBody t \<Rightarrow> Inr t | NoBody \<Rightarrow> Inr ''''),
      ht_parse = (\<lambda>u. Inr ('''', u)), ht_resolve = (\<lambda>base ref. fst base @ snd base @ ref), ht_new = (\<lambda>_ _. None),
      ht_do = serve, ht_unmarshal = (\<lambda>b. Inr (Some (body_sub b))), ht_unmarshalResponse = (\<lambda>_. None),
      ht_unmarshalList = (\<lambda>_. Inr None), ht_unmarshalPublish = (\<lambda>_. Inr ([], []))\<rparr>"

lemma store_http_base: "NewHTTPClient store_http '''' = Ret ('''', ''/'')"
  by (simp add: NewHTTPClient_def store_http_def HasSuffix_def)

abbreviation store_client :: "ems_store publisher_manager" where
  "store_client \<equiv> NewClient store_http ('''', ''/'')"

lemmas client_defs =
  NewClient_def Create_em_def Get_em_def Update_em_def Delete_em_def UpdateState_def request_def NewRequest_def
  resolveReferenceAsRelative_def TrimPrefix_def HasPrefix_def Do_def store_http_def response_of_def decode_response_def answer_def

lemma store_Get:
  "pm_Get store_client n e =
     (case stored e n of
        Some s \<Rightarrow> (Ret (Some s, \<lparr>rs_statusCode = 200, rs_message = ''''\<rparr>), e)
      | None \<Rightarrow> (Ret (None, \<lparr>rs_statusCode = 404, rs_message = ''''\<rparr>), e))"
  by (simp add: client_defs serve_def Let_def split: option.split)

lemma store_Delete:
  "pm_Delete store_client n e =
     (Ret \<lparr>rs_statusCode = (if stored e n = None then 404 else 204), rs_message = ''''\<rparr>,
      if stored e n = None then e else filter (\<lambda>s. em_name s \<noteq> n) e)"
  by (simp add: client_defs serve_def Let_def split: option.split)

lemma store_Create:
  "pm_Create store_client s e =
     (Ret \<lparr>rs_statusCode = (if stored e (em_name s) = None then 201 else 409), rs_message = ''''\<rparr>,
      if stored e (em_name s) = None then s\<lparr>em_subscriptionStatus := SubscriptionStatusActive\<rparr> # e else e)"
  by (simp add: client_defs serve_def Let_def)

lemma store_Update:
  "pm_Update store_client n a e =
     (Ret \<lparr>rs_statusCode = (if stored e n = None then 404 else 204), rs_message = ''''\<rparr>,
      if stored e n = None then e else map (\<lambda>s. if em_name s = n then s\<lparr>em_webhookAuth := a\<rparr> else s) e)"
  by (simp add: client_defs serve_def Let_def empty_EMSubscription_def)

lemma store_UpdateState:
  "pm_UpdateState store_client n t e = (Ret \<lparr>rs_statusCode = 202, rs_message = ''''\<rparr>, e)"
  by (simp add: client_defs serve_def Let_def)

lemma stored_filter: "stored (filter (\<lambda>s. em_name s \<noteq> n) e) = (stored e)(n := None)"
  by (rule ext, induction e) (auto simp: stored_def)

lemma stored_auth:
  "map_option GetCleanedEventMeshSubscription
     (stored (map (\<lambda>s. if em_name s = n then s\<lparr>em_webhookAuth := a\<rparr> else s) e) x) =
   map_option GetCleanedEventMeshSubscription (stored e x)"
  by (induction e) (auto simp: stored_def GetCleanedEventMeshSubscription_def empty_EMSubscription_def)

lemma stored_activated:
  "stored (s\<lparr>em_subscriptionStatus := t\<rparr> # e) = (stored e)(em_name s \<mapsto> s\<lparr>em_subscriptionStatus := t\<rparr>)"
  by (auto simp: stored_def)

lemma cleaned_activated:
  "GetCleanedEventMeshSubscription (s\<lparr>em_subscriptionStatus := t\<rparr>) = GetCleanedEventMeshSubscription s"
  by (simp add: GetCleanedEventMeshSubscription_def)

text \<open>The client and this service, composed, keep the laws.\<close>

interpretation store: ems_service store_client stored
proof
  show "stored e n = Some s \<Longrightarrow> em_name s = n" for e n s
    by (auto simp: stored_def find_Some_iff)
  show "pm_Get store_client n e = (Ret (answer, resp), e') \<Longrightarrow> stored e' = stored e \<and>
      (rs_statusCode resp = StatusOK \<longrightarrow> answer = stored e n) \<and>
      (rs_statusCode resp = StatusNotFound \<longrightarrow> stored e n = None)" for n e answer resp e'
    by (auto simp: store_Get split: option.splits)
  show "pm_Get store_client n e = (Err err, e') \<Longrightarrow> stored e' = stored e \<and> \<not> errors_Is err (HTTPStatusError k)"
    for n e err e' k
    by (auto simp: store_Get split: option.splits)
  show "pm_Create store_client s e = (Ret resp, e') \<Longrightarrow>
      (rs_statusCode resp \<le> StatusAccepted \<longrightarrow> (\<exists>s'. stored e' = (stored e)(em_name s \<mapsto> s') \<and>
         GetCleanedEventMeshSubscription s' = GetCleanedEventMeshSubscription s)) \<and>
      (rs_statusCode resp = StatusConflict \<longrightarrow> stored e (em_name s) \<noteq> None \<and> stored e' = stored e)" for s e resp e'
    by (cases "stored e (em_name s) = None") (auto simp: store_Create stored_activated cleaned_activated)
  show "stored e' = (stored e)(n := None)" if "pm_Delete store_client n e = (Ret resp, e')" for n e resp e'
    using that by (auto simp: store_Delete stored_filter fun_eq_iff split: if_splits)
  show "pm_Update store_client n a e = (r1, e') \<Longrightarrow> map_option GetCleanedEventMeshSubscription (stored e' x) =
      map_option GetCleanedEventMeshSubscription (stored e x)" for n a e r1 e' x
    by (auto simp: store_Update stored_auth)
  show "pm_UpdateState store_client n t e = (r2, e') \<Longrightarrow> map_option GetCleanedEventMeshSubscription (stored e' x) =
      map_option GetCleanedEventMeshSubscription (stored e x)" for n t e r2 e' x
    by (auto simp: store_UpdateState)
qed

subsection \<open>Properties\<close>

text \<open>
  C21. If the synchronisation with EventMesh succeeds, EventMesh holds a subscription under the
  name of the Subscription whose settings have the hash of the desired ones, the status records
  the hashes, the types and the state of this subscription, and the settings of all other
  subscriptions are as before. What is needed before is that a status with the hash of the
  desired subscription has the hash of the same settings for the server.
\<close>

theorem SyncSubscription_em_success:
  assumes "ems_service c subs" and "mb_client em = Some c"
    and "SyncSubscription_em env em cleaner apiRule (sub, e) = (Ret changed, (sub', e'))"
    and "desired em cleaner apiRule sub infos s" and "trusted env (st_backend (sub_status sub)) s"
  shows "\<exists>srv. map_option GetCleanedEventMeshSubscription (subs e' (em_name s)) = Some (GetCleanedEventMeshSubscription srv) \<and>
    GetHash (ee_hash env) (GetCleanedEventMeshSubscription srv) =
    GetHash (ee_hash env) (GetCleanedEventMeshSubscription s) \<and>
    recorded_status env infos s srv sub' \<and> trusted env (st_backend (sub_status sub')) s \<and>
    (\<forall>x. x \<noteq> em_name s \<longrightarrow>
      map_option GetCleanedEventMeshSubscription (subs e' x) = map_option GetCleanedEventMeshSubscription (subs e x))"
proof -
  have the_one: "infos' = infos \<and> s' = s" if "desired em cleaner apiRule sub infos' s'" for infos' s'
    using that assms(4) by (auto simp: desired_def)
  obtain srv where
    srv: "map_option GetCleanedEventMeshSubscription (subs e' (em_name s)) = Some (GetCleanedEventMeshSubscription srv)"
    "GetHash (ee_hash env) (GetCleanedEventMeshSubscription srv) =
     GetHash (ee_hash env) (GetCleanedEventMeshSubscription s)" "recorded_status env infos s srv sub'"
    "\<forall>x. x \<noteq> em_name s \<longrightarrow>
      map_option GetCleanedEventMeshSubscription (subs e' x) = map_option GetCleanedEventMeshSubscription (subs e x)"
    using ems_service.SyncSubscription_em_effect [OF assms(1-3)] assms(5) the_one by blast
  moreover from srv(2,3) have "trusted env (st_backend (sub_status sub')) s"
    by (auto simp: trusted_def recorded_status_def hashes_recorded_def)
  ultimately show ?thesis by blast
qed

text \<open>
  C22. After a successful synchronisation a second one of the same Subscription only reads: if
  EventMesh answers with a subscription of the recorded hash, no other request is sent, and only
  the state of the subscription is copied into the status, whose change is reported.
\<close>

theorem SyncSubscription_em_settled:
  assumes "SyncSubscription_em env em cleaner apiRule (sub, e) = (Ret changed, (sub', e'))"
    and "mb_client em = Some c" and "MapSubscriptionName (mb_subNameMapper em) (sub_name sub) (sub_namespace sub) = Ret n"
    and "pm_Get c n e1 = (Ret (Some srv, resp), e2)" and "rs_statusCode resp = StatusOK"
    and "GetHash (ee_hash env) (GetCleanedEventMeshSubscription srv) = Ret (bk_eventMeshHash (st_backend (sub_status sub')))"
  shows "SyncSubscription_em env em cleaner apiRule (sub', e1) =
    (Ret (bk_eventMeshSubscriptionStatus (st_backend (sub_status sub')) \<noteq> Some (server_status srv)),
     (map_backend (\<lambda>b. b\<lparr>bk_eventMeshSubscriptionStatus := Some (server_status srv)\<rparr>) sub', e2))"
proof -
  obtain infos s old where des: "desired em cleaner apiRule sub infos s" and rec: "recorded_status env infos s old sub'"
    and ident: "same_identity sub sub'"
    using SyncSubscription_em_recorded [OF assms(1)] by blast
  have name: "em_name s = n"
    using des assms(3) by (auto simp: desired_def dest!: ConvertKymaSubToEventMeshSub_Ret)
  from des have des': "desired em cleaner apiRule sub' infos s" by (simp add: desired_identity [OF ident])
  have "GetHash (ee_hash env) s = Ret (bk_ev2hash (st_backend (sub_status sub')))"
    "GetHash (ee_hash env) (GetCleanedEventMeshSubscription s) = Ret (bk_eventMeshLocalHash (st_backend (sub_status sub')))"
    "GetWebhookAuthHash (ee_hash env) (em_webhookAuth s) = Ret (bk_webhookAuthHash (st_backend (sub_status sub')))"
    using rec by (simp_all add: recorded_status_def hashes_recorded_def)
  note hashes = this assms(6)
  have kyma: "handleKymaSubModified env em s sub' e1 = (Ret False, e1)"
    using hashes by (simp add: handleKymaSubModified_def delete_if_modified_def IsEventMeshSubModified_def Let_def)
  have get: "getSubscriptionIgnoreNotFound em n e1 = (Ret (Some srv), e2)"
    using assms(2,4,5) by (simp add: getSubscriptionIgnoreNotFound_def getSubscription_def with_client_def)
  have check: "check_server_sub env em srv s sub' e2 = (Ret False, e2)"
    using hashes by (simp add: check_server_sub_def handleEventMeshSubModified_def delete_if_modified_def
        IsEventMeshSubModified_def handleWebhookAuthChange_def)
  have update: "create_and_update env em infos s False False (Some srv) (sub', e2) =
    (Ret (bk_eventMeshSubscriptionStatus (st_backend (sub_status sub')) \<noteq> Some (server_status srv)),
     (map_backend (\<lambda>b. b\<lparr>bk_eventMeshSubscriptionStatus := Some (server_status srv)\<rparr>) sub', e2))"
    using handleKymaSubStatusUpdate_again [OF rec hashes(4)] rec
    by (auto simp: create_and_update_def on_sub_def recorded_status_def)
  show ?thesis
    using des' kyma get check update
    by (simp add: SyncSubscription_em_def desired_def on_server_def name)
qed

text \<open>
  If the deletion of a Subscription succeeds, its name is gone from EventMesh and every other
  subscription is still there.
\<close>

theorem DeleteSubscription_em_removes:
  assumes "ems_service c subs" and "mb_client em = Some c"
    and "MapSubscriptionName (mb_subNameMapper em) (sub_name sub) (sub_namespace sub) = Ret n"
    and "DeleteSubscription_em em sub e = (Ret u, e')"
  shows "subs e' = (subs e)(n := None)"
  using assms ems_service.deleteSubscription_gone [OF assms(1,2)]
  by (simp add: DeleteSubscription_em_def)

text \<open>
  C32. The processed event types are one for each different type of the Subscription, in their
  order: the type itself under exact matching, and otherwise the prefix, the cleaned source and
  the cleaned type joined by dots, with at most seven segments.
\<close>

theorem getProcessedEventTypes_correct:
  assumes "getProcessedEventTypes em sub cleaner = Ret infos"
  shows "map ti_originalType infos = GetUniqueTypes sub \<and>
    (spec_typeMatching (sub_spec sub) = TypeMatchingExact \<longrightarrow> map ti_processedType infos = GetUniqueTypes sub) \<and>
    (spec_typeMatching (sub_spec sub) \<noteq> TypeMatchingExact \<longrightarrow>
      (\<forall>i\<in>set infos. ti_processedType i =
           getEventMeshSubject (fst (cl_CleanSource cleaner (spec_source (sub_spec sub))))
             (fst (cl_CleanEventType cleaner (ti_originalType i))) (mb_eventMeshPrefix em) \<and>
         length (split_on (CHR ''.'') (ti_processedType i)) \<le> 7))"
proof -
  have all2: "list_all2 (\<lambda>t i. event_type_info em sub cleaner t = Ret i) (GetUniqueTypes sub) infos"
    using assms by (simp add: getProcessedEventTypes_Ret)
  then have len: "length (GetUniqueTypes sub) = length infos"
    and nth: "\<And>k. k < length infos \<Longrightarrow> event_type_info em sub cleaner (GetUniqueTypes sub ! k) = Ret (infos ! k)"
    by (auto simp: list_all2_conv_all_nth)
  have "map ti_originalType infos = GetUniqueTypes sub"
    by (rule nth_equalityI) (use len nth event_type_info_Ret in fastforce)+
  moreover have "map ti_processedType infos = GetUniqueTypes sub" if "spec_typeMatching (sub_spec sub) = TypeMatchingExact"
    by (rule nth_equalityI) (use len nth event_type_info_Ret that in fastforce)+
  moreover have "ti_processedType i =
           getEventMeshSubject (fst (cl_CleanSource cleaner (spec_source (sub_spec sub))))
             (fst (cl_CleanEventType cleaner (ti_originalType i))) (mb_eventMeshPrefix em) \<and>
         length (split_on (CHR ''.'') (ti_processedType i)) \<le> 7"
    if "spec_typeMatching (sub_spec sub) \<noteq> TypeMatchingExact" and "i \<in> set infos" for i
    using that nth event_type_info_Ret by (fastforce simp: in_set_conv_nth)
  ultimately show ?thesis by blast
qed

subsection \<open>Examples\<close>

definition example_em_env :: em_env where
  "example_em_env =
     \<lparr>ee_hash = \<lparr>hl_subscription = (\<lambda>s. Inr (Suc (length (items (em_events s))))), hl_webhookAuth = (\<lambda>_. Inr 1)\<rparr>,
      ee_webhookAuthEnabled = True\<rparr>"

definition example_em :: "ems_store EventMesh" where
  "example_em =
     (NewEventMesh \<lparr>cc_clientID = ''id'', cc_clientSecret = ''secret'', cc_tokenURL = ''url'', cc_certsURL = ''certs''\<rparr>
        (NewBEBSubscriptionNameMapper ''kyma.io'' MaxSubscriptionNameLength))
     \<lparr>mb_client := Some store_client,
      mb_protocolSettings := Some \<lparr>ps_contentMode = Some ''BINARY'', ps_exemptHandshake = Some True,
        ps_qos = Some ''AT_LEAST_ONCE''\<rparr>,
      mb_namespace := ''/default/kyma'', mb_eventMeshPrefix := ''sap.kyma.custom''\<rparr>"

definition example_rule :: APIRule where
  "example_rule =
     \<lparr>ar_meta = named_meta ''webhook'' ''ns'', ar_service = None,
      ar_rules = Some [\<lparr>rl_path = ''/'', rl_methods = [''POST''], rl_service = None, rl_jwt = None, rl_extAuth = False\<rparr>],
      ar_gateway = None, ar_hosts = Some [Some ''web.kyma.local''], ar_generateName = '''', ar_resourceVersion = '''',
      ar_state = ''''\<rparr>"

abbreviation example_em_name :: string where
  "example_em_name \<equiv> ''sub'' @ hashSubscriptionFullName ''kyma.io'' ''ns'' ''sub''"

definition example_infos :: "EventTypeInfo list" where
  "example_infos =
     [\<lparr>ti_originalType = ''order.created.v1'', ti_cleanType = ''order.created.v1'',
       ti_processedType = ''sap.kyma.custom.source.order.created.v1''\<rparr>,
      \<lparr>ti_originalType = ''order.deleted.v1'', ti_cleanType = ''order.deleted.v1'',
       ti_processedType = ''sap.kyma.custom.source.order.deleted.v1''\<rparr>]"

definition example_desired :: EMSubscription where
  "example_desired =
     empty_EMSubscription\<lparr>em_name := example_em_name, em_contentMode := ''BINARY'', em_exemptHandshake := True,
       em_qos := ''AT_LEAST_ONCE'', em_webhookURL := ''https://web.kyma.local/'',
       em_events := Some [\<lparr>ev_source = ''/default/kyma'', ev_type = ''sap.kyma.custom.source.order.created.v1''\<rparr>,
                          \<lparr>ev_source = ''/default/kyma'', ev_type = ''sap.kyma.custom.source.order.deleted.v1''\<rparr>]\<rparr>"

lemma example_types: "getProcessedEventTypes example_em example_subscription EventMeshCleaner = Ret example_infos"
  by code_simp

lemma example_url: "GetExposedURLFromAPIRule example_rule (spec_sink (sub_spec example_subscription)) = Ret ''https://web.kyma.local/''"
  by code_simp

lemma example_em_mapper: "MapSubscriptionName (mb_subNameMapper example_em) (sub_name example_subscription)
    (sub_namespace example_subscription) = Ret example_em_name"
proof -
  have "40 < nm_maxLength (mb_subNameMapper example_em)"
    by (simp add: example_em_def NewEventMesh_def NewBEBSubscriptionNameMapper_def)
  from MapSubscriptionName_Ret [OF this] show ?thesis
    by (simp add: example_em_def NewEventMesh_def NewBEBSubscriptionNameMapper_def example_subscription_def)
qed

lemma example_settings: "setEventMeshProtocolSettings example_subscription s = s"
  by (simp add: setEventMeshProtocolSettings_def example_subscription_def)

lemma example_desired_url:
  assumes "GetExposedURLFromAPIRule rule (spec_sink (sub_spec example_subscription)) = Ret url"
  shows "desired example_em EventMeshCleaner rule example_subscription example_infos (example_desired\<lparr>em_webhookURL := url\<rparr>)"
proof -
  have "getDefaultSubscriptionV1Alpha2 (mb_protocolSettings example_em) =
      Ret (empty_EMSubscription\<lparr>em_contentMode := ''BINARY'', em_exemptHandshake := True, em_qos := ''AT_LEAST_ONCE''\<rparr>)"
    by code_simp
  moreover have "getEventMeshEvents example_infos (spec_typeMatching (sub_spec example_subscription)) (mb_namespace example_em)
      (spec_source (sub_spec example_subscription)) = items (em_events example_desired)"
    by (simp add: getEventMeshEvents_def Let_def example_infos_def example_subscription_def example_em_def NewEventMesh_def
        example_desired_def)
  moreover have "getEventMeshWebhookAuth example_subscription (mb_webhookAuth example_em) = None"
    by (simp add: getEventMeshWebhookAuth_def example_subscription_def example_em_def NewEventMesh_def)
  ultimately show ?thesis
    by (simp add: desired_def example_types ConvertKymaSubToEventMeshSub_def assms example_em_mapper
        example_settings example_desired_def empty_EMSubscription_def)
qed

lemma example_desired: "desired example_em EventMeshCleaner example_rule example_subscription example_infos example_desired"
proof -
  have "example_desired\<lparr>em_webhookURL := ''https://web.kyma.local/''\<rparr> = example_desired" by (simp add: example_desired_def)
  with example_desired_url [OF example_url] show ?thesis by simp
qed

definition example_server :: EMSubscription where
  "example_server = example_desired\<lparr>em_subscriptionStatus := SubscriptionStatusActive\<rparr>"

definition example_em_synced :: Subscription where
  "example_em_synced = example_subscription\<lparr>sub_status := empty_SubscriptionStatus
     \<lparr>st_types := Some [\<lparr>et_originalType = ''order.created.v1'', et_cleanType = ''order.created.v1''\<rparr>,
                        \<lparr>et_originalType = ''order.deleted.v1'', et_cleanType = ''order.deleted.v1''\<rparr>],
      st_backend := empty_Backend\<lparr>bk_ev2hash := 3, bk_eventMeshHash := 3, bk_eventMeshLocalHash := 3, bk_webhookAuthHash := 1,
        bk_eventMeshSubscriptionStatus := Some (server_status example_server),
        bk_emsTypes := statusFinalEventTypes example_infos\<rparr>\<rparr>\<rparr>"

lemma example_hash: "GetHash (ee_hash example_em_env) s = Ret (int64 (Suc (length (items (em_events s)))))"
  by (simp add: GetHash_def example_em_env_def)

lemma example_auth_hash: "GetWebhookAuthHash (ee_hash example_em_env) a = Ret 1"
  by (simp add: GetWebhookAuthHash_def example_em_env_def int64_def)

lemma length_cleaned_events: "length (items (em_events (GetCleanedEventMeshSubscription s))) = length (items (em_events s))"
  by (simp add: GetCleanedEventMeshSubscription_def empty_EMSubscription_def items_def appended_def)

lemma example_events: "length (items (em_events example_desired)) = 2" "length (items (em_events example_server)) = 2"
  by (simp_all add: example_desired_def example_server_def)

lemma example_client: "mb_client example_em = Some store_client"
  by (simp add: example_em_def)

lemma example_em_sync:
  "SyncSubscription_em example_em_env example_em EventMeshCleaner example_rule (example_subscription, []) =
     (Ret True, (example_em_synced, [example_server]))"
proof -
  have kyma: "handleKymaSubModified example_em_env example_em example_desired example_subscription [] = (Ret True, [])"
    by (simp add: handleKymaSubModified_def delete_if_modified_def IsEventMeshSubModified_def Let_def example_hash
        length_cleaned_events example_events int64_def example_subscription_def empty_SubscriptionStatus_def
        empty_Backend_def deleteSubscription_def with_client_def example_client store_Delete stored_def)
  have create: "createAndGetSubscription example_em example_desired [] = (Ret (Some example_server), [example_server])"
    by (simp add: createAndGetSubscription_def createSubscription_def getSubscription_def with_client_def example_client
        store_Create store_Get stored_def example_server_def)
  have update: "handleKymaSubStatusUpdate example_em_env (Some example_server) example_desired example_infos
      (example_subscription\<lparr>sub_status := InitializeEventTypes (sub_status example_subscription)\<rparr>) =
      (Ret True, example_em_synced)"
    by (simp add: status_defs example_hash length_cleaned_events example_events example_auth_hash Let_def
        int64_def example_em_synced_def appended_def example_infos_def example_subscription_def map_backend_def
        statusCleanEventTypes_def statusFinalEventTypes_def InitializeEventTypes_def empty_SubscriptionStatus_def
        empty_Backend_def server_status_def example_server_def)
  show ?thesis
    using example_desired kyma create update
    by (simp add: SyncSubscription_em_def desired_def on_server_def on_sub_def create_and_update_def
        handleCreateEventMeshSub_def)
qed

theorem SyncSubscription_em_success_witness:
  "\<exists>srv. map_option GetCleanedEventMeshSubscription (stored [example_server] example_em_name) =
     Some (GetCleanedEventMeshSubscription srv) \<and> recorded_status example_em_env example_infos example_desired srv example_em_synced"
proof -
  have "trusted example_em_env (st_backend (sub_status example_subscription)) example_desired"
    by (simp add: trusted_def example_hash length_cleaned_events example_events int64_def example_subscription_def
        empty_SubscriptionStatus_def empty_Backend_def)
  from SyncSubscription_em_success [OF store.ems_service_axioms example_client example_em_sync example_desired this]
  show ?thesis by (auto simp: example_desired_def)
qed

theorem SyncSubscription_em_settled_witness:
  "SyncSubscription_em example_em_env example_em EventMeshCleaner example_rule (example_em_synced, [example_server]) =
     (Ret False, (example_em_synced, [example_server]))"
proof -
  have "pm_Get store_client example_em_name [example_server] =
      (Ret (Some example_server, \<lparr>rs_statusCode = 200, rs_message = ''''\<rparr>), [example_server])"
    by (simp add: store_Get stored_def example_server_def example_desired_def)
  moreover have "GetHash (ee_hash example_em_env) (GetCleanedEventMeshSubscription example_server) =
      Ret (bk_eventMeshHash (st_backend (sub_status example_em_synced)))"
    by (simp add: example_hash length_cleaned_events example_events int64_def example_em_synced_def)
  ultimately have "SyncSubscription_em example_em_env example_em EventMeshCleaner example_rule
      (example_em_synced, [example_server]) =
      (Ret (bk_eventMeshSubscriptionStatus (st_backend (sub_status example_em_synced)) \<noteq> Some (server_status example_server)),
       (map_backend (\<lambda>b. b\<lparr>bk_eventMeshSubscriptionStatus := Some (server_status example_server)\<rparr>) example_em_synced,
        [example_server]))"
    by (intro SyncSubscription_em_settled [OF example_em_sync example_client example_em_mapper]) auto
  then show ?thesis by (simp add: example_em_synced_def map_backend_def)
qed

theorem DeleteSubscription_em_removes_witness:
  "stored (snd (DeleteSubscription_em example_em example_subscription [example_server])) example_em_name = None"
proof -
  have "DeleteSubscription_em example_em example_subscription [example_server] = (Ret (), [])"
    by (simp add: DeleteSubscription_em_def example_em_mapper deleteSubscription_def with_client_def example_client
        store_Delete stored_def example_server_def example_desired_def)
  from DeleteSubscription_em_removes [OF store.ems_service_axioms example_client example_em_mapper this] this
  show ?thesis by simp
qed

theorem getProcessedEventTypes_correct_witness:
  "list_all (\<lambda>i. length (split_on (CHR ''.'') (ti_processedType i)) \<le> 7) example_infos"
proof -
  have "spec_typeMatching (sub_spec example_subscription) \<noteq> TypeMatchingExact" by (simp add: example_subscription_def)
  with getProcessedEventTypes_correct [OF example_types] show ?thesis unfolding list_all_iff by blast
qed

end
