(* ===== verification/Api_Rules.thy ===== *)
theory Api_Rules
  imports Eventmesh_Utils
begin

section \<open>APIRules and authorization policies (pkg/object)\<close>

text \<open>
  The builders of the objects that expose a sink to EventMesh. An option of a builder is a function
  on the object; the feature flag for the webhook authentication is an argument. Istio's
  AuthorizationPolicy is the record of what the builder sets.
\<close>

subsection \<open>apirule.go\<close>

type_synonym api_option = "APIRule \<Rightarrow> APIRule"

definition NewAPIRule :: "string \<Rightarrow> string \<Rightarrow> api_option list \<Rightarrow> APIRule" where
  "NewAPIRule ns namePrefix opts =
     fold (\<lambda>opt. opt) opts
       \<lparr>ar_meta = named_meta '''' ns, ar_service = None, ar_rules = None, ar_gateway = None, ar_hosts = None,
        ar_generateName = namePrefix, ar_resourceVersion = '''', ar_state = ''''\<rparr>"

definition ApplyExistingAPIRuleAttributes :: "APIRule \<Rightarrow> APIRule \<Rightarrow> APIRule" where
  "ApplyExistingAPIRuleAttributes src dst =
     dst\<lparr>ar_meta := (ar_meta dst)\<lparr>om_name := om_name (ar_meta src)\<rparr>, ar_generateName := '''',
         ar_resourceVersion := ar_resourceVersion src, ar_hosts := ar_hosts src, ar_state := ar_state src\<rparr>"

definition GetService :: "string \<Rightarrow> nat \<Rightarrow> APIService" where
  "GetService svcName port = \<lparr>as_name = Some svcName, as_port = Some port, as_isExternal = Some True\<rparr>"

definition WithService :: "string option slice \<Rightarrow> string \<Rightarrow> nat \<Rightarrow> api_option" where
  "WithService hosts svcName port r = r\<lparr>ar_service := Some (GetService svcName port), ar_hosts := hosts\<rparr>"

definition WithGateway :: "string \<Rightarrow> api_option" where
  "WithGateway gw r = r\<lparr>ar_gateway := Some gw\<rparr>"

fun RemoveDuplicateValues_loop :: "string list \<Rightarrow> string list \<Rightarrow> string list" where
  "RemoveDuplicateValues_loop keys [] = keys"
| "RemoveDuplicateValues_loop keys (entry # values) =
     RemoveDuplicateValues_loop (if List.member keys entry then keys else keys @ [entry]) values"

definition RemoveDuplicateValues :: "string list \<Rightarrow> string list" where
  "RemoveDuplicateValues values = RemoveDuplicateValues_loop [] values"

definition WithLabels_rule :: "gomap \<Rightarrow> api_option" where
  "WithLabels_rule labels r = r\<lparr>ar_meta := (ar_meta r)\<lparr>om_labels := labels\<rparr>\<rparr>"

definition sub_owner :: "Subscription \<Rightarrow> OwnerReference" where
  "sub_owner sub =
     \<lparr>or_apiVersion = sub_apiVersion sub, or_kind = sub_kind sub, or_name = sub_name sub, or_uid = sub_uid sub,
      or_controller = None, or_blockOwnerDeletion = Some True\<rparr>"

definition WithOwnerReference :: "Subscription list \<Rightarrow> api_option" where
  "WithOwnerReference subs rule = rule\<lparr>ar_meta := (ar_meta rule)\<lparr>om_ownerReferences := map sub_owner subs\<rparr>\<rparr>"

text \<open>The paths of the sinks; a sink that does not parse is skipped.\<close>

fun sink_paths :: "Subscription list \<Rightarrow> string list" where
  "sink_paths [] = []"
| "sink_paths (sub # subs) =
     (case ParseRequestURI (spec_sink (sub_spec sub)) of
        Ret hostURL \<Rightarrow> sink_path hostURL # sink_paths subs
      | _ \<Rightarrow> sink_paths subs)"

text \<open>\<^verbatim>\<open>strings.Replace(s, old, new, 1)\<close>.\<close>

fun replace_first :: "string \<Rightarrow> string \<Rightarrow> string \<Rightarrow> string" where
  "replace_first old new [] = (if old = [] then new else [])"
| "replace_first old new (x # xs) =
     (if HasPrefix (x # xs) old then new @ drop (length old) (x # xs) else x # replace_first old new xs)"

definition path_rule :: "bool \<Rightarrow> string \<Rightarrow> APIService \<Rightarrow> string list \<Rightarrow> string \<Rightarrow> APIRuleRule" where
  "path_rule webhookAuthEnabled certsURL svc methods path =
     \<lparr>rl_path = path, rl_methods = methods, rl_service = Some svc,
      rl_jwt = (if webhookAuthEnabled then Some (certsURL, replace_first ''/oauth2/certs'' '''' certsURL) else None),
      rl_extAuth = (\<not> webhookAuthEnabled)\<rparr>"

definition StringsToMethods :: "string list \<Rightarrow> string list" where
  "StringsToMethods methods = methods"

definition WithRules :: "bool \<Rightarrow> string \<Rightarrow> Subscription list \<Rightarrow> APIService \<Rightarrow> string list \<Rightarrow> api_option" where
  "WithRules webhookAuthEnabled certsURL subs svc methods rule =
     rule\<lparr>ar_rules := Some (map (path_rule webhookAuthEnabled certsURL svc (StringsToMethods methods))
            (RemoveDuplicateValues (sink_paths subs)))\<rparr>"

subsection \<open>authorization_policy.go\<close>

record AuthorizationPolicy =
  ap_namespace :: string
  ap_name :: string
  ap_notPrincipals :: "string list"
  ap_selector :: "gomap option"
  ap_allow :: bool

type_synonym policy_option = "AuthorizationPolicy \<Rightarrow> AuthorizationPolicy"

abbreviation IstioIngressGatewaySA :: string where
  "IstioIngressGatewaySA \<equiv> ''cluster.local/ns/istio-system/sa/istio-ingressgateway-service-account''"

definition NewAuthorizationPolicy :: "string \<Rightarrow> string \<Rightarrow> policy_option list \<Rightarrow> AuthorizationPolicy" where
  "NewAuthorizationPolicy namespace name opts =
     fold (\<lambda>opt. opt) opts
       \<lparr>ap_namespace = namespace, ap_name = name, ap_notPrincipals = [IstioIngressGatewaySA], ap_selector = None,
        ap_allow = True\<rparr>"

definition WithSelector_policy :: "gomap \<Rightarrow> policy_option" where
  "WithSelector_policy labels r = r\<lparr>ap_selector := Some labels\<rparr>"

definition WithAllowAction :: policy_option where
  "WithAllowAction r = r\<lparr>ap_allow := True\<rparr>"

subsection \<open>Lemmas\<close>

lemma RemoveDuplicateValues_dedup: "RemoveDuplicateValues values = dedup values"
proof -
  have "RemoveDuplicateValues_loop keys vs = dedup_acc keys vs" for keys vs
    by (induction vs arbitrary: keys) auto
  then show ?thesis by (simp add: RemoveDuplicateValues_def)
qed

lemma in_sink_paths:
  "path \<in> set (sink_paths subs) \<longleftrightarrow>
     (\<exists>sub u. sub \<in> set subs \<and> ParseRequestURI (spec_sink (sub_spec sub)) = Ret u \<and> path = sink_path u)"
  by (induction subs) (auto split: result.splits)

text \<open>
  The rules of an APIRule are exactly one per path of a sink: each sink that parses is exposed
  under its path, no path has two rules, and every rule forwards to the given service with the
  given methods and is protected by the JWT of the certificates or, without the feature, left to
  the external authorizer.
\<close>

theorem WithRules_exposes_sinks:
  "\<exists>rules. ar_rules (WithRules auth certs subs svc methods rule) = Some rules \<and>
     distinct (map rl_path rules) \<and>
     rl_path ` set rules = {sink_path u | u sub. sub \<in> set subs \<and> ParseRequestURI (spec_sink (sub_spec sub)) = Ret u} \<and>
     list_all (\<lambda>r. rl_service r = Some svc \<and> rl_methods r = methods \<and>
        (rl_jwt r \<noteq> None) = auth \<and> rl_extAuth r = (\<not> auth)) rules"
proof -
  have paths: "map rl_path (map (path_rule auth certs svc ms) ps) = ps" for ms ps
    by (induction ps) (simp_all add: path_rule_def)
  have "rl_path ` set (map (path_rule auth certs svc methods) (dedup (sink_paths subs))) = set (sink_paths subs)"
    using arg_cong [OF paths [of methods "dedup (sink_paths subs)"], of set] by (simp add: image_image)
  moreover have "set (sink_paths subs) =
      {sink_path u | u sub. sub \<in> set subs \<and> ParseRequestURI (spec_sink (sub_spec sub)) = Ret u}"
    using in_sink_paths [of _ subs] by (auto 4 4)
  moreover have "rl_service r = Some svc \<and> rl_methods r = methods \<and> (rl_jwt r \<noteq> None) = auth \<and> rl_extAuth r = (\<not> auth)"
    if "r \<in> set (map (path_rule auth certs svc methods) (dedup (sink_paths subs)))" for r
    using that by (auto simp: path_rule_def split: if_splits)
  ultimately show ?thesis
    by (simp add: WithRules_def RemoveDuplicateValues_dedup StringsToMethods_def paths list_all_iff del: set_map map_map)
qed

end
