(* ===== verification/Go_Time.thy ===== *)
theory Go_Time
  imports Go_Strings
begin

section \<open>Times in RFC 3339 (time.Parse and time.Format)\<close>

text \<open>
  A point in time is the number of nanoseconds since 1970 in UTC. Formatting cuts the fraction of a
  second off and writes a time in UTC; parsing follows the layout \<^verbatim>\<open>time.RFC3339\<close>, including the
  fraction and the hour of one digit that \<^verbatim>\<open>time.Parse\<close> admits.
\<close>

abbreviation Nanos :: int where "Nanos \<equiv> 1000000000"

definition days_before_year :: "int \<Rightarrow> int" where
  "days_before_year y = 365 * (y - 1) + (y - 1) div 4 - (y - 1) div 100 + (y - 1) div 400 - 719162"

definition leap :: "int \<Rightarrow> bool" where
  "leap y \<longleftrightarrow> y mod 4 = 0 \<and> (y mod 100 \<noteq> 0 \<or> y mod 400 = 0)"

definition month_days :: "int \<Rightarrow> int list" where
  "month_days y = [31, if leap y then 29 else 28, 31, 30, 31, 30, 31, 31, 30, 31, 30, 31]"

definition days_before_month :: "int \<Rightarrow> nat \<Rightarrow> int" where
  "days_before_month y m = sum_list (take m (month_days y))"

subsection \<open>Parsing\<close>

text \<open>\<^verbatim>\<open>getnum\<close>: one or two digits, exactly two if \<open>fixed\<close>.\<close>

fun getnum :: "bool \<Rightarrow> string \<Rightarrow> (int \<times> string) option" where
  "getnum fixed [] = None"
| "getnum fixed [a] = (if is_digit a \<and> \<not> fixed then Some (of_char a - 48, []) else None)"
| "getnum fixed (a # b # s) =
     (if \<not> is_digit a then None
      else if is_digit b then Some (10 * (of_char a - 48) + (of_char b - 48), s)
      else if fixed then None else Some (of_char a - 48, b # s))"

definition digits_int :: "string \<Rightarrow> int" where
  "digits_int s = foldl (\<lambda>n c. 10 * n + (of_char c - 48)) 0 s"

definition get_year :: "string \<Rightarrow> (int \<times> string) option" where
  "get_year s =
     (if length s < 4 \<or> \<not> list_all is_digit (take 4 s) then None else Some (digits_int (take 4 s), drop 4 s))"

definition expect :: "char \<Rightarrow> string \<Rightarrow> string option" where
  "expect c s = (case s of x # r \<Rightarrow> if x = c then Some r else None | [] \<Rightarrow> None)"

text \<open>A number below a limit, followed by the rest.\<close>

definition getbelow :: "bool \<Rightarrow> int \<Rightarrow> string \<Rightarrow> (int \<times> string) option" where
  "getbelow fixed limit s = (case getnum fixed s of Some (n, r) \<Rightarrow> if n < limit then Some (n, r) else None | None \<Rightarrow> None)"

text \<open>The fraction after the seconds: a dot or a comma and digits, of which nine count.\<close>

definition get_fraction :: "string \<Rightarrow> int \<times> string" where
  "get_fraction s =
     (case s of
        x # r \<Rightarrow>
          let ds = takeWhile is_digit r in
          if (x = CHR ''.'' \<or> x = CHR '','') \<and> ds \<noteq> []
          then (digits_int (take 9 (ds @ replicate 9 (CHR ''0''))), drop (length ds) r)
          else (0, s)
      | [] \<Rightarrow> (0, s))"

text \<open>The offset from UTC in seconds.\<close>

definition get_zone :: "string \<Rightarrow> (int \<times> string) option" where
  "get_zone s =
     (case s of
        [] \<Rightarrow> None
      | x # r \<Rightarrow>
          if x = CHR ''Z'' then Some (0, r)
          else if x = CHR ''+'' \<or> x = CHR ''-'' then
            Option.bind (getbelow True 25 r) (\<lambda>(h, r).
            Option.bind (expect (CHR '':'') r) (\<lambda>r.
            Option.bind (getbelow True 61 r) (\<lambda>(m, r).
              Some ((if x = CHR ''-'' then - 1 else 1) * (h * 3600 + m * 60), r))))
          else None)"

definition get_date :: "string \<Rightarrow> (int \<times> string) option" where
  "get_date s =
     Option.bind (get_year s) (\<lambda>(y, s).
     Option.bind (expect (CHR ''-'') s) (\<lambda>s.
     Option.bind (getbelow True 13 s) (\<lambda>(m, s).
     Option.bind (expect (CHR ''-'') s) (\<lambda>s.
     Option.bind (getnum True s) (\<lambda>(d, s).
       if 1 \<le> m \<and> 1 \<le> d \<and> d \<le> month_days y ! nat (m - 1)
       then Some (days_before_year y + days_before_month y (nat (m - 1)) + d - 1, s) else None)))))"

definition get_clock :: "string \<Rightarrow> (int \<times> string) option" where
  "get_clock s =
     Option.bind (getbelow False 24 s) (\<lambda>(h, s).
     Option.bind (expect (CHR '':'') s) (\<lambda>s.
     Option.bind (getbelow True 60 s) (\<lambda>(m, s).
     Option.bind (expect (CHR '':'') s) (\<lambda>s.
     Option.bind (getbelow True 60 s) (\<lambda>(sec, s).
       Some (h * 3600 + m * 60 + sec, s))))))"

definition ParseRFC3339 :: "string \<Rightarrow> int option" where
  "ParseRFC3339 s =
     Option.bind (get_date s) (\<lambda>(days, s).
     Option.bind (expect (CHR ''T'') s) (\<lambda>s.
     Option.bind (get_clock s) (\<lambda>(secs, s).
     let (frac, s) = get_fraction s in
     Option.bind (get_zone s) (\<lambda>(offset, s).
       if s = [] then Some ((days * 86400 + secs - offset) * Nanos + frac) else None))))"

subsection \<open>Formatting\<close>

definition two_digits :: "int \<Rightarrow> string" where
  "two_digits n = [char_of (48 + nat (n div 10)), char_of (48 + nat (n mod 10))]"

definition year_of_day :: "int \<Rightarrow> int" where
  "year_of_day d =
     (case find (\<lambda>y. d < days_before_year (y + 1)) [(d + 719162) div 366 + 1 .. (d + 719162) div 365 + 1] of
        Some y \<Rightarrow> y | None \<Rightarrow> 0)"

definition month_of_day :: "int \<Rightarrow> int \<Rightarrow> nat" where
  "month_of_day y r = length (takeWhile (\<lambda>m. days_before_month y (Suc m) \<le> r) [0..<12])"

definition FormatRFC3339 :: "int \<Rightarrow> string" where
  "FormatRFC3339 t =
     (let secs = t div Nanos; d = secs div 86400; c = secs mod 86400; y = year_of_day d;
          r = d - days_before_year y; m = month_of_day y r
      in two_digits (y div 100) @ two_digits (y mod 100) @ ''-'' @ two_digits (int m + 1) @ ''-'' @
         two_digits (r - days_before_month y m + 1) @ ''T'' @ two_digits (c div 3600) @ '':'' @
         two_digits (c div 60 mod 60) @ '':'' @ two_digits (c mod 60) @ ''Z'')"

text \<open>The calendar at a leap day, before one that does not exist, and in the first year.\<close>

lemma example_formats:
  "FormatRFC3339 1709164799500000000 = ''2024-02-28T23:59:59Z''"
  "FormatRFC3339 951782400000000000 = ''2000-02-29T00:00:00Z''"
  "FormatRFC3339 (-62135596800000000000) = ''0001-01-01T00:00:00Z''"
  "ParseRFC3339 ''2024-02-29T00:00:00.5+01:30'' = Some 1709159400500000000"
  "ParseRFC3339 ''2000-02-29T00:00:00Z'' = Some 951782400000000000"
  "ParseRFC3339 ''2023-02-29T00:00:00Z'' = None"
  by code_simp+

subsection \<open>Parsing a formatted time\<close>

lemma digit_char:
  assumes "0 \<le> d" and "d < 10"
  shows "is_digit (char_of (48 + nat d)) \<and> of_char (char_of (48 + nat d)) = 48 + d"
proof -
  have "list_all (\<lambda>d. is_digit (char_of (48 + nat d)) \<and> of_char (char_of (48 + nat d)) = 48 + d) [0, 1, 2, 3, 4, 5, 6, 7, 8, 9]"
    by code_simp
  moreover from assms have "d = 0 \<or> d = 1 \<or> d = 2 \<or> d = 3 \<or> d = 4 \<or> d = 5 \<or> d = 6 \<or> d = 7 \<or> d = 8 \<or> d = 9"
    by presburger
  then have "d \<in> set [0, 1, 2, 3, 4, 5, 6, 7, 8, 9]" by simp
  ultimately show ?thesis unfolding list_all_iff by blast
qed

lemma digits_of:
  assumes "0 \<le> n" and "n < 100"
  obtains a b p q where "two_digits n = [a, b]" and "is_digit a" and "is_digit b" and "of_char a = 48 + p"
    and "of_char b = 48 + q" and "10 * p + q = n"
proof -
  have "0 \<le> n div 10" "n div 10 < 10" "0 \<le> n mod 10" "n mod 10 < 10" using assms by simp_all
  note digit_char [OF this(1,2)] digit_char [OF this(3,4)]
  moreover note mult_div_mod_eq [of 10 n]
  ultimately show ?thesis using that unfolding two_digits_def by blast
qed

lemma getnum_two_digits: "0 \<le> n \<Longrightarrow> n < 100 \<Longrightarrow> getnum fixed (two_digits n @ s) = Some (n, s)"
  by (rule digits_of [of n]) auto

lemma getbelow_two_digits: "0 \<le> n \<Longrightarrow> n < 100 \<Longrightarrow> n < limit \<Longrightarrow> getbelow fixed limit (two_digits n @ s) = Some (n, s)"
  by (simp add: getbelow_def getnum_two_digits)

lemma get_year_digits:
  assumes "0 \<le> h" and "h < 100" and "0 \<le> l" and "l < 100"
  shows "get_year (two_digits h @ two_digits l @ s) = Some (100 * h + l, s)"
proof -
  obtain a b p q where "two_digits h = [a, b]" "is_digit a" "is_digit b" "of_char a = 48 + p" "of_char b = 48 + q" "10 * p + q = h"
    by (rule digits_of [OF assms(1,2)])
  moreover obtain c d u v where "two_digits l = [c, d]" "is_digit c" "is_digit d" "of_char c = 48 + u" "of_char d = 48 + v" "10 * u + v = l"
    by (rule digits_of [OF assms(3,4)])
  ultimately show ?thesis by (simp add: get_year_def digits_int_def)
qed

lemma expect_Cons [simp]: "expect c (c # s) = Some s"
  by (simp add: expect_def)

lemma days_before_year_bounds:
  assumes "0 \<le> k"
  shows "365 * k \<le> days_before_year (k + 1) + 719162 \<and> days_before_year (k + 1) + 719162 \<le> 366 * k"
proof -
  define l where "l = k div 4 - k div 100 + k div 400"
  have "k div 100 \<le> k div 4" "k div 400 \<le> k div 100" "0 \<le> k div 400" "k div 4 \<le> k"
    using assms by (simp_all add: zdiv_mono2 pos_imp_zdiv_nonneg_iff)
  then have "0 \<le> l" "l \<le> k" by (simp_all add: l_def)
  moreover have "days_before_year (k + 1) + 719162 = 365 * k + l" by (simp add: days_before_year_def l_def)
  ultimately show ?thesis by simp
qed

lemma year_of_day:
  assumes "0 \<le> d + 719162"
  defines "y \<equiv> year_of_day d"
  shows "1 \<le> y \<and> days_before_year y \<le> d \<and> d < days_before_year (y + 1)"
proof -
  define lo hi where "lo = (d + 719162) div 366" and "hi = (d + 719162) div 365"
  let ?P = "\<lambda>y. d < days_before_year (y + 1)"
  let ?ys = "[lo + 1 .. hi + 1]"
  have quot: "366 * lo \<le> d + 719162" "d + 719162 < 365 * (hi + 1)" "0 \<le> hi" "0 \<le> lo" "lo \<le> hi"
    using assms(1) by (simp_all add: lo_def hi_def pos_imp_zdiv_nonneg_iff zdiv_mono2)
  have "?P (hi + 1)" using days_before_year_bounds [of "hi + 1"] quot by simp
  moreover have "hi + 1 \<in> set ?ys" using quot by simp
  ultimately have "find ?P ?ys \<noteq> None" by (metis find_None_iff)
  then obtain x where x: "find ?P ?ys = Some x" by blast
  then have y: "y = x" by (simp add: y_def year_of_day_def lo_def hi_def)
  from x obtain i where i: "i < length ?ys" "?P (?ys ! i)" "x = ?ys ! i" "\<forall>j<i. \<not> ?P (?ys ! j)"
    by (auto simp: find_Some_iff)
  then have xi: "x = lo + 1 + int i" by (simp add: nth_upto)
  have "days_before_year x \<le> d"
  proof (cases i)
    case 0
    with xi have "x = lo + 1" by simp
    with days_before_year_bounds [of lo] quot show ?thesis by simp
  next
    case (Suc j)
    with i(4) have "\<not> ?P (?ys ! j)" by simp
    moreover have "?ys ! j = x - 1" using i(1) Suc xi by (simp add: nth_upto)
    ultimately show ?thesis by simp
  qed
  moreover have "1 \<le> x" using xi quot by simp
  ultimately show ?thesis using i(2,3) y by simp
qed

lemma length_month_days [simp]: "length (month_days y) = 12"
  by (simp add: month_days_def)

lemma days_before_month_Suc: "m < 12 \<Longrightarrow> days_before_month y (Suc m) = days_before_month y m + month_days y ! m"
  by (simp add: days_before_month_def take_Suc_conv_app_nth)

lemma month_days_upper:
  assumes "m < 12"
  shows "month_days y ! m \<le> 31"
proof -
  have "list_all (\<lambda>n. n \<le> 31) (month_days y)" by (simp add: month_days_def)
  then show ?thesis using assms by (simp add: list_all_length)
qed

lemma month_of_day:
  assumes "0 \<le> r" and "r < days_before_month y 12"
  defines "m \<equiv> month_of_day y r"
  shows "m < 12 \<and> days_before_month y m \<le> r \<and> r < days_before_month y (Suc m)"
proof -
  let ?P = "\<lambda>m. days_before_month y (Suc m) \<le> r"
  let ?ms = "takeWhile ?P [0..<12]"
  have m: "m = length ?ms" by (simp add: m_def month_of_day_def)
  have before: "?P i" if "i < m" for i
  proof -
    have "?ms ! i \<in> set ?ms" using that m by simp
    then have "?P (?ms ! i)" using set_takeWhileD by metis
    moreover have "?ms ! i = i" using that m takeWhile_nth [of i ?P "[0..<12]"] length_takeWhile_le [of ?P "[0..<12]"] by simp
    ultimately show ?thesis by simp
  qed
  have "m \<le> 12" using length_takeWhile_le [of ?P "[0..<12]"] m by simp
  moreover have "m \<noteq> 12" using before [of 11] assms(2) by (auto simp: numeral_eq_Suc)
  ultimately have "m < 12" by simp
  then have "\<not> ?P m" using nth_length_takeWhile [of ?P "[0..<12]"] m by simp
  moreover have "days_before_month y m \<le> r"
  proof (cases m)
    case 0
    then show ?thesis using assms(1) by (simp add: days_before_month_def)
  next
    case (Suc i)
    then show ?thesis using before [of i] by simp
  qed
  ultimately show ?thesis using \<open>m < 12\<close> by simp
qed

lemma div_step:
  assumes "0 < (k::int)"
  shows "y div k = (y - 1) div k + (if y mod k = 0 then 1 else 0)"
proof (cases "y mod k = 0")
  case True
  then have "y - 1 = k * (y div k - 1) + (k - 1)" using mult_div_mod_eq [of k y] by (simp add: algebra_simps)
  then have "(y - 1) div k = y div k - 1" by (rule int_div_pos_eq) (use assms in simp_all)
  with True show ?thesis by simp
next
  case False
  have "y - 1 = k * (y div k) + (y mod k - 1)" using mult_div_mod_eq [of k y] by simp
  then have "(y - 1) div k = y div k"
    by (rule int_div_pos_eq) (use assms False pos_mod_sign [of k y] pos_mod_bound [of k y] in linarith)+
  with False show ?thesis by simp
qed

lemma leap_days:
  "(if y mod 4 = 0 then 1 else 0) - (if y mod 100 = 0 then 1 else 0) + (if y mod 400 = 0 then 1 else 0) = (if leap y then 1 else (0::int))"
proof -
  have "y mod 100 = 0 \<Longrightarrow> y mod 4 = 0" using mod_mod_cancel [of 4 100 y] by simp
  moreover have "y mod 400 = 0 \<Longrightarrow> y mod 100 = 0" using mod_mod_cancel [of 100 400 y] by simp
  ultimately show ?thesis unfolding leap_def by (cases "y mod 4 = 0"; cases "y mod 100 = 0"; cases "y mod 400 = 0") simp_all
qed

lemma days_in_year: "days_before_year (y + 1) = days_before_year y + days_before_month y 12"
proof -
  have "days_before_month y 12 = 365 + (if leap y then 1 else 0)"
    by (simp add: days_before_month_def month_days_def)
  moreover have "365 * y + (a + i) - (b + j) + (c + k) - z = (365 * (y - 1) + a - b + c - z) + (365 + (i - j + k))"
    for a b c i j k z :: int by simp
  ultimately show ?thesis
    by (simp only: days_before_year_def add_diff_cancel_right' div_step [of 4 y] div_step [of 100 y] div_step [of 400 y]
      zero_less_numeral leap_days)
qed

lemma days_before_year_mono: "days_before_year y \<le> days_before_year (y + int n)"
proof (induction n)
  case (Suc n)
  have "0 \<le> days_before_month (y + int n) 12" by (simp add: days_before_month_def month_days_def)
  with Suc days_in_year [of "y + int n"] show ?case by (simp add: ac_simps)
qed simp

lemma get_date_digits:
  assumes "0 \<le> h" and "h < 100" and "0 \<le> l" and "l < 100" and "100 * h + l = y" and "m < 12" and "1 \<le> n"
    and "n \<le> month_days y ! m"
  shows "get_date (two_digits h @ two_digits l @ CHR ''-'' # two_digits (int m + 1) @ CHR ''-'' # two_digits n @ s) =
    Some (days_before_year y + days_before_month y m + n - 1, s)"
proof -
  have "n < 100" using assms(8) month_days_upper [OF assms(6), of y] by simp
  then show ?thesis using assms
    by (simp add: get_date_def get_year_digits getbelow_two_digits getnum_two_digits)
qed

lemma get_clock_digits:
  assumes "0 \<le> h" and "h < 24" and "0 \<le> m" and "m < 60" and "0 \<le> n" and "n < 60"
  shows "get_clock (two_digits h @ CHR '':'' # two_digits m @ CHR '':'' # two_digits n @ s) = Some (h * 3600 + m * 60 + n, s)"
  using assms by (simp add: get_clock_def getbelow_two_digits)

lemma clock_parts:
  assumes "0 \<le> (c::int)" and "c < 86400"
  shows "0 \<le> c div 3600" "c div 3600 < 24" "c div 3600 * 3600 + c div 60 mod 60 * 60 + c mod 60 = c"
proof -
  have "c div 3600 = c div 60 div 60" by (simp add: zdiv_zmult2_eq [symmetric])
  moreover define m where "m = c div 60"
  ultimately have "c div 3600 = m div 60" by simp
  moreover have "60 * m + c mod 60 = c" "60 * (m div 60) + m mod 60 = m" by (simp_all add: m_def)
  moreover define p q u where "p = m div 60" and "q = m mod 60" and "u = c mod 60"
  ultimately have "c div 3600 = p" "60 * m + u = c" "60 * p + q = m" by simp_all
  then have "c div 3600 * 3600 + q * 60 + u = c" by simp
  then show "c div 3600 * 3600 + c div 60 mod 60 * 60 + c mod 60 = c" by (simp only: q_def u_def m_def)
qed (use assms in simp_all)

text \<open>Parsing gives back the time without the fraction of a second, in the years from 1 to 9999.\<close>

theorem Parse_Format:
  assumes "- 62135596800 \<le> t div Nanos" and "t div Nanos < 253402300800"
  shows "ParseRFC3339 (FormatRFC3339 t) = Some (t div Nanos * Nanos)"
proof -
  define secs d c y r m where "secs = t div Nanos" and "d = secs div 86400" and "c = secs mod 86400"
    and "y = year_of_day d" and "r = d - days_before_year y" and "m = month_of_day y r"
  note defs = this
  have d: "0 \<le> d + 719162" "d < 2932897" using assms by (simp_all add: d_def secs_def)
  then have y: "1 \<le> y" "days_before_year y \<le> d" "d < days_before_year (y + 1)" using year_of_day [of d] by (simp_all add: y_def)
  have y10000: "y < 10000"
  proof (rule ccontr)
    assume "\<not> y < 10000"
    then have "y = 10000 + int (nat (y - 10000))" by simp
    then have "days_before_year 10000 \<le> days_before_year y" by (metis days_before_year_mono)
    moreover have "days_before_year 10000 = 2932897" by (simp add: days_before_year_def)
    ultimately show False using d y by simp
  qed
  have "0 \<le> r" "r < days_before_month y 12" using y days_in_year [of y] by (simp_all add: r_def)
  then have m: "m < 12" "days_before_month y m \<le> r" "r < days_before_month y m + month_days y ! m"
    using month_of_day [of r y] days_before_month_Suc [of m y] by (simp_all add: m_def)
  have format: "FormatRFC3339 t = two_digits (y div 100) @ two_digits (y mod 100) @ CHR ''-'' # two_digits (int m + 1) @
      CHR ''-'' # two_digits (r - days_before_month y m + 1) @ CHR ''T'' # two_digits (c div 3600) @ CHR '':'' #
      two_digits (c div 60 mod 60) @ CHR '':'' # two_digits (c mod 60) @ ''Z''"
    by (simp add: FormatRFC3339_def Let_def defs)
  define n where "n = r - days_before_month y m + 1"
  have "0 \<le> y div 100" "y div 100 < 100" "0 \<le> y mod 100" "y mod 100 < 100" "100 * (y div 100) + y mod 100 = y" "1 \<le> n"
    "n \<le> month_days y ! m"
    using y y10000 m by (simp_all add: n_def)
  note date = get_date_digits [OF this(1-5) m(1) this(6,7)]
  have c: "0 \<le> c" "c < 86400" by (simp_all add: c_def)
  have "0 \<le> c div 60 mod 60" "c div 60 mod 60 < 60" "0 \<le> c mod 60" "c mod 60 < 60" by simp_all
  note clock = get_clock_digits [OF clock_parts(1,2) [OF c] this]
  have "(days_before_year y + days_before_month y m + n - 1) * 86400 + c = secs"
    by (simp add: n_def r_def d_def c_def)
  then show ?thesis unfolding ParseRFC3339_def format n_def [symmetric] date
    by (simp add: clock clock_parts(3) [OF c] get_fraction_def get_zone_def secs_def)
qed

end
