(* ===== verification/Metrics.thy ===== *)
theory Metrics
  imports Prelude
begin

section \<open>The subscription status metric (pkg/backend/metrics/collector.go)\<close>

text \<open>The gauge by its labels: subscription, namespace, backend type, consumer, stream.\<close>

type_synonym status_metrics = "string \<times> string \<times> string \<times> string \<times> string \<rightharpoonup> int"

definition RecordSubscriptionStatus ::
  "bool \<Rightarrow> string \<Rightarrow> string \<Rightarrow> string \<Rightarrow> string \<Rightarrow> string \<Rightarrow> status_metrics \<Rightarrow> status_metrics" where
  "RecordSubscriptionStatus isActive subscriptionName subscriptionNamespace backendType consumer streamName m =
     m((subscriptionName, subscriptionNamespace, backendType, consumer, streamName)
         \<mapsto> (if isActive then 1 else 0))"

definition RemoveSubscriptionStatus ::
  "string \<Rightarrow> string \<Rightarrow> string \<Rightarrow> string \<Rightarrow> string \<Rightarrow> status_metrics \<Rightarrow> status_metrics" where
  "RemoveSubscriptionStatus subscriptionName subscriptionNamespace backendType consumer streamName m =
     m((subscriptionName, subscriptionNamespace, backendType, consumer, streamName) := None)"

definition ResetSubscriptionStatus :: "status_metrics \<Rightarrow> status_metrics" where
  "ResetSubscriptionStatus m = Map.empty"

end
