(* ===== verification/Eventmesh_Reconciler.thy ===== *)
theory Eventmesh_Reconciler
  imports Eventmesh_Sync Api_Rules Go_Time Metrics
begin

section \<open>The EventMesh Subscription reconciler (internal/controller/eventing/subscription/eventmesh)\<close>

text \<open>
  One reconciliation of a Subscription for EventMesh: fetch it, handle its deletion or add the
  finalizer, validate it, expose its sink by an APIRule, hand it to the backend, compute the
  conditions, and write status and finalizers. The collaborators are the functions of
  \<open>em_rec_env\<close>: the Kubernetes client on a type \<open>'k\<close> of cluster states, the validator, and the
  \<^verbatim>\<open>Backend\<close> interface on a type \<open>'b\<close> of backend states. Creating or updating an object fills it
  with the answer of the API server, so these calls return the object. \<^verbatim>\<open>time.Now()\<close> is \<open>now\<close>
  throughout a reconciliation, and \<open>er_random\<close> are the draws for a random name. The recorded
  Kubernetes events are part of the state, logs are left out.
\<close>

type_synonym ('s, 'a) call = "'s \<Rightarrow> ('s, 'a) outcome"

record ('b, 'k) em_rec_env =
  er_GetSubscription :: "string \<Rightarrow> string \<Rightarrow> ('k, Subscription) call"
  er_UpdateSubscription :: "Subscription \<Rightarrow> ('k, unit) call"
  er_StatusUpdate :: "Subscription \<Rightarrow> ('k, Subscription) call"
  er_ListSubscriptions :: "string \<Rightarrow> ('k, Subscription list) call"
  er_GetAPIRule :: "string \<Rightarrow> string \<Rightarrow> ('k, APIRule) call"
  er_ListAPIRules :: "gomap \<Rightarrow> string \<Rightarrow> ('k, APIRule list) call"
  er_CreateAPIRule :: "APIRule \<Rightarrow> ('k, APIRule) call"
  er_UpdateAPIRule :: "APIRule \<Rightarrow> ('k, APIRule) call"
  er_DeleteAPIRule :: "APIRule \<Rightarrow> ('k, unit) call"
  er_GetPolicy :: "string \<Rightarrow> string \<Rightarrow> ('k, unit) call"
  er_CreatePolicy :: "AuthorizationPolicy \<Rightarrow> ('k, unit) call"
  er_GetServiceSelector :: "string \<Rightarrow> string \<Rightarrow> ('k, gomap) call"
  er_Validate :: "Subscription \<Rightarrow> 'k \<Rightarrow> goerr option"
  er_SyncSubscription :: "Cleaner \<Rightarrow> APIRule \<Rightarrow> Subscription \<times> 'b \<Rightarrow> (Subscription \<times> 'b, bool) outcome"
  er_DeleteSubscription :: "Subscription \<Rightarrow> ('b, unit) call"
  er_cleaner :: Cleaner
  er_nameMapper :: eventMeshSubscriptionNameMapper
  er_certsURL :: string
  er_Domain :: string
  er_webhookAuthEnabled :: bool
  er_random :: "nat \<Rightarrow> nat"
  er_order :: "Condition list \<Rightarrow> Condition list"

text \<open>A Kubernetes event: its type, its reason and its message.\<close>

type_synonym kube_event = "string \<times> string \<times> string"

record ('b, 'k) em_state =
  es_backend :: 'b
  es_k8s :: 'k
  es_metrics :: status_metrics
  es_events :: "kube_event list"

abbreviation suffixLength :: nat where "suffixLength \<equiv> 10"
abbreviation externalHostPrefix :: string where "externalHostPrefix \<equiv> ''web''"
abbreviation externalSinkScheme :: string where "externalSinkScheme \<equiv> ''https''"
abbreviation apiRuleNamePrefix :: string where "apiRuleNamePrefix \<equiv> ''webhook-''"
abbreviation timeoutRetryActiveEmsStatus :: time where "timeoutRetryActiveEmsStatus \<equiv> 30 * Nanos"
abbreviation requeueAfterDuration :: time where "requeueAfterDuration \<equiv> 2 * Nanos"
abbreviation backendType_em :: string where "backendType_em \<equiv> ''EventMesh''"

abbreviation ClusterLocalAPIGateway :: string where "ClusterLocalAPIGateway \<equiv> ''kyma-system/kyma-gateway''"
abbreviation ControllerServiceLabelKey :: string where "ControllerServiceLabelKey \<equiv> ''service''"
abbreviation ControllerIdentityLabelKey :: string where "ControllerIdentityLabelKey \<equiv> ''beb''"
abbreviation ControllerIdentityLabelValue :: string where "ControllerIdentityLabelValue \<equiv> ''webhook''"

abbreviation ConditionReasonSubscriptionCreated :: string where
  "ConditionReasonSubscriptionCreated \<equiv> ''EventMesh Subscription created''"
abbreviation ConditionReasonSubscriptionCreationFailed :: string where
  "ConditionReasonSubscriptionCreationFailed \<equiv> ''EventMesh Subscription creation failed''"
abbreviation ConditionReasonSubscriptionActive :: string where
  "ConditionReasonSubscriptionActive \<equiv> ''EventMesh Subscription active''"
abbreviation ConditionReasonSubscriptionNotActive :: string where
  "ConditionReasonSubscriptionNotActive \<equiv> ''EventMesh Subscription not active''"
abbreviation ConditionReasonSubscriptionDeleted :: string where
  "ConditionReasonSubscriptionDeleted \<equiv> ''EventMesh Subscription deleted''"
abbreviation ConditionReasonWebhookCallStatus :: string where
  "ConditionReasonWebhookCallStatus \<equiv> ''EventMesh Subscription webhook call no errors status''"

definition CreateMessageForConditionReasonSubscriptionCreated :: "string \<Rightarrow> string" where
  "CreateMessageForConditionReasonSubscriptionCreated eventMeshName = ''EventMesh subscription name is: '' @ eventMeshName"

text \<open>An error whose text is built from another error, which is not wrapped.\<close>

definition describe :: "string \<Rightarrow> goerr \<Rightarrow> goerr" where
  "describe t err = Plain KOther (t @ Error err)"

definition describe_failed :: "string \<Rightarrow> ('s, 'a) outcome \<Rightarrow> ('s, 'a) outcome" where
  "describe_failed t m = (case m of (Err err, s) \<Rightarrow> (Err (describe t err), s) | _ \<Rightarrow> m)"

definition on_cluster :: "('k, 'a) call \<Rightarrow> (('b, 'k) em_state, 'a) call" where
  "on_cluster f s = (case f (es_k8s s) of (r, k) \<Rightarrow> (r, s\<lparr>es_k8s := k\<rparr>))"

definition emit :: "kube_event \<Rightarrow> ('b, 'k) em_state \<Rightarrow> ('b, 'k) em_state" where
  "emit ev s = s\<lparr>es_events := es_events s @ [ev]\<rparr>"

text \<open>A failed call is recorded as a warning.\<close>

definition warn_failed :: "string \<Rightarrow> string \<Rightarrow> (('b, 'k) em_state, 'a) outcome \<Rightarrow> (('b, 'k) em_state, 'a) outcome" where
  "warn_failed reason message m =
     (case m of (Err err, s) \<Rightarrow> (Err err, emit (''Warning'', reason, message) s) | _ \<Rightarrow> m)"

subsection \<open>utils.go\<close>

definition isInDeletion_em :: "Subscription \<Rightarrow> bool" where
  "isInDeletion_em subscription \<longleftrightarrow>
     (case sub_deletionTimestamp subscription of None \<Rightarrow> False | Some t \<Rightarrow> t \<noteq> 0)"

definition isFinalizerSet :: "Subscription \<Rightarrow> bool" where
  "isFinalizerSet sub \<longleftrightarrow> list_ex (\<lambda>finalizer. finalizer = Finalizer) (sub_finalizers sub)"

definition addFinalizer_em :: "(Subscription, unit) call" where
  "addFinalizer_em sub = (Ret (), sub\<lparr>sub_finalizers := sub_finalizers sub @ [Finalizer]\<rparr>)"

definition removeFinalizer_em :: "Subscription \<Rightarrow> Subscription" where
  "removeFinalizer_em sub = sub\<lparr>sub_finalizers := filter (\<lambda>finalizer. finalizer \<noteq> Finalizer) (sub_finalizers sub)\<rparr>"

definition getSvcNsAndName :: "string \<Rightarrow> (string \<times> string) result" where
  "getSvcNsAndName url =
     (let parts = split_on (CHR ''.'') url in
      if length parts < 2 then Err (Wrapped ['''', '' url: '' @ url] [Sentinel ''invalid sink''])
      else Ret (parts ! 1, parts ! 0))"

definition computeAPIRuleReadyStatus :: "APIRule \<Rightarrow> bool" where
  "computeAPIRuleReadyStatus apiRule \<longleftrightarrow> (if ar_state apiRule = '''' then False else ar_state apiRule = ''Ready'')"

definition setSubscriptionStatusExternalSink :: "APIRule \<Rightarrow> (Subscription, unit) call" where
  "setSubscriptionStatusExternalSink apiRule subscription =
     (if ar_service apiRule = None then (Err (Plain KOther ''APIRule has nil service''), subscription)
      else if ar_hosts apiRule = None then (Err (Plain KOther ''APIRule has nil host''), subscription)
      else case ParseRequestURI (spec_sink (sub_spec subscription)) of
        Err err \<Rightarrow> (Err (describe (''invalid sink for subscription namespace='' @ sub_namespace subscription @
                      '' name='' @ sub_name subscription @ '' : '') err), subscription)
      | Crash p \<Rightarrow> (Crash p, subscription)
      | Ret uri \<Rightarrow> (Ret (), map_backend (\<lambda>b. b\<lparr>bk_externalSink :=
            externalSinkScheme @ ''://'' @ first_host apiRule @ sink_path uri\<rparr>) subscription))"

subsection \<open>Conditions\<close>

text \<open>
  The condition takes the place of the one with its type, if there is one, and the Subscription is
  ready if all conditions are fulfilled then.
\<close>

definition replaceStatusCondition :: "Condition \<Rightarrow> Subscription \<Rightarrow> bool \<times> Subscription" where
  "replaceStatusCondition condition subscription =
     (let st = sub_status subscription;
          desiredConditions = map (\<lambda>cond. if cond_type cond = cond_type condition then condition else cond)
            (st_conditions st);
          isReady = list_all (\<lambda>c. cond_status c = ConditionTrue) desiredConditions
      in if ConditionsEquals (st_conditions st) desiredConditions \<and> st_ready st = isReady then (False, subscription)
         else (True, subscription\<lparr>sub_status := st\<lparr>st_conditions := desiredConditions, st_ready := isReady\<rparr>\<rparr>))"

text \<open>
  The expected conditions are a map by type, here the list of those that are left. What is left at
  the end is appended in the iteration order of the map, \<open>er_order\<close>.
\<close>

fun keep_required :: "Condition list \<Rightarrow> Condition list \<Rightarrow> Condition list \<times> Condition list" where
  "keep_required [] expected = ([], expected)"
| "keep_required (condition # conditions) expected =
     (if list_ex (\<lambda>e. cond_type e = cond_type condition) expected
      then (case keep_required conditions (filter (\<lambda>e. cond_type e \<noteq> cond_type condition) expected) of
              (required, left) \<Rightarrow> (condition # required, left))
      else keep_required conditions expected)"

definition getRequiredConditions ::
  "(Condition list \<Rightarrow> Condition list) \<Rightarrow> Condition list \<Rightarrow> Condition list \<Rightarrow> Condition list" where
  "getRequiredConditions order subscriptionConditions expectedConditions =
     (case keep_required subscriptionConditions expectedConditions of (required, left) \<Rightarrow> required @ order left)"

definition syncInitialStatus :: "('b, 'k) em_rec_env \<Rightarrow> time \<Rightarrow> Subscription \<Rightarrow> Subscription" where
  "syncInitialStatus env now subscription =
     (let st = (if st_types (sub_status subscription) = None then InitializeEventTypes (sub_status subscription)
                else sub_status subscription);
          expectedStatus = InitializeConditions now empty_SubscriptionStatus
      in if ContainSameConditionTypes (st_conditions st) (st_conditions expectedStatus) \<and> \<not> ShouldUpdateReadyStatus now st
         then subscription\<lparr>sub_status := st\<rparr>
         else map_backend (\<lambda>b. b\<lparr>bk_apiRuleName := '''', bk_externalSink := ''''\<rparr>)
           (subscription\<lparr>sub_status :=
              if st_conditions st = []
              then expectedStatus\<lparr>st_backend := CopyHashes (st_backend expectedStatus) (st_backend st)\<rparr>
              else st\<lparr>st_conditions :=
                     getRequiredConditions (er_order env) (st_conditions st) (st_conditions expectedStatus),
                   st_ready := \<not> st_ready st\<rparr>\<rparr>))"

definition validateSubscription_em ::
  "('b, 'k) em_rec_env \<Rightarrow> time \<Rightarrow> Subscription \<Rightarrow> 'k \<Rightarrow> Subscription \<times> goerr option" where
  "validateSubscription_em env now subscription k =
     (let err = er_Validate env subscription k;
          status = (if err \<noteq> None then SetNotReady (sub_status subscription) else sub_status subscription)
      in (subscription\<lparr>sub_status := SetSubscriptionSpecValidCondition now err status\<rparr>, err))"

definition syncConditionSubscribed ::
  "('b, 'k) em_rec_env \<Rightarrow> time \<Rightarrow> goerr option \<Rightarrow> (Subscription, unit) call" where
  "syncConditionSubscribed env now err subscription =
     bindR (MapSubscriptionName (er_nameMapper env) (sub_name subscription) (sub_namespace subscription), subscription)
       (\<lambda>name subscription. (Ret (), snd (replaceStatusCondition
          (case err of
             None \<Rightarrow> MakeCondition now ConditionSubscribed ConditionReasonSubscriptionCreated ConditionTrue
                       (CreateMessageForConditionReasonSubscriptionCreated name)
           | Some e \<Rightarrow> MakeCondition now ConditionSubscribed ConditionReasonSubscriptionCreationFailed ConditionFalse
                       (Error e)) subscription)))"

definition syncConditionSubscriptionActive :: "time \<Rightarrow> bool \<Rightarrow> Subscription \<Rightarrow> Subscription" where
  "syncConditionSubscriptionActive now isActive subscription =
     snd (replaceStatusCondition
       (if \<not> isActive
        then MakeCondition now ConditionSubscriptionActive ConditionReasonSubscriptionNotActive ConditionFalse
               ''Waiting for subscription to be active''
        else MakeCondition now ConditionSubscriptionActive ConditionReasonSubscriptionActive ConditionTrue '''')
       subscription)"

text \<open>The texts of the errors of \<^verbatim>\<open>time.Parse\<close> are cut short.\<close>

definition parse_time_error :: "string \<Rightarrow> goerr" where
  "parse_time_error s = Plain KOther (''parsing time '' @ Quote s)"

text \<open>
  Whether the last delivery failed, and the error of a time that cannot be parsed. The status of the
  EventMesh subscription is dereferenced.
\<close>

definition checkLastFailedDelivery :: "Subscription \<Rightarrow> (bool \<times> goerr option) result" where
  "checkLastFailedDelivery subscription =
     (case bk_eventMeshSubscriptionStatus (st_backend (sub_status subscription)) of
        None \<Rightarrow> Crash nil_pointer
      | Some st \<Rightarrow>
          if ems_lastFailedDelivery st = '''' then Ret (False, None)
          else (case ParseRFC3339 (ems_lastFailedDelivery st) of
            None \<Rightarrow> Ret (True, Some (describe ''failed to parse LastFailedDelivery: ''
                      (parse_time_error (ems_lastFailedDelivery st))))
          | Some lastFailedDeliveryTime \<Rightarrow>
              if ems_lastSuccessfulDelivery st = '''' then Ret (True, None)
              else (case ParseRFC3339 (ems_lastSuccessfulDelivery st) of
                None \<Rightarrow> Ret (True, Some (describe ''failed to parse LastSuccessfulDelivery: ''
                          (parse_time_error (ems_lastSuccessfulDelivery st))))
              | Some lastSuccessfulDeliveryTime \<Rightarrow>
                  Ret (lastFailedDeliveryTime > lastSuccessfulDeliveryTime, None))))"

definition syncConditionWebhookCallStatus :: "time \<Rightarrow> (Subscription, unit) call" where
  "syncConditionWebhookCallStatus now subscription =
     bindR (checkLastFailedDelivery subscription, subscription) (\<lambda>(isWebhookCallError, err) subscription.
       (Ret (), snd (replaceStatusCondition
         (case err of
            Some e \<Rightarrow> MakeCondition now ConditionWebhookCallStatus ConditionReasonWebhookCallStatus ConditionFalse (Error e)
          | None \<Rightarrow>
              if isWebhookCallError
              then MakeCondition now ConditionWebhookCallStatus ConditionReasonWebhookCallStatus ConditionFalse
                (case bk_eventMeshSubscriptionStatus (st_backend (sub_status subscription)) of
                   Some st \<Rightarrow> ems_lastFailedDeliveryReason st | None \<Rightarrow> '''')
              else MakeCondition now ConditionWebhookCallStatus ConditionReasonWebhookCallStatus ConditionTrue '''')
         subscription)))"

definition checkStatusActive :: "time \<Rightarrow> (Subscription, bool) call" where
  "checkStatusActive now subscription =
     (let b = st_backend (sub_status subscription) in
      case bk_eventMeshSubscriptionStatus b of
        None \<Rightarrow> (Ret False, subscription)
      | Some st \<Rightarrow>
          if ems_status st = SubscriptionStatusActive
          then (Ret True, if bk_failedActivation b \<noteq> ''''
                          then map_backend (\<lambda>b. b\<lparr>bk_failedActivation := ''''\<rparr>) subscription else subscription)
          else if bk_failedActivation b = ''''
          then (Ret False, map_backend (\<lambda>b. b\<lparr>bk_failedActivation := FormatRFC3339 now\<rparr>) subscription)
          else (case ParseRFC3339 (bk_failedActivation b) of
                  None \<Rightarrow> (Err (parse_time_error (bk_failedActivation b)), subscription)
                | Some activationTime \<Rightarrow>
                    if now - activationTime > timeoutRetryActiveEmsStatus
                    then (Err (Plain KOther (''timeout waiting for the subscription to be active: '' @ sub_name subscription)),
                          subscription)
                    else (Ret False, subscription)))"

subsection \<open>APIRules\<close>

text \<open>\<^verbatim>\<open>GetRandString\<close>: \<open>draw i\<close> is the \<open>i\<close>-th number that the generator draws.\<close>

definition GetRandString :: "(nat \<Rightarrow> nat) \<Rightarrow> nat \<Rightarrow> string" where
  "GetRandString draw len =
     (let charset = ''abcdefghijklmnopqrstuvwxyz0123456789'' in
      map (\<lambda>i. charset ! (draw i mod length charset)) [0..<len])"

definition getAPIRulesForASvc ::
  "('b, 'k) em_rec_env \<Rightarrow> gomap \<Rightarrow> string \<Rightarrow> (('b, 'k) em_state, APIRule list) call" where
  "getAPIRulesForASvc env labels svcNs = on_cluster (er_ListAPIRules env labels svcNs)"

text \<open>The port of the service of every APIRule up to the first match is dereferenced.\<close>

fun filterAPIRulesOnPort :: "APIRule list \<Rightarrow> nat \<Rightarrow> APIRule option result" where
  "filterAPIRulesOnPort [] port = Ret None"
| "filterAPIRulesOnPort (apiRule # rules) port =
     (case ar_service apiRule of
        None \<Rightarrow> Crash nil_pointer
      | Some svc \<Rightarrow> (case as_port svc of
          None \<Rightarrow> Crash nil_pointer
        | Some p \<Rightarrow> if p = port then Ret (Some apiRule) else filterAPIRulesOnPort rules port))"

definition sink_in_svc :: "string \<Rightarrow> string \<Rightarrow> Subscription \<Rightarrow> bool" where
  "sink_in_svc svcNs svcName sub \<longleftrightarrow>
     (if sub_deletionTimestamp sub \<noteq> None then False
      else case ParseRequestURI (spec_sink (sub_spec sub)) of
        Ret hostURL \<Rightarrow>
          (case getSvcNsAndName (u_host hostURL) of
             Ret (svcNsForSub, svcNameForSub) \<Rightarrow> svcNs = svcNsForSub \<and> svcName = svcNameForSub
           | _ \<Rightarrow> False)
      | _ \<Rightarrow> False)"

definition getSubscriptionsForASvc ::
  "('b, 'k) em_rec_env \<Rightarrow> string \<Rightarrow> string \<Rightarrow> (('b, 'k) em_state, Subscription list) call" where
  "getSubscriptionsForASvc env svcNs svcName s =
     bindR (on_cluster (er_ListSubscriptions env svcNs) s) (\<lambda>subscriptions s.
       (Ret (filter (sink_in_svc svcNs svcName) subscriptions), s))"

definition sink_on_port :: "nat \<Rightarrow> Subscription \<Rightarrow> bool" where
  "sink_on_port svcPort sub \<longleftrightarrow>
     (if sub_deletionTimestamp sub \<noteq> None then False
      else case ParseRequestURI (spec_sink (sub_spec sub)) of
        Ret hostURL \<Rightarrow> (case GetPortNumberFromURL hostURL of Ret p \<Rightarrow> svcPort = p | _ \<Rightarrow> False)
      | _ \<Rightarrow> False)"

definition filterSubscriptionsOnPort :: "Subscription list \<Rightarrow> nat \<Rightarrow> Subscription list" where
  "filterSubscriptionsOnPort subList svcPort = filter (sink_on_port svcPort) subList"

definition makeAPIRule ::
  "('b, 'k) em_rec_env \<Rightarrow> string \<Rightarrow> string \<Rightarrow> gomap \<Rightarrow> Subscription list \<Rightarrow> nat \<Rightarrow> APIRule" where
  "makeAPIRule env svcNs svcName labels subs port =
     (let randomSuffix = GetRandString (er_random env) suffixLength;
          h = externalHostPrefix @ ''-'' @ randomSuffix @ ''.'' @ er_Domain env;
          svc = GetService svcName port
      in NewAPIRule svcNs apiRuleNamePrefix
           [WithLabels_rule labels, WithOwnerReference subs, WithService (Some [Some h]) svcName port,
            WithGateway ClusterLocalAPIGateway,
            WithRules (er_webhookAuthEnabled env) (er_certsURL env) subs svc [''POST'', ''OPTIONS'']])"

definition remaining_owners :: "Subscription \<Rightarrow> APIRule \<Rightarrow> OwnerReference list" where
  "remaining_owners subscription rule =
     filter (\<lambda>owner. or_uid owner \<noteq> sub_uid subscription) (om_ownerReferences (ar_meta rule))"

text \<open>The previous APIRule, found: it is deleted with its last owner, and rebuilt for those that remain.\<close>

definition release_apirule ::
  "('b, 'k) em_rec_env \<Rightarrow> Subscription \<Rightarrow> APIRule \<Rightarrow> (('b, 'k) em_state, unit) call" where
  "release_apirule env subscription previousAPIRule s =
     (let ownerReferences = remaining_owners subscription previousAPIRule in
      if ownerReferences = [] then on_cluster (er_DeleteAPIRule env previousAPIRule) s
      else if length ownerReferences < length (om_ownerReferences (ar_meta previousAPIRule))
      then
        bindR (on_cluster (er_ListSubscriptions env (om_namespace (ar_meta previousAPIRule))) s) (\<lambda>namespaceSubscriptions s.
          let subscriptions = filter (\<lambda>n. sub_uid n \<noteq> sub_uid subscription \<and>
                bk_apiRuleName (st_backend (sub_status n)) = om_name (ar_meta previousAPIRule)) namespaceSubscriptions
          in case ar_service previousAPIRule of
               None \<Rightarrow> (Crash nil_pointer, s)
             | Some svc \<Rightarrow>
                 bindR (on_cluster (er_UpdateAPIRule env
                   (WithRules (er_webhookAuthEnabled env) (er_certsURL env) subscriptions svc [''POST'', ''OPTIONS'']
                     (WithOwnerReference subscriptions previousAPIRule))) s) (\<lambda>_ s. (Ret (), s)))
      else (Ret (), s))"

definition handlePreviousAPIRule ::
  "('b, 'k) em_rec_env \<Rightarrow> Subscription \<Rightarrow> APIRule option \<Rightarrow> (('b, 'k) em_state, unit) call" where
  "handlePreviousAPIRule env subscription reusableAPIRule s =
     (let name = bk_apiRuleName (st_backend (sub_status subscription)) in
      if name = '''' then (Ret (), s)
      else if (case reusableAPIRule of Some r \<Rightarrow> name = om_name (ar_meta r) | None \<Rightarrow> False) then (Ret (), s)
      else case on_cluster (er_GetAPIRule env (sub_namespace subscription) name) s of
        (Err err, s) \<Rightarrow> if \<not> err_has_kind KNotFound err then (Err err, s) else (Ret (), s)
      | (Crash p, s) \<Rightarrow> (Crash p, s)
      | (Ret previousAPIRule, s) \<Rightarrow> release_apirule env subscription previousAPIRule s)"

definition makeAuthorizationPolicy :: "string \<Rightarrow> string \<Rightarrow> gomap \<Rightarrow> AuthorizationPolicy" where
  "makeAuthorizationPolicy namespace policyName labels =
     NewAuthorizationPolicy namespace policyName [WithAllowAction, WithSelector_policy labels]"

definition createAuthorizationPolicy ::
  "('b, 'k) em_rec_env \<Rightarrow> string \<Rightarrow> string \<Rightarrow> string \<Rightarrow> (('b, 'k) em_state, unit) call" where
  "createAuthorizationPolicy env svcNs svcName policyName s =
     bindR (describe_failed ''failed to get Service: '' (warn_failed ''CreateFailed'' (''Get Service failed '' @ svcName)
              (on_cluster (er_GetServiceSelector env svcNs svcName) s))) (\<lambda>selector s.
       describe_failed ''failed to create AuthorizationPolicy: ''
         (warn_failed ''CreateFailed'' (''Create AuthorizationPolicy failed '' @ policyName)
           (on_cluster (er_CreatePolicy env (makeAuthorizationPolicy svcNs policyName selector)) s)))"

text \<open>Creating the desired APIRule, or updating the one that is reused.\<close>

definition create_apirule :: "('b, 'k) em_rec_env \<Rightarrow> APIRule \<Rightarrow> (('b, 'k) em_state, APIRule) call" where
  "create_apirule env desiredAPIRule s =
     bindR (describe_failed ''failed to create APIRule: ''
       (warn_failed ''CreateFailed'' (''Create APIRule failed '' @ om_name (ar_meta desiredAPIRule))
         (on_cluster (er_CreateAPIRule env desiredAPIRule) s))) (\<lambda>created s.
       (Ret created, emit (''Normal'', ''Create'', ''Create APIRule succeeded '' @ om_name (ar_meta created)) s))"

definition ensure_policy :: "('b, 'k) em_rec_env \<Rightarrow> string \<Rightarrow> string \<Rightarrow> string \<Rightarrow> (('b, 'k) em_state, unit) call" where
  "ensure_policy env svcNs svcName name s =
     (case on_cluster (er_GetPolicy env svcNs name) s of
        (Err err, s) \<Rightarrow> if err_has_kind KNotFound err then createAuthorizationPolicy env svcNs svcName name s else (Err err, s)
      | r \<Rightarrow> r)"

definition reuse_apirule ::
  "('b, 'k) em_rec_env \<Rightarrow> string \<Rightarrow> string \<Rightarrow> APIRule \<Rightarrow> APIRule \<Rightarrow> (('b, 'k) em_state, APIRule) call" where
  "reuse_apirule env svcNs svcName reusableAPIRule desiredAPIRule s =
     (let desired = ApplyExistingAPIRuleAttributes reusableAPIRule desiredAPIRule in
      bindR (apiRuleEqual False (Some reusableAPIRule) (Some desired), s) (\<lambda>equal s.
        if equal then (Ret reusableAPIRule, s)
        else
          bindR (describe_failed ''failed to update APIRule: ''
            (warn_failed ''UpdateFailed'' (''Update APIRule failed '' @ om_name (ar_meta desired))
              (on_cluster (er_UpdateAPIRule env desired) s))) (\<lambda>updated s.
          bindR (ensure_policy env svcNs svcName (om_name (ar_meta updated))
                   (emit (''Normal'', ''Update'', ''Update APIRule succeeded '' @ om_name (ar_meta updated)) s)) (\<lambda>_ s.
            (Ret updated, s)))))"

definition createOrUpdateAPIRule ::
  "('b, 'k) em_rec_env \<Rightarrow> Subscription \<Rightarrow> URL \<Rightarrow> (('b, 'k) em_state, APIRule) call" where
  "createOrUpdateAPIRule env subscription sink s =
     bindR (describe_failed ''failed to parse svc name and ns in create or update APIRule: ''
              (getSvcNsAndName (u_host sink), s)) (\<lambda>(svcNs, svcName) s.
     let labels = Some (fmap_of_list [(ControllerServiceLabelKey, svcName),
                                      (ControllerIdentityLabelKey, ControllerIdentityLabelValue)]) in
     bindR (describe_failed ''failed to convert URL port to APIRule port: '' (GetPortNumberFromURL sink, s)) (\<lambda>svcPort s.
     bindR (describe_failed (''failed to fetch APIRule for labels=map['' @ ControllerIdentityLabelKey @ '':'' @
                ControllerIdentityLabelValue @ '' '' @ ControllerServiceLabelKey @ '':'' @ svcName @ ''] : '')
              (getAPIRulesForASvc env labels svcNs s)) (\<lambda>existingAPIRules s.
     bindR (filterAPIRulesOnPort existingAPIRules svcPort, s) (\<lambda>reusableAPIRule s.
     bindR (describe_failed (''failed to fetch subscriptions for subscriber namespace='' @ svcNs @ '', name='' @ svcName @ '' : '')
              (getSubscriptionsForASvc env svcNs svcName s)) (\<lambda>subscriptions s.
     let desiredAPIRule = makeAPIRule env svcNs svcName labels (filterSubscriptionsOnPort subscriptions svcPort) svcPort in
     bindR (handlePreviousAPIRule env subscription reusableAPIRule s) (\<lambda>_ s.
       case reusableAPIRule of
         None \<Rightarrow> create_apirule env desiredAPIRule s
       | Some reusable \<Rightarrow> reuse_apirule env svcNs svcName reusable desiredAPIRule s))))))"

text \<open>
  The result of \<^verbatim>\<open>syncAPIRule\<close> is an APIRule and an error, each of which may be nil, so the error is
  part of the returned value; the Subscription changes also when there is one.
\<close>

definition syncAPIRule ::
  "('b, 'k) em_rec_env \<Rightarrow> Subscription \<times> ('b, 'k) em_state \<Rightarrow>
   (Subscription \<times> ('b, 'k) em_state, APIRule option \<times> goerr option) outcome" where
  "syncAPIRule env ss =
     (case ss of (subscription, s) \<Rightarrow>
      (case ParseRequestURI (spec_sink (sub_spec subscription)) of
        Crash p \<Rightarrow> (Crash p, ss)
      | Err err \<Rightarrow>
          (Ret (None, Some (Skippable (describe ''failed to parse sink URL: '' err))),
           (subscription, emit (''Warning'', ''ValidationFailed'',
              ''Parse sink URI failed '' @ spec_sink (sub_spec subscription)) s))
      | Ret sURL \<Rightarrow>
          (case createOrUpdateAPIRule env subscription sURL s of
             (Crash p, s) \<Rightarrow> (Crash p, (subscription, s))
           | (Err err, s) \<Rightarrow>
               (Ret (None, Some (describe ''failed to create or update APIRule: '' err)), (subscription, s))
           | (Ret apiRule, s) \<Rightarrow>
               let named = map_backend (\<lambda>b. b\<lparr>bk_apiRuleName := om_name (ar_meta apiRule)\<rparr>) subscription in
               if computeAPIRuleReadyStatus apiRule
               then (case setSubscriptionStatusExternalSink apiRule named of
                   (Err err, sub) \<Rightarrow>
                     (Ret (Some apiRule, Some (describe (''failed to set subscription status externalSink namespace='' @
                          sub_namespace subscription @ '', name='' @ sub_name subscription @ '' : '') err)), (sub, s))
                 | (Crash p, sub) \<Rightarrow> (Crash p, (sub, s))
                 | (Ret _, sub) \<Rightarrow> (Ret (Some apiRule, None), (sub, s)))
               else (Ret (Some apiRule, Some (Skippable (Plain KOther
                       (''apiRule '' @ om_name (ar_meta apiRule) @ '' is not ready'')))), (named, s)))))"

subsection \<open>Writing the Subscription\<close>

definition emitConditionEvent :: "Condition \<Rightarrow> ('b, 'k) em_state \<Rightarrow> ('b, 'k) em_state" where
  "emitConditionEvent condition =
     emit (if cond_status condition = ConditionFalse then ''Warning'' else ''Normal'', cond_reason condition,
           cond_message condition)"

fun emit_changed :: "Subscription \<Rightarrow> Condition list \<Rightarrow> ('b, 'k) em_state \<Rightarrow> ('b, 'k) em_state" where
  "emit_changed oldSubscription [] s = s"
| "emit_changed oldSubscription (condition # conditions) s =
     emit_changed oldSubscription conditions
       (case FindCondition (sub_status oldSubscription) (cond_type condition) of
          Some oldCondition \<Rightarrow> if ConditionEquals oldCondition condition then s else emitConditionEvent condition s
        | None \<Rightarrow> emitConditionEvent condition s)"

definition emitConditionEvents :: "Subscription \<Rightarrow> Subscription \<Rightarrow> ('b, 'k) em_state \<Rightarrow> ('b, 'k) em_state" where
  "emitConditionEvents oldSubscription newSubscription =
     emit_changed oldSubscription (st_conditions (sub_status newSubscription))"

text \<open>The new Subscription is returned as the API server answers it.\<close>

definition updateStatus_em ::
  "('b, 'k) em_rec_env \<Rightarrow> Subscription \<Rightarrow> Subscription \<Rightarrow> (('b, 'k) em_state, Subscription) call" where
  "updateStatus_em env oldSubscription newSubscription s =
     (if IsSubscriptionStatusEqual (sub_status oldSubscription) (sub_status newSubscription) then (Ret newSubscription, s)
      else describe_failed ''failed to update subscription status: ''
        (on_cluster (er_StatusUpdate env newSubscription) s))"

definition updateSubscription :: "('b, 'k) em_rec_env \<Rightarrow> Subscription \<Rightarrow> (('b, 'k) em_state, unit) call" where
  "updateSubscription env sub s =
     bindR (on_cluster (er_GetSubscription env (sub_namespace sub) (sub_name sub)) s) (\<lambda>latestSubscription s.
     let newSubscription = latestSubscription\<lparr>sub_status := sub_status sub, sub_finalizers := sub_finalizers sub\<rparr> in
     bindR (updateStatus_em env latestSubscription newSubscription
              (emitConditionEvents latestSubscription newSubscription s)) (\<lambda>newSubscription s.
       if sub_finalizers latestSubscription \<noteq> sub_finalizers newSubscription
       then describe_failed (''failed to remove finalizer name '' @ [CHR 0x27] @ Finalizer @ [CHR 0x27] @ '': '')
              (on_cluster (er_UpdateSubscription env newSubscription) s)
       else (Ret (), s)))"

subsection \<open>Synchronisation and deletion\<close>

definition syncFinalizer :: "(Subscription, unit) call" where
  "syncFinalizer subscription =
     (if isFinalizerSet subscription then (Ret (), subscription) else addFinalizer_em subscription)"

definition with_state :: "(Subscription, 'a) call \<Rightarrow> (Subscription \<times> 's, 'a) call" where
  "with_state f ss = (case f (fst ss) of (r, sub) \<Rightarrow> (r, (sub, snd ss)))"

definition on_backend ::
  "(Subscription \<times> 'b, 'a) call \<Rightarrow> (Subscription \<times> ('b, 'k) em_state, 'a) call" where
  "on_backend f ss =
     (case f (fst ss, es_backend (snd ss)) of (r, (sub, b)) \<Rightarrow> (r, (sub, (snd ss)\<lparr>es_backend := b\<rparr>)))"

text \<open>After a failed call the condition is set and the error is returned.\<close>

definition subscribed_failed ::
  "('b, 'k) em_rec_env \<Rightarrow> time \<Rightarrow> (Subscription \<times> ('b, 'k) em_state, 'a) outcome \<Rightarrow>
   (Subscription \<times> ('b, 'k) em_state, 'a) outcome" where
  "subscribed_failed env now m =
     (case m of
        (Err err, ss) \<Rightarrow> bindR (with_state (syncConditionSubscribed env now (Some err)) ss) (\<lambda>_ ss. (Err err, ss))
      | _ \<Rightarrow> m)"

definition syncEventMeshSubscription ::
  "('b, 'k) em_rec_env \<Rightarrow> time \<Rightarrow> APIRule option \<Rightarrow> (Subscription \<times> ('b, 'k) em_state, bool) call" where
  "syncEventMeshSubscription env now apiRule ss =
     (case apiRule of
        None \<Rightarrow> (Err (Plain KOther ''APIRule is required''), ss)
      | Some rule \<Rightarrow>
          bindR (subscribed_failed env now (on_backend (er_SyncSubscription env (er_cleaner env) rule) ss)) (\<lambda>_ ss.
          bindR (describe_failed ''reached retry timeout: '' (with_state (checkStatusActive now) ss)) (\<lambda>isActive ss.
          bindR (with_state (syncConditionSubscribed env now None) ss) (\<lambda>_ ss.
          bindR (with_state (syncConditionWebhookCallStatus now)
                   (syncConditionSubscriptionActive now isActive (fst ss), snd ss)) (\<lambda>_ ss.
            (Ret isActive, ss))))))"

definition handleDeleteSubscription ::
  "('b, 'k) em_rec_env \<Rightarrow> time \<Rightarrow> Subscription \<Rightarrow> (('b, 'k) em_state, time) call" where
  "handleDeleteSubscription env now subscription s =
     (case er_DeleteSubscription env subscription (es_backend s) of
        (Err err, b) \<Rightarrow> (Err err, s\<lparr>es_backend := b\<rparr>)
      | (Crash p, b) \<Rightarrow> (Crash p, s\<lparr>es_backend := b\<rparr>)
      | (Ret _, b) \<Rightarrow>
          let condition = MakeCondition now ConditionSubscribed ConditionReasonSubscriptionDeleted ConditionFalse '''';
              without = removeFinalizer_em (snd (replaceStatusCondition condition subscription))
          in bindR (updateSubscription env without (s\<lparr>es_backend := b\<rparr>)) (\<lambda>_ s.
               (Ret 0, s\<lparr>es_metrics := RemoveSubscriptionStatus (sub_name without) (sub_namespace without) backendType_em
                  '''' '''' (es_metrics s)\<rparr>)))"

subsection \<open>Reconcile\<close>

text \<open>
  A reconciliation returns the time after which it is repeated, or 0. On an error the Subscription
  is written first, and a failure of that comes before the error.
\<close>

definition fail_after_update ::
  "('b, 'k) em_rec_env \<Rightarrow> goerr \<Rightarrow> Subscription \<Rightarrow> (('b, 'k) em_state, 'a) call" where
  "fail_after_update env err sub s =
     (case updateSubscription env sub s of
        (Err updateErr, s) \<Rightarrow> (Err (MakeError updateErr err), s)
      | (Crash p, s) \<Rightarrow> (Crash p, s)
      | (Ret _, s) \<Rightarrow> (Err err, s))"

definition reconcile_exposed ::
  "('b, 'k) em_rec_env \<Rightarrow> time \<Rightarrow> APIRule option \<Rightarrow> Subscription \<times> ('b, 'k) em_state \<Rightarrow> (('b, 'k) em_state, time) outcome" where
  "reconcile_exposed env now apiRule ss =
     (case syncEventMeshSubscription env now apiRule ss of
        (Crash p, (sub, s)) \<Rightarrow> (Crash p, s)
      | (Err err, (sub, s)) \<Rightarrow> fail_after_update env err sub s
      | (Ret ready, (sub, s)) \<Rightarrow>
          bindR (updateSubscription env sub s) (\<lambda>_ s. (Ret (if \<not> ready then requeueAfterDuration else 0), s)))"

definition reconcile_valid ::
  "('b, 'k) em_rec_env \<Rightarrow> time \<Rightarrow> Subscription \<Rightarrow> (('b, 'k) em_state, time) call" where
  "reconcile_valid env now sub s =
     (case syncAPIRule env (sub, s) of
        (Crash p, (sub, s)) \<Rightarrow> (Crash p, s)
      | (Err err, (sub, s)) \<Rightarrow> (Err err, s)
      | (Ret (apiRule, err), (sub, s)) \<Rightarrow>
          let sub = sub\<lparr>sub_status := SetConditionAPIRuleStatus now err (sub_status sub)\<rparr> in
          (case err of
             Some e \<Rightarrow> if \<not> IsSkippable (Some e) then fail_after_update env e sub s
                       else reconcile_exposed env now apiRule (sub, s)
           | None \<Rightarrow> reconcile_exposed env now apiRule (sub, s)))"

definition reconcile_present ::
  "('b, 'k) em_rec_env \<Rightarrow> time \<Rightarrow> Subscription \<Rightarrow> (('b, 'k) em_state, time) call" where
  "reconcile_present env now currentSubscription s =
     (case syncFinalizer (syncInitialStatus env now currentSubscription) of
        (Err err, sub) \<Rightarrow>
          (case updateSubscription env sub s of
             (Err updateErr, s) \<Rightarrow> (Err (MakeError updateErr err), s)
           | (Crash p, s) \<Rightarrow> (Crash p, s)
           | (Ret _, s) \<Rightarrow> (Err (describe ''failed to sync finalizer: '' err), s))
      | (Crash p, sub) \<Rightarrow> (Crash p, s)
      | (Ret _, sub) \<Rightarrow>
          (case validateSubscription_em env now sub (es_k8s s) of
             (sub, Some validationErr) \<Rightarrow>
               (case updateStatus_em env currentSubscription sub s of
                  (Err updateErr, s) \<Rightarrow>
                    (Err (the (errors_Join (Some validationErr) (Some updateErr))), s)
                | (Crash p, s) \<Rightarrow> (Crash p, s)
                | (Ret _, s) \<Rightarrow> (Err (Terminal validationErr), s))
           | (sub, None) \<Rightarrow> reconcile_valid env now sub s))"

text \<open>
  The metric is recorded on every way out, also by a panic, but with the readiness that the
  Subscription had when the \<^verbatim>\<open>defer\<close> was executed.
\<close>

definition Reconcile_em ::
  "('b, 'k) em_rec_env \<Rightarrow> time \<Rightarrow> string \<Rightarrow> string \<Rightarrow> (('b, 'k) em_state, time) call" where
  "Reconcile_em env now namespace name s =
     (case on_cluster (er_GetSubscription env namespace name) s of
        (Err err, s) \<Rightarrow> (if err_has_kind KNotFound err then Ret 0 else Err err, s)
      | (Crash p, s) \<Rightarrow> (Crash p, s)
      | (Ret currentSubscription, s) \<Rightarrow>
          if isInDeletion_em currentSubscription then handleDeleteSubscription env now currentSubscription s
          else (case reconcile_present env now currentSubscription s of
            (r, s) \<Rightarrow> (r, s\<lparr>es_metrics := RecordSubscriptionStatus (st_ready (sub_status currentSubscription))
               (sub_name currentSubscription) (sub_namespace currentSubscription) backendType_em '''' '''' (es_metrics s)\<rparr>)))"

end
