(* ===== verification/Eventmesh_Conditions.thy ===== *)
theory Eventmesh_Conditions
  imports Eventmesh_Reconciler "HOL-Library.Multiset"
begin

section \<open>The conditions of a Subscription during a reconciliation\<close>

text \<open>
  Every reconciliation starts by bringing the conditions into shape, one of each of the five types,
  and every stage keeps this shape; setting a condition recomputes the readiness from all of them.
\<close>

definition conds_ok :: "Subscription \<Rightarrow> bool" where
  "conds_ok sub \<longleftrightarrow> distinct_on cond_type (st_conditions (sub_status sub)) \<and>
     cond_type ` set (st_conditions (sub_status sub)) = cond_type ` set (MakeSubscriptionConditions 0)"

definition all_true :: "Subscription \<Rightarrow> bool" where
  "all_true sub \<longleftrightarrow> list_all (\<lambda>c. cond_status c = ConditionTrue) (st_conditions (sub_status sub))"

text \<open>What the conditions say: the status of every type.\<close>

definition statuses :: "Subscription \<Rightarrow> (string \<times> string) list" where
  "statuses sub = map (\<lambda>c. (cond_type c, cond_status c)) (st_conditions (sub_status sub))"

definition set_status :: "Condition \<Rightarrow> string \<times> string \<Rightarrow> string \<times> string" where
  "set_status c p = (if fst p = cond_type c then (cond_type c, cond_status c) else p)"

lemma all_true_statuses: "all_true sub \<longleftrightarrow> list_all (\<lambda>p. snd p = ConditionTrue) (statuses sub)"
  by (simp add: all_true_def statuses_def list_all_iff)

lemma types_statuses: "map fst (statuses sub) = map cond_type (st_conditions (sub_status sub))"
  by (simp add: statuses_def)

lemma conds_ok_statuses:
  "conds_ok sub \<longleftrightarrow> distinct_on fst (statuses sub) \<and>
     set (map fst (statuses sub)) = cond_type ` set (MakeSubscriptionConditions 0)"
  unfolding conds_ok_def types_statuses by simp

lemma conds_ok_same: "st_conditions (sub_status sub') = st_conditions (sub_status sub) \<Longrightarrow> conds_ok sub \<Longrightarrow> conds_ok sub'"
  by (simp add: conds_ok_def)

lemma conds_ok_map_backend [simp]: "conds_ok (map_backend f sub) \<longleftrightarrow> conds_ok sub"
  by (simp add: conds_ok_def map_backend_def)

lemma conds_ok_finalizers [simp]: "conds_ok (sub\<lparr>sub_finalizers := fs\<rparr>) \<longleftrightarrow> conds_ok sub"
  by (simp add: conds_ok_def)

lemma map_fst_set_status: "map fst (map (set_status c) ps) = map fst ps"
  by (auto simp: set_status_def)

subsection \<open>Setting a condition\<close>

text \<open>The same conditions, but for the times, if the types are distinct and in the same order.\<close>

lemma ConditionsEquals_strip:
  assumes "distinct_on cond_type cs" and "map cond_type ds = map cond_type cs" and "ConditionsEquals cs ds"
  shows "map strip ds = map strip cs"
proof (rule nth_equalityI)
  show len: "length (map strip ds) = length (map strip cs)" using assms(2) map_eq_imp_length_eq by auto
  fix i assume "i < length (map strip ds)"
  then have i: "i < length ds" "i < length cs" using len by simp_all
  have type: "cond_type (ds ! i) = cond_type (cs ! i)" using i assms(2) by (metis nth_map)
  from assms(1) i have "find (\<lambda>c. cond_type c = cond_type (cs ! i)) cs = Some (cs ! i)" by (simp add: find_distinct_on)
  moreover from assms(3) i have "ConditionEquals (case find (\<lambda>c. cond_type c = cond_type (ds ! i)) cs of
      Some c \<Rightarrow> c | None \<Rightarrow> zero_Condition) (ds ! i)"
    by (simp add: ConditionsEquals_def map_of_rev_distinct [OF assms(1)] list_all_length)
  ultimately show "map strip ds ! i = map strip cs ! i" using i type by (simp add: ConditionEquals_strip)
qed

lemma statuses_strip:
  assumes "map strip cs = map strip ds"
  shows "map (\<lambda>c. (cond_type c, cond_status c)) cs = map (\<lambda>c. (cond_type c, cond_status c)) ds"
proof -
  let ?view = "\<lambda>c. (cond_type c, cond_status c)"
  have "map ?view xs = map ?view (map strip xs)" for xs by (simp add: strip_def)
  with assms show ?thesis by metis
qed

lemma replaceStatusCondition_statuses:
  assumes "distinct_on cond_type (st_conditions (sub_status sub))"
  shows "statuses (snd (replaceStatusCondition c sub)) = map (set_status c) (statuses sub) \<and>
    (st_ready (sub_status (snd (replaceStatusCondition c sub))) \<longleftrightarrow> all_true (snd (replaceStatusCondition c sub)))"
proof -
  let ?cs = "st_conditions (sub_status sub)"
  define ds where "ds = map (\<lambda>cond. if cond_type cond = cond_type c then c else cond) ?cs"
  have st: "map (\<lambda>c. (cond_type c, cond_status c)) ds = map (set_status c) (statuses sub)"
    by (simp add: ds_def statuses_def set_status_def)
  show ?thesis
  proof (cases "ConditionsEquals ?cs ds \<and> st_ready (sub_status sub) = list_all (\<lambda>c. cond_status c = ConditionTrue) ds")
    case False
    then have "snd (replaceStatusCondition c sub) = sub\<lparr>sub_status := (sub_status sub)\<lparr>st_conditions := ds,
        st_ready := list_all (\<lambda>c. cond_status c = ConditionTrue) ds\<rparr>\<rparr>"
      by (auto simp: replaceStatusCondition_def ds_def Let_def)
    with st show ?thesis by (simp add: statuses_def all_true_def)
  next
    case True
    then have same: "snd (replaceStatusCondition c sub) = sub"
      by (auto simp: replaceStatusCondition_def ds_def Let_def)
    have "map cond_type ds = map cond_type ?cs" unfolding ds_def by (rule map_key_replace)
    from ConditionsEquals_strip [OF assms this] True have eq: "map (\<lambda>c. (cond_type c, cond_status c)) ds = statuses sub"
      unfolding statuses_def by (intro statuses_strip) simp
    have "list_all (\<lambda>c. cond_status c = ConditionTrue) ds = list_all (\<lambda>p. snd p = ConditionTrue) (statuses sub)"
      unfolding eq [symmetric] by (simp add: list_all_iff)
    with True st eq same show ?thesis by (simp add: all_true_statuses)
  qed
qed

lemma conds_ok_replace:
  assumes "conds_ok sub" shows "conds_ok (snd (replaceStatusCondition c sub))"
proof -
  have "statuses (snd (replaceStatusCondition c sub)) = map (set_status c) (statuses sub)"
    using replaceStatusCondition_statuses assms by (auto simp: conds_ok_def)
  then have "map fst (statuses (snd (replaceStatusCondition c sub))) = map fst (statuses sub)"
    by (simp only: map_fst_set_status)
  with assms show ?thesis unfolding conds_ok_statuses by (simp only:)
qed

subsection \<open>The stages keep the shape\<close>

lemma types_now: "cond_type ` set (MakeSubscriptionConditions now) = cond_type ` set (MakeSubscriptionConditions 0)"
  by (simp add: MakeSubscriptionConditions_types)

lemma conds_ok_setCondition:
  assumes "conds_ok sub" and "cond_type c \<in> cond_type ` set (MakeSubscriptionConditions 0)"
  shows "conds_ok (sub\<lparr>sub_status := setCondition c (sub_status sub)\<rparr>)"
proof -
  have d: "distinct_on cond_type (st_conditions (sub_status sub))" using assms(1) by (simp add: conds_ok_def)
  have "dom (cond_view (st_conditions (setCondition c (sub_status sub)))) = cond_type ` set (st_conditions (sub_status sub))"
    unfolding setCondition_view [OF d] using assms by (auto simp: dom_cond_view conds_ok_def)
  with assms(1) setCondition_distinct [OF d] show ?thesis by (simp add: conds_ok_def dom_cond_view)
qed

lemma conds_ok_APIRule:
  assumes "conds_ok sub" shows "conds_ok (sub\<lparr>sub_status := SetConditionAPIRuleStatus now err (sub_status sub)\<rparr>)"
proof -
  let ?cs = "st_conditions (sub_status sub)"
  have "distinct_on cond_type (filter (\<lambda>d. cond_type d \<noteq> ConditionAPIRuleStatus) ?cs)"
    using assms by (intro distinct_on_filter) (simp add: conds_ok_def)
  moreover have "cond_type ` set (filter (\<lambda>d. cond_type d \<noteq> ConditionAPIRuleStatus) ?cs) =
      cond_type ` set ?cs - {ConditionAPIRuleStatus}" by auto
  then have "insert ConditionAPIRuleStatus (cond_type ` set (filter (\<lambda>d. cond_type d \<noteq> ConditionAPIRuleStatus) ?cs)) =
      cond_type ` set (MakeSubscriptionConditions 0)"
    using assms by (simp add: conds_ok_def MakeSubscriptionConditions_types insert_absorb)
  moreover have "ConditionAPIRuleStatus \<notin> cond_type ` set (filter (\<lambda>d. cond_type d \<noteq> ConditionAPIRuleStatus) ?cs)"
    by auto
  ultimately show ?thesis
    by (cases err) (simp_all add: conds_ok_def SetConditionAPIRuleStatus_def Let_def del: set_filter)
qed

lemma conds_ok_validate:
  assumes "validateSubscription_em env now sub k = (sub', err)" and "conds_ok sub"
  shows "conds_ok sub'"
proof -
  define st where "st = (if err \<noteq> None then SetNotReady (sub_status sub) else sub_status sub)"
  have "conds_ok (sub\<lparr>sub_status := st\<rparr>)" using assms(2) by (simp add: conds_ok_def SetNotReady_def st_def)
  moreover have "cond_type (makeSubscriptionSpecValidCondition now err) \<in> cond_type ` set (MakeSubscriptionConditions 0)"
    by (simp add: makeSubscriptionSpecValidCondition_def MakeSubscriptionConditions_types split: option.split)
  ultimately have "conds_ok (sub\<lparr>sub_status := setCondition (makeSubscriptionSpecValidCondition now err) st\<rparr>)"
    using conds_ok_setCondition [of "sub\<lparr>sub_status := st\<rparr>"] by simp
  moreover have "sub' = sub\<lparr>sub_status := setCondition (makeSubscriptionSpecValidCondition now err) st\<rparr>"
    using assms(1) by (cases err) (auto simp: validateSubscription_em_def SetSubscriptionSpecValidCondition_def Let_def st_def)
  ultimately show ?thesis by simp
qed

text \<open>
  Filtering the present conditions by the expected ones, each of which is used once, gives one
  condition for every expected type.
\<close>

lemma keep_required_types:
  assumes "keep_required cs es = (required, left)" and "distinct_on cond_type es"
  shows "distinct_on cond_type (required @ left) \<and> cond_type ` set (required @ left) = cond_type ` set es \<and>
    set left \<subseteq> set es"
  using assms
proof (induction cs es arbitrary: required left rule: keep_required.induct)
  case (2 c cs es)
  show ?case
  proof (cases "list_ex (\<lambda>e. cond_type e = cond_type c) es")
    case True
    let ?es = "filter (\<lambda>e. cond_type e \<noteq> cond_type c) es"
    from True 2(3) obtain rs where rs: "keep_required cs ?es = (rs, left)" "required = c # rs"
      by (auto split: prod.splits)
    have ih: "distinct_on cond_type (rs @ left)" "cond_type ` set (rs @ left) = cond_type ` set ?es" "set left \<subseteq> set ?es"
      using 2(1) [OF True rs(1) distinct_on_filter [OF 2(4)]] by blast+
    have "cond_type c \<in> cond_type ` set es" using True by (auto simp: list_ex_iff rev_image_eqI)
    then have "insert (cond_type c) (cond_type ` set ?es) = cond_type ` set es" by auto
    moreover have "cond_type c \<notin> cond_type ` set (rs @ left)" unfolding ih(2) by auto
    ultimately show ?thesis using ih rs(2) by auto
  next
    case False
    with 2 show ?thesis by simp
  qed
qed simp

lemma syncInitialStatus_ok:
  assumes "\<And>cs. mset (er_order env cs) = mset cs" and "distinct_on cond_type (st_conditions (sub_status sub))"
  shows "conds_ok (syncInitialStatus env now sub)"
proof -
  define st where "st = (if st_types (sub_status sub) = None then InitializeEventTypes (sub_status sub) else sub_status sub)"
  let ?es = "MakeSubscriptionConditions now"
  have es: "st_conditions (InitializeConditions now empty_SubscriptionStatus) = ?es"
    by (simp add: InitializeConditions_def initializeConditions_def empty_SubscriptionStatus_def)
  have st_conds: "st_conditions st = st_conditions (sub_status sub)" by (simp add: st_def InitializeEventTypes_def)
  obtain required left where req: "keep_required (st_conditions st) ?es = (required, left)" by fastforce
  have order: "set (er_order env xs) = set xs" "distinct_on cond_type (er_order env xs) = distinct_on cond_type xs" for xs
    using mset_eq_setD [OF assms(1)] mset_eq_imp_distinct_iff [of "map cond_type (er_order env xs)" "map cond_type xs"]
      assms(1) by simp_all
  have new: "distinct_on cond_type (required @ er_order env left)"
    "cond_type ` set (required @ er_order env left) = cond_type ` set (MakeSubscriptionConditions 0)"
    using keep_required_types [OF req Make_distinct] order [of left] types_now [of now] by auto
  have old: "cond_type ` set (st_conditions st) = cond_type ` set (MakeSubscriptionConditions 0)"
    if "ContainSameConditionTypes (st_conditions st) ?es"
    using that assms(2) types_now [of now] by (simp add: ContainSame_iff st_conds)
  have "st_conditions (sub_status (syncInitialStatus env now sub)) =
      (if ContainSameConditionTypes (st_conditions st) ?es \<and> \<not> ShouldUpdateReadyStatus now st then st_conditions st
       else if st_conditions st = [] then ?es else required @ er_order env left)"
    using req by (auto simp: syncInitialStatus_def st_def [symmetric] es map_backend_def Let_def getRequiredConditions_def)
  then show ?thesis
    using old new assms(2) types_now [of now] Make_distinct [of now] by (simp add: conds_ok_def st_conds)
qed

text \<open>The backend does not touch the conditions.\<close>

lemma create_and_update_conditions:
  assumes "create_and_update env em infos s m1 m2 server (sub, e) = (Ret changed, (sub', e'))"
  shows "st_conditions (sub_status sub') = st_conditions (sub_status sub)"
proof -
  from assms obtain server' sub1 e1 b where create: "(if m1 \<or> m2 \<or> server = None
        then handleCreateEventMeshSub em s (sub, e) else (Ret server, (sub, e))) = (Ret server', (sub1, e1))"
    and update: "handleKymaSubStatusUpdate env server' s infos sub1 = (Ret b, sub')"
    by (auto simp: create_and_update_def bindR_Ret_iff)
  from create have "st_conditions (sub_status sub1) = st_conditions (sub_status sub)"
    by (auto simp: handleCreateEventMeshSub_def InitializeEventTypes_def split: if_splits)
  moreover from update have "st_conditions (sub_status sub') = st_conditions (sub_status sub1)"
    by (auto simp: status_defs bindR_Ret_iff map_backend_def Let_def split: option.splits)
  ultimately show ?thesis by simp
qed

lemma SyncSubscription_em_conditions:
  assumes "SyncSubscription_em env em cleaner apiRule (sub, e) = (Ret changed, (sub', e'))"
  shows "st_conditions (sub_status sub') = st_conditions (sub_status sub)"
  by (rule SyncSubscription_em_RetE [OF assms]) (rule create_and_update_conditions)

lemma conditions_setSink: "setSubscriptionStatusExternalSink rule sub = (r, sub') \<Longrightarrow>
    st_conditions (sub_status sub') = st_conditions (sub_status sub)"
  by (auto simp: setSubscriptionStatusExternalSink_def map_backend_def split: if_splits result.splits)

lemma conditions_syncAPIRule:
  assumes "syncAPIRule env (sub, s) = (r, (sub', s'))"
  shows "st_conditions (sub_status sub') = st_conditions (sub_status sub)"
proof (cases "ParseRequestURI (spec_sink (sub_spec sub))")
  case (Ret u)
  obtain x t where cu: "createOrUpdateAPIRule env sub u s = (x, t)" by fastforce
  show ?thesis
    using assms Ret cu by (auto simp: syncAPIRule_def Let_def map_backend_def split: result.splits if_splits prod.splits
      dest: conditions_setSink)
qed (use assms in \<open>auto simp: syncAPIRule_def\<close>)

end
