(* ===== verification/Eventmesh_Reconcile.thy ===== *)
theory Eventmesh_Reconcile
  imports Eventmesh_Conditions
begin

section \<open>What a reconciliation for EventMesh guarantees\<close>

text \<open>
  The stages of the reconciler of \<open>Eventmesh_Reconciler\<close> keep the backend until it is called, and
  the identity and the hashes of the Subscription; what the reconciler relies on is the locale
  \<open>em_backend\<close>, which the EventMesh backend provides on every service that keeps the laws of
  \<open>ems_service\<close>.
\<close>

subsection \<open>Frames\<close>

definition same_outside :: "('b, 'k) em_state \<Rightarrow> ('b, 'k) em_state \<Rightarrow> bool" where
  "same_outside s s' \<longleftrightarrow> es_backend s' = es_backend s \<and> es_metrics s' = es_metrics s"

lemma same_outside_refl [simp]: "same_outside s s"
  by (simp add: same_outside_def)

lemma same_outside_trans: "same_outside a b \<Longrightarrow> same_outside b c \<Longrightarrow> same_outside a c"
  by (simp add: same_outside_def)

lemma same_outside_cluster [simp]: "same_outside s (snd (on_cluster f s))"
  by (simp add: on_cluster_def same_outside_def split: prod.split)

lemma same_outside_clusterD: "on_cluster f s = (r, t) \<Longrightarrow> same_outside s t"
  using same_outside_cluster [of s f] by simp

lemma same_outside_emit [simp]: "same_outside s (emit ev t) \<longleftrightarrow> same_outside s t"
  by (simp add: emit_def same_outside_def)

lemma snd_describe_failed [simp]: "snd (describe_failed t m) = snd m"
  by (simp add: describe_failed_def split: prod.split result.split)

lemma same_outside_warn [simp]: "same_outside s (snd (warn_failed r t m)) \<longleftrightarrow> same_outside s (snd m)"
  by (simp add: warn_failed_def split: prod.split result.split)

lemmas outside_chain = bindR_rel [where R = same_outside, OF same_outside_trans]

lemma same_outside_getSubscriptionsForASvc [simp]: "same_outside s (snd (getSubscriptionsForASvc env ns n s))"
  by (auto simp: getSubscriptionsForASvc_def intro!: outside_chain)

lemma same_outside_release [simp]: "same_outside s (snd (release_apirule env sub rule s))"
  by (auto simp: release_apirule_def Let_def intro!: outside_chain split: option.split)

lemma same_outside_handlePrevious [simp]: "same_outside s (snd (handlePreviousAPIRule env sub r s))"
  by (auto simp: handlePreviousAPIRule_def Let_def split: prod.split result.split
      dest: same_outside_clusterD intro: same_outside_trans [OF _ same_outside_release])

lemma same_outside_createPolicy [simp]: "same_outside s (snd (createAuthorizationPolicy env ns n p s))"
  by (auto simp: createAuthorizationPolicy_def intro!: outside_chain)

lemma same_outside_ensure_policy [simp]: "same_outside s (snd (ensure_policy env ns n p s))"
proof (cases "on_cluster (er_GetPolicy env ns p) s")
  case (Pair r t)
  then have "same_outside s t" using same_outside_cluster [of s "er_GetPolicy env ns p"] by simp
  with Pair show ?thesis
    by (cases r) (auto simp: ensure_policy_def intro: same_outside_trans [OF _ same_outside_createPolicy])
qed

lemma same_outside_create_apirule [simp]: "same_outside s (snd (create_apirule env rule s))"
  by (auto simp: create_apirule_def intro!: outside_chain)

lemma same_outside_emit_call:
  "(\<And>t. same_outside t (snd (f t))) \<Longrightarrow> same_outside s (snd (f (emit ev s)))"
  by (rule same_outside_trans [of s "emit ev s"]) simp_all

lemma same_outside_reuse_apirule [simp]: "same_outside s (snd (reuse_apirule env ns n old rule s))"
  by (auto simp: reuse_apirule_def Let_def intro!: outside_chain
      same_outside_emit_call [where f = "ensure_policy env a b c" for a b c])

lemma same_outside_createOrUpdateAPIRule [simp]: "same_outside s (snd (createOrUpdateAPIRule env sub u s))"
  by (auto simp: createOrUpdateAPIRule_def Let_def getAPIRulesForASvc_def intro!: outside_chain
      split: prod.split option.split)

lemma same_outside_emit_changed [simp]: "same_outside s (emit_changed old cs t) \<longleftrightarrow> same_outside s t"
  by (induction cs arbitrary: t) (auto simp: emitConditionEvent_def split: option.split)

lemma same_outside_updateStatus [simp]: "same_outside s (snd (updateStatus_em env old new s))"
  by (simp add: updateStatus_em_def)

lemma same_outside_updateSubscription [simp]: "same_outside s (snd (updateSubscription env sub s))"
  by (auto simp: updateSubscription_def emitConditionEvents_def Let_def intro!: outside_chain
      intro: same_outside_trans [OF _ same_outside_updateStatus])

lemma same_outside_fail [simp]: "same_outside s (snd (fail_after_update env err sub s))"
  using same_outside_updateSubscription [of s env sub]
  by (cases "updateSubscription env sub s"; cases "fst (updateSubscription env sub s)")
    (auto simp: fail_after_update_def)

text \<open>What the stages before the backend keep of the Subscription: its identity and the recorded hashes.\<close>

definition keeps :: "Subscription \<Rightarrow> Subscription \<Rightarrow> bool" where
  "keeps sub sub' \<longleftrightarrow> same_identity sub sub' \<and>
     (let b = st_backend (sub_status sub); b' = st_backend (sub_status sub') in
      bk_ev2hash b' = bk_ev2hash b \<and> bk_eventMeshHash b' = bk_eventMeshHash b \<and>
      bk_eventMeshLocalHash b' = bk_eventMeshLocalHash b \<and> bk_webhookAuthHash b' = bk_webhookAuthHash b)"

lemma keeps_refl [simp]: "keeps sub sub"
  by (simp add: keeps_def same_identity_def Let_def)

lemma keeps_trans: "keeps a b \<Longrightarrow> keeps b c \<Longrightarrow> keeps a c"
  by (simp add: keeps_def same_identity_def Let_def)

lemma keeps_status [simp]:
  "st_backend st = st_backend (sub_status sub) \<Longrightarrow> keeps sub (sub\<lparr>sub_status := st\<rparr>)"
  "keeps sub (sub\<lparr>sub_finalizers := fs\<rparr>)"
  "keeps sub (map_backend (\<lambda>b. b\<lparr>bk_apiRuleName := n\<rparr>) sub)"
  "keeps sub (map_backend (\<lambda>b. b\<lparr>bk_externalSink := n\<rparr>) sub)"
  by (simp_all add: keeps_def same_identity_def map_backend_def Let_def)

lemma keeps_syncInitialStatus: "keeps sub (syncInitialStatus env now sub)"
  by (simp add: syncInitialStatus_def keeps_def same_identity_def map_backend_def CopyHashes_def
      InitializeEventTypes_def Let_def)

lemma keeps_syncFinalizer: "syncFinalizer sub = (r, sub') \<Longrightarrow> r = Ret () \<and> keeps sub sub'"
  by (auto simp: syncFinalizer_def addFinalizer_em_def split: if_splits)

lemma setCondition_backend [simp]: "st_backend (setCondition c st) = st_backend st"
  by (simp add: setCondition_def Let_def split: prod.split)

lemma keeps_validate: "validateSubscription_em env now sub k = (sub', err) \<Longrightarrow> keeps sub sub' \<and> err = er_Validate env sub k"
  by (auto simp: validateSubscription_em_def SetSubscriptionSpecValidCondition_def SetNotReady_def Let_def)

lemma SetConditionAPIRuleStatus_backend [simp]: "st_backend (SetConditionAPIRuleStatus now err st) = st_backend st"
  by (simp add: SetConditionAPIRuleStatus_def Let_def)

lemma keeps_externalSink: "setSubscriptionStatusExternalSink rule sub = (r, sub') \<Longrightarrow> keeps sub sub'"
  by (auto simp: setSubscriptionStatusExternalSink_def split: if_splits result.splits)

lemma keeps_syncAPIRule:
  assumes "syncAPIRule env (sub, s) = (r, (sub', s'))"
  shows "keeps sub sub' \<and> same_outside s s'"
proof (cases "ParseRequestURI (spec_sink (sub_spec sub))")
  case (Ret u)
  obtain x t where cu: "createOrUpdateAPIRule env sub u s = (x, t)" by fastforce
  then have out: "same_outside s t" using same_outside_createOrUpdateAPIRule [of s env sub u] by simp
  have named: "keeps sub sub2" if "setSubscriptionStatusExternalSink rule
      (map_backend (\<lambda>b. b\<lparr>bk_apiRuleName := n\<rparr>) sub) = (y, sub2)" for rule n y sub2
    using keeps_externalSink [OF that] keeps_status(3) keeps_trans by blast
  show ?thesis
    using assms Ret cu out by (auto simp: syncAPIRule_def Let_def split: result.splits if_splits prod.splits dest: named)
qed (use assms in \<open>auto simp: syncAPIRule_def\<close>)

subsection \<open>The stages of a reconciliation that returns\<close>

lemma bindR_RetD: "bindR m f = (Ret b, t) \<Longrightarrow> \<exists>a s. m = (Ret a, s) \<and> f a s = (Ret b, t)"
  by (simp add: bindR_Ret_iff)

lemma describe_failed_Ret [simp]: "describe_failed t m = (Ret a, s) \<longleftrightarrow> m = (Ret a, s)"
  by (auto simp: describe_failed_def split: prod.splits result.splits)

lemma subscribed_failed_Ret [simp]: "subscribed_failed env now m = (Ret a, ss) \<longleftrightarrow> m = (Ret a, ss)"
  by (cases m; cases "fst m") (auto simp: subscribed_failed_def bindR_Ret_iff)

lemma with_state_Ret [simp]: "with_state f ss = (Ret a, ss') \<longleftrightarrow> f (fst ss) = (Ret a, fst ss') \<and> snd ss' = snd ss"
  by (cases ss') (auto simp: with_state_def split: prod.splits)

lemma on_backend_Ret:
  "on_backend f ss = (Ret a, ss') \<longleftrightarrow>
     (\<exists>b. f (fst ss, es_backend (snd ss)) = (Ret a, (fst ss', b)) \<and> snd ss' = (snd ss)\<lparr>es_backend := b\<rparr>)"
  by (cases ss') (auto simp: on_backend_def split: prod.splits)

lemma fail_after_update_no_Ret [simp]: "fail_after_update env err sub s \<noteq> (Ret a, t)"
  by (auto simp: fail_after_update_def split: prod.split result.split)

text \<open>A reconciliation that returns has called the backend with a Subscription like the current one.\<close>

lemma reconcile_present_RetE:
  assumes "reconcile_present env now sub s = (Ret d, s')"
  obtains sub1 s1 rule sub2 s2 isActive
  where "keeps sub sub1" and "same_outside s s1"
    and "syncEventMeshSubscription env now (Some rule) (sub1, s1) = (Ret isActive, (sub2, s2))"
    and "same_outside s2 s'" and "updateSubscription env sub2 s2 = (Ret (), s')"
    and "d = (if \<not> isActive then requeueAfterDuration else 0)"
    and "(\<And>cs. mset (er_order env cs) = mset cs) \<Longrightarrow> distinct_on cond_type (st_conditions (sub_status sub)) \<Longrightarrow> conds_ok sub1"
proof -
  obtain r0 a where fin: "syncFinalizer (syncInitialStatus env now sub) = (r0, a)" by fastforce
  with keeps_syncFinalizer have r0: "r0 = Ret ()" and ka: "keeps sub a"
    using keeps_trans [OF keeps_syncInitialStatus] by blast+
  obtain b err where val: "validateSubscription_em env now a (es_k8s s) = (b, err)" by fastforce
  from keeps_trans [OF ka] keeps_validate [OF val] have kb: "keeps sub b" by simp
  have "err = None"
    using assms fin r0 val
    by (cases err) (auto simp: reconcile_present_def split: prod.splits result.splits)
  with assms fin r0 val have "reconcile_valid env now b s = (Ret d, s')" by (simp add: reconcile_present_def)
  then obtain rule0 e c s1 where api: "syncAPIRule env (b, s) = (Ret (rule0, e), (c, s1))"
    and exposed: "reconcile_exposed env now rule0
      (c\<lparr>sub_status := SetConditionAPIRuleStatus now e (sub_status c)\<rparr>, s1) = (Ret d, s')"
    by (auto simp: reconcile_valid_def Let_def split: prod.splits result.splits option.splits if_splits)
  let ?c = "c\<lparr>sub_status := SetConditionAPIRuleStatus now e (sub_status c)\<rparr>"
  have kc: "keeps sub ?c" and os: "same_outside s s1"
    using keeps_syncAPIRule [OF api] keeps_trans [OF kb] keeps_trans keeps_status(1) by auto
  obtain r2 sub2 s2 where sync: "syncEventMeshSubscription env now rule0 (?c, s1) = (r2, (sub2, s2))" by (metis prod.exhaust)
  with exposed obtain isActive where "r2 = Ret isActive" by (cases r2) (auto simp: reconcile_exposed_def)
  moreover from this sync obtain rule where "rule0 = Some rule"
    by (cases rule0) (auto simp: syncEventMeshSubscription_def)
  moreover from exposed sync \<open>r2 = Ret isActive\<close>
  have upd: "updateSubscription env sub2 s2 = (Ret (), s')" and "d = (if \<not> isActive then requeueAfterDuration else 0)"
    by (auto simp: reconcile_exposed_def bindR_Ret_iff)
  moreover have "same_outside s2 s'" using same_outside_updateSubscription [of s2 env sub2] upd by simp
  moreover have "conds_ok ?c" if "\<And>cs. mset (er_order env cs) = mset cs" and "distinct_on cond_type (st_conditions (sub_status sub))"
  proof -
    have "conds_ok a" using syncInitialStatus_ok [OF that] fin by (auto simp: syncFinalizer_def addFinalizer_em_def split: if_splits)
    with conds_ok_validate [OF val] conditions_syncAPIRule [OF api] have "conds_ok c" by (auto dest: conds_ok_same)
    then show ?thesis by (rule conds_ok_APIRule)
  qed
  ultimately show ?thesis using that [OF kc os, of rule isActive sub2 s2] sync by blast
qed

text \<open>After the backend only the conditions, the readiness and the time of the failed activation change.\<close>

definition clear :: "Subscription \<Rightarrow> Subscription" where
  "clear sub = map_backend (\<lambda>b. b\<lparr>bk_failedActivation := ''''\<rparr>)
     (sub\<lparr>sub_status := (sub_status sub)\<lparr>st_conditions := [], st_ready := False\<rparr>\<rparr>)"

lemma clear_replace [simp]: "clear (snd (replaceStatusCondition c sub)) = clear sub"
  by (simp add: replaceStatusCondition_def clear_def map_backend_def Let_def)

lemma clear_failedActivation [simp]: "clear (map_backend (\<lambda>b. b\<lparr>bk_failedActivation := x\<rparr>) sub) = clear sub"
  by (simp add: clear_def map_backend_def)

lemma clear_checkStatusActive: "checkStatusActive now sub = (r, sub') \<Longrightarrow> clear sub' = clear sub"
  by (auto simp: checkStatusActive_def Let_def split: option.splits if_splits)

lemma clear_syncConditionSubscribed: "syncConditionSubscribed env now err sub = (r, sub') \<Longrightarrow> clear sub' = clear sub"
  by (auto simp: syncConditionSubscribed_def bindR_pure split: result.splits)

lemma clear_syncConditionSubscriptionActive [simp]: "clear (syncConditionSubscriptionActive now a sub) = clear sub"
  by (simp add: syncConditionSubscriptionActive_def)

lemma clear_syncConditionWebhookCallStatus: "syncConditionWebhookCallStatus now sub = (r, sub') \<Longrightarrow> clear sub' = clear sub"
  by (auto simp: syncConditionWebhookCallStatus_def bindR_pure split: result.splits prod.splits)

lemma clear_facts:
  assumes "clear sub' = clear sub"
  shows "st_types (sub_status sub') = st_types (sub_status sub)"
    "bk_ev2hash (st_backend (sub_status sub')) = bk_ev2hash (st_backend (sub_status sub))"
    "bk_eventMeshHash (st_backend (sub_status sub')) = bk_eventMeshHash (st_backend (sub_status sub))"
    "bk_eventMeshLocalHash (st_backend (sub_status sub')) = bk_eventMeshLocalHash (st_backend (sub_status sub))"
    "bk_webhookAuthHash (st_backend (sub_status sub')) = bk_webhookAuthHash (st_backend (sub_status sub))"
    "bk_emsTypes (st_backend (sub_status sub')) = bk_emsTypes (st_backend (sub_status sub))"
    "bk_eventMeshSubscriptionStatus (st_backend (sub_status sub')) = bk_eventMeshSubscriptionStatus (st_backend (sub_status sub))"
    "sub_finalizers sub' = sub_finalizers sub"
    "sub_spec sub' = sub_spec sub"
    "sub_name sub' = sub_name sub"
    "sub_namespace sub' = sub_namespace sub"
    "same_identity sub sub'"
proof -
  note field = arg_cong [OF assms]
  show "st_types (sub_status sub') = st_types (sub_status sub)"
    using field [of "\<lambda>x. st_types (sub_status x)"] by (simp add: clear_def map_backend_def)
  show "bk_ev2hash (st_backend (sub_status sub')) = bk_ev2hash (st_backend (sub_status sub))"
    using field [of "\<lambda>x. bk_ev2hash (st_backend (sub_status x))"] by (simp add: clear_def map_backend_def)
  show "bk_eventMeshHash (st_backend (sub_status sub')) = bk_eventMeshHash (st_backend (sub_status sub))"
    using field [of "\<lambda>x. bk_eventMeshHash (st_backend (sub_status x))"] by (simp add: clear_def map_backend_def)
  show "bk_eventMeshLocalHash (st_backend (sub_status sub')) = bk_eventMeshLocalHash (st_backend (sub_status sub))"
    using field [of "\<lambda>x. bk_eventMeshLocalHash (st_backend (sub_status x))"] by (simp add: clear_def map_backend_def)
  show "bk_webhookAuthHash (st_backend (sub_status sub')) = bk_webhookAuthHash (st_backend (sub_status sub))"
    using field [of "\<lambda>x. bk_webhookAuthHash (st_backend (sub_status x))"] by (simp add: clear_def map_backend_def)
  show "bk_emsTypes (st_backend (sub_status sub')) = bk_emsTypes (st_backend (sub_status sub))"
    using field [of "\<lambda>x. bk_emsTypes (st_backend (sub_status x))"] by (simp add: clear_def map_backend_def)
  show "bk_eventMeshSubscriptionStatus (st_backend (sub_status sub')) = bk_eventMeshSubscriptionStatus (st_backend (sub_status sub))"
    using field [of "\<lambda>x. bk_eventMeshSubscriptionStatus (st_backend (sub_status x))"] by (simp add: clear_def map_backend_def)
  show "sub_finalizers sub' = sub_finalizers sub"
    using field [of "\<lambda>x. sub_finalizers x"] by (simp add: clear_def map_backend_def)
  show "sub_spec sub' = sub_spec sub"
    using field [of "\<lambda>x. sub_spec x"] by (simp add: clear_def map_backend_def)
  show "sub_name sub' = sub_name sub"
    using field [of "\<lambda>x. sub_name x"] by (simp add: clear_def map_backend_def)
  show "sub_namespace sub' = sub_namespace sub"
    using field [of "\<lambda>x. sub_namespace x"] by (simp add: clear_def map_backend_def)
  then show "same_identity sub sub'"
    using field [of sub_spec] field [of sub_name] field [of sub_namespace]
    by (simp add: clear_def map_backend_def same_identity_def)
qed

lemma recorded_status_clear: "clear sub' = clear sub \<Longrightarrow> recorded_status env infos s srv sub' = recorded_status env infos s srv sub"
  by (simp add: recorded_status_def hashes_recorded_def clear_facts(1-7) [of sub' sub])

text \<open>Whether EventMesh reports the subscription as active.\<close>

definition active_on_eventmesh :: "Subscription \<Rightarrow> bool" where
  "active_on_eventmesh sub \<longleftrightarrow>
     (case bk_eventMeshSubscriptionStatus (st_backend (sub_status sub)) of
        Some st \<Rightarrow> ems_status st = SubscriptionStatusActive | None \<Rightarrow> False)"

lemma checkStatusActive_Ret: "checkStatusActive now sub = (Ret a, sub') \<Longrightarrow> a = active_on_eventmesh sub"
  by (auto simp: checkStatusActive_def active_on_eventmesh_def Let_def split: option.splits if_splits)

text \<open>The last condition that is set makes the readiness the conjunction of all of them.\<close>

lemma ready_after_sync:
  assumes "conds_ok sub1" and "checkStatusActive now sub1 = (Ret a, sub3)"
    and "syncConditionSubscribed env now None sub3 = (Ret (), sub4)"
    and "syncConditionWebhookCallStatus now (syncConditionSubscriptionActive now a sub4) = (Ret (), sub2)"
  shows "conds_ok sub2 \<and> (st_ready (sub_status sub2) \<longleftrightarrow> all_true sub2) \<and> (all_true sub2 \<longrightarrow> a)"
proof -
  have "conds_ok sub3"
    using assms(1,2) by (auto simp: checkStatusActive_def Let_def split: option.splits if_splits)
  with assms(3) have 4: "conds_ok sub4"
    by (auto simp: syncConditionSubscribed_def bindR_Ret_iff dest: conds_ok_replace)
  define sub5 where "sub5 = syncConditionSubscriptionActive now a sub4"
  obtain ca where ca: "sub5 = snd (replaceStatusCondition ca sub4)" "cond_type ca = ConditionSubscriptionActive"
    "cond_status ca = ConditionTrue \<longleftrightarrow> a"
    by (auto simp: sub5_def syncConditionSubscriptionActive_def)
  have 5: "conds_ok sub5" using conds_ok_replace [OF 4] ca(1) by simp
  obtain cw where cw: "sub2 = snd (replaceStatusCondition cw sub5)" "cond_type cw = ConditionWebhookCallStatus"
    using assms(4) unfolding sub5_def [symmetric]
    by (auto simp: syncConditionWebhookCallStatus_def bindR_Ret_iff split: option.splits if_splits)
  have st: "statuses sub2 = map (set_status cw) (map (set_status ca) (statuses sub4))"
    using replaceStatusCondition_statuses [of sub4 ca] replaceStatusCondition_statuses [of sub5 cw] 4 5 ca(1) cw(1)
    by (simp add: conds_ok_def)
  have "ConditionSubscriptionActive \<in> set (map fst (statuses sub4))"
    using 4 unfolding conds_ok_statuses by (simp add: MakeSubscriptionConditions_types)
  then have "(ConditionSubscriptionActive, cond_status ca) \<in> set (statuses sub2)"
    using ca(2) cw(2) unfolding st by (force simp: set_status_def)
  then have "all_true sub2 \<longrightarrow> a" using ca(3) by (auto simp: all_true_statuses list_all_iff)
  moreover have "st_ready (sub_status sub2) \<longleftrightarrow> all_true sub2"
    using replaceStatusCondition_statuses [of sub5 cw] 5 cw(1) by (simp add: conds_ok_def)
  ultimately show ?thesis using conds_ok_replace [OF 5] cw(1) by simp
qed

lemma syncEventMeshSubscription_RetE:
  assumes "syncEventMeshSubscription env now (Some rule) (sub, s) = (Ret isActive, (sub2, s2))"
  obtains x sub1 b
  where "er_SyncSubscription env (er_cleaner env) rule (sub, es_backend s) = (Ret x, (sub1, b))"
    and "s2 = s\<lparr>es_backend := b\<rparr>" and "clear sub2 = clear sub1" and "isActive = active_on_eventmesh sub1"
    and "conds_ok sub1 \<Longrightarrow> conds_ok sub2 \<and> (st_ready (sub_status sub2) \<longleftrightarrow> all_true sub2) \<and>
      (all_true sub2 \<longrightarrow> isActive)"
proof -
  from assms obtain x ss1 where
    1: "on_backend (er_SyncSubscription env (er_cleaner env) rule) (sub, s) = (Ret x, ss1)" and
    c1: "bindR (describe_failed ''reached retry timeout: '' (with_state (checkStatusActive now) ss1)) (\<lambda>isActive ss.
          bindR (with_state (syncConditionSubscribed env now None) ss) (\<lambda>_ ss.
          bindR (with_state (syncConditionWebhookCallStatus now)
                   (syncConditionSubscriptionActive now isActive (fst ss), snd ss)) (\<lambda>_ ss.
            (Ret isActive, ss)))) = (Ret isActive, (sub2, s2))"
    unfolding syncEventMeshSubscription_def option.case by (auto elim: bindR_RetE [of "subscribed_failed env now m" for m])
  from c1 obtain a ss3 where
    3: "with_state (checkStatusActive now) ss1 = (Ret a, ss3)" and
    c3: "bindR (with_state (syncConditionSubscribed env now None) ss3) (\<lambda>_ ss.
          bindR (with_state (syncConditionWebhookCallStatus now)
                   (syncConditionSubscriptionActive now a (fst ss), snd ss)) (\<lambda>_ ss.
            (Ret a, ss))) = (Ret isActive, (sub2, s2))"
    by (rule bindR_RetE) (simp del: with_state_Ret)
  from c3 obtain u ss4 where
    4: "with_state (syncConditionSubscribed env now None) ss3 = (Ret u, ss4)" and
    c4: "bindR (with_state (syncConditionWebhookCallStatus now)
                   (syncConditionSubscriptionActive now a (fst ss4), snd ss4)) (\<lambda>_ ss.
            (Ret a, ss)) = (Ret isActive, (sub2, s2))"
    by (rule bindR_RetE) (simp del: with_state_Ret)
  from c4 obtain v where
    5: "with_state (syncConditionWebhookCallStatus now) (syncConditionSubscriptionActive now a (fst ss4), snd ss4) =
      (Ret v, (sub2, s2))" and a: "a = isActive"
    by (rule bindR_RetE) (simp del: with_state_Ret)
  from 1 obtain b where sync: "er_SyncSubscription env (er_cleaner env) rule (sub, es_backend s) = (Ret x, (fst ss1, b))"
    and "snd ss1 = s\<lparr>es_backend := b\<rparr>" by (auto simp: on_backend_Ret)
  with 3 4 5 have "s2 = s\<lparr>es_backend := b\<rparr>" by simp
  moreover have "clear sub2 = clear (fst ss1)"
    using clear_checkStatusActive [of now "fst ss1"] clear_syncConditionSubscribed [of env now None "fst ss3"]
      clear_syncConditionWebhookCallStatus [of now] 3 4 5 by fastforce
  moreover have "isActive = active_on_eventmesh (fst ss1)"
    using checkStatusActive_Ret [of now "fst ss1"] 3 a by simp
  moreover have "conds_ok sub2 \<and> (st_ready (sub_status sub2) \<longleftrightarrow> all_true sub2) \<and> (all_true sub2 \<longrightarrow> isActive)"
    if "conds_ok (fst ss1)"
    using ready_after_sync [OF that, of now a "fst ss3" env "fst ss4" sub2] 3 4 5 a by simp
  ultimately show ?thesis using that [OF sync] by simp
qed

lemma replaceStatusCondition_name [simp]:
  "sub_name (snd (replaceStatusCondition c sub)) = sub_name sub"
  "sub_namespace (snd (replaceStatusCondition c sub)) = sub_namespace sub"
  by (simp_all add: clear_facts(10,11) [OF clear_replace])

lemma handleDelete_metrics:
  assumes "handleDeleteSubscription env now sub s = (Ret d, s')"
  shows "d = 0 \<and> es_metrics s' =
    RemoveSubscriptionStatus (sub_name sub) (sub_namespace sub) backendType_em '''' '''' (es_metrics s)"
proof (cases "er_DeleteSubscription env sub (es_backend s)")
  case (Pair r b)
  with assms have "r = Ret ()" by (cases r) (auto simp: handleDeleteSubscription_def)
  with assms Pair obtain without t where "updateSubscription env without (s\<lparr>es_backend := b\<rparr>) = (Ret (), t)" "d = 0"
    "es_metrics s' = RemoveSubscriptionStatus (sub_name sub) (sub_namespace sub) backendType_em '''' '''' (es_metrics t)"
    by (auto simp: handleDeleteSubscription_def Let_def bindR_Ret_iff removeFinalizer_em_def)
  with same_outside_updateSubscription [of "s\<lparr>es_backend := b\<rparr>" env without] show ?thesis by (simp add: same_outside_def)
qed

subsection \<open>What the reconciler relies on\<close>

text \<open>
  The two operations of the backend that a reconciliation calls. \<open>trusts\<close> is what the status must
  hold before, \<open>serves\<close> relates the backend and the Subscription after a synchronisation, and
  \<open>holds\<close> says that something of the Subscription is left in the backend.
\<close>

locale em_backend =
  fixes sync :: "Cleaner \<Rightarrow> APIRule \<Rightarrow> Subscription \<times> 'b \<Rightarrow> (Subscription \<times> 'b, bool) outcome"
    and del :: "Subscription \<Rightarrow> ('b, unit) call"
    and trusts :: "Cleaner \<Rightarrow> Subscription \<Rightarrow> bool"
    and serves :: "'b \<Rightarrow> Cleaner \<Rightarrow> APIRule \<Rightarrow> Subscription \<Rightarrow> bool"
    and holds :: "'b \<Rightarrow> Subscription \<Rightarrow> bool"
  assumes sync_serves: "trusts cl sub \<Longrightarrow> sync cl rule (sub, b) = (Ret x, (sub', b')) \<Longrightarrow>
      serves b' cl rule sub' \<and> same_identity sub sub'"
    and trusts_keeps: "keeps sub sub' \<Longrightarrow> trusts cl sub \<Longrightarrow> trusts cl sub'"
    and serves_clear: "clear sub' = clear sub \<Longrightarrow> serves b cl rule sub \<Longrightarrow> serves b cl rule sub'"
    and serves_trusts: "serves b cl rule sub \<Longrightarrow> trusts cl sub"
    and del_gone: "del sub b = (Ret (), b') \<Longrightarrow> \<not> holds b' sub"
begin

lemma reconcile_present_serves:
  assumes sync: "er_SyncSubscription env = sync" and trust: "trusts (er_cleaner env) sub"
    and run: "reconcile_present env now sub s = (Ret d, s')"
  shows "\<exists>rule sub' t. serves (es_backend s') (er_cleaner env) rule sub' \<and> same_identity sub sub' \<and>
    trusts (er_cleaner env) sub' \<and> updateSubscription env sub' t = (Ret (), s') \<and>
    d = (if active_on_eventmesh sub' then 0 else requeueAfterDuration)"
proof (rule reconcile_present_RetE [OF run])
  fix sub1 s1 rule sub2 s2 isActive
  assume keep: "keeps sub sub1" and "syncEventMeshSubscription env now (Some rule) (sub1, s1) = (Ret isActive, (sub2, s2))"
    and out: "same_outside s2 s'" and upd: "updateSubscription env sub2 s2 = (Ret (), s')"
    and d: "d = (if \<not> isActive then requeueAfterDuration else 0)"
  from this(2) show ?thesis
  proof (rule syncEventMeshSubscription_RetE)
    fix x sub3 b
    assume call: "er_SyncSubscription env (er_cleaner env) rule (sub1, es_backend s1) = (Ret x, (sub3, b))"
      and s2: "s2 = s1\<lparr>es_backend := b\<rparr>" and cl: "clear sub2 = clear sub3"
      and act: "isActive = active_on_eventmesh sub3"
    have "serves b (er_cleaner env) rule sub3 \<and> same_identity sub1 sub3"
      using sync_serves [OF trusts_keeps [OF keep trust]] call sync by simp
    then have "serves b (er_cleaner env) rule sub2" and "same_identity sub sub2"
      using serves_clear [OF cl] keep clear_facts(9-11) [OF cl] by (auto simp: keeps_def same_identity_def)
    moreover have "es_backend s' = b" using out s2 by (simp add: same_outside_def)
    moreover have "active_on_eventmesh sub2 = isActive"
      using act clear_facts(7) [OF cl] by (simp add: active_on_eventmesh_def)
    ultimately show ?thesis using upd d serves_trusts by metis
  qed
qed

lemma handleDelete_gone:
  assumes "er_DeleteSubscription env = del" and "handleDeleteSubscription env now sub s = (Ret d, s')"
  shows "\<not> holds (es_backend s') sub"
proof -
  obtain r b where call: "del sub (es_backend s) = (r, b)" by fastforce
  with assms have r: "r = Ret ()" by (cases r) (auto simp: handleDeleteSubscription_def)
  with call assms obtain without t where "updateSubscription env without (s\<lparr>es_backend := b\<rparr>) = (Ret (), t)"
    and "es_backend s' = es_backend t"
    by (auto simp: handleDeleteSubscription_def Let_def bindR_Ret_iff)
  with same_outside_updateSubscription [of "s\<lparr>es_backend := b\<rparr>" env without]
  have "es_backend s' = b" by (simp add: same_outside_def)
  with del_gone call r show ?thesis by simp
qed

end

subsection \<open>The EventMesh backend provides it\<close>

text \<open>Subscriptions with the same hash have the same hash after cleaning.\<close>

definition hash_faithful :: "hash_lib \<Rightarrow> bool" where
  "hash_faithful h \<longleftrightarrow> (\<forall>s s' v. GetHash h s = Ret v \<and> GetHash h s' = Ret v \<longrightarrow>
     GetHash h (GetCleanedEventMeshSubscription s) = GetHash h (GetCleanedEventMeshSubscription s'))"

definition trusts_em :: "em_env \<Rightarrow> 'e EventMesh \<Rightarrow> Cleaner \<Rightarrow> Subscription \<Rightarrow> bool" where
  "trusts_em env em cl sub \<longleftrightarrow>
     (\<forall>rule infos s. desired em cl rule sub infos s \<longrightarrow> trusted env (st_backend (sub_status sub)) s)"

text \<open>
  EventMesh has the settings that the Subscription asks for, up to a collision of hashes, and the
  status records them.
\<close>

definition serves_em ::
  "em_env \<Rightarrow> 'e EventMesh \<Rightarrow> ('e \<Rightarrow> string \<Rightarrow> EMSubscription option) \<Rightarrow> 'e \<Rightarrow> Cleaner \<Rightarrow> APIRule \<Rightarrow> Subscription \<Rightarrow> bool"
where
  "serves_em env em subs e cl rule sub \<longleftrightarrow>
     (\<exists>infos s srv. desired em cl rule sub infos s \<and>
        map_option GetCleanedEventMeshSubscription (subs e (em_name s)) = Some (GetCleanedEventMeshSubscription srv) \<and>
        GetHash (ee_hash env) (GetCleanedEventMeshSubscription srv) =
        GetHash (ee_hash env) (GetCleanedEventMeshSubscription s) \<and>
        recorded_status env infos s srv sub)"

definition holds_em :: "'e EventMesh \<Rightarrow> ('e \<Rightarrow> string \<Rightarrow> EMSubscription option) \<Rightarrow> 'e \<Rightarrow> Subscription \<Rightarrow> bool" where
  "holds_em em subs e sub \<longleftrightarrow>
     (case MapSubscriptionName (mb_subNameMapper em) (sub_name sub) (sub_namespace sub) of
        Ret n \<Rightarrow> subs e n \<noteq> None | _ \<Rightarrow> True)"

lemma keeps_identity: "keeps sub sub' \<Longrightarrow> same_identity sub sub'"
  by (simp add: keeps_def)

lemma trusts_em_keeps: "keeps sub sub' \<Longrightarrow> trusts_em env em cl sub \<Longrightarrow> trusts_em env em cl sub'"
  using desired_identity [OF keeps_identity, of sub sub' em cl]
  by (auto simp: trusts_em_def trusted_def keeps_def Let_def)

lemma serves_em_clear: "clear sub' = clear sub \<Longrightarrow> serves_em env em subs e cl rule sub \<Longrightarrow> serves_em env em subs e cl rule sub'"
  using desired_identity [OF clear_facts(12), of sub' sub em cl]
  by (simp add: serves_em_def recorded_status_clear [of sub' sub])

lemma serves_em_trusts:
  assumes "hash_faithful (ee_hash env)" and "serves_em env em subs e cl rule sub"
  shows "trusts_em env em cl sub"
proof -
  obtain infos s srv where same: "GetHash (ee_hash env) (GetCleanedEventMeshSubscription srv) =
        GetHash (ee_hash env) (GetCleanedEventMeshSubscription s)"
    and rec: "hashes_recorded env (st_backend (sub_status sub)) s srv"
    using assms(2) by (auto simp: serves_em_def recorded_status_def)
  let ?b = "st_backend (sub_status sub)"
  have rec: "GetHash (ee_hash env) s = Ret (bk_ev2hash ?b)"
      "GetHash (ee_hash env) (GetCleanedEventMeshSubscription s) = Ret (bk_eventMeshHash ?b)"
      "bk_eventMeshLocalHash ?b = bk_eventMeshHash ?b"
    using rec same unfolding hashes_recorded_def by auto
  have "trusted env ?b s'" for s'
  proof (cases "ee_webhookAuthEnabled env")
    case False
    have "GetHash (ee_hash env) (GetCleanedEventMeshSubscription s') = Ret (bk_eventMeshHash ?b)"
      if "GetHash (ee_hash env) s' = Ret (bk_ev2hash ?b)"
      using assms(1) that rec(1,2) unfolding hash_faithful_def by metis
    with False show ?thesis unfolding trusted_def by simp
  qed (simp add: trusted_def rec(3))
  then show ?thesis unfolding trusts_em_def by blast
qed

locale em_client = ems_service c subs
  for c :: "'e publisher_manager" and subs :: "'e \<Rightarrow> string \<Rightarrow> EMSubscription option" +
  fixes env :: em_env and em :: "'e EventMesh"
  assumes client: "mb_client em = Some c" and faithful: "hash_faithful (ee_hash env)"

sublocale em_client \<subseteq> em_backend "SyncSubscription_em env em" "DeleteSubscription_em em"
  "trusts_em env em" "serves_em env em subs" "holds_em em subs"
proof
  show "serves_em env em subs b' cl rule sub' \<and> same_identity sub sub'"
    if "trusts_em env em cl sub" and "SyncSubscription_em env em cl rule (sub, b) = (Ret x, sub', b')"
    for cl sub rule b x sub' b'
  proof -
    note run = that
    obtain infos s srv where "desired em cl rule sub infos s"
      "settings b' (em_name s) = Some (GetCleanedEventMeshSubscription srv)"
      "GetHash (ee_hash env) (GetCleanedEventMeshSubscription srv) =
       GetHash (ee_hash env) (GetCleanedEventMeshSubscription s)"
      "recorded_status env infos s srv sub'" and ident: "same_identity sub sub'"
      using SyncSubscription_em_effect [OF client run(2)] run(1) unfolding trusts_em_def by blast
    then show ?thesis
      unfolding serves_em_def desired_identity [OF ident, of em cl] by blast
  qed
  show "\<not> holds_em em subs b' sub" if "DeleteSubscription_em em sub b = (Ret (), b')" for sub b b'
    using that deleteSubscription_gone [OF client]
    by (auto simp: DeleteSubscription_em_def holds_em_def bindR_Ret_iff)
qed (rule trusts_em_keeps serves_em_clear serves_em_trusts [OF faithful]; assumption)+

context em_client
begin

lemmas backend_serves = reconcile_present_serves

lemmas backend_gone = handleDelete_gone

end

lemma example_faithful: "hash_faithful (ee_hash example_em_env)"
  by (auto simp: hash_faithful_def example_hash length_cleaned_events)

interpretation example_backend: em_client store_client stored example_em_env example_em
  by unfold_locales (rule example_client example_faithful)+

subsection \<open>Properties of a reconciliation\<close>

text \<open>
  C15. A reconciliation of a Subscription that is not being deleted returns only after EventMesh got
  the subscription that the Subscription asks for, up to a collision of hashes: the settings it has
  under the name of the Subscription have the hash of the desired ones, the status that was written
  records them, and it again holds what a later reconciliation relies on. The reconciliation is not
  repeated exactly if EventMesh reports the subscription as active.
\<close>

theorem Reconcile_em_success:
  assumes "em_client c subs eenv em" and "er_SyncSubscription env = SyncSubscription_em eenv em"
    and "er_GetSubscription env namespace name (es_k8s s) = (Ret sub, k)" and "\<not> isInDeletion_em sub"
    and "trusts_em eenv em (er_cleaner env) sub" and "Reconcile_em env now namespace name s = (Ret d, s')"
  shows "\<exists>rule infos w srv sub' t t'. desired em (er_cleaner env) rule sub infos w \<and>
    map_option GetCleanedEventMeshSubscription (subs (es_backend s') (em_name w)) =
      Some (GetCleanedEventMeshSubscription srv) \<and>
    GetHash (ee_hash eenv) (GetCleanedEventMeshSubscription srv) =
    GetHash (ee_hash eenv) (GetCleanedEventMeshSubscription w) \<and>
    recorded_status eenv infos w srv sub' \<and> same_identity sub sub' \<and> trusts_em eenv em (er_cleaner env) sub' \<and>
    updateSubscription env sub' t = (Ret (), t') \<and> es_k8s s' = es_k8s t' \<and>
    d = (if active_on_eventmesh sub' then 0 else requeueAfterDuration)"
proof -
  obtain t' where run: "reconcile_present env now sub (s\<lparr>es_k8s := k\<rparr>) = (Ret d, t')"
    and s': "es_backend s' = es_backend t'" "es_k8s s' = es_k8s t'"
    using assms(3,4,6) by (auto simp: Reconcile_em_def on_cluster_def split: prod.splits)
  from em_client.backend_serves [OF assms(1,2,5) run] obtain rule sub' t
    where "serves_em eenv em subs (es_backend t') (er_cleaner env) rule sub'" and ident: "same_identity sub sub'"
      and rest: "trusts_em eenv em (er_cleaner env) sub'" "updateSubscription env sub' t = (Ret (), t')"
        "d = (if active_on_eventmesh sub' then 0 else requeueAfterDuration)"
    by blast
  from this(1) obtain infos w srv where "desired em (er_cleaner env) rule sub infos w"
    "map_option GetCleanedEventMeshSubscription (subs (es_backend s') (em_name w)) =
      Some (GetCleanedEventMeshSubscription srv)"
    "GetHash (ee_hash eenv) (GetCleanedEventMeshSubscription srv) =
     GetHash (ee_hash eenv) (GetCleanedEventMeshSubscription w)" "recorded_status eenv infos w srv sub'"
    unfolding serves_em_def desired_identity [OF ident, of em "er_cleaner env"] s' by blast
  with ident rest s'(2) show ?thesis by blast
qed

text \<open>
  C17. A Subscription that is being deleted loses its finalizer only after its subscription is gone
  from EventMesh: while the backend fails, the cluster and the metrics stay as they are and the
  error is returned; if the reconciliation returns, EventMesh has nothing under the name of the
  Subscription, and its metric is removed.
\<close>

theorem Reconcile_em_deletion:
  assumes "em_client c subs eenv em" and "er_DeleteSubscription env = DeleteSubscription_em em"
    and "er_GetSubscription env namespace name (es_k8s s) = (Ret sub, es_k8s s)" and "isInDeletion_em sub"
  shows "(\<forall>err b. DeleteSubscription_em em sub (es_backend s) = (Err err, b) \<longrightarrow>
      Reconcile_em env now namespace name s = (Err err, s\<lparr>es_backend := b\<rparr>)) \<and>
    (\<forall>d s'. Reconcile_em env now namespace name s = (Ret d, s') \<longrightarrow>
      d = 0 \<and> (\<exists>n. MapSubscriptionName (mb_subNameMapper em) (sub_name sub) (sub_namespace sub) = Ret n \<and>
        subs (es_backend s') n = None) \<and>
      es_metrics s' = RemoveSubscriptionStatus (sub_name sub) (sub_namespace sub) backendType_em '''' '''' (es_metrics s))"
proof -
  have del: "Reconcile_em env now namespace name s = handleDeleteSubscription env now sub s"
    using assms(3,4) by (simp add: Reconcile_em_def on_cluster_def)
  have "d = 0 \<and> (\<exists>n. MapSubscriptionName (mb_subNameMapper em) (sub_name sub) (sub_namespace sub) = Ret n \<and>
        subs (es_backend s') n = None) \<and>
      es_metrics s' = RemoveSubscriptionStatus (sub_name sub) (sub_namespace sub) backendType_em '''' '''' (es_metrics s)"
    if run: "handleDeleteSubscription env now sub s = (Ret d, s')" for d s'
  proof -
    have "\<not> holds_em em subs (es_backend s') sub"
      using em_client.backend_gone [OF assms(1,2) run] .
    then have "\<exists>n. MapSubscriptionName (mb_subNameMapper em) (sub_name sub) (sub_namespace sub) = Ret n \<and>
        subs (es_backend s') n = None"
      by (auto simp: holds_em_def split: result.splits)
    moreover from run have "d = 0 \<and> es_metrics s' =
        RemoveSubscriptionStatus (sub_name sub) (sub_namespace sub) backendType_em '''' '''' (es_metrics s)"
      by (rule handleDelete_metrics)
    ultimately show ?thesis by blast
  qed
  moreover have "handleDeleteSubscription env now sub s = (Err err, s\<lparr>es_backend := b\<rparr>)"
    if "DeleteSubscription_em em sub (es_backend s) = (Err err, b)" for err b
    using that assms(2) by (simp add: handleDeleteSubscription_def)
  ultimately show ?thesis by (simp add: del)
qed

text \<open>
  C16. When the reconciliation of a Subscription that is not being deleted and whose stored
  conditions have distinct types ends without an error, the last thing it did to the cluster was to
  update the Subscription with exactly one condition of each of the five types, marked as ready
  exactly if all of them are true; it is marked as ready only if EventMesh reports its
  subscription as active, and is then not reconciled again. A reconciliation that ends with an
  error can write a Subscription as ready although a condition is false, as is shown below.
\<close>

theorem Reconcile_em_ready:
  assumes "\<forall>cs. mset (er_order env cs) = mset cs" and "er_SyncSubscription env = SyncSubscription_em eenv em"
    and "er_GetSubscription env namespace name (es_k8s s) = (Ret sub, k)" and "\<not> isInDeletion_em sub"
    and "distinct_on cond_type (st_conditions (sub_status sub))"
    and "Reconcile_em env now namespace name s = (Ret d, s')"
  shows "\<exists>sub' t t'. updateSubscription env sub' t = (Ret (), t') \<and> es_k8s s' = es_k8s t' \<and> conds_ok sub' \<and>
    (st_ready (sub_status sub') \<longleftrightarrow> all_true sub') \<and>
    (st_ready (sub_status sub') \<longrightarrow> active_on_eventmesh sub' \<and> d = 0)"
proof -
  obtain t' where run: "reconcile_present env now sub (s\<lparr>es_k8s := k\<rparr>) = (Ret d, t')" and s': "es_k8s s' = es_k8s t'"
    using assms(3,4,6) by (auto simp: Reconcile_em_def on_cluster_def split: prod.splits)
  show ?thesis
  proof (rule reconcile_present_RetE [OF run])
    fix sub1 s1 rule sub2 s2 isActive
    assume upd: "updateSubscription env sub2 s2 = (Ret (), t')" and d: "d = (if \<not> isActive then requeueAfterDuration else 0)"
      and ok: "(\<And>cs. mset (er_order env cs) = mset cs) \<Longrightarrow> distinct_on cond_type (st_conditions (sub_status sub)) \<Longrightarrow> conds_ok sub1"
      and "syncEventMeshSubscription env now (Some rule) (sub1, s1) = (Ret isActive, (sub2, s2))"
    from this(4) show ?thesis
    proof (rule syncEventMeshSubscription_RetE)
      fix x sub3 b
      assume call: "er_SyncSubscription env (er_cleaner env) rule (sub1, es_backend s1) = (Ret x, (sub3, b))"
        and cl: "clear sub2 = clear sub3" and act: "isActive = active_on_eventmesh sub3"
        and ready: "conds_ok sub3 \<Longrightarrow> conds_ok sub2 \<and> (st_ready (sub_status sub2) \<longleftrightarrow> all_true sub2) \<and> (all_true sub2 \<longrightarrow> isActive)"
      have "conds_ok sub3"
        using conds_ok_same [OF SyncSubscription_em_conditions] call ok assms(1,2,5) by fastforce
      moreover have "active_on_eventmesh sub2 = isActive"
        using act clear_facts(7) [OF cl] by (simp add: active_on_eventmesh_def)
      ultimately show ?thesis using ready upd d s' by auto
    qed
  qed
qed

text \<open>
  C18. An APIRule that has other owners than the Subscription is never deleted, whatever other
  APIRules the cluster holds: exposing the sink has the same result and the same effects if the
  deletion of such an APIRule, and only that, is replaced by anything else.
\<close>

theorem syncAPIRule_spares_shared:
  "syncAPIRule (env\<lparr>er_DeleteAPIRule := \<lambda>rule.
     if remaining_owners sub rule = [] then er_DeleteAPIRule env rule else anything rule\<rparr>) (sub, s) =
   syncAPIRule env (sub, s)"
proof -
  let ?env = "env\<lparr>er_DeleteAPIRule := \<lambda>rule.
     if remaining_owners sub rule = [] then er_DeleteAPIRule env rule else anything rule\<rparr>"
  have "handlePreviousAPIRule ?env sub reusable t = handlePreviousAPIRule env sub reusable t" for reusable t
  proof (cases "on_cluster (er_GetAPIRule env (sub_namespace sub) (bk_apiRuleName (st_backend (sub_status sub)))) t")
    case (Pair r t')
    have "release_apirule ?env sub rule t' = release_apirule env sub rule t'" for rule
      by (simp add: release_apirule_def Let_def cong: option.case_cong)
    with Pair show ?thesis by (cases r) (simp_all add: handlePreviousAPIRule_def Let_def)
  qed
  moreover have "makeAPIRule ?env = makeAPIRule env" "getAPIRulesForASvc ?env = getAPIRulesForASvc env"
    "getSubscriptionsForASvc ?env = getSubscriptionsForASvc env" "create_apirule ?env = create_apirule env"
    by (simp_all add: fun_eq_iff makeAPIRule_def getAPIRulesForASvc_def getSubscriptionsForASvc_def create_apirule_def Let_def)
  moreover have "createAuthorizationPolicy ?env = createAuthorizationPolicy env"
    by (simp add: fun_eq_iff createAuthorizationPolicy_def)
  then have "ensure_policy ?env = ensure_policy env"
    by (intro ext) (simp add: ensure_policy_def split: prod.split result.split)
  then have "reuse_apirule ?env = reuse_apirule env"
    by (intro ext) (simp add: reuse_apirule_def Let_def cong: if_cong)
  ultimately have "createOrUpdateAPIRule ?env sub = createOrUpdateAPIRule env sub"
    by (intro ext) (simp add: createOrUpdateAPIRule_def Let_def cong: option.case_cong)
  then show ?thesis by (simp add: syncAPIRule_def cong: result.case_cong)
qed

text \<open>
  C34. A valid Subscription that is not ready and has some conditions, but not one of every type, is
  marked as ready at the start of its reconciliation. If exposing its sink then fails, it is
  written as ready, although its condition for the APIRule is false. (A Subscription without any
  condition starts as not ready.)
\<close>

theorem reconcile_present_wrongly_ready:
  assumes "st_conditions (sub_status sub) \<noteq> []" and "\<not> st_ready (sub_status sub)"
    and "\<not> ContainSameConditionTypes (st_conditions (sub_status sub)) (MakeSubscriptionConditions now)"
    and "started = snd (syncFinalizer (syncInitialStatus env now sub))"
    and "validateSubscription_em env now started (es_k8s s) = (valid, None)"
    and "ParseRequestURI (spec_sink (sub_spec sub)) = Ret u"
    and "createOrUpdateAPIRule env valid u s = (Err err, t)"
  shows "\<exists>sub'. reconcile_present env now sub s =
      fail_after_update env (describe ''failed to create or update APIRule: '' err) sub' t \<and>
    st_ready (sub_status sub') \<and> \<not> all_true sub'"
proof -
  let ?init = "syncInitialStatus env now sub"
  have init: "st_ready (sub_status ?init)"
    using assms(1-3) by (auto simp: syncInitialStatus_def Let_def map_backend_def InitializeEventTypes_def
        InitializeConditions_def initializeConditions_def empty_SubscriptionStatus_def)
  obtain r a where fin: "syncFinalizer ?init = (r, a)" by fastforce
  then have r: "r = Ret ()" and a: "keeps ?init a" "st_ready (sub_status a)"
    using keeps_syncFinalizer [OF fin] init by (auto simp: syncFinalizer_def addFinalizer_em_def split: if_splits)
  have val: "validateSubscription_em env now a (es_k8s s) = (valid, None)" using assms(4,5) fin by simp
  then have b: "keeps a valid" "st_ready (sub_status valid)"
    using keeps_validate [OF val] a(2)
    by (auto simp: validateSubscription_em_def SetSubscriptionSpecValidCondition_def Let_def)
  have "sub_spec valid = sub_spec sub"
    using keeps_syncInitialStatus [of sub env now] a(1) b(1) by (simp add: keeps_def same_identity_def)
  with assms(6,7) have "syncAPIRule env (valid, s) =
      (Ret (None, Some (describe ''failed to create or update APIRule: '' err)), (valid, t))"
    by (simp add: syncAPIRule_def)
  with fin r val have "reconcile_present env now sub s = fail_after_update env (describe ''failed to create or update APIRule: '' err)
      (valid\<lparr>sub_status := SetConditionAPIRuleStatus now (Some (describe ''failed to create or update APIRule: '' err)) (sub_status valid)\<rparr>) t"
    by (simp add: reconcile_present_def reconcile_valid_def Let_def describe_def)
  with b(2) show ?thesis
    by (intro exI) (auto simp: all_true_def SetConditionAPIRuleStatus_def Let_def)
qed

subsection \<open>An example cluster\<close>

text \<open>One Subscription and a list of APIRules; the API server makes every APIRule ready.\<close>

type_synonym example_cluster = "Subscription option \<times> APIRule list"

definition admitted :: "APIRule \<Rightarrow> APIRule" where
  "admitted r = r\<lparr>ar_state := ''Ready'', ar_meta := (ar_meta r)\<lparr>om_name := ''webhook-1''\<rparr>\<rparr>"

definition example_rec_env :: "(ems_store, example_cluster) em_rec_env" where
  "example_rec_env =
     \<lparr>er_GetSubscription = (\<lambda>ns n k. (case fst k of None \<Rightarrow> Err (Plain KNotFound ''not found'') | Some s \<Rightarrow> Ret s, k)),
      er_UpdateSubscription = (\<lambda>sub k. (Ret (), (Some sub, snd k))),
      er_StatusUpdate = (\<lambda>sub k. (Ret sub, (Some sub, snd k))),
      er_ListSubscriptions = (\<lambda>ns k. (Ret (case fst k of None \<Rightarrow> [] | Some s \<Rightarrow> [s]), k)),
      er_GetAPIRule = (\<lambda>ns n k. (case find (\<lambda>r. om_name (ar_meta r) = n) (snd k) of
         None \<Rightarrow> Err (Plain KNotFound ''not found'') | Some r \<Rightarrow> Ret r, k)),
      er_ListAPIRules = (\<lambda>l ns k. (Ret (snd k), k)),
      er_CreateAPIRule = (\<lambda>r k. (Ret (admitted r), (fst k, admitted r # snd k))),
      er_UpdateAPIRule = (\<lambda>r k. (Ret (admitted r), (fst k, [admitted r]))),
      er_DeleteAPIRule = (\<lambda>r k. (Ret (), (fst k, []))),
      er_GetPolicy = (\<lambda>ns n k. (Ret (), k)), er_CreatePolicy = (\<lambda>p k. (Ret (), k)),
      er_GetServiceSelector = (\<lambda>ns n k. (Ret None, k)),
      er_Validate = (\<lambda>sub k. None),
      er_SyncSubscription = SyncSubscription_em example_em_env example_em,
      er_DeleteSubscription = DeleteSubscription_em example_em,
      er_cleaner = EventMeshCleaner, er_nameMapper = mb_subNameMapper example_em, er_certsURL = ''certs'',
      er_Domain = ''kyma.local'', er_webhookAuthEnabled = True, er_random = (\<lambda>i. i), er_order = (\<lambda>cs. cs)\<rparr>"

definition example_em_state :: "(ems_store, example_cluster) em_state" where
  "example_em_state = \<lparr>es_backend = [], es_k8s = (Some example_subscription, []), es_metrics = Map.empty, es_events = []\<rparr>"

definition example_valid :: Subscription where
  "example_valid = fst (validateSubscription_em example_rec_env 0
     (snd (syncFinalizer (syncInitialStatus example_rec_env 0 example_subscription))) (Some example_subscription, []))"

lemma example_exposed:
  "case syncAPIRule example_rec_env (example_valid, example_em_state) of
     (Ret (Some rule, None), (sub, s)) \<Rightarrow>
       GetExposedURLFromAPIRule rule (spec_sink (sub_spec example_subscription)) =
         Ret ''https://web-abcdefghij.kyma.local/'' \<and>
       bk_failedActivation (st_backend (sub_status sub)) = '''' \<and> \<not> Option.is_none (fst (es_k8s s))
   | _ \<Rightarrow> False"
  by code_simp

definition em_synced :: "EMSubscription \<Rightarrow> Subscription \<Rightarrow> Subscription" where
  "em_synced srv sub = sub\<lparr>sub_status := (sub_status sub)
     \<lparr>st_types := Some [\<lparr>et_originalType = ''order.created.v1'', et_cleanType = ''order.created.v1''\<rparr>,
                        \<lparr>et_originalType = ''order.deleted.v1'', et_cleanType = ''order.deleted.v1''\<rparr>],
      st_backend := (st_backend (sub_status sub))\<lparr>bk_ev2hash := 3, bk_eventMeshHash := 3, bk_eventMeshLocalHash := 3,
        bk_webhookAuthHash := 1, bk_eventMeshSubscriptionStatus := Some (server_status srv),
        bk_emsTypes := statusFinalEventTypes example_infos\<rparr>\<rparr>\<rparr>"

lemma example_sync_any:
  assumes url: "GetExposedURLFromAPIRule rule (spec_sink (sub_spec example_subscription)) = Ret url"
    and same: "keeps example_subscription sub"
  defines "s \<equiv> example_desired\<lparr>em_webhookURL := url\<rparr>"
  shows "SyncSubscription_em example_em_env example_em EventMeshCleaner rule (sub, []) =
    (Ret True, (em_synced (s\<lparr>em_subscriptionStatus := SubscriptionStatusActive\<rparr>) sub,
       [s\<lparr>em_subscriptionStatus := SubscriptionStatusActive\<rparr>]))"
proof -
  let ?srv = "s\<lparr>em_subscriptionStatus := SubscriptionStatusActive\<rparr>"
  have events: "length (items (em_events s)) = 2" "length (items (em_events ?srv)) = 2"
    using example_events by (simp_all add: s_def)
  have hashes: "bk_ev2hash (st_backend (sub_status sub)) = 0" "bk_eventMeshLocalHash (st_backend (sub_status sub)) = 0"
    "bk_webhookAuthHash (st_backend (sub_status sub)) = 0"
    using same by (simp_all add: keeps_def Let_def example_subscription_def empty_SubscriptionStatus_def empty_Backend_def)
  have desired: "desired example_em EventMeshCleaner rule sub example_infos s"
    using example_desired_url [OF url] same unfolding s_def by (simp add: desired_identity [OF keeps_identity])
  have kyma: "handleKymaSubModified example_em_env example_em s sub [] = (Ret True, [])"
    by (simp add: handleKymaSubModified_def delete_if_modified_def IsEventMeshSubModified_def Let_def example_hash
        length_cleaned_events events int64_def hashes deleteSubscription_def with_client_def example_client
        store_Delete stored_def)
  have create: "createAndGetSubscription example_em s [] = (Ret (Some ?srv), [?srv])"
    by (simp add: createAndGetSubscription_def createSubscription_def getSubscription_def with_client_def example_client
        store_Create store_Get stored_def)
  obtain u where update: "handleKymaSubStatusUpdate example_em_env (Some ?srv) s example_infos
      (sub\<lparr>sub_status := InitializeEventTypes (sub_status sub)\<rparr>) = (Ret u, em_synced ?srv sub)"
    by (simp add: status_defs example_hash length_cleaned_events events example_auth_hash Let_def hashes
        int64_def em_synced_def appended_def example_infos_def map_backend_def
        statusCleanEventTypes_def statusFinalEventTypes_def InitializeEventTypes_def)
  show ?thesis
    using desired kyma create update
    by (simp add: SyncSubscription_em_def desired_def on_server_def on_sub_def create_and_update_def
        handleCreateEventMeshSub_def)
qed

lemma example_keeps: "keeps example_subscription example_valid"
proof -
  let ?init = "syncInitialStatus example_rec_env 0 example_subscription"
  let ?k = "(Some example_subscription, [])"
  have "keeps ?init (snd (syncFinalizer ?init))"
    using keeps_syncFinalizer [of ?init] by (metis prod.collapse)
  moreover have "keeps (snd (syncFinalizer ?init)) example_valid"
    unfolding example_valid_def
    using keeps_validate [of example_rec_env 0 "snd (syncFinalizer ?init)" ?k] by (metis prod.collapse)
  ultimately show ?thesis using keeps_syncInitialStatus keeps_trans by blast
qed

lemma example_update:
  assumes "\<not> Option.is_none (fst (es_k8s s))"
  shows "\<exists>s'. updateSubscription example_rec_env sub s = (Ret (), s')"
  using assms
  by (auto simp: updateSubscription_def example_rec_env_def on_cluster_def updateStatus_em_def describe_failed_def
      Let_def Option.is_none_def emitConditionEvents_def)

lemma example_get: "on_cluster (er_GetSubscription example_rec_env ns n) example_em_state = (Ret example_subscription, example_em_state)"
  by (simp add: on_cluster_def example_rec_env_def example_em_state_def)

lemma example_got: "er_GetSubscription example_rec_env ns n (es_k8s example_em_state) = (Ret example_subscription, es_k8s example_em_state)"
  by (simp add: example_rec_env_def example_em_state_def)

lemma example_present: "\<not> isInDeletion_em example_subscription"
  by (simp add: isInDeletion_em_def example_subscription_def)

text \<open>The reconciliation of the example returns, and the Subscription is active.\<close>

lemma example_em_reconcile:
  obtains s' where "Reconcile_em example_rec_env 0 ''ns'' ''sub'' example_em_state = (Ret 0, s')"
proof -
  let ?k = "(Some example_subscription, [])"
  obtain r c s where api: "syncAPIRule example_rec_env (example_valid, example_em_state) = (r, (c, s))"
    by (metis prod.exhaust)
  then obtain rule where r: "r = Ret (Some rule, None)"
    and url: "GetExposedURLFromAPIRule rule (spec_sink (sub_spec example_subscription)) = Ret ''https://web-abcdefghij.kyma.local/''"
    and c: "bk_failedActivation (st_backend (sub_status c)) = ''''" and present: "\<not> Option.is_none (fst (es_k8s s))"
    using example_exposed by (cases r) (auto split: prod.split_asm option.split_asm)
  note api = api [unfolded r]
  have kc: "keeps example_valid c" and s: "es_backend s = []"
    using keeps_syncAPIRule [OF api] by (auto simp: same_outside_def example_em_state_def)
  let ?c = "c\<lparr>sub_status := SetConditionAPIRuleStatus 0 None (sub_status c)\<rparr>"
  have kc': "keeps example_subscription ?c"
    by (rule keeps_trans [OF keeps_trans [OF example_keeps kc]]) simp
  from example_sync_any [OF url kc'] obtain srv where
    sync: "SyncSubscription_em example_em_env example_em EventMeshCleaner rule (?c, []) = (Ret True, (em_synced srv ?c, [srv]))"
    and srv: "em_subscriptionStatus srv = SubscriptionStatusActive" "em_lastFailedDelivery srv = ''''"
    by (auto simp: example_desired_def empty_EMSubscription_def)
  let ?d = "em_synced srv ?c"
  have active: "checkStatusActive 0 ?d = (Ret True, ?d)"
    using srv c by (simp add: checkStatusActive_def em_synced_def server_status_def SetConditionAPIRuleStatus_def Let_def)
  have named: "MapSubscriptionName (er_nameMapper example_rec_env) (sub_name ?d) (sub_namespace ?d) = Ret example_em_name"
    using example_em_mapper kc' by (simp add: keeps_def same_identity_def em_synced_def example_rec_env_def)
  then obtain d2 where subscribed: "syncConditionSubscribed example_rec_env 0 None ?d = (Ret (), d2)" and d2: "clear d2 = clear ?d"
    by (auto simp: syncConditionSubscribed_def)
  have "bk_eventMeshSubscriptionStatus (st_backend (sub_status (syncConditionSubscriptionActive 0 True d2))) = Some (server_status srv)"
    using clear_facts(7) [OF d2] clear_facts(7) [OF clear_syncConditionSubscriptionActive, of 0 True d2]
    by (simp add: em_synced_def)
  then obtain d3 where webhook: "syncConditionWebhookCallStatus 0 (syncConditionSubscriptionActive 0 True d2) = (Ret (), d3)"
    using srv(2) by (simp add: syncConditionWebhookCallStatus_def checkLastFailedDelivery_def server_status_def)
  let ?s = "s\<lparr>es_backend := [srv]\<rparr>"
  have "er_SyncSubscription example_rec_env (er_cleaner example_rec_env) rule (?c, es_backend s) = (Ret True, (?d, [srv]))"
    using sync s by (simp add: example_rec_env_def)
  with active subscribed webhook
  have "syncEventMeshSubscription example_rec_env 0 (Some rule) (?c, s) = (Ret True, (d3, ?s))"
    by (simp add: syncEventMeshSubscription_def on_backend_def subscribed_failed_def with_state_def describe_failed_def)
  moreover obtain s' where "updateSubscription example_rec_env d3 ?s = (Ret (), s')"
    using example_update [of ?s d3] present by auto
  ultimately have "reconcile_valid example_rec_env 0 example_valid example_em_state = (Ret 0, s')"
    using api by (simp add: reconcile_valid_def reconcile_exposed_def Let_def)
  moreover have "reconcile_present example_rec_env 0 example_subscription example_em_state =
      reconcile_valid example_rec_env 0 example_valid example_em_state"
  proof -
    let ?fin = "syncFinalizer (syncInitialStatus example_rec_env 0 example_subscription)"
    have "?fin = (Ret (), snd ?fin)" using keeps_syncFinalizer by (metis prod.collapse)
    moreover have "validateSubscription_em example_rec_env 0 (snd ?fin) (es_k8s example_em_state) = (example_valid, None)"
      by (simp add: example_valid_def validateSubscription_em_def example_rec_env_def example_em_state_def Let_def)
    ultimately show ?thesis by (auto simp: reconcile_present_def split: prod.splits)
  qed
  ultimately have "Reconcile_em example_rec_env 0 ''ns'' ''sub'' example_em_state = (Ret 0, s'\<lparr>es_metrics :=
      RecordSubscriptionStatus (st_ready (sub_status example_subscription)) (sub_name example_subscription)
        (sub_namespace example_subscription) backendType_em '''' '''' (es_metrics s')\<rparr>)"
    using example_get by (simp add: Reconcile_em_def example_present)
  then show thesis by (rule that)
qed

text \<open>Every answer of the backend in the example is what the trusted hashes say, as there are none.\<close>

lemma example_trusts: "trusts_em example_em_env example_em cl example_subscription"
  by (auto simp: trusts_em_def trusted_def example_hash length_cleaned_events int64_def example_subscription_def
      empty_SubscriptionStatus_def empty_Backend_def)

theorem Reconcile_em_success_witness:
  "\<exists>s' n. Reconcile_em example_rec_env 0 ''ns'' ''sub'' example_em_state = (Ret 0, s') \<and> stored (es_backend s') n \<noteq> None"
proof -
  obtain s' where run: "Reconcile_em example_rec_env 0 ''ns'' ''sub'' example_em_state = (Ret 0, s')"
    by (rule example_em_reconcile)
  have "er_SyncSubscription example_rec_env = SyncSubscription_em example_em_env example_em"
    by (simp add: example_rec_env_def)
  from Reconcile_em_success [OF example_backend.em_client_axioms this example_got example_present example_trusts run]
  obtain w srv :: EMSubscription where "store.settings (es_backend s') (em_name w) = Some (GetCleanedEventMeshSubscription srv)"
    by (elim exE conjE)
  then have "stored (es_backend s') (em_name w) \<noteq> None" by auto
  with run show ?thesis by blast
qed

theorem Reconcile_em_ready_witness:
  "\<exists>sub' t t'. updateSubscription example_rec_env sub' t = (Ret (), t') \<and> conds_ok sub' \<and>
    (st_ready (sub_status sub') \<longleftrightarrow> all_true sub')"
proof -
  obtain s' where run: "Reconcile_em example_rec_env 0 ''ns'' ''sub'' example_em_state = (Ret 0, s')"
    by (rule example_em_reconcile)
  have "\<forall>cs. mset (er_order example_rec_env cs) = mset cs"
    "er_SyncSubscription example_rec_env = SyncSubscription_em example_em_env example_em"
    by (simp_all add: example_rec_env_def)
  moreover have "distinct_on cond_type (st_conditions (sub_status example_subscription))"
    by (simp add: example_subscription_def empty_SubscriptionStatus_def)
  ultimately show ?thesis using Reconcile_em_ready [OF _ _ example_got example_present _ run] by blast
qed

definition example_deleted :: Subscription where
  "example_deleted = example_subscription\<lparr>sub_deletionTimestamp := Some 1\<rparr>"

definition example_em_deletion :: "(ems_store, example_cluster) em_state" where
  "example_em_deletion = \<lparr>es_backend = [example_server], es_k8s = (Some example_deleted, []), es_metrics = Map.empty, es_events = []\<rparr>"

theorem Reconcile_em_deletion_witness:
  "stored (es_backend (snd (Reconcile_em example_rec_env 0 ''ns'' ''sub''
     example_em_deletion))) example_em_name = None"
proof -
  let ?s = "example_em_deletion"
  have del: "DeleteSubscription_em example_em example_deleted [example_server] = (Ret (), [])"
    using example_em_mapper
    by (simp add: DeleteSubscription_em_def example_deleted_def deleteSubscription_def with_client_def example_client
        store_Delete stored_def example_server_def example_desired_def)
  have got: "er_GetSubscription example_rec_env ''ns'' ''sub'' (es_k8s ?s) = (Ret example_deleted, es_k8s ?s)"
    by (simp add: example_rec_env_def example_em_deletion_def)
  have "Reconcile_em example_rec_env 0 ''ns'' ''sub'' ?s = handleDeleteSubscription example_rec_env 0 example_deleted ?s"
    using got by (simp add: Reconcile_em_def on_cluster_def example_deleted_def isInDeletion_em_def)
  moreover have "\<exists>s'. handleDeleteSubscription example_rec_env 0 example_deleted ?s = (Ret 0, s')"
  proof -
    have "er_DeleteSubscription example_rec_env example_deleted (es_backend ?s) = (Ret (), [])"
      using del by (simp add: example_rec_env_def example_em_deletion_def)
    moreover obtain t where "updateSubscription example_rec_env (removeFinalizer_em (snd (replaceStatusCondition
        (MakeCondition 0 ConditionSubscribed ConditionReasonSubscriptionDeleted ConditionFalse '''') example_deleted)))
        (?s\<lparr>es_backend := []\<rparr>) = (Ret (), t)"
      using example_update [of "?s\<lparr>es_backend := []\<rparr>"] by (auto simp: example_em_deletion_def)
    ultimately show ?thesis by (simp add: handleDeleteSubscription_def Let_def)
  qed
  ultimately obtain s' where run: "Reconcile_em example_rec_env 0 ''ns'' ''sub'' ?s = (Ret 0, s')" by auto
  have "er_DeleteSubscription example_rec_env = DeleteSubscription_em example_em"
    "isInDeletion_em example_deleted"
    by (simp_all add: example_rec_env_def isInDeletion_em_def example_deleted_def)
  from Reconcile_em_deletion [OF example_backend.em_client_axioms this(1) got this(2), of 0] run example_em_mapper
  show ?thesis by (auto simp: example_deleted_def)
qed

text \<open>
  A Subscription whose sink has moved to another service, with the APIRule of the old one, which a
  second Subscription owns too, beside an APIRule of nobody. Its release updates the shared
  APIRule for the second Subscription, also if deleting a shared APIRule would panic.
\<close>

definition example_moved :: "string \<Rightarrow> Subscription" where
  "example_moved uid = example_subscription\<lparr>sub_uid := uid, sub_status := empty_SubscriptionStatus
     \<lparr>st_backend := empty_Backend\<lparr>bk_apiRuleName := ''webhook-1''\<rparr>\<rparr>\<rparr>"

definition example_shared :: APIRule where
  "example_shared = example_rule\<lparr>ar_service := Some (GetService ''old'' 80), ar_meta := (named_meta ''webhook-1'' ''ns'')
     \<lparr>om_ownerReferences := map (sub_owner \<circ> example_moved) [''1'', ''2'']\<rparr>\<rparr>"

definition example_rules_env :: "(ems_store, example_cluster) em_rec_env" where
  "example_rules_env = example_rec_env
     \<lparr>er_ListAPIRules := (\<lambda>l ns k. (Ret [], k)),
      er_CreateAPIRule := (\<lambda>r k. let r = r\<lparr>ar_meta := (ar_meta r)\<lparr>om_name := ''webhook-3''\<rparr>\<rparr> in (Ret r, (fst k, r # snd k))),
      er_UpdateAPIRule := (\<lambda>r k. (Ret r, (fst k, map (\<lambda>x. if om_name (ar_meta x) = om_name (ar_meta r) then r else x) (snd k)))),
      er_DeleteAPIRule := (\<lambda>r k. (Ret (), (fst k, filter (\<lambda>x. om_name (ar_meta x) \<noteq> om_name (ar_meta r)) (snd k))))\<rparr>"

definition owner_uids :: "string \<Rightarrow> APIRule list \<Rightarrow> string list list" where
  "owner_uids n rules = map (\<lambda>r. map or_uid (om_ownerReferences (ar_meta r))) (filter (\<lambda>r. om_name (ar_meta r) = n) rules)"

lemma example_release:
  "case syncAPIRule example_rules_env (example_moved ''1'', example_em_state\<lparr>es_k8s :=
       (Some (example_moved ''2''), [example_shared, example_shared\<lparr>ar_meta := named_meta ''webhook-2'' ''ns''\<rparr>])\<rparr>) of
     (Ret (Some rule, err), (sub, s)) \<Rightarrow>
       owner_uids ''webhook-1'' (snd (es_k8s s)) = [[''2'']] \<and> length (snd (es_k8s s)) = 3
   | _ \<Rightarrow> False"
  by code_simp

theorem syncAPIRule_spares_shared_witness:
  "case syncAPIRule (example_rules_env\<lparr>er_DeleteAPIRule := \<lambda>rule.
       if remaining_owners (example_moved ''1'') rule = [] then er_DeleteAPIRule example_rules_env rule
       else (\<lambda>k. (Crash ''deleted'', k))\<rparr>)
     (example_moved ''1'', example_em_state\<lparr>es_k8s :=
       (Some (example_moved ''2''), [example_shared, example_shared\<lparr>ar_meta := named_meta ''webhook-2'' ''ns''\<rparr>])\<rparr>) of
     (Ret (Some rule, err), (sub, s)) \<Rightarrow>
       owner_uids ''webhook-1'' (snd (es_k8s s)) = [[''2'']] \<and> length (snd (es_k8s s)) = 3
   | _ \<Rightarrow> False"
  unfolding syncAPIRule_spares_shared by (rule example_release)

text \<open>
  The API server has lost the kind of the APIRules, so listing them fails: the Subscription with one
  condition, which is false, is marked as ready.
\<close>

definition example_stale :: Subscription where
  "example_stale = example_subscription\<lparr>sub_status := empty_SubscriptionStatus
     \<lparr>st_conditions := [MakeCondition 0 ConditionAPIRuleStatus '''' ConditionFalse '''']\<rparr>\<rparr>"

lemma example_sink_parts:
  "case ParseRequestURI ''http://svc.ns.svc.cluster.local'' of
     Ret u \<Rightarrow> getSvcNsAndName (u_host u) = Ret (''ns'', ''svc'') \<and>
       (case GetPortNumberFromURL u of Ret p \<Rightarrow> True | _ \<Rightarrow> False)
   | _ \<Rightarrow> False"
  by code_simp

theorem reconcile_present_wrongly_ready_witness:
  "\<exists>err sub'. reconcile_present (example_rec_env\<lparr>er_ListAPIRules := \<lambda>l ns k. (Err (Plain KOther ''no match''), k)\<rparr>) 0 example_stale
     example_em_state = fail_after_update (example_rec_env\<lparr>er_ListAPIRules := \<lambda>l ns k. (Err (Plain KOther ''no match''), k)\<rparr>)
       err sub' example_em_state \<and> st_ready (sub_status sub') \<and> \<not> all_true sub'"
proof -
  let ?env = "example_rec_env\<lparr>er_ListAPIRules := \<lambda>l ns k. (Err (Plain KOther ''no match''), k)\<rparr>"
  obtain u where u: "ParseRequestURI (spec_sink (sub_spec example_stale)) = Ret u"
    and "getSvcNsAndName (u_host u) = Ret (''ns'', ''svc'')" and "\<exists>p. GetPortNumberFromURL u = Ret p"
    using example_sink_parts by (auto simp: example_stale_def example_subscription_def split: result.split_asm)
  then have "\<exists>err. \<forall>x. createOrUpdateAPIRule ?env x u example_em_state = (Err err, example_em_state)"
    by (auto simp: createOrUpdateAPIRule_def getAPIRulesForASvc_def on_cluster_def describe_failed_def Let_def)
  then obtain err where "\<forall>x. createOrUpdateAPIRule ?env x u example_em_state = (Err err, example_em_state)" by blast
  moreover obtain valid where "validateSubscription_em ?env 0 (snd (syncFinalizer (syncInitialStatus ?env 0 example_stale)))
      (es_k8s example_em_state) = (valid, None)"
    by (simp add: validateSubscription_em_def example_rec_env_def Let_def)
  moreover have "st_conditions (sub_status example_stale) \<noteq> []" "\<not> st_ready (sub_status example_stale)"
    "\<not> ContainSameConditionTypes (st_conditions (sub_status example_stale)) (MakeSubscriptionConditions 0)"
    by (simp_all add: example_stale_def empty_SubscriptionStatus_def ContainSameConditionTypes_def MakeSubscriptionConditions_def)
  ultimately show ?thesis using reconcile_present_wrongly_ready [OF _ _ _ refl _ u, where env = ?env] by blast
qed

text \<open>The first reconciliation of a Subscription that has no finalizer yet.\<close>

end
