(* ===== verification/Eventmesh_Activation.thy ===== *)
theory Eventmesh_Activation
  imports Eventmesh_Reconcile Go_Time
begin

section \<open>The waiting for the activation of a subscription ends\<close>

text \<open>
  The reconciler of \<open>Eventmesh_Reconciler\<close> is called again until EventMesh reports the subscription
  as active. The time of the first call is kept in the status as text, so that it is the round trip
  of \<open>Go_Time\<close> that makes the later calls see when the waiting began.
\<close>

text \<open>The checks of consecutive reconciliations, of which the first that does not answer ``not yet'' ends the sequence.\<close>

fun check_rounds :: "(nat \<Rightarrow> time) \<Rightarrow> nat \<Rightarrow> Subscription \<Rightarrow> bool result \<times> Subscription" where
  "check_rounds clock 0 sub = (Ret False, sub)"
| "check_rounds clock (Suc n) sub =
     (case check_rounds clock n sub of
        (Ret False, sub) \<Rightarrow> checkStatusActive (clock n) sub
      | ended \<Rightarrow> ended)"

definition timeout_error :: "Subscription \<Rightarrow> goerr" where
  "timeout_error sub = Plain KOther (''timeout waiting for the subscription to be active: '' @ sub_name sub)"

definition waiting_since :: "time \<Rightarrow> Subscription \<Rightarrow> Subscription" where
  "waiting_since t sub = map_backend (\<lambda>b. b\<lparr>bk_failedActivation := FormatRFC3339 t\<rparr>) sub"

text \<open>The last moment at which the check still waits, thirty seconds after the second in which it began.\<close>

definition activation_deadline :: "time \<Rightarrow> time" where
  "activation_deadline t = t div Nanos * Nanos + timeoutRetryActiveEmsStatus"

definition in_calendar :: "time \<Rightarrow> bool" where
  "in_calendar t \<longleftrightarrow> - 62135596800 \<le> t div Nanos \<and> t div Nanos < 253402300800"

lemma deadline_after: "t \<le> activation_deadline t" "activation_deadline t \<le> t + timeoutRetryActiveEmsStatus"
  using mult_div_mod_eq [of Nanos t] pos_mod_sign [of Nanos t] pos_mod_bound [of Nanos t]
  by (simp_all add: activation_deadline_def)

lemma FormatRFC3339_nonempty [simp]: "FormatRFC3339 t \<noteq> ''''"
  by (simp add: FormatRFC3339_def two_digits_def Let_def)

text \<open>EventMesh reports a status other than active.\<close>

definition reported_inactive :: "Subscription \<Rightarrow> bool" where
  "reported_inactive sub \<longleftrightarrow>
     bk_eventMeshSubscriptionStatus (st_backend (sub_status sub)) \<noteq> None \<and> \<not> active_on_eventmesh sub"

lemma first_check:
  "reported_inactive sub \<Longrightarrow> bk_failedActivation (st_backend (sub_status sub)) = '''' \<Longrightarrow>
     checkStatusActive t sub = (Ret False, waiting_since t sub)"
  by (auto simp: reported_inactive_def checkStatusActive_def active_on_eventmesh_def waiting_since_def)

lemma later_check:
  "reported_inactive sub \<Longrightarrow> in_calendar t0 \<Longrightarrow> checkStatusActive t (waiting_since t0 sub) =
     (if activation_deadline t0 < t then Err (timeout_error sub) else Ret False, waiting_since t0 sub)"
  using Parse_Format [of t0]
  by (auto simp: reported_inactive_def checkStatusActive_def active_on_eventmesh_def waiting_since_def map_backend_def
      in_calendar_def timeout_error_def activation_deadline_def)

lemma check_rounds_waiting:
  assumes "reported_inactive sub" and "bk_failedActivation (st_backend (sub_status sub)) = ''''" and "in_calendar (clock 0)"
  shows "check_rounds clock (Suc n) sub =
    (if \<exists>i\<le>n. activation_deadline (clock 0) < clock i then Err (timeout_error sub) else Ret False, waiting_since (clock 0) sub)"
proof (induction n)
  case 0
  then show ?case using first_check [OF assms(1,2)] deadline_after(1) [of "clock 0"] by simp
next
  case (Suc n)
  then show ?case by (subst check_rounds.simps) (auto simp: later_check [OF assms(1,3)] le_Suc_eq)
qed

text \<open>C20. A Subscription that EventMesh does not report as active is not waited for without an end. If the
  check of some reconciliation is more than thirty seconds after the first, then this or an earlier
  one fails with the timeout, and as long as none is after the deadline, which lies within those
  thirty seconds, all answer that it is not active yet. The waiting starts with a status in which no
  time is recorded.\<close>

theorem activation_wait_ends:
  assumes "reported_inactive sub" and "bk_failedActivation (st_backend (sub_status sub)) = ''''"
    and "in_calendar (clock 0)"
  shows "(clock 0 + timeoutRetryActiveEmsStatus < clock N \<longrightarrow>
      (\<exists>n\<le>N. fst (check_rounds clock (Suc n) sub) = Err (timeout_error sub) \<and> activation_deadline (clock 0) < clock n)) \<and>
    ((\<forall>i<n. clock i \<le> activation_deadline (clock 0)) \<longrightarrow> fst (check_rounds clock n sub) = Ret False)"
proof -
  note rounds = check_rounds_waiting [of sub clock, OF assms]
  have "fst (check_rounds clock (Suc N) sub) = Err (timeout_error sub) \<and> activation_deadline (clock 0) < clock N"
    if "clock 0 + timeoutRetryActiveEmsStatus < clock N"
    using that deadline_after(2) [of "clock 0"] rounds [of N] by auto
  moreover have "fst (check_rounds clock n sub) = Ret False" if "\<forall>i<n. clock i \<le> activation_deadline (clock 0)"
    using that rounds [of "n - 1"] by (cases n) (auto simp: less_Suc_eq_le not_less)
  ultimately show ?thesis by blast
qed

text \<open>Reconciliations two seconds apart: the seventeenth fails.\<close>

definition example_inactive :: Subscription where
  "example_inactive = map_backend (\<lambda>b. b\<lparr>bk_eventMeshSubscriptionStatus := Some \<lparr>ems_status = ''Paused'', ems_statusReason = '''',
     ems_lastSuccessfulDelivery = '''', ems_lastFailedDelivery = '''', ems_lastFailedDeliveryReason = ''''\<rparr>,
     bk_failedActivation := ''''\<rparr>) example_subscription"

theorem activation_wait_ends_witness:
  "\<exists>n\<le>16. fst (check_rounds (\<lambda>i. 1709164799500000000 + int i * requeueAfterDuration) (Suc n) example_inactive) =
     Err (timeout_error example_inactive)"
  using activation_wait_ends [of example_inactive "\<lambda>i. 1709164799500000000 + int i * requeueAfterDuration" 16 0]
  by (auto simp: example_inactive_def map_backend_def active_on_eventmesh_def in_calendar_def reported_inactive_def)

end
