(* ===== verification/Api_Eventing.thy ===== *)
theory Api_Eventing
  imports K8s_Objects Api_Subscription
begin

section \<open>The Eventing custom resource (api/operator/v1alpha1)\<close>

text \<open>
  The Eventing resource and the operations on its status. The standard condition list is kept
  by \<^verbatim>\<open>meta.SetStatusCondition\<close> of apimachinery, and two lists are compared by
  \<^verbatim>\<open>ConditionsEquals\<close> of the NATS manager; both are the fields of \<open>cond_lib\<close>, and
  \<open>documented_conditions\<close> states what their documentation promises.
\<close>

subsection \<open>Types and constants\<close>

abbreviation StateReady :: string where "StateReady \<equiv> ''Ready''"
abbreviation StateError :: string where "StateError \<equiv> ''Error''"
abbreviation StateProcessing :: string where "StateProcessing \<equiv> ''Processing''"
abbreviation StateWarning :: string where "StateWarning \<equiv> ''Warning''"

abbreviation ConditionBackendAvailable :: string where "ConditionBackendAvailable \<equiv> ''BackendAvailable''"
abbreviation ConditionPublisherProxyReady :: string where "ConditionPublisherProxyReady \<equiv> ''PublisherProxyReady''"
abbreviation ConditionSubscriptionManagerReady :: string where
  "ConditionSubscriptionManagerReady \<equiv> ''SubscriptionManagerReady''"
abbreviation ConditionDeleted :: string where "ConditionDeleted \<equiv> ''Deleted''"

abbreviation ConditionReasonProcessing :: string where "ConditionReasonProcessing \<equiv> ''Processing''"
abbreviation ConditionReasonDeleted :: string where "ConditionReasonDeleted \<equiv> ''Deleted''"
abbreviation ConditionReasonStopped :: string where "ConditionReasonStopped \<equiv> ''Stopped''"
abbreviation ConditionReasonDeployed :: string where "ConditionReasonDeployed \<equiv> ''Deployed''"
abbreviation ConditionReasonDeployedFailed :: string where "ConditionReasonDeployedFailed \<equiv> ''DeployFailed''"
abbreviation ConditionReasonDeploymentStatusSyncFailed :: string where
  "ConditionReasonDeploymentStatusSyncFailed \<equiv> ''DeploymentStatusSyncFailed''"
abbreviation ConditionReasonNATSAvailable :: string where "ConditionReasonNATSAvailable \<equiv> ''NATSAvailable''"
abbreviation ConditionReasonNATSNotAvailable :: string where "ConditionReasonNATSNotAvailable \<equiv> ''NATSUnavailable''"
abbreviation ConditionReasonBackendNotSpecified :: string where
  "ConditionReasonBackendNotSpecified \<equiv> ''BackendNotSpecified''"
abbreviation ConditionReasonForbidden :: string where "ConditionReasonForbidden \<equiv> ''Forbidden''"
abbreviation ConditionReasonDeletionError :: string where "ConditionReasonDeletionError \<equiv> ''DeletionError''"
abbreviation ConditionReasonEventMeshConfigAvailable :: string where
  "ConditionReasonEventMeshConfigAvailable \<equiv> ''EventMeshConfigAvailable''"
abbreviation ConditionReasonEventMeshSubManagerReady :: string where
  "ConditionReasonEventMeshSubManagerReady \<equiv> ''EventMeshSubscriptionManagerReady''"
abbreviation ConditionReasonEventMeshSubManagerFailed :: string where
  "ConditionReasonEventMeshSubManagerFailed \<equiv> ''EventMeshSubscriptionManagerFailed''"
abbreviation ConditionReasonEventMeshSubManagerStopFailed :: string where
  "ConditionReasonEventMeshSubManagerStopFailed \<equiv> ''EventMeshSubscriptionManagerStopFailed''"

abbreviation ConditionPublisherProxyReadyMessage :: string where
  "ConditionPublisherProxyReadyMessage \<equiv> ''Publisher proxy is deployed''"
abbreviation ConditionPublisherProxyDeletedMessage :: string where
  "ConditionPublisherProxyDeletedMessage \<equiv> ''Publisher proxy is deleted''"
abbreviation ConditionNATSAvailableMessage :: string where
  "ConditionNATSAvailableMessage \<equiv> ''NATS is available''"
abbreviation ConditionPublisherProxyProcessingMessage :: string where
  "ConditionPublisherProxyProcessingMessage \<equiv> ''Eventing publisher proxy deployment is in progress''"
abbreviation ConditionSubscriptionManagerReadyMessage :: string where
  "ConditionSubscriptionManagerReadyMessage \<equiv> ''Subscription manager is ready''"
abbreviation ConditionSubscriptionManagerStoppedMessage :: string where
  "ConditionSubscriptionManagerStoppedMessage \<equiv> ''Subscription manager is stopped''"
abbreviation ConditionBackendNotSpecifiedMessage :: string where
  "ConditionBackendNotSpecifiedMessage \<equiv> ''Backend config is not provided. Please specify a backend.''"
abbreviation ConditionEventMeshConfigAvailableMessage :: string where
  "ConditionEventMeshConfigAvailableMessage \<equiv> ''EventMesh config is available''"

abbreviation EventMeshBackendType :: string where "EventMeshBackendType \<equiv> ''EventMesh''"
abbreviation NatsBackendType :: string where "NatsBackendType \<equiv> ''NATS''"

text \<open>\<^verbatim>\<open>metav1.Condition\<close>.\<close>

record MCondition =
  mc_type :: string
  mc_status :: string
  mc_lastTransitionTime :: time
  mc_reason :: string
  mc_message :: string

record EventingStatus =
  gs_activeBackend :: string
  gs_backendConfigHash :: int
  gs_state :: string
  gs_publisherService :: string
  gs_conditions :: "MCondition list"

record BackendConfig =
  bc_natsStreamStorageType :: string
  bc_natsStreamReplicas :: int
  bc_natsStreamMaxSize :: Quantity
  bc_natsMaxMsgsPerTopic :: int
  bc_eventMeshSecret :: string
  bc_eventTypePrefix :: string
  bc_domain :: string

record EventingBackend =
  eb_type :: string
  eb_config :: BackendConfig

record Publisher =
  pub_min :: int
  pub_max :: int
  pub_resources :: ResourceRequirements

record EventingSpec =
  es_backend :: "EventingBackend option"
  es_publisher :: Publisher
  es_logLevel :: string
  es_annotations :: gomap
  es_labels :: gomap

record Eventing =
  eg_name :: string
  eg_namespace :: string
  eg_uid :: string
  eg_finalizers :: "string list"
  eg_deletionTimestamp :: "time option"
  eg_spec :: EventingSpec
  eg_status :: EventingStatus

subsection \<open>The condition libraries\<close>

record cond_lib =
  cl_SetStatusCondition :: "MCondition \<Rightarrow> MCondition list \<Rightarrow> MCondition list"
  cl_ConditionsEquals :: "MCondition list \<Rightarrow> MCondition list \<Rightarrow> bool"

definition cond_of :: "string \<Rightarrow> MCondition list \<Rightarrow> MCondition option" where
  "cond_of ty cs = find (\<lambda>c. mc_type c = ty) cs"

text \<open>
  \<^verbatim>\<open>SetStatusCondition\<close>: the condition of the given type has afterwards all fields of the new one,
  except that the transition time of the old one is kept if the status is the same; the
  conditions of other types stay. \<^verbatim>\<open>ConditionsEquals\<close> accepts two lists with one condition per type
  only if the conditions of each type have the same status, reason and message.
\<close>

definition documented_conditions :: "cond_lib \<Rightarrow> bool" where
  "documented_conditions lib \<longleftrightarrow>
     (\<forall>c cs. cond_of (mc_type c) (cl_SetStatusCondition lib c cs) =
        Some (case cond_of (mc_type c) cs of
                Some old \<Rightarrow> if mc_status old = mc_status c
                            then c\<lparr>mc_lastTransitionTime := mc_lastTransitionTime old\<rparr> else c
              | None \<Rightarrow> c)) \<and>
     (\<forall>c cs ty. ty \<noteq> mc_type c \<longrightarrow> cond_of ty (cl_SetStatusCondition lib c cs) = cond_of ty cs) \<and>
     (\<forall>cs ds ty. cl_ConditionsEquals lib cs ds \<and> distinct_on mc_type cs \<and> distinct_on mc_type ds \<longrightarrow>
        map_option (\<lambda>c. (mc_status c, mc_reason c, mc_message c)) (cond_of ty cs)
          = map_option (\<lambda>c. (mc_status c, mc_reason c, mc_message c)) (cond_of ty ds))"

subsection \<open>status.go\<close>

type_synonym status_op = "EventingStatus \<Rightarrow> EventingStatus"

definition UpdateConditionBackendAvailable ::
  "cond_lib \<Rightarrow> time \<Rightarrow> string \<Rightarrow> string \<Rightarrow> string \<Rightarrow> status_op" where
  "UpdateConditionBackendAvailable lib now status reason message es =
     es\<lparr>gs_conditions := cl_SetStatusCondition lib
          \<lparr>mc_type = ConditionBackendAvailable, mc_status = status, mc_lastTransitionTime = now,
           mc_reason = reason, mc_message = message\<rparr> (gs_conditions es)\<rparr>"

definition UpdateConditionPublisherProxyReady ::
  "cond_lib \<Rightarrow> time \<Rightarrow> string \<Rightarrow> string \<Rightarrow> string \<Rightarrow> status_op" where
  "UpdateConditionPublisherProxyReady lib now status reason message es =
     es\<lparr>gs_conditions := cl_SetStatusCondition lib
          \<lparr>mc_type = ConditionPublisherProxyReady, mc_status = status, mc_lastTransitionTime = now,
           mc_reason = reason, mc_message = message\<rparr> (gs_conditions es)\<rparr>"

definition UpdateConditionSubscriptionManagerReady ::
  "cond_lib \<Rightarrow> time \<Rightarrow> string \<Rightarrow> string \<Rightarrow> string \<Rightarrow> status_op" where
  "UpdateConditionSubscriptionManagerReady lib now status reason message es =
     es\<lparr>gs_conditions := cl_SetStatusCondition lib
          \<lparr>mc_type = ConditionSubscriptionManagerReady, mc_status = status, mc_lastTransitionTime = now,
           mc_reason = reason, mc_message = message\<rparr> (gs_conditions es)\<rparr>"

definition UpdateConditionDeletion ::
  "cond_lib \<Rightarrow> time \<Rightarrow> string \<Rightarrow> string \<Rightarrow> string \<Rightarrow> status_op" where
  "UpdateConditionDeletion lib now status reason message es =
     es\<lparr>gs_conditions := cl_SetStatusCondition lib
          \<lparr>mc_type = ConditionDeleted, mc_status = status, mc_lastTransitionTime = now,
           mc_reason = reason, mc_message = message\<rparr> (gs_conditions es)\<rparr>"

definition SetSubscriptionManagerReadyConditionToTrue :: "cond_lib \<Rightarrow> time \<Rightarrow> status_op" where
  "SetSubscriptionManagerReadyConditionToTrue lib now =
     UpdateConditionSubscriptionManagerReady lib now ConditionTrue ConditionReasonEventMeshSubManagerReady
       ConditionSubscriptionManagerReadyMessage"

definition SetStateReady :: "cond_lib \<Rightarrow> time \<Rightarrow> status_op" where
  "SetStateReady lib now es =
     UpdateConditionPublisherProxyReady lib now ConditionTrue ConditionReasonDeployed
       ConditionPublisherProxyReadyMessage
       (UpdateConditionBackendAvailable lib now ConditionTrue ConditionReasonNATSAvailable
          ConditionNATSAvailableMessage (es\<lparr>gs_state := StateReady\<rparr>))"

definition SetStateWarning :: status_op where
  "SetStateWarning es = es\<lparr>gs_state := StateWarning\<rparr>"

definition SetNATSAvailableConditionToTrue :: "cond_lib \<Rightarrow> time \<Rightarrow> status_op" where
  "SetNATSAvailableConditionToTrue lib now =
     UpdateConditionBackendAvailable lib now ConditionTrue ConditionReasonNATSAvailable
       ConditionNATSAvailableMessage"

definition SetEventMeshAvailableConditionToTrue :: "cond_lib \<Rightarrow> time \<Rightarrow> status_op" where
  "SetEventMeshAvailableConditionToTrue lib now =
     UpdateConditionBackendAvailable lib now ConditionTrue ConditionReasonEventMeshConfigAvailable
       ConditionEventMeshConfigAvailableMessage"

definition SetSubscriptionManagerReadyConditionToFalse ::
  "cond_lib \<Rightarrow> time \<Rightarrow> string \<Rightarrow> string \<Rightarrow> status_op" where
  "SetSubscriptionManagerReadyConditionToFalse lib now reason message =
     UpdateConditionSubscriptionManagerReady lib now ConditionFalse reason message"

definition SetPublisherProxyConditionToFalse :: "cond_lib \<Rightarrow> time \<Rightarrow> string \<Rightarrow> string \<Rightarrow> status_op" where
  "SetPublisherProxyConditionToFalse lib now reason message =
     UpdateConditionPublisherProxyReady lib now ConditionFalse reason message"

definition SetPublisherProxyReadyToTrue :: "cond_lib \<Rightarrow> time \<Rightarrow> status_op" where
  "SetPublisherProxyReadyToTrue lib now es =
     UpdateConditionPublisherProxyReady lib now ConditionTrue ConditionReasonDeployed
       ConditionPublisherProxyReadyMessage (es\<lparr>gs_state := StateReady\<rparr>)"

definition SetStateProcessing :: status_op where
  "SetStateProcessing es = es\<lparr>gs_state := StateProcessing\<rparr>"

definition SetStateError :: status_op where
  "SetStateError es = es\<lparr>gs_state := StateError\<rparr>"

definition ClearConditions_eventing :: status_op where
  "ClearConditions_eventing es = es\<lparr>gs_conditions := []\<rparr>"

definition IsEqual_EventingStatus :: "cond_lib \<Rightarrow> EventingStatus \<Rightarrow> EventingStatus \<Rightarrow> bool" where
  "IsEqual_EventingStatus lib es status \<longleftrightarrow>
     es\<lparr>gs_conditions := []\<rparr> = status\<lparr>gs_conditions := []\<rparr> \<and>
     cl_ConditionsEquals lib (gs_conditions es) (gs_conditions status)"

definition ClearPublisherService :: status_op where
  "ClearPublisherService es = es\<lparr>gs_publisherService := ''''\<rparr>"

definition SetPublisherService :: "string \<Rightarrow> string \<Rightarrow> status_op" where
  "SetPublisherService name namespace es = es\<lparr>gs_publisherService := name @ ''.'' @ namespace\<rparr>"

definition getSupportedConditionsTypes :: "string list" where
  "getSupportedConditionsTypes =
     [ConditionBackendAvailable, ConditionPublisherProxyReady, ConditionSubscriptionManagerReady,
      ConditionDeleted]"

definition RemoveUnsupportedConditions :: status_op where
  "RemoveUnsupportedConditions es =
     (if gs_conditions es = [] then es
      else es\<lparr>gs_conditions := filter (\<lambda>c. mc_type c \<in> set getSupportedConditionsTypes) (gs_conditions es)\<rparr>)"

subsection \<open>eventing_types.go\<close>

definition nil_backend :: string where
  "nil_backend = ''nil dereference of spec.backend''"

definition SyncStatusActiveBackend :: "Eventing \<Rightarrow> Eventing result" where
  "SyncStatusActiveBackend e =
     (case es_backend (eg_spec e) of
        None \<Rightarrow> Crash nil_backend
      | Some b \<Rightarrow> Ret (e\<lparr>eg_status := (eg_status e)\<lparr>gs_activeBackend := eb_type b\<rparr>\<rparr>))"

definition IsPreviousBackendEmpty :: "Eventing \<Rightarrow> bool" where
  "IsPreviousBackendEmpty e \<longleftrightarrow> gs_activeBackend (eg_status e) = ''''"

definition IsSpecBackendTypeChanged :: "Eventing \<Rightarrow> bool result" where
  "IsSpecBackendTypeChanged e =
     (case es_backend (eg_spec e) of
        None \<Rightarrow> Crash nil_backend
      | Some b \<Rightarrow> Ret (gs_activeBackend (eg_status e) \<noteq> eb_type b))"

definition HasEmptyBackend :: "EventingSpec \<Rightarrow> bool" where
  "HasEmptyBackend es \<longleftrightarrow>
     (case es_backend es of None \<Rightarrow> True | Some b \<Rightarrow> length (TrimSpace (eb_type b)) = 0)"

subsection \<open>The status of a condition after an update\<close>

definition status_of :: "string \<Rightarrow> EventingStatus \<Rightarrow> (string \<times> string \<times> string) option" where
  "status_of ty es = map_option (\<lambda>c. (mc_status c, mc_reason c, mc_message c)) (cond_of ty (gs_conditions es))"

lemma status_of_update [simp]:
  "status_of ty (es\<lparr>gs_state := v1\<rparr>) = status_of ty es"
  "status_of ty (es\<lparr>gs_activeBackend := v2\<rparr>) = status_of ty es"
  "status_of ty (es\<lparr>gs_backendConfigHash := v3\<rparr>) = status_of ty es"
  "status_of ty (es\<lparr>gs_publisherService := v2\<rparr>) = status_of ty es"
  "status_of ty (es\<lparr>gs_conditions := []\<rparr>) = None"
  by (simp_all add: status_of_def cond_of_def)

lemma status_of_set:
  assumes "documented_conditions lib"
  shows "status_of ty (es\<lparr>gs_conditions := cl_SetStatusCondition lib c (gs_conditions es)\<rparr>) =
    (if ty = mc_type c then Some (mc_status c, mc_reason c, mc_message c) else status_of ty es)"
  using assms unfolding documented_conditions_def status_of_def
  by (auto split: option.splits)

lemma status_of_UpdateCondition:
  assumes "documented_conditions lib"
  shows "status_of ty (UpdateConditionBackendAvailable lib now s r m es) =
      (if ty = ConditionBackendAvailable then Some (s, r, m) else status_of ty es)"
    and "status_of ty (UpdateConditionPublisherProxyReady lib now s r m es) =
      (if ty = ConditionPublisherProxyReady then Some (s, r, m) else status_of ty es)"
    and "status_of ty (UpdateConditionSubscriptionManagerReady lib now s r m es) =
      (if ty = ConditionSubscriptionManagerReady then Some (s, r, m) else status_of ty es)"
    and "status_of ty (UpdateConditionDeletion lib now s r m es) =
      (if ty = ConditionDeleted then Some (s, r, m) else status_of ty es)"
  by (simp_all add: UpdateConditionBackendAvailable_def UpdateConditionPublisherProxyReady_def
      UpdateConditionSubscriptionManagerReady_def UpdateConditionDeletion_def status_of_set [OF assms])

lemma gs_UpdateCondition [simp]:
  "gs_state (UpdateConditionBackendAvailable lib now s r m es) = gs_state es"
  "gs_state (UpdateConditionPublisherProxyReady lib now s r m es) = gs_state es"
  "gs_state (UpdateConditionSubscriptionManagerReady lib now s r m es) = gs_state es"
  "gs_state (UpdateConditionDeletion lib now s r m es) = gs_state es"
  "gs_activeBackend (UpdateConditionBackendAvailable lib now s r m es) = gs_activeBackend es"
  "gs_activeBackend (UpdateConditionPublisherProxyReady lib now s r m es) = gs_activeBackend es"
  "gs_activeBackend (UpdateConditionSubscriptionManagerReady lib now s r m es) = gs_activeBackend es"
  "gs_activeBackend (UpdateConditionDeletion lib now s r m es) = gs_activeBackend es"
  "gs_publisherService (UpdateConditionPublisherProxyReady lib now s r m es) = gs_publisherService es"
  by (simp_all add: UpdateConditionBackendAvailable_def UpdateConditionPublisherProxyReady_def
      UpdateConditionSubscriptionManagerReady_def UpdateConditionDeletion_def)

lemma find_filter_supported:
  "ty \<in> S \<Longrightarrow> find (\<lambda>c. f c = ty) (filter (\<lambda>c. f c \<in> S) xs) = find (\<lambda>c. f c = ty) xs"
  by (induction xs) auto

lemma status_of_RemoveUnsupported:
  "ty \<in> set getSupportedConditionsTypes \<Longrightarrow> status_of ty (RemoveUnsupportedConditions es) = status_of ty es"
  by (simp add: RemoveUnsupportedConditions_def status_of_def cond_of_def find_filter_supported)

lemma gs_RemoveUnsupported [simp]:
  "gs_state (RemoveUnsupportedConditions es) = gs_state es"
  "gs_activeBackend (RemoveUnsupportedConditions es) = gs_activeBackend es"
  "gs_backendConfigHash (RemoveUnsupportedConditions es) = gs_backendConfigHash es"
  "gs_publisherService (RemoveUnsupportedConditions es) = gs_publisherService es"
  by (simp_all add: RemoveUnsupportedConditions_def)

subsection \<open>A library that keeps the documented promises\<close>

fun set_status_condition :: "MCondition \<Rightarrow> MCondition list \<Rightarrow> MCondition list" where
  "set_status_condition c [] = [c]"
| "set_status_condition c (d # ds) =
     (if mc_type d = mc_type c
      then (if mc_status d = mc_status c then c\<lparr>mc_lastTransitionTime := mc_lastTransitionTime d\<rparr> else c) # ds
      else d # set_status_condition c ds)"

definition example_cond_lib :: cond_lib where
  "example_cond_lib =
     \<lparr>cl_SetStatusCondition = set_status_condition,
      cl_ConditionsEquals = (\<lambda>cs ds. map (\<lambda>c. (mc_type c, mc_status c, mc_reason c, mc_message c)) cs
                                   = map (\<lambda>c. (mc_type c, mc_status c, mc_reason c, mc_message c)) ds)\<rparr>"

lemma find_same_view:
  "map (\<lambda>c. (mc_type c, mc_status c, mc_reason c, mc_message c)) cs
     = map (\<lambda>c. (mc_type c, mc_status c, mc_reason c, mc_message c)) ds \<Longrightarrow>
   map_option (\<lambda>c. (mc_status c, mc_reason c, mc_message c)) (cond_of ty cs)
     = map_option (\<lambda>c. (mc_status c, mc_reason c, mc_message c)) (cond_of ty ds)"
proof (induction cs arbitrary: ds)
  case (Cons c cs)
  then obtain d ds' where "ds = d # ds'" by (cases ds) simp_all
  then show ?case using Cons.IH [of ds'] Cons.prems by (simp add: cond_of_def)
qed simp

lemma example_cond_lib_documented: "documented_conditions example_cond_lib"
proof -
  have "cond_of (mc_type c) (set_status_condition c cs) =
      Some (case cond_of (mc_type c) cs of
              Some old \<Rightarrow> if mc_status old = mc_status c
                          then c\<lparr>mc_lastTransitionTime := mc_lastTransitionTime old\<rparr> else c
            | None \<Rightarrow> c)" for c cs
    by (induction cs) (auto simp: cond_of_def)
  moreover have "ty \<noteq> mc_type c \<Longrightarrow> cond_of ty (set_status_condition c cs) = cond_of ty cs" for c cs ty
    by (induction cs) (auto simp: cond_of_def)
  ultimately show ?thesis
    unfolding documented_conditions_def example_cond_lib_def cond_lib.simps
    by (intro conjI allI impI) (assumption | rule find_same_view | erule conjunct1 | simp only:)+
qed

end
