(* ===== verification/JetStream_Utils.thy ===== *)
theory JetStream_Utils
  imports Validation Cleaners Go_Sha256
begin

section \<open>JetStream names, types and configuration (pkg/backend/jetstream/utils.go, config.go, types.go)\<close>

text \<open>
  The conversions of the configured policies, the stream and consumer configurations, the
  clean event types of a Subscription and the identifiers under which the backend stores its
  NATS subscriptions. \<^verbatim>\<open>resource.ParseQuantity\<close> of the Kubernetes library is a parameter.

  Shown here: the identifier of a subject belongs to exactly the Subscription it was made for
  as long as the subject contains no slash (\<open>associated_iff\<close>); the configuration check accepts
  exactly what the conversions accept; a Subscription without duplicate types always gets
  its backend types.
\<close>

subsection \<open>Configuration data\<close>

record NATSConfig =
  nc_URL :: string
  nc_MaxReconnects :: int
  nc_ReconnectWait :: time
  nc_EventTypePrefix :: string
  nc_MaxIdleConns :: int
  nc_MaxConnsPerHost :: int
  nc_MaxIdleConnsPerHost :: int
  nc_IdleConnTimeout :: time
  nc_JSStreamName :: string
  nc_JSSubjectPrefix :: string
  nc_JSStreamStorageType :: string
  nc_JSStreamReplicas :: int
  nc_JSStreamRetentionPolicy :: string
  nc_JSStreamMaxMessages :: int
  nc_JSStreamMaxBytes :: string
  nc_JSStreamMaxMsgsPerTopic :: int
  nc_JSStreamDiscardPolicy :: string
  nc_JSConsumerDeliverPolicy :: string

datatype StorageType = MemoryStorage | FileStorage
datatype RetentionPolicy = LimitsPolicy | InterestPolicy
datatype DiscardPolicy = DiscardOld | DiscardNew
datatype DeliverPolicy = DeliverAllPolicy | DeliverLastPolicy | DeliverLastPerSubjectPolicy | DeliverNewPolicy
datatype AckPolicy = AckExplicitPolicy | AckOtherPolicy
datatype ReplayPolicy = ReplayInstantPolicy | ReplayOriginalPolicy

record StreamConfig =
  sc_Name :: string
  sc_Storage :: StorageType
  sc_Replicas :: int
  sc_Retention :: RetentionPolicy
  sc_MaxMsgs :: int
  sc_MaxBytes :: int
  sc_Discard :: DiscardPolicy
  sc_MaxMsgsPerSubject :: int
  sc_Subjects :: "string list"

record ConsumerConfig =
  cc_Durable :: string
  cc_Description :: string
  cc_DeliverPolicy :: DeliverPolicy
  cc_FlowControl :: bool
  cc_MaxAckPending :: int
  cc_AckPolicy :: AckPolicy
  cc_AckWait :: time
  cc_MaxDeliver :: int
  cc_FilterSubject :: string
  cc_ReplayPolicy :: ReplayPolicy
  cc_DeliverSubject :: string
  cc_Heartbeat :: time

record ConsumerInfo =
  ci_Name :: string
  ci_Config :: ConsumerConfig
  ci_PushBound :: bool

datatype SubOpt =
    Durable string
  | Description string
  | ManualAck
  | AckExplicit
  | IdleHeartbeat time
  | EnableFlowControl
  | Deliver DeliverPolicy
  | MaxAckPending int
  | MaxDeliver int
  | AckWait time
  | Bind string string

text \<open>Durations in nanoseconds, as \<^verbatim>\<open>time.Duration\<close> counts them.\<close>

abbreviation Second :: time where "Second \<equiv> 1000000000"

abbreviation jsMaxStreamNameLength :: nat where "jsMaxStreamNameLength \<equiv> 32"
abbreviation idleHeartBeatDuration :: time where "idleHeartBeatDuration \<equiv> 60 * Second"
abbreviation jsConsumerMaxRedeliver :: int where "jsConsumerMaxRedeliver \<equiv> 100"
abbreviation jsConsumerNakDelay :: time where "jsConsumerNakDelay \<equiv> 30 * Second"
abbreviation jsConsumerAckWait :: time where "jsConsumerAckWait \<equiv> 30 * Second"

abbreviation ErrMissingSubscription :: goerr where
  "ErrMissingSubscription \<equiv> Sentinel ''failed to find a NATS subscription for a subject''"
abbreviation ErrAddConsumer :: goerr where "ErrAddConsumer \<equiv> Sentinel ''failed to add a consumer''"
abbreviation ErrGetConsumer :: goerr where "ErrGetConsumer \<equiv> Sentinel ''failed to get consumer info''"
abbreviation ErrUpdateConsumer :: goerr where
  "ErrUpdateConsumer \<equiv> Sentinel ''failed to update consumer''"
abbreviation ErrDeleteConsumer :: goerr where
  "ErrDeleteConsumer \<equiv> Sentinel ''failed to delete consumer''"
abbreviation ErrFailedSubscribe :: goerr where
  "ErrFailedSubscribe \<equiv> Sentinel ''failed to create NATS JetStream subscription''"
abbreviation ErrFailedUnsubscribe :: goerr where
  "ErrFailedUnsubscribe \<equiv> Sentinel ''failed to unsubscribe from NATS JetStream''"
abbreviation ErrConnect :: goerr where "ErrConnect \<equiv> Sentinel ''failed to connect to NATS JetStream''"
abbreviation ErrEmptyStreamName :: goerr where
  "ErrEmptyStreamName \<equiv> Sentinel ''stream name cannot be empty''"
abbreviation ErrStreamNameTooLong :: goerr where
  "ErrStreamNameTooLong \<equiv> Sentinel ''stream name should be max 32 characters long''"
abbreviation ErrInvalidStorageType :: goerr where
  "ErrInvalidStorageType \<equiv> ArgError ''invalid stream storage type: %q'' []"
abbreviation ErrInvalidRetentionPolicy :: goerr where
  "ErrInvalidRetentionPolicy \<equiv> ArgError ''invalid stream retention policy: %q'' []"
abbreviation ErrInvalidDiscardPolicy :: goerr where
  "ErrInvalidDiscardPolicy \<equiv> ArgError ''invalid stream discard policy: %q'' []"

subsection \<open>Conversions\<close>

definition toJetStreamStorageType :: "string \<Rightarrow> StorageType result" where
  "toJetStreamStorageType storageType =
     (if storageType = ''memory'' then Ret MemoryStorage
      else if storageType = ''file'' then Ret FileStorage
      else Err (WithArg ErrInvalidStorageType storageType))"

definition toJetStreamRetentionPolicy :: "string \<Rightarrow> RetentionPolicy result" where
  "toJetStreamRetentionPolicy retentionPolicy =
     (if retentionPolicy = ''limits'' then Ret LimitsPolicy
      else if retentionPolicy = ''interest'' then Ret InterestPolicy
      else Err (WithArg ErrInvalidRetentionPolicy retentionPolicy))"

definition toJetStreamDiscardPolicy :: "string \<Rightarrow> DiscardPolicy result" where
  "toJetStreamDiscardPolicy discardPolicy =
     (if discardPolicy = ''old'' then Ret DiscardOld
      else if discardPolicy = ''new'' then Ret DiscardNew
      else Err (WithArg ErrInvalidDiscardPolicy discardPolicy))"

definition toJetStreamConsumerDeliverPolicyOptOrDefault :: "string \<Rightarrow> SubOpt" where
  "toJetStreamConsumerDeliverPolicyOptOrDefault deliverPolicy =
     (if deliverPolicy = ''all'' then Deliver DeliverAllPolicy
      else if deliverPolicy = ''last'' then Deliver DeliverLastPolicy
      else if deliverPolicy = ''last_per_subject'' then Deliver DeliverLastPerSubjectPolicy
      else if deliverPolicy = ''new'' then Deliver DeliverNewPolicy
      else Deliver DeliverNewPolicy)"

definition toJetStreamConsumerDeliverPolicy :: "string \<Rightarrow> DeliverPolicy" where
  "toJetStreamConsumerDeliverPolicy deliverPolicy =
     (if deliverPolicy = ''all'' then DeliverAllPolicy
      else if deliverPolicy = ''last'' then DeliverLastPolicy
      else if deliverPolicy = ''last_per_subject'' then DeliverLastPerSubjectPolicy
      else if deliverPolicy = ''new'' then DeliverNewPolicy
      else DeliverNewPolicy)"

text \<open>\<open>ParseQuantity s\<close> stands for \<^verbatim>\<open>resource.ParseQuantity(s)\<close> followed by \<^verbatim>\<open>Value()\<close>.\<close>

definition getStreamConfig :: "(string \<Rightarrow> int result) \<Rightarrow> NATSConfig \<Rightarrow> StreamConfig result" where
  "getStreamConfig ParseQuantity natsConfig =
     (case toJetStreamStorageType (nc_JSStreamStorageType natsConfig) of
        Err e \<Rightarrow> Err e | Crash p \<Rightarrow> Crash p
      | Ret storage \<Rightarrow>
      (case toJetStreamRetentionPolicy (nc_JSStreamRetentionPolicy natsConfig) of
         Err e \<Rightarrow> Err e | Crash p \<Rightarrow> Crash p
       | Ret retentionPolicy \<Rightarrow>
       (case ParseQuantity (if nc_JSStreamMaxBytes natsConfig = [] then ''-1''
                            else nc_JSStreamMaxBytes natsConfig) of
          Err e \<Rightarrow> Err e | Crash p \<Rightarrow> Crash p
        | Ret maxBytes \<Rightarrow>
        (case toJetStreamDiscardPolicy (nc_JSStreamDiscardPolicy natsConfig) of
           Err e \<Rightarrow> Err e | Crash p \<Rightarrow> Crash p
         | Ret discardPolicy \<Rightarrow>
             Ret \<lparr>sc_Name = nc_JSStreamName natsConfig,
                  sc_Storage = storage,
                  sc_Replicas = nc_JSStreamReplicas natsConfig,
                  sc_Retention = retentionPolicy,
                  sc_MaxMsgs = nc_JSStreamMaxMessages natsConfig,
                  sc_MaxBytes = maxBytes,
                  sc_Discard = discardPolicy,
                  sc_MaxMsgsPerSubject = nc_JSStreamMaxMsgsPerTopic natsConfig,
                  sc_Subjects = [nc_JSSubjectPrefix natsConfig @ ''.>'']\<rparr>))))"

definition err_of :: "'a result \<Rightarrow> goerr option" where
  "err_of r = (case r of Err e \<Rightarrow> Some e | _ \<Rightarrow> None)"

text \<open>\<^verbatim>\<open>Validate\<close> of \<^verbatim>\<open>config.go\<close>; \<^verbatim>\<open>JetStream.validateConfig\<close> differs in the first error.\<close>

definition validate_policies :: "NATSConfig \<Rightarrow> goerr option" where
  "validate_policies natsConfig =
     (if length (nc_JSStreamName natsConfig) > jsMaxStreamNameLength then Some ErrStreamNameTooLong
      else case err_of (toJetStreamStorageType (nc_JSStreamStorageType natsConfig)) of
        Some e \<Rightarrow> Some e
      | None \<Rightarrow>
        (case err_of (toJetStreamRetentionPolicy (nc_JSStreamRetentionPolicy natsConfig)) of
           Some e \<Rightarrow> Some e
         | None \<Rightarrow> err_of (toJetStreamDiscardPolicy (nc_JSStreamDiscardPolicy natsConfig))))"

definition Validate_NATSConfig :: "NATSConfig \<Rightarrow> goerr option" where
  "Validate_NATSConfig natsConfig =
     (if nc_JSStreamName natsConfig = [] then Some ErrEmptyStreamName
      else validate_policies natsConfig)"

definition js_validateConfig :: "NATSConfig \<Rightarrow> goerr option" where
  "js_validateConfig natsConfig =
     (if nc_JSStreamName natsConfig = [] then Some (Plain KOther ''Stream name cannot be empty'')
      else validate_policies natsConfig)"

subsection \<open>Identifiers\<close>

abbreviation separator :: string where "separator \<equiv> ''/''"

record SubscriptionSubjectIdentifier =
  si_consumerName :: string
  si_namespacedSubjectName :: string

definition computeConsumerName :: "Subscription \<Rightarrow> string \<Rightarrow> string" where
  "computeConsumerName subscription subject =
     (let cn = sub_namespace subscription @ separator @ sub_name subscription @ separator @ subject
      in take 32 (sha256_hex cn))"

definition computeNamespacedSubjectName :: "Subscription \<Rightarrow> string \<Rightarrow> string" where
  "computeNamespacedSubjectName subscription subject =
     sub_namespace subscription @ separator @ sub_name subscription @ separator @ subject"

definition NewSubscriptionSubjectIdentifier :: "Subscription \<Rightarrow> string \<Rightarrow> SubscriptionSubjectIdentifier" where
  "NewSubscriptionSubjectIdentifier subscription subject =
     \<lparr>si_consumerName = computeConsumerName subscription subject,
      si_namespacedSubjectName = computeNamespacedSubjectName subscription subject\<rparr>"

definition NamespacedName :: "SubscriptionSubjectIdentifier \<Rightarrow> string result" where
  "NamespacedName s =
     (case before_last (CHR ''/'') (si_namespacedSubjectName s) of
        Some p \<Rightarrow> Ret p
      | None \<Rightarrow> Crash ''slice bounds out of range [:-1]'')"

abbreviation ConsumerName :: "SubscriptionSubjectIdentifier \<Rightarrow> string" where
  "ConsumerName s \<equiv> si_consumerName s"

definition createKeyPrefix :: "Subscription \<Rightarrow> string" where
  "createKeyPrefix sub = sub_namespace sub @ separator @ sub_name sub"

definition isJsSubAssociatedWithKymaSub :: "SubscriptionSubjectIdentifier \<Rightarrow> Subscription \<Rightarrow> bool result" where
  "isJsSubAssociatedWithKymaSub jsSubKey subscription =
     (case NamespacedName jsSubKey of
        Ret n \<Rightarrow> Ret (createKeyPrefix subscription = n)
      | Err e \<Rightarrow> Err e
      | Crash p \<Rightarrow> Crash p)"

definition getDefaultSubscriptionOptions ::
  "NATSConfig \<Rightarrow> SubscriptionSubjectIdentifier \<Rightarrow> int \<Rightarrow> SubOpt list" where
  "getDefaultSubscriptionOptions config consumer maxInFlightMessages =
     [Durable (si_consumerName consumer),
      Description (si_namespacedSubjectName consumer),
      ManualAck,
      AckExplicit,
      IdleHeartbeat idleHeartBeatDuration,
      EnableFlowControl,
      toJetStreamConsumerDeliverPolicyOptOrDefault (nc_JSConsumerDeliverPolicy config),
      MaxAckPending maxInFlightMessages,
      MaxDeliver jsConsumerMaxRedeliver,
      AckWait jsConsumerAckWait,
      Bind (nc_JSStreamName config) (ConsumerName consumer)]"

text \<open>\<open>inbox\<close> is the fresh subject of \<^verbatim>\<open>nats.NewInbox()\<close>.\<close>

definition getConsumerConfig ::
  "string \<Rightarrow> NATSConfig \<Rightarrow> SubscriptionSubjectIdentifier \<Rightarrow> string \<Rightarrow> int \<Rightarrow> ConsumerConfig" where
  "getConsumerConfig inbox config jsSubKey jsSubject maxInFlight =
     \<lparr>cc_Durable = ConsumerName jsSubKey,
      cc_Description = si_namespacedSubjectName jsSubKey,
      cc_DeliverPolicy = toJetStreamConsumerDeliverPolicy (nc_JSConsumerDeliverPolicy config),
      cc_FlowControl = True,
      cc_MaxAckPending = maxInFlight,
      cc_AckPolicy = AckExplicitPolicy,
      cc_AckWait = jsConsumerAckWait,
      cc_MaxDeliver = jsConsumerMaxRedeliver,
      cc_FilterSubject = jsSubject,
      cc_ReplayPolicy = ReplayInstantPolicy,
      cc_DeliverSubject = inbox,
      cc_Heartbeat = idleHeartBeatDuration\<rparr>"

subsection \<open>Event types\<close>

definition GetCleanEventTypesFromEventTypes :: "EventType list \<Rightarrow> string list" where
  "GetCleanEventTypesFromEventTypes eventTypes = map et_cleanType eventTypes"

fun getUniqueEventTypes_loop :: "(string \<rightharpoonup> bool) \<Rightarrow> string list \<Rightarrow> string list \<Rightarrow> string list" where
  "getUniqueEventTypes_loop mapper unique [] = unique"
| "getUniqueEventTypes_loop mapper unique (val # eventTypes) =
     (if mapper val = None
      then getUniqueEventTypes_loop (mapper(val \<mapsto> True)) (unique @ [val]) eventTypes
      else getUniqueEventTypes_loop mapper unique eventTypes)"

definition getUniqueEventTypes :: "string list \<Rightarrow> string list" where
  "getUniqueEventTypes eventTypes = getUniqueEventTypes_loop Map.empty [] eventTypes"

definition cleanEventTypeOf :: "Cleaner \<Rightarrow> string \<Rightarrow> string \<Rightarrow> EventType" where
  "cleanEventTypeOf cleaner typeMatching eventType =
     \<lparr>et_originalType = eventType,
      et_cleanType = (if typeMatching \<noteq> TypeMatchingExact then fst (cl_CleanEventType cleaner eventType)
                      else eventType)\<rparr>"

definition GetCleanEventTypes :: "Subscription \<Rightarrow> Cleaner \<Rightarrow> EventType slice" where
  "GetCleanEventTypes sub cleaner =
     appended (map (cleanEventTypeOf cleaner (spec_typeMatching (sub_spec sub)))
       (getUniqueEventTypes (spec_types (sub_spec sub))))"

definition GetBackendJetStreamTypes :: "Subscription \<Rightarrow> string list \<Rightarrow> JetStreamTypes list result" where
  "GetBackendJetStreamTypes subscription jsSubjects =
     (if length jsSubjects \<noteq> length (spec_types (sub_spec subscription))
      then Err (Plain KOther ''length of JetStream subjects do not match with eventTypes from spec'')
      else Ret (map (\<lambda>(ot, subject). \<lparr>jt_originalType = ot,
               jt_consumerName = computeConsumerName subscription subject\<rparr>)
             (zip (spec_types (sub_spec subscription)) jsSubjects)))"

text \<open>
  \<^verbatim>\<open>JetStream.GetJetStreamSubject\<close> (and its unexported twin \<^verbatim>\<open>getJetStreamSubject\<close>) and
  \<^verbatim>\<open>GetJetStreamSubjects\<close>.
\<close>

definition GetJetStreamSubject :: "NATSConfig \<Rightarrow> Cleaner \<Rightarrow> string \<Rightarrow> string \<Rightarrow> string \<Rightarrow> string" where
  "GetJetStreamSubject config cleaner source subject typeMatching =
     (if typeMatching = TypeMatchingExact then nc_JSSubjectPrefix config @ ''.'' @ subject
      else let cleanSource = fst (cl_CleanSource cleaner source) in
        nc_JSSubjectPrefix config @ ''.'' @ cleanSource @ ''.'' @ subject)"

definition getJetStreamSubject :: "NATSConfig \<Rightarrow> Cleaner \<Rightarrow> string \<Rightarrow> string \<Rightarrow> string \<Rightarrow> string" where
  "getJetStreamSubject config cleaner source subject typeMatching =
     (if typeMatching = TypeMatchingExact then nc_JSSubjectPrefix config @ ''.'' @ subject
      else let cleanSource = fst (cl_CleanSource cleaner source) in
        nc_JSSubjectPrefix config @ ''.'' @ cleanSource @ ''.'' @ subject)"

definition GetJetStreamSubjects :: "NATSConfig \<Rightarrow> Cleaner \<Rightarrow> string \<Rightarrow> string list \<Rightarrow> string \<Rightarrow> string list" where
  "GetJetStreamSubjects config cleaner source subjects typeMatching =
     map (\<lambda>subject. GetJetStreamSubject config cleaner source subject typeMatching) subjects"

subsection \<open>Lemmas\<close>

lemma getJetStreamSubject_eq [simp]: "getJetStreamSubject = GetJetStreamSubject"
  by (simp add: fun_eq_iff getJetStreamSubject_def GetJetStreamSubject_def)

lemma getUniqueEventTypes_loop_eq:
  "dom mapper = set acc \<Longrightarrow> getUniqueEventTypes_loop mapper acc ts = dedup_acc acc ts"
  by (induction ts arbitrary: mapper acc) (auto simp: domIff)

lemma getUniqueEventTypes_dedup [simp]: "getUniqueEventTypes ts = dedup ts"
  by (simp add: getUniqueEventTypes_def getUniqueEventTypes_loop_eq)

lemma length_computeConsumerName [simp]: "length (computeConsumerName s subject) = 32"
  by (simp add: computeConsumerName_def Let_def)

text \<open>The name of a Kubernetes object contains no slash.\<close>

definition k8s_named :: "Subscription \<Rightarrow> bool" where
  "k8s_named s \<longleftrightarrow> CHR ''/'' \<notin> set (sub_namespace s) \<and> CHR ''/'' \<notin> set (sub_name s)"

lemma createKeyPrefix_inject:
  assumes "k8s_named s" and "k8s_named t"
  shows "createKeyPrefix s = createKeyPrefix t \<longleftrightarrow>
     sub_namespace s = sub_namespace t \<and> sub_name s = sub_name t"
proof
  assume "createKeyPrefix s = createKeyPrefix t"
  then have "split_on (CHR ''/'') (createKeyPrefix s) = split_on (CHR ''/'') (createKeyPrefix t)" by simp
  then show "sub_namespace s = sub_namespace t \<and> sub_name s = sub_name t"
    using assms by (simp add: createKeyPrefix_def k8s_named_def split_on_append_sep split_on_free)
qed (simp add: createKeyPrefix_def)

lemma NamespacedName_New:
  "CHR ''/'' \<notin> set subject \<Longrightarrow>
     NamespacedName (NewSubscriptionSubjectIdentifier s subject) = Ret (createKeyPrefix s)"
  using before_last_append [of "CHR ''/''" subject "createKeyPrefix s"]
  by (simp add: NamespacedName_def NewSubscriptionSubjectIdentifier_def
      computeNamespacedSubjectName_def createKeyPrefix_def)

lemma associated_New:
  "CHR ''/'' \<notin> set subject \<Longrightarrow>
     isJsSubAssociatedWithKymaSub (NewSubscriptionSubjectIdentifier s subject) t
       = Ret (createKeyPrefix t = createKeyPrefix s)"
  by (simp add: isJsSubAssociatedWithKymaSub_def NamespacedName_New)

lemma NewSubscriptionSubjectIdentifier_inject:
  assumes "createKeyPrefix s = createKeyPrefix t"
    and "NewSubscriptionSubjectIdentifier s subject = NewSubscriptionSubjectIdentifier t subject'"
  shows "subject = subject'"
proof -
  have "createKeyPrefix s @ separator @ subject = createKeyPrefix t @ separator @ subject'"
    using arg_cong [OF assms(2), of si_namespacedSubjectName]
    by (simp add: NewSubscriptionSubjectIdentifier_def computeNamespacedSubjectName_def createKeyPrefix_def)
  then show ?thesis using assms(1) by simp
qed

lemma items_GetCleanEventTypes:
  "items (GetCleanEventTypes sub c) = map (cleanEventTypeOf c (spec_typeMatching (sub_spec sub)))
     (dedup (spec_types (sub_spec sub)))"
  by (simp add: GetCleanEventTypes_def)

lemma length_GetJetStreamSubjects [simp]: "length (GetJetStreamSubjects cfg c src ts tm) = length ts"
  by (simp add: GetJetStreamSubjects_def)

lemma err_of_simps [simp]: "err_of (Ret a) = None" "err_of (Err e) = Some e" "err_of (Crash p) = None"
  by (simp_all add: err_of_def)

lemma toJetStream_no_crash [simp]:
  "toJetStreamStorageType s \<noteq> Crash p" "toJetStreamRetentionPolicy s \<noteq> Crash p"
  "toJetStreamDiscardPolicy s \<noteq> Crash p"
  by (simp_all add: toJetStreamStorageType_def toJetStreamRetentionPolicy_def toJetStreamDiscardPolicy_def)

lemma err_of_None: "(\<And>p. r \<noteq> Crash p) \<Longrightarrow> err_of r = None \<longleftrightarrow> (\<exists>a. r = Ret a)"
  by (cases r) auto

lemma validate_policies_None:
  "validate_policies cfg = None \<longleftrightarrow>
     length (nc_JSStreamName cfg) \<le> 32 \<and> (\<exists>a. toJetStreamStorageType (nc_JSStreamStorageType cfg) = Ret a) \<and>
     (\<exists>a. toJetStreamRetentionPolicy (nc_JSStreamRetentionPolicy cfg) = Ret a) \<and>
     (\<exists>a. toJetStreamDiscardPolicy (nc_JSStreamDiscardPolicy cfg) = Ret a)"
  by (auto simp: validate_policies_def err_of_None split: option.splits)

text \<open>The configuration that the witnesses use.\<close>

definition example_config :: NATSConfig where
  "example_config =
     \<lparr>nc_URL = ''nats'', nc_MaxReconnects = 10, nc_ReconnectWait = 3 * Second, nc_EventTypePrefix = ''sap'',
      nc_MaxIdleConns = 50, nc_MaxConnsPerHost = 50, nc_MaxIdleConnsPerHost = 50,
      nc_IdleConnTimeout = 10 * Second, nc_JSStreamName = ''sap'', nc_JSSubjectPrefix = ''kyma'',
      nc_JSStreamStorageType = ''file'', nc_JSStreamReplicas = 1, nc_JSStreamRetentionPolicy = ''interest'',
      nc_JSStreamMaxMessages = -1, nc_JSStreamMaxBytes = '''', nc_JSStreamMaxMsgsPerTopic = 100,
      nc_JSStreamDiscardPolicy = ''new'', nc_JSConsumerDeliverPolicy = ''new''\<rparr>"

subsection \<open>Properties\<close>

text \<open>
  The identifier stored for a subject without a slash is associated with a Subscription
  exactly when that is the Subscription (namespace and name) it was made for; the association
  test does not panic on it.
\<close>

theorem associated_iff:
  assumes "k8s_named s" and "k8s_named t" and "CHR ''/'' \<notin> set subject"
  shows "isJsSubAssociatedWithKymaSub (NewSubscriptionSubjectIdentifier s subject) t
       = Ret (sub_namespace s = sub_namespace t \<and> sub_name s = sub_name t)"
  using assms by (auto simp: associated_New createKeyPrefix_inject)

theorem associated_iff_witness:
  "isJsSubAssociatedWithKymaSub
     (NewSubscriptionSubjectIdentifier example_subscription ''kyma.source.order.created.v1'')
     (example_subscription\<lparr>sub_name := ''other''\<rparr>) = Ret False"
  using associated_iff [of example_subscription "example_subscription\<lparr>sub_name := ''other''\<rparr>"
      "''kyma.source.order.created.v1''"]
  by (simp add: k8s_named_def example_subscription_def)

text \<open>
  With exact type matching nothing keeps a slash out of the subject, and the identifier of
  such a subject is not associated with its own Subscription, although \<^verbatim>\<open>Validate\<close> may have
  accepted it: the name is cut at the last slash, inside the subject.
\<close>

theorem associated_slash:
  assumes "CHR ''/'' \<in> set subject"
  shows "isJsSubAssociatedWithKymaSub (NewSubscriptionSubjectIdentifier s subject) s = Ret False"
proof -
  obtain p where p: "before_last (CHR ''/'') subject = Some p"
    using assms before_last_None_iff by blast
  have "before_last (CHR ''/'') (createKeyPrefix s @ separator @ subject)
      = Some (createKeyPrefix s @ separator @ p)"
    using before_last_append_in [of "CHR ''/''" subject "createKeyPrefix s @ separator"] assms p by simp
  then show ?thesis
    by (simp add: isJsSubAssociatedWithKymaSub_def NamespacedName_def createKeyPrefix_def
        NewSubscriptionSubjectIdentifier_def computeNamespacedSubjectName_def)
qed

theorem associated_slash_witness:
  "isJsSubAssociatedWithKymaSub
     (NewSubscriptionSubjectIdentifier example_subscription ''kyma.a/b.c'') example_subscription = Ret False"
  using associated_slash [of "''kyma.a/b.c''" example_subscription] by simp

text \<open>
  Under standard type matching two subjects of one stream are equal only if they come from
  the same cleaned source and the same cleaned type, and the subject of a cleaned type
  contains no slash, so that the association of identifiers with Subscriptions is exact.
\<close>

theorem standard_subjects:
  assumes "tm \<noteq> TypeMatchingExact"
  shows "(GetJetStreamSubject cfg JetStreamCleaner src t tm = GetJetStreamSubject cfg JetStreamCleaner src' t' tm
       \<longleftrightarrow> cl_CleanSource JetStreamCleaner src = cl_CleanSource JetStreamCleaner src' \<and> t = t') \<and>
     (CHR ''/'' \<in> set (GetJetStreamSubject cfg JetStreamCleaner src
          (et_cleanType (cleanEventTypeOf JetStreamCleaner tm t)) tm)
       \<longleftrightarrow> CHR ''/'' \<in> set (nc_JSSubjectPrefix cfg))"
proof -
  have "cl_CleanSource JetStreamCleaner src = cl_CleanSource JetStreamCleaner src'
      \<longleftrightarrow> fst (cl_CleanSource JetStreamCleaner src) = fst (cl_CleanSource JetStreamCleaner src')"
    by (metis jsc.source_total prod.collapse)
  then show ?thesis
    using assms jsc.subject_inject [of "nc_JSSubjectPrefix cfg" src t src' t']
      jsc.subject_no_slash [of "nc_JSSubjectPrefix cfg" src t]
    by (auto simp: GetJetStreamSubject_def cleanEventTypeOf_def Let_def)
qed

theorem standard_subjects_witness:
  "GetJetStreamSubject example_config JetStreamCleaner ''a'' ''x.y'' TypeMatchingStandard
     \<noteq> GetJetStreamSubject example_config JetStreamCleaner ''b'' ''x.y'' TypeMatchingStandard"
  using standard_subjects [of TypeMatchingStandard example_config "''a''" "''x.y''" "''b''" "''x.y''"]
  by (simp add: JetStreamCleaner_def JetStreamCleaner_CleanSource_def invalidSourceCharacters_def
      invalidEventTypeCharacters_def is_regex_space_def)

text \<open>
  Once the configuration check has passed, building the stream configuration can fail only
  because the configured maximal size is not a quantity, and the result carries the
  configured values, the subjects being everything below the prefix.
\<close>

theorem getStreamConfig_after_validate:
  assumes "js_validateConfig cfg = None"
  shows "case ParseQuantity (if nc_JSStreamMaxBytes cfg = [] then ''-1'' else nc_JSStreamMaxBytes cfg) of
      Ret maxBytes \<Rightarrow>
        (case getStreamConfig ParseQuantity cfg of
           Ret sc \<Rightarrow> sc_Name sc = nc_JSStreamName cfg \<and> sc_MaxBytes sc = maxBytes \<and>
             sc_Subjects sc = [nc_JSSubjectPrefix cfg @ ''.>''] \<and>
             toJetStreamStorageType (nc_JSStreamStorageType cfg) = Ret (sc_Storage sc) \<and>
             toJetStreamRetentionPolicy (nc_JSStreamRetentionPolicy cfg) = Ret (sc_Retention sc) \<and>
             toJetStreamDiscardPolicy (nc_JSStreamDiscardPolicy cfg) = Ret (sc_Discard sc)
         | _ \<Rightarrow> False)
    | Err e \<Rightarrow> getStreamConfig ParseQuantity cfg = Err e
    | Crash p \<Rightarrow> getStreamConfig ParseQuantity cfg = Crash p"
  using assms
  by (auto simp: js_validateConfig_def validate_policies_None getStreamConfig_def
      split: result.splits if_splits)

lemma example_config_valid: "js_validateConfig example_config = None"
  by (simp add: js_validateConfig_def validate_policies_None example_config_def
      toJetStreamStorageType_def toJetStreamRetentionPolicy_def toJetStreamDiscardPolicy_def)

theorem getStreamConfig_after_validate_witness:
  "case getStreamConfig (\<lambda>q. Ret 7) example_config of
     Ret sc \<Rightarrow> sc_MaxBytes sc = 7 \<and> sc_Subjects sc = [''kyma.>''] | _ \<Rightarrow> False"
  using getStreamConfig_after_validate [OF example_config_valid, of "\<lambda>q. Ret 7"]
  by (simp add: example_config_def split: result.splits)

text \<open>
  For a Subscription that passed validation, the clean event types are one per type of
  the spec, in order, and the backend types computed from their subjects always exist, one
  per type, each with a consumer name of 32 characters.
\<close>

theorem backend_types_after_validate:
  assumes "Validate_subscription env s = None"
  shows "map et_originalType (items (GetCleanEventTypes s c)) = spec_types (sub_spec s) \<and>
     (case GetBackendJetStreamTypes s (GetJetStreamSubjects cfg c src
          (GetCleanEventTypesFromEventTypes (items (GetCleanEventTypes s c))) tm) of
        Ret jts \<Rightarrow> map jt_originalType jts = spec_types (sub_spec s) \<and>
          list_all (\<lambda>jt. length (jt_consumerName jt) = 32) jts
      | _ \<Rightarrow> False)"
proof -
  have d: "dedup (spec_types (sub_spec s)) = spec_types (sub_spec s)"
    using validated_types_distinct [OF assms] by (rule dedup_distinct_id)
  then have "map et_originalType (items (GetCleanEventTypes s c)) = spec_types (sub_spec s)"
    by (simp add: items_GetCleanEventTypes cleanEventTypeOf_def comp_def)
  moreover have "length (items (GetCleanEventTypes s c)) = length (spec_types (sub_spec s))"
    by (simp add: items_GetCleanEventTypes d)
  ultimately show ?thesis
    by (auto simp: GetBackendJetStreamTypes_def GetCleanEventTypesFromEventTypes_def
        list_all_iff map_zip_fst case_prod_unfold comp_def)
qed

theorem backend_types_after_validate_witness:
  "map et_originalType (items (GetCleanEventTypes example_subscription JetStreamCleaner))
     = [''order.created.v1'', ''order.deleted.v1'']"
  using backend_types_after_validate [OF example_subscription_valid, of JetStreamCleaner]
  by (simp add: example_subscription_def)

end
