(* ===== verification/Publisher_Proxy.thy ===== *)
theory Publisher_Proxy
  imports Object_Equality Api_Eventing JetStream_Utils
begin

section \<open>The resources of the publisher proxy (pkg/eventing/utils.go, deployment.go)\<close>

text \<open>
  The objects that the operator creates for the publisher proxy: names, labels, the deployment
  with its container, environment and options, the services, the RBAC objects and the
  autoscaler. \<^verbatim>\<open>resource.MustParse\<close> is the parameter \<open>parse_q\<close>, with \<open>None\<close> for its panic. A
  \<^verbatim>\<open>DeployOpt\<close> is a function on deployments. \<^verbatim>\<open>strings.EqualFold\<close> is modelled on ASCII, which
  Kubernetes names are.
\<close>

subsection \<open>Configuration (pkg/env/backend\_config.go)\<close>

record PublisherConfig =
  pc_image :: string
  pc_imagePullPolicy :: string
  pc_portNum :: int
  pc_metricsPortNum :: int
  pc_serviceAccount :: string
  pc_requestTimeout :: string
  pc_priorityClassName :: string
  pc_appLogFormat :: string
  pc_applicationCRDEnabled :: bool

record EnvBackendConfig =
  ebc_publisherConfig :: PublisherConfig
  ebc_namespace :: string
  ebc_eventingCRName :: string
  ebc_eventingCRNamespace :: string
  ebc_defaultSubscriptionConfig :: DefaultSubscriptionConfig
  ebc_eventingWebhookAuthSecretName :: string
  ebc_eventingWebhookAuthSecretNamespace :: string

subsection \<open>Labels (internal/label/label.go)\<close>

abbreviation KeyComponent :: string where "KeyComponent \<equiv> ''app.kubernetes.io/component''"
abbreviation KeyCreatedBy :: string where "KeyCreatedBy \<equiv> ''app.kubernetes.io/created-by''"
abbreviation KeyInstance :: string where "KeyInstance \<equiv> ''app.kubernetes.io/instance''"
abbreviation KeyManagedBy :: string where "KeyManagedBy \<equiv> ''app.kubernetes.io/managed-by''"
abbreviation KeyName :: string where "KeyName \<equiv> ''app.kubernetes.io/name''"
abbreviation KeyPartOf :: string where "KeyPartOf \<equiv> ''app.kubernetes.io/part-of''"
abbreviation KeyBackend :: string where "KeyBackend \<equiv> ''eventing.kyma-project.io/backend''"
abbreviation KeyDashboard :: string where "KeyDashboard \<equiv> ''kyma-project.io/dashboard''"
abbreviation ValueEventingPublisherProxy :: string where
  "ValueEventingPublisherProxy \<equiv> ''eventing-publisher-proxy''"
abbreviation ValueEventingManager :: string where "ValueEventingManager \<equiv> ''eventing-manager''"
abbreviation ValueEventing :: string where "ValueEventing \<equiv> ''eventing''"

subsection \<open>Names\<close>

abbreviation publisherProxySuffix :: string where "publisherProxySuffix \<equiv> ''publisher-proxy''"

definition GetPublisherDeploymentName :: "Eventing \<Rightarrow> string" where
  "GetPublisherDeploymentName eventing = eg_name eventing @ ''-'' @ publisherProxySuffix"

definition GetPublisherPublishServiceName :: "Eventing \<Rightarrow> string" where
  "GetPublisherPublishServiceName eventing = eg_name eventing @ ''-'' @ publisherProxySuffix"

definition GetPublisherMetricsServiceName :: "Eventing \<Rightarrow> string" where
  "GetPublisherMetricsServiceName eventing = eg_name eventing @ ''-'' @ publisherProxySuffix @ ''-metrics''"

definition GetPublisherHealthServiceName :: "Eventing \<Rightarrow> string" where
  "GetPublisherHealthServiceName eventing = eg_name eventing @ ''-'' @ publisherProxySuffix @ ''-health''"

definition GetPublisherServiceAccountName :: "Eventing \<Rightarrow> string" where
  "GetPublisherServiceAccountName eventing = eg_name eventing @ ''-'' @ publisherProxySuffix"

definition GetPublisherClusterRoleName :: "Eventing \<Rightarrow> string" where
  "GetPublisherClusterRoleName eventing = eg_name eventing @ ''-'' @ publisherProxySuffix"

definition GetPublisherClusterRoleBindingName :: "Eventing \<Rightarrow> string" where
  "GetPublisherClusterRoleBindingName eventing = eg_name eventing @ ''-'' @ publisherProxySuffix"

lemmas publisher_names =
  GetPublisherDeploymentName_def GetPublisherPublishServiceName_def GetPublisherMetricsServiceName_def
  GetPublisherHealthServiceName_def GetPublisherServiceAccountName_def GetPublisherClusterRoleName_def
  GetPublisherClusterRoleBindingName_def

subsection \<open>Constructors\<close>

abbreviation deploymentKind :: string where "deploymentKind \<equiv> ''Deployment''"
abbreviation appsV1APIVersion :: string where "appsV1APIVersion \<equiv> ''apps/v1''"

text \<open>\<^verbatim>\<open>int32(n)\<close> of a 64-bit integer keeps the low 32 bits.\<close>

definition int32 :: "int \<Rightarrow> int" where
  "int32 n = signed_take_bit 31 n"

definition resource_metric :: "string \<Rightarrow> int \<Rightarrow> MetricSpec" where
  "resource_metric r u =
     \<lparr>ms_type = ''Resource'', ms_resource = r, ms_targetType = ''Utilization'', ms_averageUtilization = Some u\<rparr>"

definition newHorizontalPodAutoscaler ::
  "string \<Rightarrow> string \<Rightarrow> int \<Rightarrow> int \<Rightarrow> int \<Rightarrow> int \<Rightarrow> gomap \<Rightarrow> HorizontalPodAutoscaler" where
  "newHorizontalPodAutoscaler name namespace minReplicas maxReplicas cpuUtilization memoryUtilization labels =
     \<lparr>hpa_type = \<lparr>tm_kind = ''HorizontalPodAutoscaler'', tm_apiVersion = ''autoscaling/v2''\<rparr>,
      hpa_meta = (named_meta name namespace)\<lparr>om_labels := labels\<rparr>,
      hpa_scaleTargetRef = \<lparr>xr_kind = deploymentKind, xr_name = name, xr_apiVersion = appsV1APIVersion\<rparr>,
      hpa_minReplicas = Some minReplicas, hpa_maxReplicas = maxReplicas,
      hpa_metrics = Some [resource_metric ''cpu'' cpuUtilization, resource_metric ''memory'' memoryUtilization]\<rparr>"

definition newPublisherProxyClusterRole :: "string \<Rightarrow> string \<Rightarrow> gomap \<Rightarrow> ClusterRole" where
  "newPublisherProxyClusterRole name namespace labels =
     \<lparr>cr_type = \<lparr>tm_kind = ''ClusterRole'', tm_apiVersion = ''rbac.authorization.k8s.io/v1''\<rparr>,
      cr_meta = (named_meta name namespace)\<lparr>om_labels := labels\<rparr>,
      cr_rules = Some
        [\<lparr>pr_apiGroups = [''eventing.kyma-project.io''], pr_resources = [''subscriptions''],
          pr_verbs = [''get'', ''list'', ''watch'']\<rparr>,
         \<lparr>pr_apiGroups = [''applicationconnector.kyma-project.io''], pr_resources = [''applications''],
          pr_verbs = [''get'', ''list'', ''watch'']\<rparr>]\<rparr>"

definition newPublisherProxyServiceAccount :: "string \<Rightarrow> string \<Rightarrow> gomap \<Rightarrow> ServiceAccount" where
  "newPublisherProxyServiceAccount name namespace labels =
     \<lparr>sa_type = \<lparr>tm_kind = ''ServiceAccount'', tm_apiVersion = ''v1''\<rparr>,
      sa_meta = (named_meta name namespace)\<lparr>om_labels := labels\<rparr>\<rparr>"

definition newPublisherProxyClusterRoleBinding :: "string \<Rightarrow> string \<Rightarrow> gomap \<Rightarrow> ClusterRoleBinding" where
  "newPublisherProxyClusterRoleBinding name namespace labels =
     \<lparr>crb_type = \<lparr>tm_kind = ''ClusterRoleBinding'', tm_apiVersion = ''rbac.authorization.k8s.io/v1''\<rparr>,
      crb_meta = (named_meta name namespace)\<lparr>om_labels := labels\<rparr>,
      crb_roleRef = \<lparr>rf_kind = ''ClusterRole'', rf_name = name, rf_apiGroup = ''rbac.authorization.k8s.io''\<rparr>,
      crb_subjects = Some [\<lparr>sj_kind = ''ServiceAccount'', sj_name = name, sj_namespace = namespace\<rparr>]\<rparr>"

definition newPublisherProxyService :: "string \<Rightarrow> string \<Rightarrow> gomap \<Rightarrow> gomap \<Rightarrow> Service" where
  "newPublisherProxyService name namespace labels selectorLabels =
     \<lparr>svc_type = \<lparr>tm_kind = ''Service'', tm_apiVersion = ''v1''\<rparr>,
      svc_meta = (named_meta name namespace)\<lparr>om_labels := labels\<rparr>,
      svc_selector = selectorLabels,
      svc_ports = Some [\<lparr>sp_name = ''http-client'', sp_protocol = ''TCP'', sp_port = 80, sp_targetPort = 8080\<rparr>]\<rparr>"

definition newPublisherProxyMetricsService :: "string \<Rightarrow> string \<Rightarrow> gomap \<Rightarrow> gomap \<Rightarrow> Service" where
  "newPublisherProxyMetricsService name namespace labels selectorLabels =
     \<lparr>svc_type = \<lparr>tm_kind = ''Service'', tm_apiVersion = ''v1''\<rparr>,
      svc_meta = (named_meta name namespace)
        \<lparr>om_labels := labels,
         om_annotations := Some (fmap_of_list [(''prometheus.io/scrape'', ''true''),
           (''prometheus.io/port'', ''9090''), (''prometheus.io/scheme'', ''http'')])\<rparr>,
      svc_selector = selectorLabels,
      svc_ports = Some [\<lparr>sp_name = ''http-metrics'', sp_protocol = ''TCP'', sp_port = 80, sp_targetPort = 9090\<rparr>]\<rparr>"

definition newPublisherProxyHealthService :: "string \<Rightarrow> string \<Rightarrow> gomap \<Rightarrow> gomap \<Rightarrow> Service" where
  "newPublisherProxyHealthService name namespace labels selectorLabels =
     \<lparr>svc_type = \<lparr>tm_kind = ''Service'', tm_apiVersion = ''v1''\<rparr>,
      svc_meta = (named_meta name namespace)\<lparr>om_labels := labels\<rparr>,
      svc_selector = selectorLabels,
      svc_ports = Some [\<lparr>sp_name = ''http-status'', sp_protocol = ''TCP'', sp_port = 15020, sp_targetPort = 15020\<rparr>]\<rparr>"

definition getECBackendType :: "string \<Rightarrow> string" where
  "getECBackendType backendType =
     (if backendType = EventMeshBackendType then EventMeshBackendType else NatsBackendType)"

subsection \<open>The parts of the deployment\<close>

abbreviation PublisherName :: string where "PublisherName \<equiv> ''eventing-publisher-proxy''"
abbreviation publisherPortNum :: int where "publisherPortNum \<equiv> 8080"
abbreviation PublisherSecretClientIDKey :: string where "PublisherSecretClientIDKey \<equiv> ''client-id''"
abbreviation PublisherSecretClientSecretKey :: string where "PublisherSecretClientSecretKey \<equiv> ''client-secret''"
abbreviation PublisherSecretTokenEndpointKey :: string where "PublisherSecretTokenEndpointKey \<equiv> ''token-endpoint''"
abbreviation PublisherSecretEMSURLKey :: string where "PublisherSecretEMSURLKey \<equiv> ''ems-publish-url''"
abbreviation PublisherSecretBEBNamespaceKey :: string where "PublisherSecretBEBNamespaceKey \<equiv> ''beb-namespace''"
abbreviation PriorityClassName :: string where "PriorityClassName \<equiv> ''eventing-manager-priority-class''"

definition EqualFold :: "string \<Rightarrow> string \<Rightarrow> bool" where
  "EqualFold s t \<longleftrightarrow> ToLower s = ToLower t"

definition getPodSecurityContext :: PodSecurityContext where
  "getPodSecurityContext =
     \<lparr>psc_fsGroup = Some 10001, psc_runAsUser = Some 10001, psc_runAsGroup = Some 10001,
      psc_runAsNonRoot = Some True, psc_seccompProfile = Some ''RuntimeDefault''\<rparr>"

definition getLabels :: "string \<Rightarrow> string \<Rightarrow> (string, string) fmap" where
  "getLabels publisherName backendType = fmap_of_list
     [(KeyComponent, ValueEventingManager), (KeyCreatedBy, ValueEventingManager),
      (KeyInstance, ValueEventing), (KeyManagedBy, ValueEventingManager), (KeyName, publisherName),
      (KeyPartOf, ValueEventingManager), (KeyBackend, getECBackendType backendType),
      (KeyDashboard, ValueEventing)]"

definition getSelector :: "string \<Rightarrow> (string, string) fmap" where
  "getSelector publisherName = fmap_of_list
     [(KeyInstance, ValueEventing), (KeyName, publisherName), (KeyDashboard, ValueEventing)]"

definition getImagePullPolicy :: "string \<Rightarrow> string" where
  "getImagePullPolicy imagePullPolicy =
     (if imagePullPolicy = ''IfNotPresent'' then ''IfNotPresent''
      else if imagePullPolicy = ''Always'' then ''Always''
      else if imagePullPolicy = ''Never'' then ''Never''
      else ''IfNotPresent'')"

definition getContainerSecurityContext :: SecurityContext where
  "getContainerSecurityContext =
     \<lparr>sc_privileged = Some False, sc_allowPrivilegeEscalation = Some False, sc_runAsNonRoot = Some True,
      sc_dropCapabilities = [''ALL'']\<rparr>"

definition getReadinessProbe :: Probe where
  "getReadinessProbe =
     \<lparr>pb_httpGet = Some \<lparr>hg_path = ''/readyz'', hg_port = 8080, hg_scheme = ''HTTP''\<rparr>,
      pb_initialDelaySeconds = 0, pb_timeoutSeconds = 0, pb_periodSeconds = 0, pb_successThreshold = 0,
      pb_failureThreshold = 3\<rparr>"

definition getLivenessProbe :: Probe where
  "getLivenessProbe =
     \<lparr>pb_httpGet = Some \<lparr>hg_path = ''/healthz'', hg_port = 8080, hg_scheme = ''HTTP''\<rparr>,
      pb_initialDelaySeconds = 5, pb_timeoutSeconds = 1, pb_periodSeconds = 2, pb_successThreshold = 1,
      pb_failureThreshold = 3\<rparr>"

definition getContainerPorts :: "ContainerPort list" where
  "getContainerPorts =
     [\<lparr>cp_name = ''http'', cp_containerPort = publisherPortNum, cp_protocol = ''''\<rparr>,
      \<lparr>cp_name = ''http-metrics'', cp_containerPort = 9090, cp_protocol = ''''\<rparr>]"

definition env_value :: "string \<Rightarrow> string \<Rightarrow> EnvVar" where
  "env_value name v = \<lparr>ev_name = name, ev_value = v, ev_secretKeyRef = None\<rparr>"

definition env_secret :: "string \<Rightarrow> string \<Rightarrow> string \<Rightarrow> EnvVar" where
  "env_secret name secret key = \<lparr>ev_name = name, ev_value = '''', ev_secretKeyRef = Some (secret, key)\<rparr>"

definition FormatBool :: "bool \<Rightarrow> string" where
  "FormatBool b = (if b then ''true'' else ''false'')"

definition getLogEnvVars :: "PublisherConfig \<Rightarrow> Eventing \<Rightarrow> EnvVar list" where
  "getLogEnvVars publisherConfig eventing =
     [env_value ''APP_LOG_FORMAT'' (pc_appLogFormat publisherConfig),
      env_value ''APP_LOG_LEVEL'' (ToLower (es_logLevel (eg_spec eventing)))]"

text \<open>The functions that read \<^verbatim>\<open>eventing.Spec.Backend\<close> panic if it is nil.\<close>

definition backend_config :: "Eventing \<Rightarrow> BackendConfig result" where
  "backend_config eventing =
     (case es_backend (eg_spec eventing) of None \<Rightarrow> Crash nil_backend | Some b \<Rightarrow> Ret (eb_config b))"

definition getNATSEnvVars :: "NATSConfig \<Rightarrow> PublisherConfig \<Rightarrow> Eventing \<Rightarrow> EnvVar list result" where
  "getNATSEnvVars natsConfig publisherConfig eventing =
     (case backend_config eventing of
        Ret c \<Rightarrow> Ret
          [env_value ''BACKEND'' ''nats'', env_value ''PORT'' (Itoa publisherPortNum),
           env_value ''NATS_URL'' (nc_URL natsConfig),
           env_value ''REQUEST_TIMEOUT'' (pc_requestTimeout publisherConfig),
           env_value ''LEGACY_NAMESPACE'' ''kyma'',
           env_value ''EVENT_TYPE_PREFIX'' (bc_eventTypePrefix c),
           env_value ''APPLICATION_CRD_ENABLED'' (FormatBool (pc_applicationCRDEnabled publisherConfig)),
           env_value ''JS_STREAM_NAME'' (nc_JSStreamName natsConfig)]
      | Err e \<Rightarrow> Err e | Crash p \<Rightarrow> Crash p)"

definition getEventMeshEnvVars :: "string \<Rightarrow> PublisherConfig \<Rightarrow> Eventing \<Rightarrow> EnvVar list result" where
  "getEventMeshEnvVars publisherName publisherConfig eventing =
     (case backend_config eventing of
        Ret c \<Rightarrow> Ret
          [env_value ''BACKEND'' ''beb'', env_value ''PORT'' (Itoa publisherPortNum),
           env_value ''EVENT_TYPE_PREFIX'' (bc_eventTypePrefix c),
           env_value ''APPLICATION_CRD_ENABLED'' (FormatBool (pc_applicationCRDEnabled publisherConfig)),
           env_value ''REQUEST_TIMEOUT'' (pc_requestTimeout publisherConfig),
           env_secret ''CLIENT_ID'' publisherName PublisherSecretClientIDKey,
           env_secret ''CLIENT_SECRET'' publisherName PublisherSecretClientSecretKey,
           env_secret ''TOKEN_ENDPOINT'' publisherName PublisherSecretTokenEndpointKey,
           env_secret ''EMS_PUBLISH_URL'' publisherName PublisherSecretEMSURLKey,
           env_secret ''BEB_NAMESPACE_VALUE'' publisherName PublisherSecretBEBNamespaceKey,
           env_value ''BEB_NAMESPACE'' (''/'' @ ''$(BEB_NAMESPACE_VALUE)'')]
      | Err e \<Rightarrow> Err e | Crash p \<Rightarrow> Crash p)"

definition getResources ::
  "(string \<Rightarrow> Quantity option) \<Rightarrow> string \<Rightarrow> string \<Rightarrow> string \<Rightarrow> string \<Rightarrow> ResourceRequirements result" where
  "getResources parse_q requestsCPU requestsMemory limitsCPU limitsMemory =
     (case (parse_q requestsCPU, parse_q requestsMemory, parse_q limitsCPU, parse_q limitsMemory) of
        (Some rc, Some rm, Some lc, Some lm) \<Rightarrow>
          Ret \<lparr>rq_requests = Some (fmap_of_list [(''cpu'', rc), (''memory'', rm)]),
               rq_limits = Some (fmap_of_list [(''cpu'', lc), (''memory'', lm)])\<rparr>
      | _ \<Rightarrow> Crash ''cannot parse quantity'')"

subsection \<open>Options\<close>

type_synonym DeployOpt = "Deployment \<Rightarrow> Deployment result"

definition map_template :: "(PodTemplateSpec \<Rightarrow> PodTemplateSpec) \<Rightarrow> Deployment \<Rightarrow> Deployment" where
  "map_template f d = d\<lparr>dep_spec := (dep_spec d)\<lparr>ds_template := f (ds_template (dep_spec d))\<rparr>\<rparr>"

definition map_pod :: "(PodSpec \<Rightarrow> PodSpec) \<Rightarrow> Deployment \<Rightarrow> Deployment" where
  "map_pod f = map_template (\<lambda>t. t\<lparr>pt_spec := f (pt_spec t)\<rparr>)"

definition WithLabels :: "string \<Rightarrow> string \<Rightarrow> DeployOpt" where
  "WithLabels publisherName backendType d =
     (let labels = Some (getLabels publisherName backendType) in
      Ret (map_template (\<lambda>t. t\<lparr>pt_meta := (pt_meta t)\<lparr>om_labels := labels\<rparr>\<rparr>)
             (d\<lparr>dep_meta := (dep_meta d)\<lparr>om_labels := labels\<rparr>\<rparr>)))"

definition WithSelector :: "string \<Rightarrow> DeployOpt" where
  "WithSelector publisherName d =
     Ret (d\<lparr>dep_spec := (dep_spec d)\<lparr>ds_selector := Some (Some (getSelector publisherName))\<rparr>\<rparr>)"

definition WithPriorityClassName :: "string \<Rightarrow> DeployOpt" where
  "WithPriorityClassName name d = Ret (map_pod (\<lambda>p. p\<lparr>ps_priorityClassName := name\<rparr>) d)"

definition WithAffinity :: "string \<Rightarrow> DeployOpt" where
  "WithAffinity publisherName d =
     Ret (map_pod (\<lambda>p. p\<lparr>ps_podAntiAffinity := Some
            [\<lparr>pa_weight = 100, pa_matchLabels = Some (fmap_of_list [(KeyName, publisherName)]),
              pa_topologyKey = ''kubernetes.io/hostname''\<rparr>]\<rparr>) d)"

definition WithContainers ::
  "(string \<Rightarrow> Quantity option) \<Rightarrow> PublisherConfig \<Rightarrow> Eventing \<Rightarrow> DeployOpt" where
  "WithContainers parse_q publisherConfig eventing d =
     (let r = pub_resources (es_publisher (eg_spec eventing)) in
      case getResources parse_q (quantity_string ''cpu'' (rq_requests r)) (quantity_string ''memory'' (rq_requests r))
             (quantity_string ''cpu'' (rq_limits r)) (quantity_string ''memory'' (rq_limits r)) of
        Ret resources \<Rightarrow>
          Ret (map_pod (\<lambda>p. p\<lparr>ps_containers :=
            [\<lparr>c_name = GetPublisherDeploymentName eventing, c_image = pc_image publisherConfig,
              c_ports = getContainerPorts, c_env = [], c_resources = resources,
              c_livenessProbe = Some getLivenessProbe, c_readinessProbe = Some getReadinessProbe,
              c_imagePullPolicy = getImagePullPolicy (pc_imagePullPolicy publisherConfig),
              c_securityContext = Some getContainerSecurityContext\<rparr>]\<rparr>) d)
      | Err e \<Rightarrow> Err e | Crash p \<Rightarrow> Crash p)"

text \<open>The loop over the containers that three of the options run, on those with the publisher's name.\<close>

definition on_containers :: "string \<Rightarrow> (Container \<Rightarrow> Container) \<Rightarrow> Deployment \<Rightarrow> Deployment" where
  "on_containers name f =
     map_pod (\<lambda>p. p\<lparr>ps_containers := map (\<lambda>c. if EqualFold (c_name c) name then f c else c) (ps_containers p)\<rparr>)"

definition any_container :: "string \<Rightarrow> Deployment \<Rightarrow> bool" where
  "any_container name d \<longleftrightarrow>
     list_ex (\<lambda>c. EqualFold (c_name c) name) (ps_containers (pt_spec (ds_template (dep_spec d))))"

definition WithLogEnvVars :: "PublisherConfig \<Rightarrow> Eventing \<Rightarrow> DeployOpt" where
  "WithLogEnvVars publisherConfig eventing d =
     Ret (on_containers (GetPublisherDeploymentName eventing)
            (\<lambda>c. c\<lparr>c_env := c_env c @ getLogEnvVars publisherConfig eventing\<rparr>) d)"

definition WithNATSEnvVars :: "NATSConfig \<Rightarrow> PublisherConfig \<Rightarrow> Eventing \<Rightarrow> DeployOpt" where
  "WithNATSEnvVars natsConfig publisherConfig eventing d =
     (if \<not> any_container (GetPublisherDeploymentName eventing) d then Ret d
      else case getNATSEnvVars natsConfig publisherConfig eventing of
        Ret env \<Rightarrow> Ret (on_containers (GetPublisherDeploymentName eventing) (\<lambda>c. c\<lparr>c_env := env\<rparr>) d)
      | Err e \<Rightarrow> Err e | Crash p \<Rightarrow> Crash p)"

definition WithBEBEnvVars :: "string \<Rightarrow> PublisherConfig \<Rightarrow> Eventing \<Rightarrow> DeployOpt" where
  "WithBEBEnvVars publisherName publisherConfig eventing d =
     (if \<not> any_container publisherName d then Ret d
      else case getEventMeshEnvVars publisherName publisherConfig eventing of
        Ret env \<Rightarrow> Ret (on_containers publisherName (\<lambda>c. c\<lparr>c_env := env\<rparr>) d)
      | Err e \<Rightarrow> Err e | Crash p \<Rightarrow> Crash p)"

fun apply_opts :: "DeployOpt list \<Rightarrow> Deployment \<Rightarrow> Deployment result" where
  "apply_opts [] d = Ret d"
| "apply_opts (opt # opts) d =
     (case opt d of Ret d' \<Rightarrow> apply_opts opts d' | Err e \<Rightarrow> Err e | Crash p \<Rightarrow> Crash p)"

definition newDeployment :: "Eventing \<Rightarrow> PublisherConfig \<Rightarrow> DeployOpt list \<Rightarrow> Deployment result" where
  "newDeployment eventing publisherConfig opts =
     apply_opts opts
       \<lparr>dep_type = \<lparr>tm_kind = deploymentKind, tm_apiVersion = appsV1APIVersion\<rparr>,
        dep_meta = named_meta (GetPublisherDeploymentName eventing) (eg_namespace eventing),
        dep_spec = \<lparr>ds_replicas = None, ds_selector = None, ds_template =
          \<lparr>pt_meta = named_meta (GetPublisherDeploymentName eventing) '''', pt_spec =
            \<lparr>ps_containers = [], ps_serviceAccountName = GetPublisherServiceAccountName eventing,
             ps_restartPolicy = ''Always'', ps_terminationGracePeriodSeconds = Some 30,
             ps_priorityClassName = pc_priorityClassName publisherConfig,
             ps_securityContext = Some getPodSecurityContext, ps_podAntiAffinity = None\<rparr>\<rparr>\<rparr>,
        dep_status = \<lparr>dst_availableReplicas = 0, dst_readyReplicas = 0, dst_updatedReplicas = 0\<rparr>\<rparr>"

definition newNATSPublisherDeployment ::
  "(string \<Rightarrow> Quantity option) \<Rightarrow> Eventing \<Rightarrow> NATSConfig \<Rightarrow> PublisherConfig \<Rightarrow> Deployment result" where
  "newNATSPublisherDeployment parse_q eventing natsConfig publisherConfig =
     newDeployment eventing publisherConfig
       [WithLabels (GetPublisherDeploymentName eventing) NatsBackendType,
        WithSelector (GetPublisherDeploymentName eventing),
        WithContainers parse_q publisherConfig eventing,
        WithNATSEnvVars natsConfig publisherConfig eventing,
        WithLogEnvVars publisherConfig eventing,
        WithAffinity (GetPublisherDeploymentName eventing),
        WithPriorityClassName PriorityClassName]"

definition newEventMeshPublisherDeployment ::
  "(string \<Rightarrow> Quantity option) \<Rightarrow> Eventing \<Rightarrow> PublisherConfig \<Rightarrow> Deployment result" where
  "newEventMeshPublisherDeployment parse_q eventing publisherConfig =
     newDeployment eventing publisherConfig
       [WithLabels (GetPublisherDeploymentName eventing) EventMeshBackendType,
        WithSelector (GetPublisherDeploymentName eventing),
        WithContainers parse_q publisherConfig eventing,
        WithBEBEnvVars (GetPublisherDeploymentName eventing) publisherConfig eventing,
        WithLogEnvVars publisherConfig eventing,
        WithPriorityClassName PriorityClassName]"

subsection \<open>The deployments are well formed\<close>

lemmas deploy_opts =
  newDeployment_def WithLabels_def WithSelector_def WithContainers_def WithNATSEnvVars_def WithBEBEnvVars_def
  WithLogEnvVars_def WithAffinity_def WithPriorityClassName_def any_container_def on_containers_def
  map_pod_def map_template_def EqualFold_def

text \<open>
  The pods carry the labels that the selector asks for, the deployment has the name and
  namespace that the operator looks it up with, and its one container runs the configured
  image unprivileged, with every environment variable set once.
\<close>

definition pods_selected :: "Deployment \<Rightarrow> bool" where
  "pods_selected d \<longleftrightarrow>
     (case ds_selector (dep_spec d) of
        Some (Some sel) \<Rightarrow> sel \<subseteq>\<^sub>f entries (om_labels (pt_meta (ds_template (dep_spec d))))
      | _ \<Rightarrow> False)"

definition container_ok :: "string \<Rightarrow> PublisherConfig \<Rightarrow> Container \<Rightarrow> bool" where
  "container_ok backend publisherConfig c \<longleftrightarrow>
     c_image c = pc_image publisherConfig \<and> distinct_on ev_name (c_env c) \<and>
     env_value ''BACKEND'' backend \<in> set (c_env c) \<and> c_securityContext c = Some getContainerSecurityContext"

definition publisher_ok :: "string \<Rightarrow> PublisherConfig \<Rightarrow> Eventing \<Rightarrow> Deployment \<Rightarrow> bool" where
  "publisher_ok backend publisherConfig eventing d \<longleftrightarrow>
     om_name (dep_meta d) = GetPublisherDeploymentName eventing \<and>
     om_namespace (dep_meta d) = eg_namespace eventing \<and> pods_selected d \<and>
     om_labels (dep_meta d) = om_labels (pt_meta (ds_template (dep_spec d))) \<and>
     length (ps_containers (pt_spec (ds_template (dep_spec d)))) = 1 \<and>
     container_ok backend publisherConfig (hd (ps_containers (pt_spec (ds_template (dep_spec d)))))"

lemma selector_subset_labels: "getSelector n \<subseteq>\<^sub>f getLabels n b"
  by (simp add: getSelector_def getLabels_def fmsubset.rep_eq map_le_def)

lemma getNATSEnvVars_names:
  "es_backend (eg_spec e) = Some b \<Longrightarrow>
   \<exists>env. getNATSEnvVars c p e = Ret env \<and> distinct_on ev_name (env @ getLogEnvVars p e) \<and>
     env_value ''BACKEND'' ''nats'' \<in> set env"
  by (simp add: getNATSEnvVars_def backend_config_def getLogEnvVars_def env_value_def)

lemma getEventMeshEnvVars_names:
  "es_backend (eg_spec e) = Some b \<Longrightarrow>
   \<exists>env. getEventMeshEnvVars n p e = Ret env \<and> distinct_on ev_name (env @ getLogEnvVars p e) \<and>
     env_value ''BACKEND'' ''beb'' \<in> set env"
  by (simp add: getEventMeshEnvVars_def backend_config_def getLogEnvVars_def env_value_def env_secret_def)

definition quantities_parse :: "(string \<Rightarrow> Quantity option) \<Rightarrow> ResourceRequirements \<Rightarrow> bool" where
  "quantities_parse parse_q r \<longleftrightarrow>
     list_all (\<lambda>s. parse_q s \<noteq> None)
       [quantity_string ''cpu'' (rq_requests r), quantity_string ''memory'' (rq_requests r),
        quantity_string ''cpu'' (rq_limits r), quantity_string ''memory'' (rq_limits r)]"

lemma getResources_Ret:
  "quantities_parse parse_q r \<Longrightarrow>
   \<exists>rs. getResources parse_q (quantity_string ''cpu'' (rq_requests r)) (quantity_string ''memory'' (rq_requests r))
     (quantity_string ''cpu'' (rq_limits r)) (quantity_string ''memory'' (rq_limits r)) = Ret rs"
  by (auto simp: quantities_parse_def getResources_def)

lemma nats_publisher_ok:
  assumes "es_backend (eg_spec eventing) = Some b"
    and "quantities_parse parse_q (pub_resources (es_publisher (eg_spec eventing)))"
  shows "\<exists>d. newNATSPublisherDeployment parse_q eventing natsConfig pc = Ret d \<and> publisher_ok ''nats'' pc eventing d"
proof -
  obtain env where env: "getNATSEnvVars natsConfig pc eventing = Ret env"
      "distinct_on ev_name (env @ getLogEnvVars pc eventing)" "env_value ''BACKEND'' ''nats'' \<in> set env"
    using getNATSEnvVars_names [OF assms(1)] by blast
  with getResources_Ret [OF assms(2)] show ?thesis
    by (auto simp: newNATSPublisherDeployment_def deploy_opts Let_def publisher_ok_def pods_selected_def
        container_ok_def selector_subset_labels)
qed

lemma eventmesh_publisher_ok:
  assumes "es_backend (eg_spec eventing) = Some b"
    and "quantities_parse parse_q (pub_resources (es_publisher (eg_spec eventing)))"
  shows "\<exists>d. newEventMeshPublisherDeployment parse_q eventing pc = Ret d \<and> publisher_ok ''beb'' pc eventing d"
proof -
  obtain env where env: "getEventMeshEnvVars (GetPublisherDeploymentName eventing) pc eventing = Ret env"
      "distinct_on ev_name (env @ getLogEnvVars pc eventing)" "env_value ''BACKEND'' ''beb'' \<in> set env"
    using getEventMeshEnvVars_names [OF assms(1)] by blast
  with getResources_Ret [OF assms(2)] show ?thesis
    by (auto simp: newEventMeshPublisherDeployment_def deploy_opts Let_def publisher_ok_def pods_selected_def
        container_ok_def selector_subset_labels)
qed

text \<open>
  C31. For an Eventing resource with a backend, whose resource quantities parse, both deployment
  constructors return a deployment whose selector matches its pods, with the name and namespace
  under which it is looked up and a single unprivileged container that runs the configured image
  with pairwise different environment variables, one of which names the backend.
\<close>

theorem publisher_deployments_ok:
  assumes "es_backend (eg_spec eventing) = Some b"
    and "quantities_parse parse_q (pub_resources (es_publisher (eg_spec eventing)))"
  shows "(\<exists>d. newNATSPublisherDeployment parse_q eventing natsConfig pc = Ret d \<and>
      publisher_ok ''nats'' pc eventing d) \<and>
    (\<exists>d. newEventMeshPublisherDeployment parse_q eventing pc = Ret d \<and> publisher_ok ''beb'' pc eventing d)"
  using nats_publisher_ok [OF assms] eventmesh_publisher_ok [OF assms] by blast

subsection \<open>An example\<close>

definition example_backend_config :: BackendConfig where
  "example_backend_config =
     \<lparr>bc_natsStreamStorageType = ''File'', bc_natsStreamReplicas = 3,
      bc_natsStreamMaxSize = \<lparr>q_text = ''700Mi''\<rparr>, bc_natsMaxMsgsPerTopic = 1000000,
      bc_eventMeshSecret = ''kyma-system/em'', bc_eventTypePrefix = ''sap.kyma.custom'', bc_domain = ''kyma.io''\<rparr>"

definition example_eventing :: "string \<Rightarrow> Eventing" where
  "example_eventing backendType =
     \<lparr>eg_name = ''eventing'', eg_namespace = ''kyma-system'', eg_uid = ''uid-1'',
      eg_finalizers = [''eventing.operator.kyma-project.io/finalizer''], eg_deletionTimestamp = None,
      eg_spec = \<lparr>es_backend = Some \<lparr>eb_type = backendType, eb_config = example_backend_config\<rparr>,
        es_publisher = \<lparr>pub_min = 2, pub_max = 2, pub_resources = \<lparr>rq_requests = None, rq_limits = None\<rparr>\<rparr>,
        es_logLevel = ''Info'', es_annotations = None, es_labels = None\<rparr>,
      eg_status = \<lparr>gs_activeBackend = backendType, gs_backendConfigHash = 1, gs_state = ''Ready'',
        gs_publisherService = ''eventing-publisher-proxy.kyma-system'', gs_conditions = []\<rparr>\<rparr>"

definition example_publisher_config :: PublisherConfig where
  "example_publisher_config =
     \<lparr>pc_image = ''publisher:1.4.0'', pc_imagePullPolicy = ''IfNotPresent'', pc_portNum = 8080,
      pc_metricsPortNum = 8080, pc_serviceAccount = ''eventing-publisher-proxy'', pc_requestTimeout = ''5s'',
      pc_priorityClassName = '''', pc_appLogFormat = ''json'', pc_applicationCRDEnabled = False\<rparr>"

definition example_parse :: "string \<Rightarrow> Quantity option" where
  "example_parse s = (if s = '''' then None else Some \<lparr>q_text = s\<rparr>)"

lemma example_eventing_simps [simp]:
  "es_backend (eg_spec (example_eventing t)) = Some \<lparr>eb_type = t, eb_config = example_backend_config\<rparr>"
  "pub_resources (es_publisher (eg_spec (example_eventing t))) = \<lparr>rq_requests = None, rq_limits = None\<rparr>"
  "eg_name (example_eventing t) = ''eventing''" "eg_namespace (example_eventing t) = ''kyma-system''"
  by (simp_all add: example_eventing_def)

lemma example_quantities:
  "quantities_parse example_parse (pub_resources (es_publisher (eg_spec (example_eventing t))))"
  by (simp add: quantities_parse_def example_parse_def quantity_string_def)

theorem publisher_deployments_ok_witness:
  "\<exists>d. newEventMeshPublisherDeployment example_parse (example_eventing ''EventMesh'') example_publisher_config = Ret d \<and>
     publisher_ok ''beb'' example_publisher_config (example_eventing ''EventMesh'') d"
  by (rule publisher_deployments_ok [THEN conjunct2, OF example_eventing_simps(1) example_quantities])

text \<open>
  The replica bounds of the autoscaler are converted to 32 bits: bounds in that range are kept,
  larger ones wrap around, since the custom resource definition sets no upper limit.
\<close>

lemma int32_id: "- (2 ^ 31) \<le> n \<Longrightarrow> n < 2 ^ 31 \<Longrightarrow> int32 n = n"
  by (simp add: int32_def signed_take_bit_int_eq_self)

lemma int32_wraps: "int32 (2 ^ 32 + 1) = 1"
  by (simp add: int32_def)

end
