(* ===== verification/Kube_Client.thy ===== *)
theory Kube_Client
  imports Publisher_Proxy
begin

section \<open>The Kubernetes client of the operator (pkg/k8s/client.go)\<close>

text \<open>
  \<^verbatim>\<open>KubeClient\<close> wraps the controller-runtime client, the API extensions client and the dynamic
  client. These three are the fields of \<open>raw_client\<close>, on a type \<open>'k\<close> of cluster states: reads
  are functions of the state, writes return the new one, and a write that fails may have
  changed it. \<^verbatim>\<open>Patch\<close> and \<^verbatim>\<open>Get\<close> fill in the object they are given, so the applied object is
  returned as the server answers it. The methods of \<^verbatim>\<open>KubeClient\<close> are the definitions of this
  theory.
\<close>

record NATS =
  nats_name :: string
  nats_namespace :: string
  nats_state :: string

record 'k raw_client =
  rc_GetDeployment :: "string \<Rightarrow> string \<Rightarrow> 'k \<Rightarrow> goerr + Deployment"
  rc_UpdateDeployment :: "Deployment \<Rightarrow> 'k \<Rightarrow> goerr option \<times> 'k"
  rc_Delete :: "k8s_object \<Rightarrow> 'k \<Rightarrow> goerr option \<times> 'k"
  rc_Patch :: "k8s_object \<Rightarrow> 'k \<Rightarrow> (goerr + k8s_object) \<times> 'k"
  rc_ListNATS :: "string \<Rightarrow> 'k \<Rightarrow> goerr + (goerr option \<times> (goerr + NATS) list)"
  rc_GetSecret :: "string \<Rightarrow> string \<Rightarrow> 'k \<Rightarrow> goerr + Secret"
  rc_GetCRD :: "string \<Rightarrow> 'k \<Rightarrow> goerr option"
  rc_ListSubscriptions :: "'k \<Rightarrow> goerr + Subscription list"
  rc_GetConfigMap :: "string \<Rightarrow> string \<Rightarrow> 'k \<Rightarrow> goerr + gomap"
  rc_GetEventing :: "string \<Rightarrow> string \<Rightarrow> 'k \<Rightarrow> goerr + Eventing"
  rc_UpdateEventing :: "Eventing \<Rightarrow> 'k \<Rightarrow> goerr option \<times> 'k"
  rc_StatusUpdateEventing :: "Eventing \<Rightarrow> 'k \<Rightarrow> goerr option \<times> 'k"

definition IgnoreNotFound :: "goerr \<Rightarrow> goerr option" where
  "IgnoreNotFound err = (if err_has_kind KNotFound err then None else Some err)"

text \<open>A deployment that does not exist is returned as nil without an error.\<close>

definition GetDeployment :: "'k raw_client \<Rightarrow> string \<Rightarrow> string \<Rightarrow> 'k \<Rightarrow> Deployment option result" where
  "GetDeployment c name namespace k =
     (case rc_GetDeployment c name namespace k of
        Inl err \<Rightarrow> (case IgnoreNotFound err of None \<Rightarrow> Ret None | Some e \<Rightarrow> Err e)
      | Inr d \<Rightarrow> Ret (Some d))"

definition UpdateDeployment :: "'k raw_client \<Rightarrow> Deployment \<Rightarrow> 'k \<Rightarrow> ('k, unit) outcome" where
  "UpdateDeployment c deployment k =
     (case rc_UpdateDeployment c deployment k of (err, k') \<Rightarrow> (of_err err, k'))"

definition delete_ignoring :: "'k raw_client \<Rightarrow> k8s_object \<Rightarrow> 'k \<Rightarrow> ('k, unit) outcome" where
  "delete_ignoring c x k =
     (case rc_Delete c x k of
        (Some err, k') \<Rightarrow> (of_err (IgnoreNotFound err), k')
      | (None, k') \<Rightarrow> (Ret (), k'))"

abbreviation no_type :: TypeMeta where
  "no_type \<equiv> \<lparr>tm_kind = '''', tm_apiVersion = ''''\<rparr>"

definition DeleteClusterRole :: "'k raw_client \<Rightarrow> string \<Rightarrow> string \<Rightarrow> 'k \<Rightarrow> ('k, unit) outcome" where
  "DeleteClusterRole c name namespace =
     delete_ignoring c (OClusterRole \<lparr>cr_type = no_type, cr_meta = named_meta name namespace, cr_rules = None\<rparr>)"

definition DeleteClusterRoleBinding :: "'k raw_client \<Rightarrow> string \<Rightarrow> string \<Rightarrow> 'k \<Rightarrow> ('k, unit) outcome" where
  "DeleteClusterRoleBinding c name namespace =
     delete_ignoring c (OClusterRoleBinding
       \<lparr>crb_type = no_type, crb_meta = named_meta name namespace,
        crb_roleRef = \<lparr>rf_kind = '''', rf_name = '''', rf_apiGroup = ''''\<rparr>, crb_subjects = None\<rparr>)"

definition DeleteResource :: "'k raw_client \<Rightarrow> k8s_object \<Rightarrow> 'k \<Rightarrow> ('k, unit) outcome" where
  "DeleteResource c x = delete_ignoring c x"

fun convert_all :: "(goerr + 'a) list \<Rightarrow> 'a list \<Rightarrow> 'a list result" where
  "convert_all [] acc = Ret acc"
| "convert_all (Inl err # xs) acc = Err err"
| "convert_all (Inr x # xs) acc = convert_all xs (acc @ [x])"

definition GetNATSResources :: "'k raw_client \<Rightarrow> string \<Rightarrow> 'k \<Rightarrow> NATS list result" where
  "GetNATSResources c namespace k =
     (case rc_ListNATS c namespace k of
        Inl err \<Rightarrow> Err err
      | Inr (Some err, xs) \<Rightarrow> Err err
      | Inr (None, xs) \<Rightarrow> convert_all xs [])"

definition PatchApply :: "'k raw_client \<Rightarrow> k8s_object \<Rightarrow> 'k \<Rightarrow> ('k, k8s_object) outcome" where
  "PatchApply c x k =
     (case rc_Patch c x k of (Inl err, k') \<Rightarrow> (Err err, k') | (Inr y, k') \<Rightarrow> (Ret y, k'))"

abbreviation ErrSecretRefInvalid :: goerr where
  "ErrSecretRefInvalid \<equiv>
     Sentinel (''invalid namespaced name. It must be in the format of '' @ [CHR 0x27] @ ''namespace/name'' @ [CHR 0x27])"

definition GetSecret :: "'k raw_client \<Rightarrow> string \<Rightarrow> 'k \<Rightarrow> Secret result" where
  "GetSecret c namespacedName k =
     (case split_on (CHR ''/'') namespacedName of
        [ns, name] \<Rightarrow> (case rc_GetSecret c ns name k of Inl err \<Rightarrow> Err err | Inr s \<Rightarrow> Ret s)
      | _ \<Rightarrow> Err ErrSecretRefInvalid)"

definition GetCRD :: "'k raw_client \<Rightarrow> string \<Rightarrow> 'k \<Rightarrow> unit result" where
  "GetCRD c name k = of_err (rc_GetCRD c name k)"

definition crd_exists :: "'k raw_client \<Rightarrow> string \<Rightarrow> 'k \<Rightarrow> bool result" where
  "crd_exists c name k =
     (case GetCRD c name k of
        Ret _ \<Rightarrow> Ret True
      | Err err \<Rightarrow> (case IgnoreNotFound err of None \<Rightarrow> Ret False | Some e \<Rightarrow> Err e)
      | Crash p \<Rightarrow> Crash p)"

definition ApplicationCRDExists :: "'k raw_client \<Rightarrow> 'k \<Rightarrow> bool result" where
  "ApplicationCRDExists c k = crd_exists c ''applications.applicationconnector.kyma-project.io'' k"

definition PeerAuthenticationCRDExists :: "'k raw_client \<Rightarrow> 'k \<Rightarrow> bool result" where
  "PeerAuthenticationCRDExists c k = crd_exists c ''peerauthentications.security.istio.io'' k"

definition APIRuleCRDExists :: "'k raw_client \<Rightarrow> 'k \<Rightarrow> bool result" where
  "APIRuleCRDExists c k = crd_exists c ''apirules.gateway.kyma-project.io'' k"

definition GetSubscriptions :: "'k raw_client \<Rightarrow> 'k \<Rightarrow> Subscription list result" where
  "GetSubscriptions c k = (case rc_ListSubscriptions c k of Inl err \<Rightarrow> Err err | Inr xs \<Rightarrow> Ret xs)"

definition GetConfigMap :: "'k raw_client \<Rightarrow> string \<Rightarrow> string \<Rightarrow> 'k \<Rightarrow> gomap result" where
  "GetConfigMap c name namespace k =
     (case rc_GetConfigMap c name namespace k of Inl err \<Rightarrow> Err err | Inr m \<Rightarrow> Ret m)"

lemma convert_all_Ret: "convert_all xs acc = Ret ys \<longleftrightarrow> (\<exists>zs. xs = map Inr zs \<and> ys = acc @ zs)"
  by (induction xs acc rule: convert_all.induct) (auto simp: Cons_eq_map_conv)

lemma GetNATSResources_Ret:
  "GetNATSResources c ns k = Ret ys \<longleftrightarrow> rc_ListNATS c ns k = Inr (None, map Inr ys)"
  unfolding GetNATSResources_def by (auto simp: convert_all_Ret split: sum.splits option.splits)

end
