(* ===== verification/Eventing_Manager.thy ===== *)
theory Eventing_Manager
  imports Kube_Client
begin

section \<open>The eventing manager (pkg/eventing/manager.go)\<close>

text \<open>
  The operations of \<^verbatim>\<open>EventingManager\<close>: applying the publisher deployment and the resources
  around it, deleting them, and the checks for NATS and for Subscriptions. Its only state is the
  backend configuration. \<^verbatim>\<open>controllerutil.SetControllerReference\<close> and \<^verbatim>\<open>resource.MustParse\<close> are
  the fields of \<open>op_lib\<close>.
\<close>

record op_lib =
  ol_SetControllerReference :: "Eventing \<Rightarrow> ObjectMeta \<Rightarrow> goerr + ObjectMeta"
  ol_parse :: "string \<Rightarrow> Quantity option"

abbreviation ErrUnknownBackendType :: goerr where
  "ErrUnknownBackendType \<equiv> Sentinel ''unknown backend type''"
abbreviation ErrEPPDeployFailed :: goerr where
  "ErrEPPDeployFailed \<equiv> Sentinel ''failed to apply Publisher Proxy deployment''"

definition allowedAnnotations :: "string list" where
  "allowedAnnotations = [''kubectl.kubernetes.io/restartedAt'']"

definition IsNATSAvailable :: "'k raw_client \<Rightarrow> string \<Rightarrow> 'k \<Rightarrow> bool result" where
  "IsNATSAvailable c namespace k =
     (case GetNATSResources c namespace k of
        Ret natsList \<Rightarrow> Ret (list_ex (\<lambda>n. nats_state n = StateReady \<or> nats_state n = StateWarning) natsList)
      | Err err \<Rightarrow> Err err | Crash p \<Rightarrow> Crash p)"

definition migratePublisherDeploymentFromEC ::
  "op_lib \<Rightarrow> 'k raw_client \<Rightarrow> Eventing \<Rightarrow> Deployment \<Rightarrow> Deployment \<Rightarrow> 'k \<Rightarrow> ('k, unit) outcome" where
  "migratePublisherDeploymentFromEC lib c eventing currentPublisher desiredPublisher k =
     (if length (om_ownerReferences (dep_meta currentPublisher)) = 1 \<and>
         or_name (om_ownerReferences (dep_meta currentPublisher) ! 0) = eg_name eventing
      then (Ret (), k)
      else case ol_SetControllerReference lib eventing ((dep_meta currentPublisher)\<lparr>om_ownerReferences := []\<rparr>) of
        Inl err \<Rightarrow> (Err (wrap_text ''failed to set controller reference: '' err), k)
      | Inr m \<Rightarrow> UpdateDeployment c (currentPublisher\<lparr>dep_meta := m, dep_spec := dep_spec desiredPublisher\<rparr>) k)"

text \<open>The annotations of the current pod template that survive.\<close>

definition preserve_annotations :: "Deployment \<Rightarrow> Deployment \<Rightarrow> Deployment" where
  "preserve_annotations currentPublisher desiredPublisher =
     map_template (\<lambda>t. t\<lparr>pt_meta := (pt_meta t)\<lparr>om_annotations := Some
         (fmfilter (\<lambda>key. key \<in> set allowedAnnotations)
           (entries (om_annotations (pt_meta (ds_template (dep_spec currentPublisher))))))\<rparr>\<rparr>)
       desiredPublisher"

definition desired_publisher ::
  "op_lib \<Rightarrow> EnvBackendConfig \<Rightarrow> Eventing \<Rightarrow> NATSConfig option \<Rightarrow> string \<Rightarrow> Deployment result" where
  "desired_publisher lib bc eventing natsConfig backendType =
     (if backendType = NatsBackendType
      then (case natsConfig of
              None \<Rightarrow> Crash nil_pointer
            | Some nc \<Rightarrow> newNATSPublisherDeployment (ol_parse lib) eventing nc (ebc_publisherConfig bc))
      else if backendType = EventMeshBackendType
      then newEventMeshPublisherDeployment (ol_parse lib) eventing (ebc_publisherConfig bc)
      else Err (Wrapped ['''', '': '' @ Quote backendType] [ErrUnknownBackendType]))"

text \<open>From the comparison on: skip the update or apply the deployment.\<close>

definition apply_if_changed ::
  "'k raw_client \<Rightarrow> Deployment option \<Rightarrow> Deployment \<Rightarrow> 'k \<Rightarrow> ('k, Deployment) outcome" where
  "apply_if_changed c currentPublisher desiredPublisher k =
     (case currentPublisher of
        Some cur \<Rightarrow>
          if publisherProxyDeploymentEqual (Some cur) (Some desiredPublisher) then (Ret cur, k)
          else (case PatchApply c (ODeployment desiredPublisher) k of
                  (Ret (ODeployment d), k') \<Rightarrow> (Ret d, k')
                | (Ret _, k') \<Rightarrow> (Ret desiredPublisher, k')
                | (Err err, k') \<Rightarrow> (Err (Wrapped ['''', '': ''] [ErrEPPDeployFailed, err]), k')
                | (Crash p, k') \<Rightarrow> (Crash p, k'))
      | None \<Rightarrow>
          (case PatchApply c (ODeployment desiredPublisher) k of
             (Ret (ODeployment d), k') \<Rightarrow> (Ret d, k')
           | (Ret _, k') \<Rightarrow> (Ret desiredPublisher, k')
           | (Err err, k') \<Rightarrow> (Err (Wrapped ['''', '': ''] [ErrEPPDeployFailed, err]), k')
           | (Crash p, k') \<Rightarrow> (Crash p, k')))"

definition applyPublisherProxyDeployment ::
  "op_lib \<Rightarrow> 'k raw_client \<Rightarrow> EnvBackendConfig \<Rightarrow> Eventing \<Rightarrow> NATSConfig option \<Rightarrow> string \<Rightarrow> 'k
     \<Rightarrow> ('k, Deployment) outcome" where
  "applyPublisherProxyDeployment lib c bc eventing natsConfig backendType k =
     bindR (desired_publisher lib bc eventing natsConfig backendType, k) (\<lambda>built k.
       case ol_SetControllerReference lib eventing (dep_meta built) of
         Inl err \<Rightarrow> (Err (wrap_text ''failed to set controller reference: '' err), k)
       | Inr m \<Rightarrow>
           let desiredPublisher = built\<lparr>dep_meta := m\<rparr> in
           (case GetDeployment c (GetPublisherDeploymentName eventing) (eg_namespace eventing) k of
              Err err \<Rightarrow> (Err (wrap_text ''failed to get Event Publisher deployment: '' err), k)
            | Crash p \<Rightarrow> (Crash p, k)
            | Ret None \<Rightarrow> apply_if_changed c None desiredPublisher k
            | Ret (Some cur) \<Rightarrow>
                let desired' = preserve_annotations cur desiredPublisher in
                (case migratePublisherDeploymentFromEC lib c eventing cur desired' k of
                   (Err err, k) \<Rightarrow> (Err (wrap_text ''failed to migrate publisher: '' err), k)
                 | (Crash p, k) \<Rightarrow> (Crash p, k)
                 | (Ret _, k) \<Rightarrow> apply_if_changed c (Some cur) desired' k)))"

definition DeployPublisherProxy ::
  "op_lib \<Rightarrow> 'k raw_client \<Rightarrow> EnvBackendConfig \<Rightarrow> Eventing \<Rightarrow> NATSConfig option \<Rightarrow> string \<Rightarrow> 'k
     \<Rightarrow> ('k, Deployment) outcome" where
  "DeployPublisherProxy lib c bc eventing natsConfig backendType k =
     applyPublisherProxyDeployment lib c bc eventing natsConfig backendType k"

definition publisher_resources :: "Eventing \<Rightarrow> Deployment \<Rightarrow> k8s_object list" where
  "publisher_resources eventing publisherDeployment =
     (let labels = om_labels (dep_meta publisherDeployment);
          selector = om_labels (pt_meta (ds_template (dep_spec publisherDeployment)));
          ns = eg_namespace eventing
      in [OServiceAccount (newPublisherProxyServiceAccount (GetPublisherServiceAccountName eventing) ns labels),
          OClusterRole (newPublisherProxyClusterRole (GetPublisherClusterRoleName eventing) ns labels),
          OClusterRoleBinding (newPublisherProxyClusterRoleBinding (GetPublisherClusterRoleBindingName eventing) ns labels),
          OService (newPublisherProxyService (GetPublisherPublishServiceName eventing) ns labels selector),
          OService (newPublisherProxyMetricsService (GetPublisherMetricsServiceName eventing) ns labels selector),
          OService (newPublisherProxyHealthService (GetPublisherHealthServiceName eventing) ns labels selector),
          OHPA (newHorizontalPodAutoscaler (om_name (dep_meta publisherDeployment))
                  (om_namespace (dep_meta publisherDeployment)) (int32 (pub_min (es_publisher (eg_spec eventing))))
                  (int32 (pub_max (es_publisher (eg_spec eventing)))) 60 60 labels)])"

text \<open>The body of the loop: the owner reference, then the server-side apply.\<close>

definition apply_owned :: "op_lib \<Rightarrow> 'k raw_client \<Rightarrow> Eventing \<Rightarrow> k8s_object \<Rightarrow> 'k \<Rightarrow> ('k, unit) outcome" where
  "apply_owned lib c eventing x k =
     (case ol_SetControllerReference lib eventing (obj_meta x) of
        Inl err \<Rightarrow> (Err err, k)
      | Inr m \<Rightarrow> bindR (PatchApply c (set_obj_meta m x) k) (\<lambda>_ k. (Ret (), k)))"

definition DeployPublisherProxyResources ::
  "op_lib \<Rightarrow> 'k raw_client \<Rightarrow> Eventing \<Rightarrow> Deployment \<Rightarrow> 'k \<Rightarrow> ('k, unit) outcome" where
  "DeployPublisherProxyResources lib c eventing publisherDeployment k =
     for_each (apply_owned lib c eventing) (publisher_resources eventing publisherDeployment) k"

abbreviation empty_map :: gomap where "empty_map \<equiv> Some fmempty"

definition deleted_resources :: "Eventing \<Rightarrow> k8s_object list" where
  "deleted_resources eventing =
     (let ns = eg_namespace eventing; name = GetPublisherDeploymentName eventing in
      [ODeployment
         \<lparr>dep_type = \<lparr>tm_kind = deploymentKind, tm_apiVersion = appsV1APIVersion\<rparr>, dep_meta = named_meta name ns,
          dep_spec = \<lparr>ds_replicas = None, ds_selector = None, ds_template =
            \<lparr>pt_meta = named_meta '''' '''', pt_spec =
              \<lparr>ps_containers = [], ps_serviceAccountName = '''', ps_restartPolicy = '''',
               ps_terminationGracePeriodSeconds = None, ps_priorityClassName = '''',
               ps_securityContext = None, ps_podAntiAffinity = None\<rparr>\<rparr>\<rparr>,
          dep_status = \<lparr>dst_availableReplicas = 0, dst_readyReplicas = 0, dst_updatedReplicas = 0\<rparr>\<rparr>,
       OServiceAccount (newPublisherProxyServiceAccount (GetPublisherServiceAccountName eventing) ns empty_map),
       OService (newPublisherProxyService (GetPublisherPublishServiceName eventing) ns empty_map empty_map),
       OService (newPublisherProxyMetricsService (GetPublisherMetricsServiceName eventing) ns empty_map empty_map),
       OService (newPublisherProxyHealthService (GetPublisherHealthServiceName eventing) ns empty_map empty_map),
       OHPA (newHorizontalPodAutoscaler name ns 0 0 0 0 empty_map)])"

definition DeletePublisherProxyResources :: "'k raw_client \<Rightarrow> Eventing \<Rightarrow> 'k \<Rightarrow> ('k, unit) outcome" where
  "DeletePublisherProxyResources c eventing k = for_each (DeleteResource c) (deleted_resources eventing) k"

definition SubscriptionExists :: "'k raw_client \<Rightarrow> 'k \<Rightarrow> bool result" where
  "SubscriptionExists c k =
     (case GetSubscriptions c k of
        Ret subscriptionList \<Rightarrow> Ret (length subscriptionList > 0)
      | Err err \<Rightarrow> Err err | Crash p \<Rightarrow> Crash p)"

subsection \<open>What the operator deploys and what it deletes\<close>

text \<open>
  \<open>object_store c keys\<close> states what the API server does with the set of existing objects:
  applying creates an object, deleting removes it, and deleting an object that is not there is
  answered with a not-found error. \<open>sets_owner lib\<close> is what \<^verbatim>\<open>SetControllerReference\<close> is documented
  to do to the metadata of an object without owners.
\<close>

definition object_store :: "'k raw_client \<Rightarrow> ('k \<Rightarrow> (string \<times> string \<times> string) set) \<Rightarrow> bool" where
  "object_store c keys \<longleftrightarrow>
     (\<forall>x y k k'. rc_Patch c x k = (Inr y, k') \<longrightarrow> keys k' = insert (obj_key x) (keys k)) \<and>
     (\<forall>x k k'. rc_Delete c x k = (None, k') \<longrightarrow> keys k' = keys k - {obj_key x}) \<and>
     (\<forall>x err k k'. rc_Delete c x k = (Some err, k') \<and> err_has_kind KNotFound err \<longrightarrow>
        keys k' = keys k \<and> obj_key x \<notin> keys k)"

definition sets_owner :: "op_lib \<Rightarrow> bool" where
  "sets_owner lib \<longleftrightarrow>
     (\<forall>e m m'. ol_SetControllerReference lib e m = Inr m' \<and> om_ownerReferences m = [] \<longrightarrow>
        (\<exists>r. or_name r = eg_name e \<and> m' = m\<lparr>om_ownerReferences := [r]\<rparr>))"

lemma object_storeD:
  assumes "object_store c keys"
  shows "rc_Patch c x k = (Inr y, k') \<Longrightarrow> keys k' = insert (obj_key x) (keys k)"
    and "rc_Delete c x k = (None, k') \<Longrightarrow> keys k' = keys k - {obj_key x}"
    and "rc_Delete c x k = (Some err, k') \<Longrightarrow> err_has_kind KNotFound err \<Longrightarrow>
      keys k' = keys k \<and> obj_key x \<notin> keys k"
  using assms unfolding object_store_def by simp_all

lemma sets_ownerD:
  "sets_owner lib \<Longrightarrow> ol_SetControllerReference lib e m = Inr m' \<Longrightarrow> om_ownerReferences m = [] \<Longrightarrow>
   \<exists>r. or_name r = eg_name e \<and> m' = m\<lparr>om_ownerReferences := [r]\<rparr>"
  unfolding sets_owner_def by simp

lemma apply_owned_Ret:
  assumes "apply_owned lib c e x k = (Ret (), k')"
  shows "\<exists>m y. ol_SetControllerReference lib e (obj_meta x) = Inr m \<and>
    rc_Patch c (set_obj_meta m x) k = (Inr y, k')"
proof (cases "ol_SetControllerReference lib e (obj_meta x)")
  case (Inr m)
  show ?thesis
  proof (cases "rc_Patch c (set_obj_meta m x) k")
    case (Pair r k1)
    with assms Inr show ?thesis by (cases r) (simp_all add: apply_owned_def PatchApply_def)
  qed
qed (use assms in \<open>simp add: apply_owned_def\<close>)

lemma apply_owned_keys:
  assumes "object_store c keys" and "sets_owner lib" and "om_ownerReferences (obj_meta x) = []"
    and "apply_owned lib c e x k = (Ret (), k')"
  shows "keys k' = insert (obj_key x) (keys k)"
proof -
  obtain m y where m: "ol_SetControllerReference lib e (obj_meta x) = Inr m"
      and p: "rc_Patch c (set_obj_meta m x) k = (Inr y, k')"
    using apply_owned_Ret [OF assms(4)] by blast
  have "keys k' = insert (obj_key (set_obj_meta m x)) (keys k)"
    by (rule object_storeD(1) [OF assms(1) p])
  moreover obtain r where "m = (obj_meta x)\<lparr>om_ownerReferences := [r]\<rparr>"
    using sets_ownerD [OF assms(2) m assms(3)] by metis
  ultimately show ?thesis by (simp add: obj_key_set_meta)
qed

lemma apply_all_keys:
  assumes "object_store c keys" and "sets_owner lib" and "\<And>x. x \<in> set xs \<Longrightarrow> om_ownerReferences (obj_meta x) = []"
    and "for_each (apply_owned lib c e) xs k = (Ret (), k')"
  shows "keys k' = keys k \<union> obj_key ` set xs"
  using assms(3,4)
proof (induction xs arbitrary: k)
  case (Cons x xs)
  then obtain k1 where k1: "apply_owned lib c e x k = (Ret (), k1)"
      "for_each (apply_owned lib c e) xs k1 = (Ret (), k')"
    by (auto elim!: bindR_RetE)
  have "keys k1 = insert (obj_key x) (keys k)"
    using apply_owned_keys [OF assms(1,2)] k1(1) Cons.prems(1) by simp
  with Cons.IH [OF _ k1(2)] Cons.prems(1) show ?case by simp
qed simp

lemma delete_keys:
  assumes "object_store c keys" and "DeleteResource c x k = (Ret (), k')"
  shows "keys k' = keys k - {obj_key x}"
proof (cases "rc_Delete c x k")
  case (Pair r k1)
  then show ?thesis
    using assms(2) object_storeD(2,3) [OF assms(1)]
    by (cases r) (auto simp: DeleteResource_def delete_ignoring_def IgnoreNotFound_def split: if_splits)
qed

lemma delete_all_keys:
  assumes "object_store c keys" and "for_each (DeleteResource c) xs k = (Ret (), k')"
  shows "keys k' = keys k - obj_key ` set xs"
  using assms(2)
proof (induction xs arbitrary: k)
  case (Cons x xs)
  then obtain k1 where k1: "DeleteResource c x k = (Ret (), k1)" "for_each (DeleteResource c) xs k1 = (Ret (), k')"
    by (auto elim!: bindR_RetE)
  show ?case using Cons.IH [OF k1(2)] delete_keys [OF assms(1) k1(1)] by auto
qed simp

lemma publisher_resources_unowned: "x \<in> set (publisher_resources e d) \<Longrightarrow> om_ownerReferences (obj_meta x) = []"
  by (auto simp: publisher_resources_def Let_def newPublisherProxyServiceAccount_def
      newPublisherProxyClusterRole_def newPublisherProxyClusterRoleBinding_def newPublisherProxyService_def
      newPublisherProxyMetricsService_def newPublisherProxyHealthService_def newHorizontalPodAutoscaler_def)

lemma deployed_keys:
  assumes "om_name (dep_meta d) = GetPublisherDeploymentName e" and "om_namespace (dep_meta d) = eg_namespace e"
  shows "insert (obj_key (ODeployment d)) (obj_key ` set (publisher_resources e d)) =
    obj_key ` set (deleted_resources e) \<union>
    {(''ClusterRole'', '''', GetPublisherClusterRoleName e),
     (''ClusterRoleBinding'', '''', GetPublisherClusterRoleBindingName e)}"
  using assms
  by (auto simp: publisher_resources_def deleted_resources_def Let_def newPublisherProxyServiceAccount_def
      newPublisherProxyClusterRole_def newPublisherProxyClusterRoleBinding_def newPublisherProxyService_def
      newPublisherProxyMetricsService_def newPublisherProxyHealthService_def newHorizontalPodAutoscaler_def)

lemma diff_keeps_rest:
  "D \<inter> C = {} \<Longrightarrow> K1 = K \<union> (D \<union> C) \<Longrightarrow> (K1 - D) \<inter> (D \<union> C) = C \<and> K - (D \<union> C) \<subseteq> K1 - D"
  by blast

text \<open>
  C30. After the deployment and all its resources have been applied, deleting the publisher proxy
  resources removes all of them again, except for the cluster role and its binding, which the
  deletion of the Eventing resource removes; objects that do not belong to the publisher proxy
  are kept.
\<close>

theorem DeletePublisherProxyResources_undoes_deploy:
  assumes "object_store c keys" and "sets_owner lib"
    and "om_name (dep_meta d) = GetPublisherDeploymentName e" and "om_namespace (dep_meta d) = eg_namespace e"
    and "obj_key (ODeployment d) \<in> keys k"
    and "DeployPublisherProxyResources lib c e d k = (Ret (), k1)"
    and "DeletePublisherProxyResources c e k1 = (Ret (), k2)"
  shows "keys k1 = keys k \<union> obj_key ` set (publisher_resources e d) \<and>
    keys k2 \<inter> insert (obj_key (ODeployment d)) (obj_key ` set (publisher_resources e d)) =
      {(''ClusterRole'', '''', GetPublisherClusterRoleName e),
       (''ClusterRoleBinding'', '''', GetPublisherClusterRoleBindingName e)} \<and>
    keys k - insert (obj_key (ODeployment d)) (obj_key ` set (publisher_resources e d)) \<subseteq> keys k2"
proof -
  have k1: "keys k1 = keys k \<union> obj_key ` set (publisher_resources e d)"
    using apply_all_keys [OF assms(1,2)] publisher_resources_unowned assms(6)
    unfolding DeployPublisherProxyResources_def by blast
  have k2: "keys k2 = keys k1 - obj_key ` set (deleted_resources e)"
    using delete_all_keys [OF assms(1)] assms(7) unfolding DeletePublisherProxyResources_def by blast
  have "(''ClusterRole'', '''', GetPublisherClusterRoleName e) \<notin> obj_key ` set (deleted_resources e)"
    and "(''ClusterRoleBinding'', '''', GetPublisherClusterRoleBindingName e) \<notin> obj_key ` set (deleted_resources e)"
    by (auto simp: deleted_resources_def Let_def)
  then have disj: "obj_key ` set (deleted_resources e) \<inter>
      {(''ClusterRole'', '''', GetPublisherClusterRoleName e),
       (''ClusterRoleBinding'', '''', GetPublisherClusterRoleBindingName e)} = {}"
    by simp
  have "keys k1 = keys k \<union> insert (obj_key (ODeployment d)) (obj_key ` set (publisher_resources e d))"
    using k1 assms(5) by (simp add: insert_absorb)
  note sets = diff_keeps_rest [OF disj this [unfolded deployed_keys [OF assms(3,4)]]]
  show ?thesis
    unfolding deployed_keys [OF assms(3,4)] k2 using k1 sets by simp
qed

subsection \<open>When the publisher deployment is written\<close>

abbreviation annotations_of :: "Deployment \<Rightarrow> gomap" where
  "annotations_of d \<equiv> om_annotations (pt_meta (ds_template (dep_spec d)))"

abbreviation containers_of :: "Deployment \<Rightarrow> Container list" where
  "containers_of d \<equiv> ps_containers (pt_spec (ds_template (dep_spec d)))"

abbreviation service_account_of :: "Deployment \<Rightarrow> string" where
  "service_account_of d \<equiv> ps_serviceAccountName (pt_spec (ds_template (dep_spec d)))"

lemma deployment_equal_iff:
  "publisherProxyDeploymentEqual (Some a) (Some b) \<longleftrightarrow>
     om_labels (dep_meta a) = om_labels (dep_meta b) \<and> mapDeepEqual (annotations_of a) (annotations_of b) \<and>
     mapDeepEqual (om_labels (pt_meta (ds_template (dep_spec a)))) (om_labels (pt_meta (ds_template (dep_spec b)))) \<and>
     podSpecEqual (pt_spec (ds_template (dep_spec a))) (pt_spec (ds_template (dep_spec b)))"
  by (simp add: publisherProxyDeploymentEqual_def Let_def)

lemma preserve_simps [simp]:
  "dep_meta (preserve_annotations cur d) = dep_meta d"
  "annotations_of (preserve_annotations cur d) =
     Some (fmfilter (\<lambda>key. key \<in> set allowedAnnotations) (entries (annotations_of cur)))"
  "pt_spec (ds_template (dep_spec (preserve_annotations cur d))) = pt_spec (ds_template (dep_spec d))"
  "om_labels (pt_meta (ds_template (dep_spec (preserve_annotations cur d)))) =
     om_labels (pt_meta (ds_template (dep_spec d)))"
  by (simp_all add: preserve_annotations_def map_template_def)

lemma desired_publisher_meta:
  assumes "desired_publisher lib bc e nc t = Ret d"
  shows "om_ownerReferences (dep_meta d) = [] \<and> om_name (dep_meta d) = GetPublisherDeploymentName e \<and>
    om_namespace (dep_meta d) = eg_namespace e \<and> annotations_of d = None"
  using assms
  by (auto simp: desired_publisher_def newNATSPublisherDeployment_def newEventMeshPublisherDeployment_def
      deploy_opts Let_def split: if_splits option.splits result.splits)

lemma desired_publisher_probe:
  assumes "desired_publisher lib bc e nc t = Ret d" and "c \<in> set (containers_of d)"
  shows "c_readinessProbe c = Some getReadinessProbe"
  using assms
  by (auto simp: desired_publisher_def newNATSPublisherDeployment_def newEventMeshPublisherDeployment_def
      deploy_opts Let_def split: if_splits option.splits result.splits)

text \<open>
  \<open>server_filled d s\<close>: \<open>s\<close> is \<open>d\<close> as the API server keeps it when nobody else changes it. What \<open>d\<close>
  sets is there; a field that \<open>d\<close> leaves empty may have got a default (the protocol of a port, the
  path and the thresholds of a probe), and of the fields that are not named here, like the
  replicas, the status and the security contexts, nothing is said. The pod template may have the
  annotation that restarts the pods.
\<close>

definition kept_number :: "int \<Rightarrow> int \<Rightarrow> bool" where
  "kept_number a b \<longleftrightarrow> (a \<noteq> 0 \<longrightarrow> b = a)"

definition probe_filled :: "Probe \<Rightarrow> Probe \<Rightarrow> bool" where
  "probe_filled p q \<longleftrightarrow>
     rel_option (\<lambda>g h. hg_path g \<noteq> '''' \<longrightarrow> hg_path h = hg_path g) (pb_httpGet p) (pb_httpGet q) \<and>
     pb_initialDelaySeconds q = pb_initialDelaySeconds p \<and>
     kept_number (pb_timeoutSeconds p) (pb_timeoutSeconds q) \<and> kept_number (pb_periodSeconds p) (pb_periodSeconds q) \<and>
     kept_number (pb_successThreshold p) (pb_successThreshold q) \<and>
     kept_number (pb_failureThreshold p) (pb_failureThreshold q)"

definition port_filled :: "ContainerPort \<Rightarrow> ContainerPort \<Rightarrow> bool" where
  "port_filled p q \<longleftrightarrow> cp_name q = cp_name p \<and> cp_containerPort q = cp_containerPort p \<and>
     cp_protocol q = (if cp_protocol p = '''' then ''TCP'' else cp_protocol p)"

definition container_filled :: "Container \<Rightarrow> Container \<Rightarrow> bool" where
  "container_filled c s \<longleftrightarrow> c_image s = c_image c \<and> list_all2 port_filled (c_ports c) (c_ports s) \<and>
     c_env s = c_env c \<and> c_resources s = c_resources c \<and>
     rel_option probe_filled (c_readinessProbe c) (c_readinessProbe s)"

definition server_filled :: "Deployment \<Rightarrow> Deployment \<Rightarrow> bool" where
  "server_filled d s \<longleftrightarrow> om_labels (dep_meta s) = om_labels (dep_meta d) \<and>
     om_labels (pt_meta (ds_template (dep_spec s))) = om_labels (pt_meta (ds_template (dep_spec d))) \<and>
     fmdom' (entries (annotations_of s)) \<subseteq> set allowedAnnotations \<and> service_account_of s = service_account_of d \<and>
     list_all2 container_filled (containers_of d) (containers_of s)"

text \<open>
  \<open>drifted d s\<close>: \<open>s\<close> differs from \<open>d\<close> in the labels or the service account, has a foreign annotation
  on its pods, or has a container with another image, other resources or a variable that \<open>d\<close> does
  not have.
\<close>

definition drifted :: "Deployment \<Rightarrow> Deployment \<Rightarrow> bool" where
  "drifted d s \<longleftrightarrow> om_labels (dep_meta s) \<noteq> om_labels (dep_meta d) \<or> service_account_of s \<noteq> service_account_of d \<or>
     \<not> fmdom' (entries (annotations_of s)) \<subseteq> set allowedAnnotations \<or>
     \<not> list_all2 (\<lambda>c cs. c_image cs = c_image c \<and> c_resources cs = c_resources c \<and>
         length (c_env cs) = length (c_env c) \<and> set (c_env cs) \<subseteq> set (c_env c)) (containers_of d) (containers_of s)"

lemma probe_filled_equal:
  assumes "probe_filled p q" and "\<And>g. pb_httpGet p = Some g \<Longrightarrow> hg_path g \<noteq> ''''"
  shows "probeEqual (Some q) (Some p)"
proof -
  have "handlerEqual (pb_httpGet q) (pb_httpGet p)"
    using assms by (cases "pb_httpGet p"; cases "pb_httpGet q") (simp_all add: probe_filled_def handlerEqual_def)
  then show ?thesis using assms(1) by (auto simp: probeEqual_def probe_filled_def kept_number_def Let_def)
qed

lemma ports_filled_equal:
  "list_all2 port_filled ps qs \<Longrightarrow> list_all (\<lambda>q. list_ex (portEqual q) ps) qs"
  by (induction ps qs rule: list_all2_induct)
     (auto simp: list_all_iff port_filled_def portEqual_def realProto_def)

lemma container_filled_equal:
  assumes "container_filled c s" and "c_readinessProbe c = Some getReadinessProbe"
  shows "containerEqual s c"
proof -
  obtain q where q: "c_readinessProbe s = Some q" "probe_filled getReadinessProbe q"
    using assms by (auto simp: container_filled_def elim: option.rel_cases)
  have "probeEqual (Some q) (Some getReadinessProbe)"
    by (rule probe_filled_equal [OF q(2)]) (auto simp: getReadinessProbe_def)
  with assms q(1) show ?thesis
    by (auto simp: container_filled_def containerEqual_def envEqual_iff dest: list_all2_lengthD ports_filled_equal)
qed

lemma containers_filled_equal:
  "list_all2 container_filled cs ss \<Longrightarrow> (\<And>c. c \<in> set cs \<Longrightarrow> c_readinessProbe c = Some getReadinessProbe) \<Longrightarrow>
   length ss = length cs \<and> containers_equal ss cs"
  by (induction cs ss rule: list_all2_induct) (auto simp: container_filled_equal)

lemma annotations_allowed:
  "mapDeepEqual m (Some (fmfilter (\<lambda>key. key \<in> set allowedAnnotations) (entries m))) \<longleftrightarrow>
     fmdom' (entries m) \<subseteq> set allowedAnnotations"
proof -
  have "f = fmfilter (\<lambda>key. key \<in> A) f \<longleftrightarrow> fmdom' f \<subseteq> A" for A and f :: "(string, string) fmap"
  proof
    assume "f = fmfilter (\<lambda>key. key \<in> A) f"
    then have same: "fmfilter (\<lambda>key. key \<in> A) f = f" by (rule sym)
    have "fmlookup f x = None" if "x \<notin> A" for x
      using fmlookup_filter [of "\<lambda>key. key \<in> A" f x] that by (simp add: same)
    then show "fmdom' f \<subseteq> A" by (fastforce simp: fmlookup_dom'_iff)
  next
    assume "fmdom' f \<subseteq> A"
    then show "f = fmfilter (\<lambda>key. key \<in> A) f" by (intro fmfilter_true [symmetric]) (auto simp: fmlookup_dom'_iff)
  qed
  then show ?thesis by (cases m) (auto simp: mapDeepEqual_def)
qed

lemma server_filled_equal:
  assumes "desired_publisher lib bc e nc t = Ret d" and "server_filled (d\<lparr>dep_meta := m\<rparr>) s"
  shows "publisherProxyDeploymentEqual (Some s) (Some (preserve_annotations s (d\<lparr>dep_meta := m\<rparr>)))"
proof -
  have "length (containers_of s) = length (containers_of d) \<and> containers_equal (containers_of s) (containers_of d)"
    using assms(2) desired_publisher_probe [OF assms(1)] by (intro containers_filled_equal) (simp_all add: server_filled_def)
  with assms(2) show ?thesis
    by (simp add: server_filled_def deployment_equal_iff annotations_allowed podSpecEqual_def)
qed

lemma drifted_not_equal:
  assumes "publisherProxyDeploymentEqual (Some s) (Some (preserve_annotations s d))"
  shows "\<not> drifted d s"
proof -
  have eq: "length (containers_of s) = length (containers_of d)" "containers_equal (containers_of s) (containers_of d)"
    using assms by (auto simp: deployment_equal_iff podSpecEqual_def split: if_splits)
  let ?agree = "\<lambda>c cs. c_image cs = c_image c \<and> c_resources cs = c_resources c \<and>
      length (c_env cs) = length (c_env c) \<and> set (c_env cs) \<subseteq> set (c_env c)"
  have agree: "?agree c cs" if "containerEqual cs c" for c cs
    using that by (auto simp: containerEqual_def envEqual_iff split: if_splits)
  have "containerEqual (containers_of s ! i) (containers_of d ! i)" if "i < length (containers_of d)" for i
    using containers_equal_nth [OF eq(2)] eq(1) that by simp
  then have "list_all2 ?agree (containers_of d) (containers_of s)"
    using eq(1) agree by (simp add: list_all2_conv_all_nth)
  moreover have "om_labels (dep_meta s) = om_labels (dep_meta d)" "service_account_of s = service_account_of d"
    "fmdom' (entries (annotations_of s)) \<subseteq> set allowedAnnotations"
    using assms by (simp_all add: deployment_equal_iff annotations_allowed podSpecEqual_def split: if_splits)
  ultimately show ?thesis by (simp add: drifted_def)
qed

text \<open>The write: the deployment is applied, and a failure is reported as one of the deployment.\<close>

definition apply_outcome :: "Deployment \<Rightarrow> (goerr + k8s_object) \<times> 'k \<Rightarrow> ('k, Deployment) outcome" where
  "apply_outcome d answer =
     (case answer of
        (Inl err, k) \<Rightarrow> (Err (Wrapped ['''', '': ''] [ErrEPPDeployFailed, err]), k)
      | (Inr (ODeployment applied), k) \<Rightarrow> (Ret applied, k)
      | (Inr _, k) \<Rightarrow> (Ret d, k))"

text \<open>
  C29. While the stored publisher deployment is owned by the Eventing resource alone, it is written
  only when it has to be. If it is the deployment that the configuration asks for, as the API
  server keeps it, with defaults, status and scaled replicas filled in, the reconciliation writes
  nothing and returns it. If it differs in its labels or service account, has a foreign annotation
  on its pods, or has a container with another image, other resources or another variable, then
  exactly the desired deployment is applied, owned by the Eventing resource and without the
  foreign annotations.
\<close>

theorem applyPublisherProxyDeployment_writes:
  assumes "sets_owner lib" and "desired_publisher lib bc e nc t = Ret d"
    and "ol_SetControllerReference lib e (dep_meta d) = Inr m"
    and "rc_GetDeployment c (GetPublisherDeploymentName e) (eg_namespace e) k = Inr s"
    and "om_ownerReferences (dep_meta s) = [owner]" and "or_name owner = eg_name e"
  shows "(server_filled (d\<lparr>dep_meta := m\<rparr>) s \<longrightarrow>
       applyPublisherProxyDeployment lib c bc e nc t k = (Ret s, k)) \<and>
    (drifted (d\<lparr>dep_meta := m\<rparr>) s \<longrightarrow>
       (\<exists>w r. dep_meta w = (dep_meta d)\<lparr>om_ownerReferences := [r]\<rparr> \<and> or_name r = eg_name e \<and>
          fmdom' (entries (annotations_of w)) \<subseteq> set allowedAnnotations \<and>
          pt_spec (ds_template (dep_spec w)) = pt_spec (ds_template (dep_spec d)) \<and>
          applyPublisherProxyDeployment lib c bc e nc t k = apply_outcome w (rc_Patch c (ODeployment w) k)))"
proof -
  let ?w = "preserve_annotations s (d\<lparr>dep_meta := m\<rparr>)"
  obtain r where r: "or_name r = eg_name e" "m = (dep_meta d)\<lparr>om_ownerReferences := [r]\<rparr>"
    using sets_ownerD [OF assms(1,3)] desired_publisher_meta [OF assms(2)] by blast
  have run: "applyPublisherProxyDeployment lib c bc e nc t k = apply_if_changed c (Some s) ?w k"
    using assms(2-6) by (simp add: applyPublisherProxyDeployment_def GetDeployment_def Let_def migratePublisherDeploymentFromEC_def)
  have "apply_if_changed c (Some s) ?w k = apply_outcome ?w (rc_Patch c (ODeployment ?w) k)"
    if "drifted (d\<lparr>dep_meta := m\<rparr>) s"
    using drifted_not_equal that
    by (auto simp: apply_if_changed_def apply_outcome_def PatchApply_def split: prod.split sum.split k8s_object.split)
  moreover have "fmdom' (entries (annotations_of ?w)) \<subseteq> set allowedAnnotations"
    by (auto simp: fmlookup_dom'_iff split: if_splits)
  ultimately show ?thesis
    using run server_filled_equal [OF assms(2)] r
    by (intro conjI impI exI [of _ ?w] exI [of _ r]) (simp_all add: apply_if_changed_def)
qed

subsection \<open>An example cluster\<close>

text \<open>
  A cluster that keeps the objects in a list, fills in the replicas and the status of a
  deployment and has the Eventing resource, the Subscriptions, the NATS resources, the installed
  CRDs and the domain as components.
\<close>

record cluster =
  clu_objects :: "k8s_object list"
  clu_eventing :: "Eventing option"
  clu_subscriptions :: "Subscription list"
  clu_nats :: "NATS list"
  clu_crds :: "string list"
  clu_domain :: gomap

abbreviation not_found :: goerr where "not_found \<equiv> Plain KNotFound ''not found''"

fun served :: "k8s_object \<Rightarrow> k8s_object" where
  "served (ODeployment d) = ODeployment
     (d\<lparr>dep_spec := (dep_spec d)\<lparr>ds_replicas := Some 2\<rparr>,
        dep_status := \<lparr>dst_availableReplicas = 2, dst_readyReplicas = 2, dst_updatedReplicas = 2\<rparr>\<rparr>)"
| "served (OSecret t) = OSecret
     (t\<lparr>sec_data := Some (entries (sec_data t) ++\<^sub>f entries (sec_stringData t)), sec_stringData := None\<rparr>)"
| "served x = x"

definition cluster_put :: "k8s_object \<Rightarrow> cluster \<Rightarrow> cluster" where
  "cluster_put x k = k\<lparr>clu_objects := served x # filter (\<lambda>y. obj_key y \<noteq> obj_key x) (clu_objects k)\<rparr>"

definition cluster_find :: "string \<times> string \<times> string \<Rightarrow> cluster \<Rightarrow> k8s_object option" where
  "cluster_find key k = find (\<lambda>y. obj_key y = key) (clu_objects k)"

definition example_client :: "cluster raw_client" where
  "example_client =
     \<lparr>rc_GetDeployment = (\<lambda>name ns k. case cluster_find (''Deployment'', ns, name) k of
        Some (ODeployment d) \<Rightarrow> Inr d | _ \<Rightarrow> Inl not_found),
      rc_UpdateDeployment = (\<lambda>d k. (None, cluster_put (ODeployment d) k)),
      rc_Delete = (\<lambda>x k. if cluster_find (obj_key x) k = None then (Some not_found, k)
        else (None, k\<lparr>clu_objects := filter (\<lambda>y. obj_key y \<noteq> obj_key x) (clu_objects k)\<rparr>)),
      rc_Patch = (\<lambda>x k. (Inr (served x), cluster_put x k)),
      rc_ListNATS = (\<lambda>ns k. Inr (None, map Inr (filter (\<lambda>n. nats_namespace n = ns) (clu_nats k)))),
      rc_GetSecret = (\<lambda>ns name k. case cluster_find (''Secret'', ns, name) k of
        Some (OSecret s) \<Rightarrow> Inr s | _ \<Rightarrow> Inl not_found),
      rc_GetCRD = (\<lambda>name k. if name \<in> set (clu_crds k) then None else Some not_found),
      rc_ListSubscriptions = (\<lambda>k. Inr (clu_subscriptions k)),
      rc_GetConfigMap = (\<lambda>name ns k. Inr (clu_domain k)),
      rc_GetEventing = (\<lambda>ns name k. case clu_eventing k of
        Some e \<Rightarrow> if eg_name e = name \<and> eg_namespace e = ns then Inr e else Inl not_found
      | None \<Rightarrow> Inl not_found),
      rc_UpdateEventing = (\<lambda>e k. (None, k\<lparr>clu_eventing := Some e\<rparr>)),
      rc_StatusUpdateEventing = (\<lambda>e k. (None, k\<lparr>clu_eventing := Some e\<rparr>))\<rparr>"

definition example_owner :: "Eventing \<Rightarrow> OwnerReference" where
  "example_owner e =
     \<lparr>or_apiVersion = ''operator.kyma-project.io/v1alpha1'', or_kind = ''Eventing'', or_name = eg_name e,
      or_uid = eg_uid e, or_controller = Some True, or_blockOwnerDeletion = Some True\<rparr>"

definition example_lib :: op_lib where
  "example_lib =
     \<lparr>ol_SetControllerReference = (\<lambda>e m. if om_ownerReferences m = []
        then Inr (m\<lparr>om_ownerReferences := [example_owner e]\<rparr>)
        else Inl (Plain KOther ''already owned'')),
      ol_parse = example_parse\<rparr>"

definition empty_cluster :: cluster where
  "empty_cluster =
     \<lparr>clu_objects = [], clu_eventing = None, clu_subscriptions = [], clu_nats = [], clu_crds = [],
      clu_domain = None\<rparr>"

definition example_env_config :: EnvBackendConfig where
  "example_env_config =
     \<lparr>ebc_publisherConfig = example_publisher_config, ebc_namespace = ''kyma-system'',
      ebc_eventingCRName = ''eventing'', ebc_eventingCRNamespace = ''kyma-system'',
      ebc_defaultSubscriptionConfig =
        \<lparr>dsc_maxInFlightMessages = 10, dsc_dispatcherRetryPeriod = 300, dsc_dispatcherMaxRetries = 10\<rparr>,
      ebc_eventingWebhookAuthSecretName = ''eventing-webhook-auth'',
      ebc_eventingWebhookAuthSecretNamespace = ''kyma-system''\<rparr>"

lemma obj_key_served [simp]: "obj_key (served x) = obj_key x"
  by (cases x) simp_all

lemma cluster_keys_put:
  "obj_key ` set (clu_objects (cluster_put x k)) = insert (obj_key x) (obj_key ` set (clu_objects k))"
  by (auto simp: cluster_put_def)

lemma example_object_store: "object_store example_client (\<lambda>k. obj_key ` set (clu_objects k))"
  by (auto simp: object_store_def example_client_def cluster_keys_put cluster_find_def find_None_iff split: if_splits)

lemma cluster_find_put [simp]: "cluster_find (obj_key x) (cluster_put x k) = Some (served x)"
  by (simp add: cluster_find_def cluster_put_def)

lemma example_sets_owner: "sets_owner example_lib"
  by (auto simp: sets_owner_def example_lib_def split: if_splits) (metis example_owner_def OwnerReference.select_convs(3))

lemma example_apply_all:
  "(\<And>x. x \<in> set xs \<Longrightarrow> om_ownerReferences (obj_meta x) = []) \<Longrightarrow>
   \<exists>k'. for_each (apply_owned example_lib example_client e) xs k = (Ret (), k')"
proof (induction xs arbitrary: k)
  case (Cons x xs)
  have "\<exists>k1. apply_owned example_lib example_client e x k = (Ret (), k1)"
    using Cons.prems [of x] by (simp add: apply_owned_def example_lib_def example_client_def PatchApply_def)
  then show ?case using Cons by fastforce
qed simp

lemma example_delete_all: "\<exists>k'. for_each (DeleteResource example_client) xs k = (Ret (), k')"
proof (induction xs arbitrary: k)
  case (Cons x xs)
  have "\<exists>k1. DeleteResource example_client x k = (Ret (), k1)"
    by (simp add: DeleteResource_def delete_ignoring_def example_client_def IgnoreNotFound_def)
  then show ?case using Cons by fastforce
qed simp

definition example_publisher :: Deployment where
  "example_publisher =
     (example_deployment example_container)\<lparr>dep_meta := named_meta ''eventing-publisher-proxy'' ''kyma-system''\<rparr>"

theorem DeletePublisherProxyResources_undoes_deploy_witness:
  "\<exists>k1 k2. DeployPublisherProxyResources example_lib example_client (example_eventing ''NATS'') example_publisher
       (cluster_put (ODeployment example_publisher) empty_cluster) = (Ret (), k1) \<and>
     DeletePublisherProxyResources example_client (example_eventing ''NATS'') k1 = (Ret (), k2) \<and>
     obj_key ` set (clu_objects k2) \<inter> insert (obj_key (ODeployment example_publisher))
         (obj_key ` set (publisher_resources (example_eventing ''NATS'') example_publisher)) =
       {(''ClusterRole'', '''', ''eventing-publisher-proxy''),
        (''ClusterRoleBinding'', '''', ''eventing-publisher-proxy'')}"
proof -
  let ?e = "example_eventing ''NATS''" and ?k = "cluster_put (ODeployment example_publisher) empty_cluster"
  obtain k1 where k1: "DeployPublisherProxyResources example_lib example_client ?e example_publisher ?k = (Ret (), k1)"
    using example_apply_all [of "publisher_resources ?e example_publisher"] publisher_resources_unowned
    unfolding DeployPublisherProxyResources_def by blast
  obtain k2 where k2: "DeletePublisherProxyResources example_client ?e k1 = (Ret (), k2)"
    using example_delete_all unfolding DeletePublisherProxyResources_def by blast
  have "om_name (dep_meta example_publisher) = GetPublisherDeploymentName ?e"
    and "om_namespace (dep_meta example_publisher) = eg_namespace ?e"
    by (simp_all add: example_publisher_def publisher_names)
  from DeletePublisherProxyResources_undoes_deploy [OF example_object_store example_sets_owner this _ k1 k2]
  show ?thesis using k1 k2 by (simp add: cluster_keys_put publisher_names)
qed

text \<open>A publisher deployment as an API server keeps it, scaled up and restarted once.\<close>

definition example_filled :: "Deployment \<Rightarrow> Deployment" where
  "example_filled d =
     d\<lparr>dep_spec := (dep_spec d)\<lparr>ds_replicas := Some 3, ds_template := (ds_template (dep_spec d))
        \<lparr>pt_meta := (pt_meta (ds_template (dep_spec d)))
           \<lparr>om_annotations := Some (fmap_of_list [(''kubectl.kubernetes.io/restartedAt'', ''now'')])\<rparr>,
         pt_spec := (pt_spec (ds_template (dep_spec d)))\<lparr>ps_containers := map (\<lambda>c. c
           \<lparr>c_ports := map (\<lambda>p. p\<lparr>cp_protocol := if cp_protocol p = '''' then ''TCP'' else cp_protocol p\<rparr>) (c_ports c),
            c_readinessProbe := Some (getReadinessProbe\<lparr>pb_timeoutSeconds := 1, pb_periodSeconds := 10,
              pb_successThreshold := 1\<rparr>)\<rparr>) (containers_of d)\<rparr>\<rparr>\<rparr>,
       dep_status := \<lparr>dst_availableReplicas = 3, dst_readyReplicas = 3, dst_updatedReplicas = 3\<rparr>\<rparr>"

lemma example_server_filled:
  assumes "\<And>c. c \<in> set (containers_of d) \<Longrightarrow> c_readinessProbe c = Some getReadinessProbe"
  shows "server_filled d (example_filled d)"
  using assms
  by (auto simp: server_filled_def example_filled_def allowedAnnotations_def list_all2_conv_all_nth container_filled_def
      port_filled_def probe_filled_def kept_number_def getReadinessProbe_def)

theorem applyPublisherProxyDeployment_writes_witness:
  "\<exists>s. ds_replicas (dep_spec s) = Some 3 \<and>
     (let k = empty_cluster\<lparr>clu_objects := [ODeployment s]\<rparr> in
      applyPublisherProxyDeployment example_lib example_client example_env_config
        (example_eventing ''EventMesh'') None ''EventMesh'' k = (Ret s, k))"
proof -
  let ?e = "example_eventing ''EventMesh''"
  obtain d where d: "desired_publisher example_lib example_env_config ?e None ''EventMesh'' = Ret d"
    using eventmesh_publisher_ok [OF example_eventing_simps(1) example_quantities]
    by (auto simp: desired_publisher_def example_lib_def)
  note meta = desired_publisher_meta [OF d]
  define m where "m = (dep_meta d)\<lparr>om_ownerReferences := [example_owner ?e]\<rparr>"
  have m: "ol_SetControllerReference example_lib ?e (dep_meta d) = Inr m"
    using meta by (simp add: example_lib_def m_def)
  let ?s = "example_filled (d\<lparr>dep_meta := m\<rparr>)"
  let ?k = "empty_cluster\<lparr>clu_objects := [ODeployment ?s]\<rparr>"
  have s: "om_ownerReferences (dep_meta ?s) = [example_owner ?e]" "or_name (example_owner ?e) = eg_name ?e"
    "om_name (dep_meta ?s) = GetPublisherDeploymentName ?e" "om_namespace (dep_meta ?s) = eg_namespace ?e"
    using meta by (simp_all add: example_filled_def m_def example_owner_def)
  then have get: "rc_GetDeployment example_client (GetPublisherDeploymentName ?e) (eg_namespace ?e) ?k = Inr ?s"
    by (simp add: example_client_def cluster_find_def)
  have "server_filled (d\<lparr>dep_meta := m\<rparr>) ?s"
    by (rule example_server_filled) (simp add: desired_publisher_probe [OF d])
  then have "applyPublisherProxyDeployment example_lib example_client example_env_config ?e None ''EventMesh'' ?k = (Ret ?s, ?k)"
    using applyPublisherProxyDeployment_writes [OF example_sets_owner d m get s(1,2)] by blast
  moreover have "ds_replicas (dep_spec ?s) = Some 3" by (simp add: example_filled_def)
  ultimately show ?thesis unfolding Let_def by blast
qed

end
