(* ===== verification/Nats_Connection.thy ===== *)
theory Nats_Connection
  imports Go_Errors
begin

section \<open>The NATS connection of the operator (internal/connection/nats)\<close>

text \<open>
  The connection that the operator keeps only to learn about reconnects and disconnects: it
  registers a handler for each and enqueues the Eventing resource from there. The NATS client
  library is the record \<open>natsio\<close> on a type \<open>'k\<close> of outside states: \<open>'c\<close> are its connection
  handles and \<open>'h\<close> the handlers.
\<close>

record ('c, 'h, 'k) natsio =
  io_Connect :: "string \<Rightarrow> string list \<Rightarrow> 'k \<Rightarrow> (goerr + 'c) \<times> 'k"
  io_IsConnected :: "'c \<Rightarrow> 'k \<Rightarrow> bool"
  io_IsClosed :: "'c \<Rightarrow> 'k \<Rightarrow> bool"
  io_Close :: "'c \<Rightarrow> 'k \<Rightarrow> 'k"
  io_SetReconnectHandler :: "'c \<Rightarrow> 'h \<Rightarrow> 'k \<Rightarrow> 'k"
  io_SetDisconnectErrHandler :: "'c \<Rightarrow> 'h \<Rightarrow> 'k \<Rightarrow> 'k"

record 'c connection =
  cn_url :: string
  cn_conn :: "'c option"
  cn_opts :: "string list"
  cn_reconnectHandlerRegistered :: bool
  cn_disconnectErrHandlerRegistered :: bool

abbreviation ErrCannotConnect :: goerr where "ErrCannotConnect \<equiv> Sentinel ''cannot connect to NATS''"
abbreviation ErrEmptyConnectionURL :: goerr where "ErrEmptyConnectionURL \<equiv> Sentinel ''empty NATS connection URL''"
abbreviation ErrEmptyConnectionName :: goerr where "ErrEmptyConnectionName \<equiv> Sentinel ''empty NATS connection name''"

subsection \<open>builder.go\<close>

record ConnectionBuilder =
  cb_url :: string
  cb_opts :: "string list"

text \<open>The option \<^verbatim>\<open>natsio.Name(name)\<close> is the text \<open>name:\<close> followed by the name.\<close>

definition NewBuilder :: "string \<Rightarrow> string \<Rightarrow> string list \<Rightarrow> ConnectionBuilder result" where
  "NewBuilder url name opts =
     (if length (TrimSpace url) = 0 then Err ErrEmptyConnectionURL
      else if length (TrimSpace name) = 0 then Err ErrEmptyConnectionName
      else Ret \<lparr>cb_url = url, cb_opts = opts @ [''name:'' @ name]\<rparr>)"

definition Build :: "ConnectionBuilder \<Rightarrow> 'c connection" where
  "Build b =
     \<lparr>cn_url = cb_url b, cn_conn = None, cn_opts = cb_opts b, cn_reconnectHandlerRegistered = False,
      cn_disconnectErrHandlerRegistered = False\<rparr>"

subsection \<open>connection.go\<close>

definition isConnected :: "('c, 'h, 'k) natsio \<Rightarrow> 'c connection \<Rightarrow> 'k \<Rightarrow> bool" where
  "isConnected io c k \<longleftrightarrow> (case cn_conn c of None \<Rightarrow> False | Some x \<Rightarrow> io_IsConnected io x k)"

definition registerReconnectHandler ::
  "('c, 'h, 'k) natsio \<Rightarrow> 'h \<Rightarrow> 'c connection \<Rightarrow> 'k \<Rightarrow> 'c connection \<times> 'k" where
  "registerReconnectHandler io handler c k =
     (case cn_conn c of
        None \<Rightarrow> (c, k)
      | Some x \<Rightarrow>
          if cn_reconnectHandlerRegistered c then (c, k)
          else (c\<lparr>cn_reconnectHandlerRegistered := True\<rparr>, io_SetReconnectHandler io x handler k))"

definition registerDisconnectErrHandler ::
  "('c, 'h, 'k) natsio \<Rightarrow> 'h \<Rightarrow> 'c connection \<Rightarrow> 'k \<Rightarrow> 'c connection \<times> 'k" where
  "registerDisconnectErrHandler io handler c k =
     (case cn_conn c of
        None \<Rightarrow> (c, k)
      | Some x \<Rightarrow>
          if cn_disconnectErrHandlerRegistered c then (c, k)
          else (c\<lparr>cn_disconnectErrHandlerRegistered := True\<rparr>, io_SetDisconnectErrHandler io x handler k))"

text \<open>If the library cannot connect it returns a nil connection, which is stored all the same.\<close>

definition Connect ::
  "('c, 'h, 'k) natsio \<Rightarrow> 'h \<Rightarrow> 'h \<Rightarrow> 'c connection \<Rightarrow> 'k \<Rightarrow> goerr option \<times> 'c connection \<times> 'k" where
  "Connect io connHandler connErrHandler c k =
     (if isConnected io c k then (None, c, k)
      else case io_Connect io (cn_url c) (cn_opts c) k of
        (Inl err, k) \<Rightarrow> (Some err, c\<lparr>cn_conn := None\<rparr>, k)
      | (Inr x, k) \<Rightarrow>
          (case registerReconnectHandler io connHandler (c\<lparr>cn_conn := Some x\<rparr>) k of (c, k) \<Rightarrow>
           case registerDisconnectErrHandler io connErrHandler c k of (c, k) \<Rightarrow>
             (if isConnected io c k then None else Some ErrCannotConnect, c, k)))"

definition Disconnect :: "('c, 'h, 'k) natsio \<Rightarrow> 'c connection \<Rightarrow> 'k \<Rightarrow> 'k" where
  "Disconnect io c k =
     (case cn_conn c of
        None \<Rightarrow> k
      | Some x \<Rightarrow> if io_IsClosed io x k then k else io_Close io x k)"

subsection \<open>Lemmas\<close>

lemma NewBuilder_Build:
  assumes "NewBuilder url name opts = Ret b"
  shows "cn_url (Build b) = url \<and> cn_conn (Build b) = None \<and> set opts \<subseteq> set (cn_opts (Build b)) \<and>
    \<not> cn_reconnectHandlerRegistered (Build b)"
  using assms by (auto simp: NewBuilder_def Build_def split: if_splits)

lemma Connect_success:
  assumes "Connect io h h' c k = (None, c', k')"
  shows "isConnected io c' k'"
  using assms by (auto simp: Connect_def split: if_splits prod.splits sum.splits)

text \<open>
  A connection whose handlers were registered once never registers them again: when the operator
  has disconnected and connects anew, the new connection of the library gets no handlers.
\<close>

lemma Connect_skips_handlers:
  assumes "\<not> isConnected io c k" and "cn_reconnectHandlerRegistered c" and "cn_disconnectErrHandlerRegistered c"
    and "io_Connect io (cn_url c) (cn_opts c) k = (Inr x, k1)"
  shows "snd (snd (Connect io h h' c k)) = k1 \<and> cn_conn (fst (snd (Connect io h h' c k))) = Some x"
  using assms by (simp add: Connect_def registerReconnectHandler_def registerDisconnectErrHandler_def)

lemma Connect_registers:
  assumes "Connect io h h' c k = (r, c', k')" and "\<not> isConnected io c k" and "cn_conn c' \<noteq> None"
  shows "cn_reconnectHandlerRegistered c' \<and> cn_disconnectErrHandlerRegistered c'"
  using assms
  by (auto simp: Connect_def registerReconnectHandler_def registerDisconnectErrHandler_def
      split: if_splits prod.splits sum.splits option.splits)

text \<open>
  C25. After the operator has connected and disconnected, connecting again registers no handler on
  the new connection of the library: whatever the library did to open it is the last thing that
  happens to the outside world, so a loss of the new connection triggers no reconciliation.
\<close>

theorem reconnect_registers_no_handlers:
  assumes "Connect io h h' (Build b) k = (None, c, k1)" and "\<not> isConnected io c (Disconnect io c k1)"
    and "io_Connect io (cn_url c) (cn_opts c) (Disconnect io c k1) = (Inr x, k2)"
  shows "\<exists>r. Connect io h2 h2' c (Disconnect io c k1) = (r, c\<lparr>cn_conn := Some x\<rparr>, k2)"
proof -
  have "cn_conn c \<noteq> None" using Connect_success [OF assms(1)] by (auto simp: isConnected_def split: option.splits)
  moreover have "\<not> isConnected io (Build b) k" by (simp add: isConnected_def Build_def)
  ultimately have "cn_reconnectHandlerRegistered c \<and> cn_disconnectErrHandlerRegistered c"
    using Connect_registers [OF assms(1)] by simp
  then show ?thesis
    using assms(2,3) by (auto simp: Connect_def registerReconnectHandler_def registerDisconnectErrHandler_def)
qed

text \<open>A library that numbers its connections and records the open ones and those with a handler.\<close>

record io_world =
  iw_next :: nat
  iw_open :: "nat list"
  iw_handled :: "nat list"

definition example_natsio :: "(nat, unit, io_world) natsio" where
  "example_natsio =
     \<lparr>io_Connect = (\<lambda>url opts k. (Inr (iw_next k), k\<lparr>iw_next := iw_next k + 1, iw_open := iw_next k # iw_open k\<rparr>)),
      io_IsConnected = (\<lambda>c k. c \<in> set (iw_open k)), io_IsClosed = (\<lambda>c k. c \<notin> set (iw_open k)),
      io_Close = (\<lambda>c k. k\<lparr>iw_open := removeAll c (iw_open k)\<rparr>),
      io_SetReconnectHandler = (\<lambda>c h k. k\<lparr>iw_handled := c # iw_handled k\<rparr>),
      io_SetDisconnectErrHandler = (\<lambda>c h k. k\<lparr>iw_handled := c # iw_handled k\<rparr>)\<rparr>"

definition example_builder :: ConnectionBuilder where
  "example_builder = \<lparr>cb_url = ''nats://nats:4222'', cb_opts = [''name:eventing'']\<rparr>"

definition example_connected :: "nat connection \<times> io_world" where
  "example_connected = snd (Connect example_natsio () () (Build example_builder)
     \<lparr>iw_next = 0, iw_open = [], iw_handled = []\<rparr>)"

theorem reconnect_registers_no_handlers_witness:
  "\<exists>r. Connect example_natsio () () (fst example_connected)
       (Disconnect example_natsio (fst example_connected) (snd example_connected)) =
     (r, (fst example_connected)\<lparr>cn_conn := Some 1\<rparr>,
      \<lparr>iw_next = 2, iw_open = [1], iw_handled = [0, 0]\<rparr>)"
proof -
  note run = example_connected_def Connect_def Build_def example_builder_def example_natsio_def
    isConnected_def Disconnect_def registerReconnectHandler_def registerDisconnectErrHandler_def
  let ?c = "fst example_connected" and ?k = "snd example_connected"
  have "Connect example_natsio () () (Build example_builder) \<lparr>iw_next = 0, iw_open = [], iw_handled = []\<rparr>
      = (None, ?c, ?k)"
    and "\<not> isConnected example_natsio ?c (Disconnect example_natsio ?c ?k)"
    and "io_Connect example_natsio (cn_url ?c) (cn_opts ?c)
        (Disconnect example_natsio ?c ?k)
      = (Inr 1, \<lparr>iw_next = 2, iw_open = [1], iw_handled = [0, 0]\<rparr>)"
    by (simp_all add: run)
  then show ?thesis by (rule reconnect_registers_no_handlers)
qed

end
