(* ===== verification/Resource_Watcher.thy ===== *)
theory Resource_Watcher
  imports Go_Errors
begin

section \<open>The resource watcher (pkg/watcher/watcher.go)\<close>

text \<open>
  \<^verbatim>\<open>ResourceWatcher\<close> forwards the events of a dynamic informer to a channel. The informer and its
  factory are the record \<open>informer\<close> on a type \<open>'k\<close> of outside states; the waits for the cache
  to be synced are part of starting the factory. \<^verbatim>\<open>stopCh\<close> is nil, open or closed. Sending on the
  nil channel blocks the calling goroutine for ever: such a call ends with \<open>Crash blocks_forever\<close>,
  as it never returns to its caller.
\<close>

record 'k informer =
  inf_AddEventHandler :: "string \<Rightarrow> 'k \<Rightarrow> goerr option \<times> 'k"
  inf_RemoveEventHandler :: "string \<Rightarrow> 'k \<Rightarrow> goerr option \<times> 'k"
  inf_Start :: "string \<Rightarrow> 'k \<Rightarrow> 'k"
  inf_Shutdown :: "string \<Rightarrow> 'k \<Rightarrow> 'k"

datatype channel = NilChannel | OpenChannel | ClosedChannel

record ResourceWatcher =
  rw_namespace :: string
  rw_stopCh :: channel
  rw_started :: bool

definition blocks_forever :: string where
  "blocks_forever = ''send on a nil channel''"

definition NewResourceWatcher :: "string \<Rightarrow> ResourceWatcher" where
  "NewResourceWatcher namespace = \<lparr>rw_namespace = namespace, rw_stopCh = NilChannel, rw_started = False\<rparr>"

definition IsStarted :: "ResourceWatcher \<Rightarrow> bool" where
  "IsStarted w \<longleftrightarrow> rw_started w"

text \<open>An error of the informer is only logged.\<close>

definition Start_watcher :: "'k informer \<Rightarrow> ResourceWatcher \<Rightarrow> 'k \<Rightarrow> ResourceWatcher \<times> 'k" where
  "Start_watcher i w k =
     (if rw_started w then (w, k)
      else case inf_AddEventHandler i (rw_namespace w) k of
        (_, k) \<Rightarrow> (w\<lparr>rw_stopCh := OpenChannel, rw_started := True\<rparr>, inf_Start i (rw_namespace w) k))"

text \<open>
  Sending on a closed channel panics, and the deferred \<^verbatim>\<open>recover\<close> ends the call; an open channel
  has the goroutines of the informer as receivers.
\<close>

definition Stop_watcher :: "'k informer \<Rightarrow> ResourceWatcher \<Rightarrow> 'k \<Rightarrow> ('k, ResourceWatcher) outcome" where
  "Stop_watcher i w k =
     (case inf_RemoveEventHandler i (rw_namespace w) k of
        (_, k) \<Rightarrow>
          (case rw_stopCh w of
             NilChannel \<Rightarrow> (Crash blocks_forever, k)
           | ClosedChannel \<Rightarrow> (Ret w, k)
           | OpenChannel \<Rightarrow>
               (Ret (w\<lparr>rw_stopCh := ClosedChannel, rw_started := False\<rparr>), inf_Shutdown i (rw_namespace w) k)))"

text \<open>The events that the handlers of the informer send: one empty generic event, or none.\<close>

definition addFunc :: "'o \<Rightarrow> unit list" where "addFunc obj = [()]"
definition updateFunc :: "'o \<Rightarrow> 'o \<Rightarrow> unit list" where "updateFunc old new = (if old \<noteq> new then [()] else [])"
definition deleteFunc :: "'o \<Rightarrow> unit list" where "deleteFunc obj = [()]"

text \<open>What the fields of a watcher say about each other.\<close>

definition watcher_ok :: "ResourceWatcher \<Rightarrow> bool" where
  "watcher_ok w \<longleftrightarrow> (rw_started w \<longleftrightarrow> rw_stopCh w = OpenChannel)"

lemma watcher_ok_New [simp]: "watcher_ok (NewResourceWatcher ns)"
  by (simp add: watcher_ok_def NewResourceWatcher_def)

lemma Start_watcher_ok:
  assumes "watcher_ok w"
  shows "watcher_ok (fst (Start_watcher i w k)) \<and> IsStarted (fst (Start_watcher i w k))"
  using assms by (simp add: Start_watcher_def watcher_ok_def IsStarted_def split: prod.split)

lemma Stop_watcher_ok:
  assumes "watcher_ok w" and "Stop_watcher i w k = (Ret w', k')"
  shows "watcher_ok w' \<and> \<not> IsStarted w'"
  using assms by (auto simp: Stop_watcher_def watcher_ok_def IsStarted_def split: prod.splits channel.splits)

lemma Stop_watcher_returns:
  "IsStarted w \<Longrightarrow> watcher_ok w \<Longrightarrow> \<exists>w' k'. Stop_watcher i w k = (Ret w', k')"
  by (simp add: Stop_watcher_def watcher_ok_def IsStarted_def split: prod.splits)

lemma Stop_watcher_new:
  "fst (Stop_watcher i (NewResourceWatcher ns) k) = Crash blocks_forever"
  by (simp add: Stop_watcher_def NewResourceWatcher_def split: prod.split)

lemma Stop_watcher_no_Err: "Stop_watcher i w k \<noteq> (Err e, k')"
  by (auto simp: Stop_watcher_def split: prod.splits channel.splits)

end
