(* ===== verification/Operator_State.thy ===== *)
theory Operator_State
  imports Eventing_Manager Nats_Connection Resource_Watcher
begin

section \<open>The Eventing reconciler: state, finalizers, hashes and status (internal/controller/operator/eventing)\<close>

text \<open>
  The state of \<^verbatim>\<open>Reconciler\<close> between two reconciliations, its collaborators, and the helpers of
  \<^verbatim>\<open>utils.go\<close> and \<^verbatim>\<open>status.go\<close>. \<open>'k\<close> is the state of the outside world: the cluster, the NATS
  client library and the subscription managers, which are known by handles \<open>'m\<close> (interface
  values of \<^verbatim>\<open>manager.Manager\<close>) and \<open>'c\<close> (connections). The handlers that the NATS connection
  registers enqueue the Eventing resource they were created for, so a handler is that resource.
\<close>

subsection \<open>Collaborators\<close>

type_synonym params = "(string, string) fmap"

text \<open>
  The subscription manager factory and the managers. A new manager is a new object, so creating one
  changes the world. The parameters of \<^verbatim>\<open>Start\<close> are the client id and secret and the token and
  certificate URLs of the webhook credentials. The EventMesh manager also reads the environment of
  the process, which is the argument of type \<open>string \<rightharpoonup> string\<close>. Every call can panic.
\<close>

record ('m, 'k) sub_managers =
  sm_NewJetStreamManager :: "Eventing \<Rightarrow> NATSConfig \<Rightarrow> 'k \<Rightarrow> ('k, 'm) outcome"
  sm_NewEventMeshManager :: "string \<Rightarrow> (string \<rightharpoonup> string) \<Rightarrow> 'k \<Rightarrow> ('k, 'm) outcome"
  sm_Init :: "'m \<Rightarrow> 'k \<Rightarrow> ('k, unit) outcome"
  sm_Start :: "'m \<Rightarrow> DefaultSubscriptionConfig \<Rightarrow> params \<Rightarrow> (string \<rightharpoonup> string) \<Rightarrow> 'k \<Rightarrow> ('k, unit) outcome"
  sm_Stop :: "'m \<Rightarrow> bool \<Rightarrow> 'k \<Rightarrow> ('k, unit) outcome"

record OAuthCredentials =
  oa_clientID :: string
  oa_clientSecret :: string
  oa_grantType :: string
  oa_tokenEndpoint :: string

record Message =
  msg_brokerType :: string
  msg_oa2 :: OAuthCredentials
  msg_uri :: string

text \<open>
  Library functions: the finalizer helpers of controller-runtime, \<^verbatim>\<open>hashstructure.Hash\<close> on the NATS
  backend configuration and on a string, \<^verbatim>\<open>json.Unmarshal\<close> into a list of messages, and
  \<^verbatim>\<open>envconfig.Process\<close>.
\<close>

record util_lib =
  ul_ContainsFinalizer :: "string list \<Rightarrow> string \<Rightarrow> bool"
  ul_AddFinalizer :: "string list \<Rightarrow> string \<Rightarrow> string list"
  ul_RemoveFinalizer :: "string list \<Rightarrow> string \<Rightarrow> string list"
  ul_HashConfig :: "DefaultSubscriptionConfig \<times> NATSConfig \<Rightarrow> goerr + nat"
  ul_HashString :: "string \<Rightarrow> goerr + nat"
  ul_Unmarshal :: "string \<Rightarrow> goerr + Message list"
  ul_Process :: "NATSConfig \<Rightarrow> goerr + NATSConfig"

record ('m, 'c, 'k) op_env =
  oe_client :: "'k raw_client"
  oe_lib :: op_lib
  oe_conds :: cond_lib
  oe_util :: util_lib
  oe_managers :: "('m, 'k) sub_managers"
  oe_io :: "('c, Eventing, 'k) natsio"
  oe_builder :: ConnectionBuilder
  oe_Watch :: "string \<Rightarrow> 'k \<Rightarrow> goerr option \<times> 'k"
  oe_informer :: "'k informer"
  oe_allowedEventingCR :: "(string \<times> string) option"
  oe_maxReconnects :: int
  oe_reconnectWait :: time
  oe_now :: time

record oauth2Credentials =
  oc_clientID :: string
  oc_clientSecret :: string
  oc_tokenURL :: string
  oc_certsURL :: string

subsection \<open>The state of the reconciler\<close>

text \<open>
  \<^verbatim>\<open>natsWatchers\<close> maps a namespace to its watcher; the configuration of the eventing manager and the environment of the process, which the reconciler writes too, are part
  of the state.
\<close>

record ('m, 'c, 'k) op_state =
  op_k8s :: 'k
  op_natsSubManager :: "'m option"
  op_eventMeshSubManager :: "'m option"
  op_isNATSSubManagerStarted :: bool
  op_isEventMeshSubManagerStarted :: bool
  op_oauth2credentials :: oauth2Credentials
  op_backendConfig :: EnvBackendConfig
  op_managerConfig :: EnvBackendConfig
  op_clusterScopedResourcesWatched :: bool
  op_natsWatchers :: "string \<rightharpoonup> ResourceWatcher"
  op_natsConnection :: "'c connection option"
  op_environ :: "string \<rightharpoonup> string"

record op_result =
  res_Requeue :: bool
  res_RequeueAfter :: time

abbreviation no_requeue :: op_result where "no_requeue \<equiv> \<lparr>res_Requeue = False, res_RequeueAfter = 0\<rparr>"

type_synonym op_return = "op_result \<times> goerr option"

text \<open>\<^verbatim>\<open>NewReconciler\<close>: nothing is running and nothing is watched yet.\<close>

definition NewReconciler :: "EnvBackendConfig \<Rightarrow> 'k \<Rightarrow> (string \<rightharpoonup> string) \<Rightarrow> ('m, 'c, 'k) op_state" where
  "NewReconciler backendConfig k environ =
     \<lparr>op_k8s = k, op_natsSubManager = None, op_eventMeshSubManager = None,
      op_isNATSSubManagerStarted = False, op_isEventMeshSubManagerStarted = False,
      op_oauth2credentials = \<lparr>oc_clientID = '''', oc_clientSecret = '''', oc_tokenURL = '''', oc_certsURL = ''''\<rparr>,
      op_backendConfig = backendConfig, op_managerConfig = backendConfig,
      op_clusterScopedResourcesWatched = False, op_natsWatchers = Map.empty, op_natsConnection = None,
      op_environ = environ\<rparr>"

text \<open>Running a call on the outside world inside the state.\<close>

definition on_k8s ::
  "('k \<Rightarrow> ('k, 'a) outcome) \<Rightarrow> ('m, 'c, 'k) op_state \<Rightarrow> (('m, 'c, 'k) op_state, 'a) outcome" where
  "on_k8s f s = (case f (op_k8s s) of (r, k) \<Rightarrow> (r, s\<lparr>op_k8s := k\<rparr>))"

text \<open>A call whose only result is an error, with the error as a value.\<close>

definition err_on_k8s ::
  "('k \<Rightarrow> goerr option \<times> 'k) \<Rightarrow> ('m, 'c, 'k) op_state \<Rightarrow> goerr option \<times> ('m, 'c, 'k) op_state" where
  "err_on_k8s f s = (case f (op_k8s s) of (e, k) \<Rightarrow> (e, s\<lparr>op_k8s := k\<rparr>))"

subsection \<open>utils.go\<close>

abbreviation FinalizerName :: string where "FinalizerName \<equiv> ''eventing.operator.kyma-project.io/finalizer''"

definition containsFinalizer_op :: "('m, 'c, 'k) op_env \<Rightarrow> Eventing \<Rightarrow> bool" where
  "containsFinalizer_op env eventing \<longleftrightarrow>
     ul_ContainsFinalizer (oe_util env) (eg_finalizers eventing) FinalizerName"

definition addFinalizer_op :: "('m, 'c, 'k) op_env \<Rightarrow> Eventing \<Rightarrow> 'k \<Rightarrow> op_return \<times> 'k" where
  "addFinalizer_op env eventing k =
     (case rc_UpdateEventing (oe_client env)
             (eventing\<lparr>eg_finalizers := ul_AddFinalizer (oe_util env) (eg_finalizers eventing) FinalizerName\<rparr>) k of
        (err, k) \<Rightarrow> ((no_requeue, err), k))"

definition removeFinalizer_op :: "('m, 'c, 'k) op_env \<Rightarrow> Eventing \<Rightarrow> 'k \<Rightarrow> op_return \<times> 'k" where
  "removeFinalizer_op env eventing k =
     (case rc_UpdateEventing (oe_client env)
             (eventing\<lparr>eg_finalizers := ul_RemoveFinalizer (oe_util env) (eg_finalizers eventing) FinalizerName\<rparr>) k of
        (err, k) \<Rightarrow> ((no_requeue, err), k))"

definition getNATSBackendConfigHash ::
  "('m, 'c, 'k) op_env \<Rightarrow> DefaultSubscriptionConfig \<Rightarrow> NATSConfig \<Rightarrow> int result" where
  "getNATSBackendConfigHash env defaultSubscriptionConfig natsConfig =
     (case ul_HashConfig (oe_util env) (defaultSubscriptionConfig, natsConfig) of
        Inl err \<Rightarrow> Err err | Inr hash \<Rightarrow> Ret (int64 hash))"

definition getEventMeshBackendConfigHash ::
  "('m, 'c, 'k) op_env \<Rightarrow> string \<Rightarrow> string \<Rightarrow> string \<Rightarrow> int result" where
  "getEventMeshBackendConfigHash env eventMeshSecret eventTypePrefix domain =
     (case ul_HashString (oe_util env)
             (''['' @ eventMeshSecret @ ''][''  @ eventTypePrefix @ ''][''  @ domain @ '']'') of
        Inl err \<Rightarrow> Err err | Inr hash \<Rightarrow> Ret (int64 hash))"

subsection \<open>status.go\<close>

definition map_status :: "(EventingStatus \<Rightarrow> EventingStatus) \<Rightarrow> Eventing \<Rightarrow> Eventing" where
  "map_status f e = e\<lparr>eg_status := f (eg_status e)\<rparr>"

definition InitStateProcessing :: "Eventing \<Rightarrow> Eventing" where
  "InitStateProcessing eventing =
     (if gs_state (eg_status eventing) = '''' then map_status SetStateProcessing eventing else eventing)"

definition updateStatus_op ::
  "('m, 'c, 'k) op_env \<Rightarrow> Eventing \<Rightarrow> Eventing \<Rightarrow> 'k \<Rightarrow> goerr option \<times> 'k" where
  "updateStatus_op env oldEventing newEventing k =
     (let new = map_status RemoveUnsupportedConditions newEventing in
      if IsEqual_EventingStatus (oe_conds env) (eg_status oldEventing) (eg_status new) then (None, k)
      else rc_StatusUpdateEventing (oe_client env) new k)"

definition syncEventingStatus :: "('m, 'c, 'k) op_env \<Rightarrow> Eventing \<Rightarrow> 'k \<Rightarrow> goerr option \<times> 'k" where
  "syncEventingStatus env eventing k =
     (case rc_GetEventing (oe_client env) (eg_namespace eventing) (eg_name eventing) k of
        Inl err \<Rightarrow> (Some err, k)
      | Inr actualEventing \<Rightarrow>
          updateStatus_op env actualEventing (actualEventing\<lparr>eg_status := eg_status eventing\<rparr>) k)"

text \<open>\<^verbatim>\<open>errors.Join(err, r.syncEventingStatus(...))\<close>.\<close>

definition join_sync :: "('m, 'c, 'k) op_env \<Rightarrow> Eventing \<Rightarrow> goerr \<Rightarrow> 'k \<Rightarrow> goerr option \<times> 'k" where
  "join_sync env eventing err k =
     (case syncEventingStatus env eventing k of (e, k) \<Rightarrow> (errors_Join (Some err) e, k))"

definition syncStatusWithNATSState ::
  "('m, 'c, 'k) op_env \<Rightarrow> string \<Rightarrow> Eventing \<Rightarrow> goerr \<Rightarrow> 'k \<Rightarrow> goerr option \<times> 'k" where
  "syncStatusWithNATSState env state eventing err k =
     join_sync env
       (map_status (\<lambda>es. UpdateConditionBackendAvailable (oe_conds env) (oe_now env) ConditionFalse
          ConditionReasonNATSNotAvailable (Error err) (es\<lparr>gs_state := state\<rparr>)) eventing) err k"

definition syncStatusWithNATSErr ::
  "('m, 'c, 'k) op_env \<Rightarrow> Eventing \<Rightarrow> goerr \<Rightarrow> 'k \<Rightarrow> goerr option \<times> 'k" where
  "syncStatusWithNATSErr env eventing err k = syncStatusWithNATSState env StateError eventing err k"

definition syncStatusForEmptyBackend ::
  "('m, 'c, 'k) op_env \<Rightarrow> string \<Rightarrow> Eventing \<Rightarrow> 'k \<Rightarrow> goerr option \<times> 'k" where
  "syncStatusForEmptyBackend env message eventing k =
     syncEventingStatus env
       (map_status (\<lambda>es. UpdateConditionBackendAvailable (oe_conds env) (oe_now env) ConditionFalse
          ConditionReasonBackendNotSpecified message (SetStateWarning es)) eventing) k"

definition syncStatusWithPublisherProxyErrWithReason ::
  "('m, 'c, 'k) op_env \<Rightarrow> string \<Rightarrow> Eventing \<Rightarrow> goerr \<Rightarrow> 'k \<Rightarrow> goerr option \<times> 'k" where
  "syncStatusWithPublisherProxyErrWithReason env reason eventing err k =
     join_sync env
       (map_status (\<lambda>es. UpdateConditionPublisherProxyReady (oe_conds env) (oe_now env) ConditionFalse
          reason (Error err) (SetStateError es)) eventing) err k"

definition syncStatusWithPublisherProxyErr ::
  "('m, 'c, 'k) op_env \<Rightarrow> Eventing \<Rightarrow> goerr \<Rightarrow> 'k \<Rightarrow> goerr option \<times> 'k" where
  "syncStatusWithPublisherProxyErr env eventing err k =
     syncStatusWithPublisherProxyErrWithReason env ConditionReasonDeployedFailed eventing err k"

definition syncSubManagerStatusWithNATSState ::
  "('m, 'c, 'k) op_env \<Rightarrow> string \<Rightarrow> Eventing \<Rightarrow> goerr \<Rightarrow> 'k \<Rightarrow> goerr option \<times> 'k" where
  "syncSubManagerStatusWithNATSState env state eventing err k =
     join_sync env
       (map_status (\<lambda>es. UpdateConditionSubscriptionManagerReady (oe_conds env) (oe_now env) ConditionFalse
          ConditionReasonEventMeshSubManagerFailed (Error err) (es\<lparr>gs_state := state\<rparr>)) eventing) err k"

definition syncStatusWithSubscriptionManagerErrWithReason ::
  "('m, 'c, 'k) op_env \<Rightarrow> string \<Rightarrow> Eventing \<Rightarrow> goerr \<Rightarrow> 'k \<Rightarrow> goerr option \<times> 'k" where
  "syncStatusWithSubscriptionManagerErrWithReason env reason eventing err k =
     join_sync env
       (map_status (\<lambda>es. UpdateConditionSubscriptionManagerReady (oe_conds env) (oe_now env) ConditionFalse
          reason (Error err) (SetStateError es)) eventing) err k"

definition syncStatusWithSubscriptionManagerErr ::
  "('m, 'c, 'k) op_env \<Rightarrow> Eventing \<Rightarrow> goerr \<Rightarrow> 'k \<Rightarrow> goerr option \<times> 'k" where
  "syncStatusWithSubscriptionManagerErr env eventing err k =
     syncStatusWithSubscriptionManagerErrWithReason env ConditionReasonEventMeshSubManagerFailed eventing err k"

text \<open>The one that is called in the middle of a reconciliation returns the changed resource too.\<close>

definition syncStatusWithSubscriptionManagerFailedCondition ::
  "('m, 'c, 'k) op_env \<Rightarrow> Eventing \<Rightarrow> goerr \<Rightarrow> 'k \<Rightarrow> Eventing \<times> goerr option \<times> 'k" where
  "syncStatusWithSubscriptionManagerFailedCondition env eventing err k =
     (let e = map_status (\<lambda>es. UpdateConditionSubscriptionManagerReady (oe_conds env) (oe_now env) ConditionFalse
                ConditionReasonEventMeshSubManagerFailed (Error err) (SetStateError es)) eventing
      in (e, syncEventingStatus env e k))"

definition syncStatusWithDeletionErr ::
  "('m, 'c, 'k) op_env \<Rightarrow> Eventing \<Rightarrow> goerr \<Rightarrow> 'k \<Rightarrow> goerr option \<times> 'k" where
  "syncStatusWithDeletionErr env eventing err k =
     join_sync env
       (map_status (UpdateConditionDeletion (oe_conds env) (oe_now env) ConditionFalse
          ConditionReasonDeletionError (Error err)) eventing) err k"

text \<open>\<^verbatim>\<open>IsDeploymentReady\<close> dereferences the deployment and its replica count.\<close>

definition IsDeploymentReady :: "Deployment option \<Rightarrow> bool result" where
  "IsDeploymentReady deployment =
     (case deployment of
        None \<Rightarrow> Crash nil_pointer
      | Some d \<Rightarrow>
          (case ds_replicas (dep_spec d) of
             None \<Rightarrow> Crash nil_pointer
           | Some n \<Rightarrow> Ret (dst_availableReplicas (dep_status d) = n \<and> dst_readyReplicas (dep_status d) = n \<and>
                          dst_updatedReplicas (dep_status d) = n)))"

abbreviation RequeueTimeForStatusCheck :: time where "RequeueTimeForStatusCheck \<equiv> 10"

definition handleEventingState ::
  "('m, 'c, 'k) op_env \<Rightarrow> Deployment \<Rightarrow> Eventing \<Rightarrow> 'k \<Rightarrow> op_return result \<times> 'k" where
  "handleEventingState env deployment eventingCR k =
     (let e = map_status ClearPublisherService eventingCR in
      case GetDeployment (oe_client env) (om_name (dep_meta deployment)) (om_namespace (dep_meta deployment)) k of
        Crash p \<Rightarrow> (Crash p, k)
      | Err err \<Rightarrow>
          let e' = map_status (UpdateConditionPublisherProxyReady (oe_conds env) (oe_now env) ConditionFalse
                     ConditionReasonDeploymentStatusSyncFailed (Error err)) e
          in (case syncStatusWithPublisherProxyErr env e' err k of (r, k) \<Rightarrow> (Ret (no_requeue, r), k))
      | Ret found \<Rightarrow>
          (case IsDeploymentReady found of
             Crash p \<Rightarrow> (Crash p, k)
           | Err err \<Rightarrow> (Err err, k)
           | Ret False \<Rightarrow>
               let e' = map_status (\<lambda>es. UpdateConditionPublisherProxyReady (oe_conds env) (oe_now env) ConditionFalse
                          ConditionReasonProcessing ConditionPublisherProxyProcessingMessage (SetStateProcessing es)) e
               in (case syncEventingStatus env e' k of
                     (r, k) \<Rightarrow> (Ret (\<lparr>res_Requeue = False, res_RequeueAfter = RequeueTimeForStatusCheck * Second\<rparr>, r), k))
           | Ret True \<Rightarrow>
               let e' = map_status (\<lambda>es. SetPublisherService (GetPublisherPublishServiceName eventingCR)
                          (eg_namespace eventingCR) (SetPublisherProxyReadyToTrue (oe_conds env) (oe_now env) es)) e
               in (case syncEventingStatus env e' k of (r, k) \<Rightarrow> (Ret (no_requeue, r), k))))"

subsection \<open>An example environment\<close>

text \<open>
  Managers that always start and stop and are known by the URL or the domain they were created
  for, a NATS library that always connects, and the example cluster.
\<close>

definition example_util :: util_lib where
  "example_util =
     \<lparr>ul_ContainsFinalizer = (\<lambda>fs f. f \<in> set fs),
      ul_AddFinalizer = (\<lambda>fs f. if f \<in> set fs then fs else fs @ [f]),
      ul_RemoveFinalizer = (\<lambda>fs f. filter (\<lambda>x. x \<noteq> f) fs),
      ul_HashConfig = (\<lambda>(d, c). Inr (length (nc_URL c))), ul_HashString = (\<lambda>s. Inr (length s)),
      ul_Unmarshal = (\<lambda>s. Inr [\<lparr>msg_brokerType = ''saprestmgw'', msg_oa2 =
        \<lparr>oa_clientID = ''id'', oa_clientSecret = ''secret'', oa_grantType = ''client_credentials'',
         oa_tokenEndpoint = ''https://token''\<rparr>, msg_uri = ''https://ems''\<rparr>]),
      ul_Process = (\<lambda>c. Inr (c\<lparr>nc_JSStreamName := ''sap''\<rparr>))\<rparr>"

definition example_managers :: "(string, cluster) sub_managers" where
  "example_managers =
     \<lparr>sm_NewJetStreamManager = (\<lambda>e c k. (Ret (nc_URL c), k)), sm_NewEventMeshManager = (\<lambda>d en k. (Ret d, k)),
      sm_Init = (\<lambda>m k. (Ret (), k)), sm_Start = (\<lambda>m d p en k. (Ret (), k)), sm_Stop = (\<lambda>m c k. (Ret (), k))\<rparr>"

definition example_op_env :: "(string, unit, cluster) op_env" where
  "example_op_env =
     \<lparr>oe_client = example_client, oe_lib = example_lib, oe_conds = example_cond_lib, oe_util = example_util,
      oe_managers = example_managers,
      oe_io = \<lparr>io_Connect = (\<lambda>u opts k. (Inr (), k)), io_IsConnected = (\<lambda>c k. True), io_IsClosed = (\<lambda>c k. False),
               io_Close = (\<lambda>c k. k), io_SetReconnectHandler = (\<lambda>c h k. k), io_SetDisconnectErrHandler = (\<lambda>c h k. k)\<rparr>,
      oe_builder = example_builder, oe_Watch = (\<lambda>kind k. (None, k)),
      oe_informer = \<lparr>inf_AddEventHandler = (\<lambda>n k. (None, k)), inf_RemoveEventHandler = (\<lambda>n k. (None, k)),
                     inf_Start = (\<lambda>n k. k), inf_Shutdown = (\<lambda>n k. k)\<rparr>,
      oe_allowedEventingCR = Some (''eventing'', ''kyma-system''), oe_maxReconnects = 10, oe_reconnectWait = 3,
      oe_now = 7\<rparr>"

lemma example_op_env_simps [simp]:
  "oe_client example_op_env = example_client" "oe_conds example_op_env = example_cond_lib"
  "oe_managers example_op_env = example_managers" "oe_util example_op_env = example_util"
  by (simp_all add: example_op_env_def)

definition example_cluster :: "Eventing \<Rightarrow> cluster" where
  "example_cluster e =
     empty_cluster\<lparr>clu_eventing := Some e,
       clu_nats := [\<lparr>nats_name = ''eventing-nats'', nats_namespace = ''kyma-system'', nats_state = ''Ready''\<rparr>],
       clu_crds := [''nats.operator.kyma-project.io'', ''apirules.gateway.kyma-project.io'']\<rparr>"

definition example_op_state :: "Eventing \<Rightarrow> (string, unit, cluster) op_state" where
  "example_op_state e = NewReconciler example_env_config (example_cluster e) Map.empty"

end
