(* ===== verification/Sub_Managers.thy ===== *)
theory Sub_Managers
  imports Operator_State
begin

section \<open>Starting and stopping the subscription managers (operator/eventing: nats.go, eventmesh.go, domain.go)\<close>

text \<open>
  The part of the reconciler that keeps a subscription manager running for the selected backend:
  the configuration is computed, a changed configuration stops the manager, a missing manager is
  created and initialised, and a manager that is not started is started. The pattern is the same
  for both backends and is captured by the locale \<open>manager_slot\<close>, interpreted for NATS and for
  EventMesh.
\<close>

type_synonym ('m, 'c, 'k, 'a) op_call = "('m, 'c, 'k) op_state \<Rightarrow> (('m, 'c, 'k) op_state, 'a) outcome"

definition getDefaultSubscriptionConfig :: "('m, 'c, 'k) op_state \<Rightarrow> DefaultSubscriptionConfig" where
  "getDefaultSubscriptionConfig s = ebc_defaultSubscriptionConfig (op_managerConfig s)"

subsection \<open>The NATS configuration\<close>

abbreviation ErrCannotBuildNATSURL :: goerr where
  "ErrCannotBuildNATSURL \<equiv> Sentinel ''NATS CR is not found to build NATS server URL''"

definition GetNATSConfig :: "util_lib \<Rightarrow> int \<Rightarrow> time \<Rightarrow> NATSConfig result" where
  "GetNATSConfig lib maxReconnects reconnectWait =
     (case ul_Process lib
             \<lparr>nc_URL = '''', nc_MaxReconnects = maxReconnects, nc_ReconnectWait = reconnectWait,
              nc_EventTypePrefix = '''', nc_MaxIdleConns = 0, nc_MaxConnsPerHost = 0, nc_MaxIdleConnsPerHost = 0,
              nc_IdleConnTimeout = 0, nc_JSStreamName = '''', nc_JSSubjectPrefix = '''',
              nc_JSStreamStorageType = '''', nc_JSStreamReplicas = 0, nc_JSStreamRetentionPolicy = '''',
              nc_JSStreamMaxMessages = 0, nc_JSStreamMaxBytes = '''', nc_JSStreamMaxMsgsPerTopic = 0,
              nc_JSStreamDiscardPolicy = '''', nc_JSConsumerDeliverPolicy = ''''\<rparr> of
        Inl err \<Rightarrow> Err err | Inr cfg \<Rightarrow> Ret cfg)"

definition getNATSUrl :: "('m, 'c, 'k) op_env \<Rightarrow> string \<Rightarrow> 'k \<Rightarrow> string result" where
  "getNATSUrl env namespace k =
     (case GetNATSResources (oe_client env) namespace k of
        Err err \<Rightarrow> Err err
      | Crash p \<Rightarrow> Crash p
      | Ret [] \<Rightarrow> Err ErrCannotBuildNATSURL
      | Ret (nats # _) \<Rightarrow>
          Ret (''nats://'' @ nats_name nats @ ''.'' @ nats_namespace nats @ ''.svc.cluster.local:'' @ Itoa 4222))"

definition GetNatsConfig :: "('m, 'c, 'k) op_env \<Rightarrow> Eventing \<Rightarrow> 'k \<Rightarrow> NATSConfig result" where
  "GetNatsConfig env eventing k =
     (case GetNATSConfig (oe_util env) (oe_maxReconnects env) (oe_reconnectWait env) of
        Err err \<Rightarrow> Err err
      | Crash p \<Rightarrow> Crash p
      | Ret natsConfig \<Rightarrow>
          (case getNATSUrl env (eg_namespace eventing) k of
             Err err \<Rightarrow> Err err
           | Crash p \<Rightarrow> Crash p
           | Ret natsURL \<Rightarrow>
               (case backend_config eventing of
                  Ret c \<Rightarrow> Ret (natsConfig\<lparr>nc_URL := natsURL,
                    nc_JSStreamStorageType := bc_natsStreamStorageType c,
                    nc_JSStreamReplicas := bc_natsStreamReplicas c,
                    nc_JSStreamMaxBytes := q_text (bc_natsStreamMaxSize c),
                    nc_JSStreamMaxMsgsPerTopic := bc_natsMaxMsgsPerTopic c,
                    nc_EventTypePrefix := bc_eventTypePrefix c\<rparr>)
                | Err err \<Rightarrow> Err err
                | Crash p \<Rightarrow> Crash p)))"

subsection \<open>nats.go\<close>

definition startNATSSubManager ::
  "('m, 'c, 'k) op_env \<Rightarrow> DefaultSubscriptionConfig \<Rightarrow> ('m, 'c, 'k, unit) op_call" where
  "startNATSSubManager env defaultSubsConfig s =
     (case op_natsSubManager s of
        None \<Rightarrow> (Crash nil_pointer, s)
      | Some m \<Rightarrow>
          (case sm_Start (oe_managers env) m defaultSubsConfig fmempty (op_environ s) (op_k8s s) of
             (Err err, k) \<Rightarrow> (Err err, s\<lparr>op_k8s := k\<rparr>)
           | (Crash p, k) \<Rightarrow> (Crash p, s\<lparr>op_k8s := k\<rparr>)
           | (Ret _, k) \<Rightarrow> (Ret (), s\<lparr>op_k8s := k, op_isNATSSubManagerStarted := True\<rparr>)))"

definition stopNATSSubManager :: "('m, 'c, 'k) op_env \<Rightarrow> bool \<Rightarrow> ('m, 'c, 'k, unit) op_call" where
  "stopNATSSubManager env runCleanup s =
     (case op_natsSubManager s of
        None \<Rightarrow> (Ret (), s)
      | Some m \<Rightarrow>
          if \<not> op_isNATSSubManagerStarted s then (Ret (), s)
          else (case sm_Stop (oe_managers env) m runCleanup (op_k8s s) of
                  (Err err, k) \<Rightarrow> (Err err, s\<lparr>op_k8s := k\<rparr>)
                | (Crash p, k) \<Rightarrow> (Crash p, s\<lparr>op_k8s := k\<rparr>)
                | (Ret _, k) \<Rightarrow>
                    (Ret (), s\<lparr>op_k8s := k, op_isNATSSubManagerStarted := False, op_natsSubManager := None\<rparr>)))"

text \<open>The manager is created and initialised if there is none.\<close>

definition new_manager :: "('m, 'k) sub_managers \<Rightarrow> ('k \<Rightarrow> ('k, 'm) outcome) \<Rightarrow> 'k \<Rightarrow> ('k, 'm) outcome" where
  "new_manager managers create k =
     bindR (create k) (\<lambda>m k. bindR (sm_Init managers m k) (\<lambda>_ k. (Ret m, k)))"

definition ensure_nats_manager ::
  "('m, 'c, 'k) op_env \<Rightarrow> Eventing \<Rightarrow> NATSConfig \<Rightarrow> ('m, 'c, 'k, unit) op_call" where
  "ensure_nats_manager env eventing natsConfig s =
     (case op_natsSubManager s of
        Some _ \<Rightarrow> (Ret (), s)
      | None \<Rightarrow>
          (case new_manager (oe_managers env) (sm_NewJetStreamManager (oe_managers env) eventing natsConfig) (op_k8s s) of
             (Err err, k) \<Rightarrow> (Err err, s\<lparr>op_k8s := k\<rparr>)
           | (Crash p, k) \<Rightarrow> (Crash p, s\<lparr>op_k8s := k\<rparr>)
           | (Ret m, k) \<Rightarrow> (Ret (), s\<lparr>op_k8s := k, op_natsSubManager := Some m\<rparr>)))"

definition nats_apply_hash ::
  "('m, 'c, 'k) op_env \<Rightarrow> Eventing \<Rightarrow> int \<Rightarrow> ('m, 'c, 'k, unit) op_call" where
  "nats_apply_hash env eventing specHash s =
     (if gs_backendConfigHash (eg_status eventing) \<noteq> specHash \<and> op_isNATSSubManagerStarted s
      then stopNATSSubManager env False s
      else if gs_backendConfigHash (eg_status eventing) \<noteq> specHash
      then (Ret (), s\<lparr>op_natsSubManager := None\<rparr>)
      else (Ret (), s))"

text \<open>The result is the Eventing resource, whose hash is set once the manager has been started.\<close>

definition reconcileNATSSubManager ::
  "('m, 'c, 'k) op_env \<Rightarrow> Eventing \<Rightarrow> ('m, 'c, 'k, Eventing) op_call" where
  "reconcileNATSSubManager env eventing s =
     (let defaultSubsConfig = getDefaultSubscriptionConfig s in
      bindR (GetNatsConfig env eventing (op_k8s s), s) (\<lambda>natsConfig s.
      bindR (getNATSBackendConfigHash env defaultSubsConfig natsConfig, s) (\<lambda>specHash s.
      bindR (nats_apply_hash env eventing specHash s) (\<lambda>_ s.
      bindR (ensure_nats_manager env eventing natsConfig s) (\<lambda>_ s.
      if op_isNATSSubManagerStarted s then (Ret eventing, s)
      else bindR (startNATSSubManager env defaultSubsConfig s) (\<lambda>_ s.
        (Ret (map_status (\<lambda>es. es\<lparr>gs_backendConfigHash := specHash\<rparr>) eventing), s)))))))"

subsection \<open>domain.go\<close>

abbreviation ErrDomainConfigMissing :: goerr where
  "ErrDomainConfigMissing \<equiv> Sentinel ''domain configuration missing''"

definition readDomainFromConfigMap :: "('m, 'c, 'k) op_env \<Rightarrow> 'k \<Rightarrow> string result" where
  "readDomainFromConfigMap env k =
     (case GetConfigMap (oe_client env) ''shoot-info'' ''kube-system'' k of
        Ret d \<Rightarrow> Ret (case fmlookup (entries d) ''domain'' of None \<Rightarrow> '''' | Some v \<Rightarrow> v)
      | Err err \<Rightarrow> Err err
      | Crash p \<Rightarrow> Crash p)"

definition domainMissingError :: "goerr option \<Rightarrow> goerr" where
  "domainMissingError err =
     (let q = [CHR 0x22];
          t = ''. domain must be configured in either the Eventing CustomResource under '' @ q @
              ''Spec.Backend.Config.Domain'' @ q @ '' or in the ConfigMap '' @ q @ ''kube-system/shoot-info'' @ q @
              '' under '' @ q @ ''data.domain'' @ q
      in case err of
           Some e \<Rightarrow> Wrapped ['''', t @ '': ''] [ErrDomainConfigMissing, e]
         | None \<Rightarrow> Wrapped ['''', t] [ErrDomainConfigMissing])"

definition checkDomain :: "('m, 'c, 'k) op_env \<Rightarrow> string \<Rightarrow> 'k \<Rightarrow> string result" where
  "checkDomain env domain k =
     (if \<not> IsEmpty domain then Ret domain
      else case readDomainFromConfigMap env k of
        Err err \<Rightarrow> Err (domainMissingError (Some err))
      | Crash p \<Rightarrow> Crash p
      | Ret cmDomain \<Rightarrow> if IsEmpty cmDomain then Err (domainMissingError None) else Ret cmDomain)"

subsection \<open>eventmesh.go: the publisher secret\<close>

abbreviation ErrEventMeshSecretMissing :: goerr where
  "ErrEventMeshSecretMissing \<equiv>
     Sentinel ''The specified EventMesh secret is not found. Please provide an existing secret.''"
abbreviation ErrEventMeshSecretMalformatted :: goerr where
  "ErrEventMeshSecretMalformatted \<equiv> Sentinel ''The EventMesh secret data is not formatted properly.''"

definition newMalformattedSecretErr :: "string \<Rightarrow> goerr" where
  "newMalformattedSecretErr e = Wrapped [e @ '': ''] [ErrEventMeshSecretMalformatted]"

definition IsMalformattedSecretErr :: "goerr \<Rightarrow> bool" where
  "IsMalformattedSecretErr err \<longleftrightarrow> errors_Is err ErrEventMeshSecretMalformatted"

abbreviation PublisherSecretEMSHostKey :: string where "PublisherSecretEMSHostKey \<equiv> ''ems-publish-host''"
abbreviation EventMeshPublishEndpointForSubscriber :: string where
  "EventMeshPublishEndpointForSubscriber \<equiv> ''/sap/ems/v1''"
abbreviation EventMeshPublishEndpointForPublisher :: string where
  "EventMeshPublishEndpointForPublisher \<equiv> ''/sap/ems/v1/events''"

definition newSecret :: "string \<Rightarrow> string \<Rightarrow> Secret" where
  "newSecret name namespace =
     \<lparr>sec_type = \<lparr>tm_kind = ''Secret'', tm_apiVersion = ''v1''\<rparr>, sec_meta = named_meta name namespace,
      sec_data = None, sec_stringData = None\<rparr>"

definition getSecretStringData ::
  "string \<Rightarrow> string \<Rightarrow> string \<Rightarrow> string \<Rightarrow> string \<Rightarrow> string \<Rightarrow> (string, string) fmap" where
  "getSecretStringData clientID clientSecret tokenEndpoint grantType publishURL namespace = fmap_of_list
     [(PublisherSecretClientIDKey, clientID), (PublisherSecretClientSecretKey, clientSecret),
      (PublisherSecretTokenEndpointKey, tokenEndpoint @ ''?grant_type='' @ grantType @ ''&response_type=token''),
      (PublisherSecretEMSURLKey, publishURL @ EventMeshPublishEndpointForPublisher),
      (PublisherSecretEMSHostKey, publishURL), (PublisherSecretBEBNamespaceKey, namespace)]"

text \<open>The loop over the messages: the first one of the REST gateway decides.\<close>

fun publisher_string_data :: "string \<Rightarrow> Message list \<Rightarrow> gomap result" where
  "publisher_string_data namespace [] = Ret None"
| "publisher_string_data namespace (msg # msgs) =
     (if msg_brokerType msg \<noteq> ''saprestmgw'' then publisher_string_data namespace msgs
      else if oa_clientID (msg_oa2 msg) = '''' then Err (newMalformattedSecretErr ''client ID is missing'')
      else if oa_clientSecret (msg_oa2 msg) = '''' then Err (newMalformattedSecretErr ''client secret is missing'')
      else if oa_tokenEndpoint (msg_oa2 msg) = '''' then Err (newMalformattedSecretErr ''tokenendpoint is missing'')
      else if oa_grantType (msg_oa2 msg) = '''' then Err (newMalformattedSecretErr ''granttype is missing'')
      else if msg_uri msg = '''' then Err (newMalformattedSecretErr ''publish URL is missing'')
      else Ret (Some (getSecretStringData (oa_clientID (msg_oa2 msg)) (oa_clientSecret (msg_oa2 msg))
             (oa_tokenEndpoint (msg_oa2 msg)) (oa_grantType (msg_oa2 msg)) (msg_uri msg) namespace)))"

definition getSecretForPublisher :: "util_lib \<Rightarrow> Secret \<Rightarrow> string \<Rightarrow> Secret result" where
  "getSecretForPublisher lib eventMeshSecret ns =
     (let secret = (newSecret PublisherName ns)
            \<lparr>sec_meta := (named_meta PublisherName ns)
               \<lparr>om_labels := Some (fmap_of_list [(KeyName, ValueEventingPublisherProxy)])\<rparr>\<rparr>
      in case fmlookup (entries (sec_data eventMeshSecret)) ''namespace'' of
           None \<Rightarrow> Err (newMalformattedSecretErr ''namespace is missing from EM secret'')
         | Some namespaceBytes \<Rightarrow>
             (case fmlookup (entries (sec_data eventMeshSecret)) ''messaging'' of
                None \<Rightarrow> Err (newMalformattedSecretErr ''messaging is missing from EM secret'')
              | Some messagingBytes \<Rightarrow>
                  (case ul_Unmarshal lib messagingBytes of
                     Inl err \<Rightarrow> Err (newMalformattedSecretErr (Error err))
                   | Inr messages \<Rightarrow>
                       (case publisher_string_data namespaceBytes messages of
                          Ret d \<Rightarrow> Ret (secret\<lparr>sec_stringData := d\<rparr>)
                        | Err err \<Rightarrow> Err err
                        | Crash p \<Rightarrow> Crash p))))"

text \<open>The server answers the patch with the secret as stored, its string data merged into the data.\<close>

definition SyncPublisherProxySecret ::
  "('m, 'c, 'k) op_env \<Rightarrow> string \<Rightarrow> Secret \<Rightarrow> 'k \<Rightarrow> ('k, Secret) outcome" where
  "SyncPublisherProxySecret env eventingNS secret k =
     (case getSecretForPublisher (oe_util env) secret eventingNS of
        Err err \<Rightarrow> (Err (wrap_text ''invalid secret for Event Publisher: '' err), k)
      | Crash p \<Rightarrow> (Crash p, k)
      | Ret desiredSecret \<Rightarrow>
          bindR (PatchApply (oe_client env) (OSecret desiredSecret) k) (\<lambda>x k.
            case x of OSecret t \<Rightarrow> (Ret t, k) | _ \<Rightarrow> (Ret desiredSecret, k)))"

text \<open>\<^verbatim>\<open>os.Setenv\<close>: a value with a NUL byte is refused.\<close>

definition Setenv :: "string \<Rightarrow> string \<Rightarrow> (string \<rightharpoonup> string) \<Rightarrow> goerr option \<times> (string \<rightharpoonup> string)" where
  "Setenv name v environ =
     (if CHR 0x00 \<in> set v then (Some (Plain KOther ''setenv: invalid argument''), environ)
      else (None, environ(name \<mapsto> v)))"

definition set_env_or :: "string \<Rightarrow> string \<Rightarrow> (string \<rightharpoonup> string) \<Rightarrow> (string \<rightharpoonup> string, unit) outcome" where
  "set_env_or name v environ =
     (case Setenv name v environ of
        (Some err, environ) \<Rightarrow> (Err (wrap_text (''set '' @ name @ '' env var failed: '') err), environ)
      | (None, environ) \<Rightarrow> (Ret (), environ))"

definition setUpEnvironmentForEventMesh ::
  "Secret \<Rightarrow> Eventing \<Rightarrow> (string \<rightharpoonup> string) \<Rightarrow> (string \<rightharpoonup> string, unit) outcome" where
  "setUpEnvironmentForEventMesh secret eventingCR environ =
     (let data_of = (\<lambda>key. case fmlookup (entries (sec_data secret)) key of None \<Rightarrow> '''' | Some v \<Rightarrow> v) in
      bindR (set_env_or ''BEB_API_URL'' (data_of PublisherSecretEMSHostKey @ EventMeshPublishEndpointForSubscriber) environ) (\<lambda>_ environ.
      bindR (set_env_or ''CLIENT_ID'' (data_of PublisherSecretClientIDKey) environ) (\<lambda>_ environ.
      bindR (set_env_or ''CLIENT_SECRET'' (data_of PublisherSecretClientSecretKey) environ) (\<lambda>_ environ.
      bindR (set_env_or ''TOKEN_ENDPOINT'' (data_of PublisherSecretTokenEndpointKey) environ) (\<lambda>_ environ.
      bindR (set_env_or ''BEB_NAMESPACE'' (''/'' @ data_of PublisherSecretBEBNamespaceKey) environ) (\<lambda>_ environ.
      bindR (backend_config eventingCR, environ) (\<lambda>c environ.
        set_env_or ''EVENT_TYPE_PREFIX'' (bc_eventTypePrefix c) environ)))))))"

subsection \<open>eventmesh.go: the credentials\<close>

definition secret_key :: "string \<Rightarrow> Secret \<Rightarrow> string \<Rightarrow> string result" where
  "secret_key name secret key =
     (case fmlookup (entries (sec_data secret)) key of
        Some v \<Rightarrow> Ret v
      | None \<Rightarrow> Err (Plain KOther (''key '' @ [CHR 0x27] @ key @ [CHR 0x27] @ '' not found in secret '' @ name)))"

definition getOAuth2ClientCredentials ::
  "('m, 'c, 'k) op_env \<Rightarrow> string \<Rightarrow> ('m, 'c, 'k, oauth2Credentials) op_call" where
  "getOAuth2ClientCredentials env secretNamespace s =
     (let name = secretNamespace @ ''/'' @ ebc_eventingWebhookAuthSecretName (op_backendConfig s) in
      bindR (GetSecret (oe_client env) name (op_k8s s), s) (\<lambda>secret s.
      bindR (secret_key name secret ''client_id'', s) (\<lambda>clientID s.
      bindR (secret_key name secret ''client_secret'', s) (\<lambda>clientSecret s.
      bindR (secret_key name secret ''token_url'', s) (\<lambda>tokenURL s.
      bindR (secret_key name secret ''certs_url'', s) (\<lambda>certsURL s.
        (Ret \<lparr>oc_clientID = clientID, oc_clientSecret = clientSecret, oc_tokenURL = tokenURL,
              oc_certsURL = certsURL\<rparr>, s)))))))"

definition isOauth2CredentialsInitialized :: "('m, 'c, 'k) op_state \<Rightarrow> bool" where
  "isOauth2CredentialsInitialized s \<longleftrightarrow>
     oc_clientID (op_oauth2credentials s) \<noteq> '''' \<and> oc_clientSecret (op_oauth2credentials s) \<noteq> '''' \<and>
     oc_tokenURL (op_oauth2credentials s) \<noteq> '''' \<and> oc_certsURL (op_oauth2credentials s) \<noteq> ''''"

definition getEventMeshSubManagerParams :: "('m, 'c, 'k) op_state \<Rightarrow> params" where
  "getEventMeshSubManagerParams s = fmap_of_list
     [(''client_id'', oc_clientID (op_oauth2credentials s)),
      (''client_secret'', oc_clientSecret (op_oauth2credentials s)),
      (''token_url'', oc_tokenURL (op_oauth2credentials s)),
      (''certs_url'', oc_certsURL (op_oauth2credentials s))]"

definition startEventMeshSubManager ::
  "('m, 'c, 'k) op_env \<Rightarrow> DefaultSubscriptionConfig \<Rightarrow> params \<Rightarrow> ('m, 'c, 'k, unit) op_call" where
  "startEventMeshSubManager env defaultSubsConfig eventMeshSubMgrParams s =
     (case op_eventMeshSubManager s of
        None \<Rightarrow> (Crash nil_pointer, s)
      | Some m \<Rightarrow>
          (case sm_Start (oe_managers env) m defaultSubsConfig eventMeshSubMgrParams (op_environ s) (op_k8s s) of
             (Err err, k) \<Rightarrow> (Err err, s\<lparr>op_k8s := k\<rparr>)
           | (Crash p, k) \<Rightarrow> (Crash p, s\<lparr>op_k8s := k\<rparr>)
           | (Ret _, k) \<Rightarrow> (Ret (), s\<lparr>op_k8s := k, op_isEventMeshSubManagerStarted := True\<rparr>)))"

definition stopEventMeshSubManager :: "('m, 'c, 'k) op_env \<Rightarrow> bool \<Rightarrow> ('m, 'c, 'k, unit) op_call" where
  "stopEventMeshSubManager env runCleanup s =
     (case op_eventMeshSubManager s of
        None \<Rightarrow> (Ret (), s)
      | Some m \<Rightarrow>
          if \<not> op_isEventMeshSubManagerStarted s then (Ret (), s)
          else (case sm_Stop (oe_managers env) m runCleanup (op_k8s s) of
                  (Err err, k) \<Rightarrow> (Err err, s\<lparr>op_k8s := k\<rparr>)
                | (Crash p, k) \<Rightarrow> (Crash p, s\<lparr>op_k8s := k\<rparr>)
                | (Ret _, k) \<Rightarrow>
                    (Ret (), s\<lparr>op_k8s := k, op_isEventMeshSubManagerStarted := False, op_eventMeshSubManager := None\<rparr>)))"

text \<open>
  The following functions change the Eventing resource they are given, also when they end with an
  error, so their state is a pair of the resource and the state of the reconciler.
\<close>

type_synonym ('m, 'c, 'k, 'a) cr_call =
  "Eventing \<times> ('m, 'c, 'k) op_state \<Rightarrow> (Eventing \<times> ('m, 'c, 'k) op_state, 'a) outcome"

definition with_cr :: "('m, 'c, 'k, 'a) op_call \<Rightarrow> ('m, 'c, 'k, 'a) cr_call" where
  "with_cr f es = (case f (snd es) of (r, s) \<Rightarrow> (r, (fst es, s)))"

text \<open>
  Stopping the manager because the credentials are gone or changed: the manager is stopped with
  cleanup and the status is written.
\<close>

definition oauth2_stop :: "('m, 'c, 'k) op_env \<Rightarrow> ('m, 'c, 'k, unit) cr_call" where
  "oauth2_stop env es =
     bindR (with_cr (stopEventMeshSubManager env True) es) (\<lambda>_ es.
       case syncStatusWithSubscriptionManagerFailedCondition env (fst es)
              (Plain KOther ''Stopping the EventMesh subscription manager due to change in OAuth2 oauth2credentials'')
              (op_k8s (snd es)) of
         (e, updateErr, k) \<Rightarrow> (of_err updateErr, (e, (snd es)\<lparr>op_k8s := k\<rparr>)))"

definition syncOauth2ClientIDAndSecret :: "('m, 'c, 'k) op_env \<Rightarrow> ('m, 'c, 'k, unit) cr_call" where
  "syncOauth2ClientIDAndSecret env es =
     (case with_cr (getOAuth2ClientCredentials env (eg_namespace (fst es))) es of
        (Crash p, es) \<Rightarrow> (Crash p, es)
      | (Err err, es) \<Rightarrow>
          if \<not> err_has_kind KNotFound err then (Err err, es)
          else bindR (oauth2_stop env es) (\<lambda>_ es. (Err err, es))
      | (Ret credentials, es) \<Rightarrow>
          let changed = isOauth2CredentialsInitialized (snd es) \<and> op_oauth2credentials (snd es) \<noteq> credentials in
          bindR (if changed then oauth2_stop env es else (Ret (), es)) (\<lambda>_ es.
            (Ret (), if changed \<or> \<not> isOauth2CredentialsInitialized (snd es)
                     then (fst es, (snd es)\<lparr>op_oauth2credentials := credentials\<rparr>) else es)))"

subsection \<open>eventmesh.go: the manager\<close>

definition eventmesh_apply_hash ::
  "('m, 'c, 'k) op_env \<Rightarrow> Eventing \<Rightarrow> int \<Rightarrow> ('m, 'c, 'k, unit) op_call" where
  "eventmesh_apply_hash env eventing specHash s =
     (if gs_backendConfigHash (eg_status eventing) \<noteq> specHash then stopEventMeshSubManager env False s
      else (Ret (), s))"

definition ensure_eventmesh_manager :: "('m, 'c, 'k) op_env \<Rightarrow> string \<Rightarrow> ('m, 'c, 'k, unit) op_call" where
  "ensure_eventmesh_manager env domain s =
     (case op_eventMeshSubManager s of
        Some _ \<Rightarrow> (Ret (), s)
      | None \<Rightarrow>
          (case new_manager (oe_managers env) (sm_NewEventMeshManager (oe_managers env) domain (op_environ s)) (op_k8s s) of
             (Err err, k) \<Rightarrow> (Err err, s\<lparr>op_k8s := k\<rparr>)
           | (Crash p, k) \<Rightarrow> (Crash p, s\<lparr>op_k8s := k\<rparr>)
           | (Ret m, k) \<Rightarrow> (Ret (), s\<lparr>op_k8s := k, op_eventMeshSubManager := Some m\<rparr>)))"

definition setup_environment :: "Secret \<Rightarrow> ('m, 'c, 'k, unit) cr_call" where
  "setup_environment secret es =
     (case setUpEnvironmentForEventMesh secret (fst es) (op_environ (snd es)) of
        (r, environ) \<Rightarrow> (r, (fst es, (snd es)\<lparr>op_environ := environ\<rparr>)))"

definition reconcileEventMeshSubManager ::
  "('m, 'c, 'k) op_env \<Rightarrow> Secret \<Rightarrow> ('m, 'c, 'k, unit) cr_call" where
  "reconcileEventMeshSubManager env eventMeshSecret es =
     bindR (wrap_err ''failed to sync OAuth secret: '' (syncOauth2ClientIDAndSecret env es)) (\<lambda>_ es.
     bindR (wrap_err ''failed to sync Publisher Proxy secret: ''
              (with_cr (on_k8s (SyncPublisherProxySecret env (eg_namespace (fst es)) eventMeshSecret)) es)) (\<lambda>secretForPublisher es.
     bindR (wrap_err ''failed to setup environment variables for EventMesh controller: ''
              (setup_environment secretForPublisher es)) (\<lambda>_ es.
     bindR (backend_config (fst es), es) (\<lambda>c es.
     bindR (checkDomain env (bc_domain c) (op_k8s (snd es)), es) (\<lambda>domain es.
     let defaultSubsConfig = getDefaultSubscriptionConfig (snd es); ps = getEventMeshSubManagerParams (snd es) in
     bindR (getEventMeshBackendConfigHash env (bc_eventMeshSecret c) (bc_eventTypePrefix c) domain, es) (\<lambda>specHash es.
     bindR (with_cr (eventmesh_apply_hash env (fst es) specHash) es) (\<lambda>_ es.
     bindR (with_cr (ensure_eventmesh_manager env domain) es) (\<lambda>_ es.
     if op_isEventMeshSubManagerStarted (snd es) then (Ret (), es)
     else bindR (with_cr (startEventMeshSubManager env defaultSubsConfig ps) es) (\<lambda>_ es.
       (Ret (), (map_status (\<lambda>st. st\<lparr>gs_backendConfigHash := specHash\<rparr>) (fst es), snd es)))))))))))"

subsection \<open>A slot for a manager\<close>

text \<open>
  What both backends do with the pair of a manager and the flag that it is started: \<open>stop\<close>
  releases a started manager, \<open>ensure\<close> fills an empty slot, \<open>start\<close> starts the manager in it.
  A failing operation leaves the slot as it was.
\<close>

locale manager_slot =
  fixes mgr :: "'s \<Rightarrow> 'm option" and running :: "'s \<Rightarrow> bool"
    and stop :: "bool \<Rightarrow> 's \<Rightarrow> ('s, unit) outcome"
    and ensure :: "'x \<Rightarrow> 's \<Rightarrow> ('s, unit) outcome"
    and start :: "'y \<Rightarrow> 's \<Rightarrow> ('s, unit) outcome"
  assumes stop_Ret: "stop c s = (Ret (), t) \<Longrightarrow>
      t = s \<and> (mgr s = None \<or> \<not> running s) \<or> mgr t = None \<and> \<not> running t"
    and stop_fail: "stop c s = (r, t) \<Longrightarrow> r \<noteq> Ret () \<Longrightarrow> mgr t = mgr s \<and> running t = running s"
    and ensure_Ret: "ensure x s = (Ret (), t) \<Longrightarrow> mgr t \<noteq> None \<and> running t = running s"
    and ensure_fail: "ensure x s = (r, t) \<Longrightarrow> r \<noteq> Ret () \<Longrightarrow> mgr t = mgr s \<and> running t = running s"
    and start_Ret: "start y s = (Ret (), t) \<Longrightarrow> mgr t = mgr s \<and> mgr s \<noteq> None \<and> running t"
    and start_fail: "start y s = (r, t) \<Longrightarrow> r \<noteq> Ret () \<Longrightarrow> mgr t = mgr s \<and> running t = running s"
begin

text \<open>A started manager is there, and stopping without an error ends in a slot that is not running.\<close>

lemma stop_keeps_ok:
  assumes "running s \<longrightarrow> mgr s \<noteq> None"
  shows "running (snd (stop c s)) \<longrightarrow> mgr (snd (stop c s)) \<noteq> None"
proof (cases "stop c s")
  case (Pair r t)
  with assms stop_Ret [of c s t] stop_fail [of c s r t] show ?thesis by (cases "r = Ret ()") auto
qed

lemma stop_stops:
  assumes "running s \<longrightarrow> mgr s \<noteq> None" and "stop c s = (Ret (), t)"
  shows "\<not> running t"
  using assms stop_Ret [OF assms(2)] by auto

lemma ensure_keeps_ok:
  assumes "running s \<longrightarrow> mgr s \<noteq> None"
  shows "running (snd (ensure x s)) \<longrightarrow> mgr (snd (ensure x s)) \<noteq> None"
proof (cases "ensure x s")
  case (Pair r t)
  with assms ensure_Ret [of x s t] ensure_fail [of x s r t] show ?thesis by (cases "r = Ret ()") auto
qed

lemma start_keeps_ok:
  assumes "running s \<longrightarrow> mgr s \<noteq> None"
  shows "running (snd (start y s)) \<longrightarrow> mgr (snd (start y s)) \<noteq> None"
proof (cases "start y s")
  case (Pair r t)
  with assms start_Ret [of y s t] start_fail [of y s r t] show ?thesis by (cases "r = Ret ()") auto
qed

text \<open>Filling the slot and starting what is in it ends with a running manager.\<close>

lemma ensure_start:
  assumes "ensure x s = (Ret (), t)" and "running t \<or> start y t = (Ret (), u)"
  shows "mgr t \<noteq> None \<and> (running t \<or> running u \<and> mgr u \<noteq> None)"
  using ensure_Ret [OF assms(1)] assms(2) start_Ret [of y t u] by auto

end

interpretation nats_slot: manager_slot op_natsSubManager op_isNATSSubManagerStarted "stopNATSSubManager env"
  "\<lambda>(e, c). ensure_nats_manager env e c" "startNATSSubManager env" for env :: "('m, 'c, 'k) op_env"
  by unfold_locales
     (auto simp: stopNATSSubManager_def ensure_nats_manager_def startNATSSubManager_def Let_def
        split: option.splits if_splits prod.splits result.splits)

interpretation em_slot: manager_slot op_eventMeshSubManager op_isEventMeshSubManagerStarted
  "stopEventMeshSubManager env" "ensure_eventmesh_manager env" "\<lambda>(d, p). startEventMeshSubManager env d p"
  for env :: "('m, 'c, 'k) op_env"
  by unfold_locales
     (auto simp: stopEventMeshSubManager_def ensure_eventmesh_manager_def startEventMeshSubManager_def
        split: option.splits if_splits prod.splits result.splits sum.splits)

subsection \<open>What the operations keep\<close>

definition same_nats :: "('m, 'c, 'k) op_state \<Rightarrow> ('m, 'c, 'k) op_state \<Rightarrow> bool" where
  "same_nats s t \<longleftrightarrow> op_natsSubManager t = op_natsSubManager s \<and>
     op_isNATSSubManagerStarted t = op_isNATSSubManagerStarted s"

definition same_eventmesh :: "('m, 'c, 'k) op_state \<Rightarrow> ('m, 'c, 'k) op_state \<Rightarrow> bool" where
  "same_eventmesh s t \<longleftrightarrow> op_eventMeshSubManager t = op_eventMeshSubManager s \<and>
     op_isEventMeshSubManagerStarted t = op_isEventMeshSubManagerStarted s"

definition slots_ok :: "('m, 'c, 'k) op_state \<Rightarrow> bool" where
  "slots_ok s \<longleftrightarrow>
     (op_isNATSSubManagerStarted s \<longrightarrow> op_natsSubManager s \<noteq> None) \<and>
     (op_isEventMeshSubManagerStarted s \<longrightarrow> op_eventMeshSubManager s \<noteq> None)"

definition keeps_ok :: "('m, 'c, 'k) op_state \<Rightarrow> ('m, 'c, 'k) op_state \<Rightarrow> bool" where
  "keeps_ok s t \<longleftrightarrow> (slots_ok s \<longrightarrow> slots_ok t)"

lemma same_trans:
  "same_nats a b \<Longrightarrow> same_nats b c \<Longrightarrow> same_nats a c"
  "same_eventmesh a b \<Longrightarrow> same_eventmesh b c \<Longrightarrow> same_eventmesh a c"
  "keeps_ok a b \<Longrightarrow> keeps_ok b c \<Longrightarrow> keeps_ok a c"
  by (auto simp: same_nats_def same_eventmesh_def keeps_ok_def)

lemma same_refl [simp]: "same_nats a a" "same_eventmesh a a" "keeps_ok a a"
  by (auto simp: same_nats_def same_eventmesh_def keeps_ok_def)

lemma same_keeps_ok: "same_nats a b \<Longrightarrow> same_eventmesh a b \<Longrightarrow> keeps_ok a b"
  by (auto simp: same_nats_def same_eventmesh_def keeps_ok_def slots_ok_def)

lemma slots_frame [simp]:
  "same_nats s (s\<lparr>op_k8s := k\<rparr>)" "same_eventmesh s (s\<lparr>op_k8s := k\<rparr>)"
  "same_nats s (s\<lparr>op_environ := en\<rparr>)" "same_eventmesh s (s\<lparr>op_environ := en\<rparr>)"
  "same_nats s (s\<lparr>op_oauth2credentials := c\<rparr>)" "same_eventmesh s (s\<lparr>op_oauth2credentials := c\<rparr>)"
  by (simp_all add: same_nats_def same_eventmesh_def)

text \<open>The operations on one slot do not touch the other one.\<close>

lemma nats_ops_frame:
  "same_eventmesh s (snd (stopNATSSubManager env b s))"
  "same_eventmesh s (snd (startNATSSubManager env d s))"
  "same_eventmesh s (snd (ensure_nats_manager env e c s))"
  "same_eventmesh s (snd (nats_apply_hash env e h s))"
  by (auto simp: stopNATSSubManager_def startNATSSubManager_def ensure_nats_manager_def nats_apply_hash_def
      same_eventmesh_def Let_def split: option.splits prod.splits result.splits)

lemma eventmesh_ops_frame:
  "same_nats s (snd (stopEventMeshSubManager env b s))"
  "same_nats s (snd (startEventMeshSubManager env d p s))"
  "same_nats s (snd (ensure_eventmesh_manager env dm s))"
  "same_nats s (snd (eventmesh_apply_hash env e h s))"
  by (auto simp: stopEventMeshSubManager_def startEventMeshSubManager_def ensure_eventmesh_manager_def
      eventmesh_apply_hash_def same_nats_def split: option.splits prod.splits result.splits sum.splits)

lemma nats_ops_keep_ok:
  "keeps_ok s (snd (stopNATSSubManager env b s))"
  "keeps_ok s (snd (startNATSSubManager env d s))"
  "keeps_ok s (snd (ensure_nats_manager env e c s))"
  "keeps_ok s (snd (nats_apply_hash env e h s))"
  by (auto simp: stopNATSSubManager_def startNATSSubManager_def ensure_nats_manager_def nats_apply_hash_def
      keeps_ok_def slots_ok_def Let_def split: option.splits prod.splits result.splits)

lemma eventmesh_ops_keep_ok:
  "keeps_ok s (snd (stopEventMeshSubManager env b s))"
  "keeps_ok s (snd (startEventMeshSubManager env d p s))"
  "keeps_ok s (snd (ensure_eventmesh_manager env dm s))"
  "keeps_ok s (snd (eventmesh_apply_hash env e h s))"
  by (auto simp: stopEventMeshSubManager_def startEventMeshSubManager_def ensure_eventmesh_manager_def
      eventmesh_apply_hash_def keeps_ok_def slots_ok_def split: option.splits prod.splits result.splits sum.splits)

text \<open>
  A transitive relation that every operation on a manager keeps holds for the whole
  reconciliation of the manager.
\<close>

lemma reconcileNATSSubManager_rel:
  assumes trans: "\<And>a b c. R a b \<Longrightarrow> R b c \<Longrightarrow> R a c" and refl: "\<And>a. R a a"
    and ops: "\<And>s h. R s (snd (nats_apply_hash env e h s))" "\<And>s c. R s (snd (ensure_nats_manager env e c s))"
      "\<And>s d. R s (snd (startNATSSubManager env d s))"
  shows "R s (snd (reconcileNATSSubManager env e s))"
proof -
  note step = bindR_rel [where R = R, OF trans]
  have "R s (snd (bindR (startNATSSubManager env d s) (\<lambda>_ s. (Ret (x :: Eventing), s))))" for s d x
    by (rule step) (simp_all add: ops refl)
  then show ?thesis
    unfolding reconcileNATSSubManager_def Let_def by (intro step) (simp_all add: ops refl)
qed

lemma snd_with_cr [simp]:
  "snd (snd (with_cr f es)) = snd (f (snd es))" "fst (with_cr f es) = fst (f (snd es))"
  "fst (snd (with_cr f es)) = fst es"
  by (simp_all add: with_cr_def split: prod.split)

lemma snd_wrap_err [simp]: "snd (wrap_err t m) = snd m"
  by (simp add: wrap_err_def split: prod.split result.split)

definition on_snd :: "('s \<Rightarrow> 's \<Rightarrow> bool) \<Rightarrow> 'e \<times> 's \<Rightarrow> 'e \<times> 's \<Rightarrow> bool" where
  "on_snd R a b \<longleftrightarrow> R (snd a) (snd b)"

lemma getOAuth2_snd [simp]: "snd (getOAuth2ClientCredentials env ns s) = s"
  by (auto simp: getOAuth2ClientCredentials_def Let_def bindR_pure split: result.splits)

lemma reconcileEventMeshSubManager_rel:
  fixes env :: "('a, 'b, 'c) op_env"
  assumes trans: "\<And>a b c. R a b \<Longrightarrow> R b c \<Longrightarrow> R a c" and refl: "\<And>a. R a a"
    and k8s: "\<And>s k. R s (s\<lparr>op_k8s := k\<rparr>)" and environ: "\<And>s en. R s (s\<lparr>op_environ := en\<rparr>)"
    and cred: "\<And>s c. R s (s\<lparr>op_oauth2credentials := c\<rparr>)"
    and ops: "\<And>s b. R s (snd (stopEventMeshSubManager env b s))"
      "\<And>s d. R s (snd (ensure_eventmesh_manager env d s))"
      "\<And>s d p. R s (snd (startEventMeshSubManager env d p s))"
  shows "R (snd es) (snd (snd (reconcileEventMeshSubManager env secret es)))"
proof -
  let ?R = "on_snd R"
  have trans': "?R a b \<Longrightarrow> ?R b c \<Longrightarrow> ?R a c" for a b c :: "Eventing \<times> ('a, 'b, 'c) op_state" by (auto simp: on_snd_def intro: trans)
  have stop: "?R es (snd (oauth2_stop env es))" for es
    unfolding oauth2_stop_def
    by (rule bindR_rel [where R = ?R, OF trans'])
       (auto simp: on_snd_def ops k8s split: prod.split)
  have oauth: "?R es (snd (syncOauth2ClientIDAndSecret env es))" for es
  proof -
    obtain r where r: "with_cr (getOAuth2ClientCredentials env (eg_namespace (fst es))) es = (r, es)"
      using getOAuth2_snd [of env "eg_namespace (fst es)" "snd es"]
      by (cases "getOAuth2ClientCredentials env (eg_namespace (fst es)) (snd es)") (simp add: with_cr_def)
    have "?R es (snd (bindR (oauth2_stop env es) (\<lambda>_ es. (Err err :: unit result, es))))" for err
      by (rule bindR_rel [where R = ?R, OF trans']) (auto simp: stop, simp add: on_snd_def refl)
    moreover have "?R es (snd (bindR (if ch then oauth2_stop env es else (Ret (), es)) (\<lambda>_ es. (Ret (),
        if ch \<or> \<not> isOauth2CredentialsInitialized (snd es)
        then (fst es, (snd es)\<lparr>op_oauth2credentials := c\<rparr>) else es))))" for ch c
      by (rule bindR_rel [where R = ?R, OF trans']) (auto simp: stop, auto simp add: on_snd_def refl cred)
    ultimately show ?thesis
      using r by (cases r) (simp_all add: syncOauth2ClientIDAndSecret_def Let_def on_snd_def refl)
  qed
  have refl': "?R es es" for es by (simp add: on_snd_def refl)
  have patch: "?R es (snd (with_cr (on_k8s g) es))" for es g
    by (simp add: on_snd_def on_k8s_def k8s split: prod.split)
  have env_step: "?R es (snd (setup_environment t es))" for es t
    by (simp add: on_snd_def setup_environment_def environ split: prod.split)
  have hash: "?R es (snd (with_cr (eventmesh_apply_hash env e h) es))" for es e h
    by (simp add: on_snd_def eventmesh_apply_hash_def ops refl)
  have ensure_em: "?R es (snd (with_cr (ensure_eventmesh_manager env d) es))" for es d
    by (simp add: on_snd_def ops)
  have start: "?R es (snd (bindR (with_cr (startEventMeshSubManager env d p) es)
      (\<lambda>_ es. (Ret (), (map_status g (fst es), snd es)))))" for es d p g
    by (rule bindR_rel [where R = ?R, OF trans']) (auto simp: on_snd_def ops refl)
  have "?R es (snd (reconcileEventMeshSubManager env secret es))"
    unfolding reconcileEventMeshSubManager_def Let_def
    by (intro bindR_rel [where R = ?R, OF trans'])
       (simp_all add: oauth patch env_step hash ensure_em start refl' if_split)
  then show ?thesis by (simp add: on_snd_def)
qed

lemma reconcileNATSSubManager_frame:
  "same_eventmesh s (snd (reconcileNATSSubManager env e s))" "keeps_ok s (snd (reconcileNATSSubManager env e s))"
  by (rule reconcileNATSSubManager_rel; auto intro: same_trans nats_ops_frame nats_ops_keep_ok)+

lemma reconcileEventMeshSubManager_frame:
  "same_nats (snd es) (snd (snd (reconcileEventMeshSubManager env t es)))"
  "keeps_ok (snd es) (snd (snd (reconcileEventMeshSubManager env t es)))"
  by (rule reconcileEventMeshSubManager_rel;
      auto intro: same_trans eventmesh_ops_frame eventmesh_ops_keep_ok same_keeps_ok)+

subsection \<open>The configuration a manager runs with\<close>

lemma nats_apply_hash_changed:
  assumes "nats_apply_hash env e h s = (Ret (), t)" and "gs_backendConfigHash (eg_status e) \<noteq> h" and "slots_ok s"
  shows "op_natsSubManager t = None \<and> \<not> op_isNATSSubManagerStarted t"
  using assms
  by (auto simp: nats_apply_hash_def slots_ok_def stopNATSSubManager_def split: if_splits option.splits prod.splits result.splits)

lemma reconcileNATSSubManager_RetE:
  assumes "reconcileNATSSubManager env e s = (Ret e', t)"
  obtains c h s1 s2 where "GetNatsConfig env e (op_k8s s) = Ret c"
    and "getNATSBackendConfigHash env (getDefaultSubscriptionConfig s) c = Ret h"
    and "nats_apply_hash env e h s = (Ret (), s1)" and "ensure_nats_manager env e c s1 = (Ret (), s2)"
    and "op_isNATSSubManagerStarted s2 \<and> e' = e \<and> t = s2 \<or>
      \<not> op_isNATSSubManagerStarted s2 \<and> startNATSSubManager env (getDefaultSubscriptionConfig s) s2 = (Ret (), t) \<and>
      e' = map_status (\<lambda>es. es\<lparr>gs_backendConfigHash := h\<rparr>) e"
  using assms unfolding reconcileNATSSubManager_def Let_def
  by (auto elim!: bindR_RetE split: if_splits)

lemma reconcileNATSSubManager_running:
  assumes "reconcileNATSSubManager env e s = (Ret e', t)"
  shows "op_isNATSSubManagerStarted t \<and> op_natsSubManager t \<noteq> None"
proof -
  obtain c h s1 s2 where "ensure_nats_manager env e c s1 = (Ret (), s2)"
      and "op_isNATSSubManagerStarted s2 \<and> e' = e \<and> t = s2 \<or>
        \<not> op_isNATSSubManagerStarted s2 \<and> startNATSSubManager env (getDefaultSubscriptionConfig s) s2 = (Ret (), t) \<and>
        e' = map_status (\<lambda>es. es\<lparr>gs_backendConfigHash := h\<rparr>) e"
    using assms by (rule reconcileNATSSubManager_RetE)
  then show ?thesis
    using nats_slot.ensure_Ret [of env "(e, c)" s1 s2] nats_slot.start_Ret [of env _ s2 t] by auto
qed

text \<open>
  When the hash of the NATS configuration differs from the one recorded in the status, a
  successful reconciliation of the subscription manager ends with a running manager that was
  created from the current configuration, and with the new hash in the status.
\<close>

theorem reconcileNATSSubManager_current_config:
  assumes "reconcileNATSSubManager env e s = (Ret e', t)" and "slots_ok s"
    and "GetNatsConfig env e (op_k8s s) = Ret c"
    and "getNATSBackendConfigHash env (getDefaultSubscriptionConfig s) c = Ret h"
    and "gs_backendConfigHash (eg_status e) \<noteq> h"
  shows "(\<exists>m k k'. new_manager (oe_managers env) (sm_NewJetStreamManager (oe_managers env) e c) k = (Ret m, k') \<and>
      op_natsSubManager t = Some m) \<and>
    op_isNATSSubManagerStarted t \<and> gs_backendConfigHash (eg_status e') = h"
proof -
  obtain s1 s2 where hash: "nats_apply_hash env e h s = (Ret (), s1)"
      and ensure: "ensure_nats_manager env e c s1 = (Ret (), s2)"
      and run: "op_isNATSSubManagerStarted s2 \<and> e' = e \<and> t = s2 \<or>
        \<not> op_isNATSSubManagerStarted s2 \<and> startNATSSubManager env (getDefaultSubscriptionConfig s) s2 = (Ret (), t) \<and>
        e' = map_status (\<lambda>es. es\<lparr>gs_backendConfigHash := h\<rparr>) e"
    using assms(1,3,4) by (auto elim: reconcileNATSSubManager_RetE)
  have none: "op_natsSubManager s1 = None" "\<not> op_isNATSSubManagerStarted s1"
    using nats_apply_hash_changed [OF hash assms(5,2)] by simp_all
  obtain m k k' where "new_manager (oe_managers env) (sm_NewJetStreamManager (oe_managers env) e c) k = (Ret m, k')"
      and "op_natsSubManager s2 = Some m"
    using ensure none(1) by (auto simp: ensure_nats_manager_def split: prod.splits option.splits result.splits)
  moreover have "\<not> op_isNATSSubManagerStarted s2"
    using nats_slot.ensure_Ret [of env "(e, c)" s1 s2] ensure none(2) by simp
  ultimately show ?thesis
    using run nats_slot.start_Ret [of env "getDefaultSubscriptionConfig s" s2 t] by (auto simp: map_status_def)
qed

lemma em_stop_noop:
  "\<not> op_isEventMeshSubManagerStarted s \<Longrightarrow> stopEventMeshSubManager env b s = (Ret (), s)"
  by (simp add: stopEventMeshSubManager_def split: option.split)

definition em_pending :: "'m \<Rightarrow> ('m, 'c, 'k) op_state \<Rightarrow> bool" where
  "em_pending m s \<longleftrightarrow> op_eventMeshSubManager s = Some m \<and> \<not> op_isEventMeshSubManagerStarted s"

lemma em_pending_frame [simp]:
  "em_pending m (s\<lparr>op_k8s := k\<rparr>) = em_pending m s" "em_pending m (s\<lparr>op_environ := en\<rparr>) = em_pending m s"
  "em_pending m (s\<lparr>op_oauth2credentials := c\<rparr>) = em_pending m s"
  by (simp_all add: em_pending_def)

lemma oauth2_keeps_pending:
  assumes "em_pending m (snd es)" and "syncOauth2ClientIDAndSecret env es = (r, es')"
  shows "em_pending m (snd es')"
proof -
  have stop: "em_pending m (snd (snd (oauth2_stop env es)))"
    using assms(1) em_stop_noop [of "snd es" env True]
    by (auto simp: oauth2_stop_def with_cr_def em_pending_def split: prod.splits)
  obtain q where q: "with_cr (getOAuth2ClientCredentials env (eg_namespace (fst es))) es = (q, es)"
    using getOAuth2_snd [of env "eg_namespace (fst es)" "snd es"]
    by (cases "getOAuth2ClientCredentials env (eg_namespace (fst es)) (snd es)") (simp add: with_cr_def)
  obtain r1 es1 where 1: "oauth2_stop env es = (r1, es1)" by (rule prod.exhaust)
  show ?thesis
    using assms q stop 1
    by (cases q; cases r1) (auto simp: syncOauth2ClientIDAndSecret_def Let_def split: if_splits)
qed

lemma with_cr_Ret: "with_cr f es = (Ret a, es') \<longleftrightarrow> f (snd es) = (Ret a, snd es') \<and> fst es' = fst es"
  by (auto simp: with_cr_def prod_eq_iff split: prod.splits)

lemma reconcileEventMeshSubManager_RetE:
  assumes "reconcileEventMeshSubManager env secret es = (Ret (), es')"
  obtains es1 t es2 es3 c dm h es4 es5 where "syncOauth2ClientIDAndSecret env es = (Ret (), es1)"
    and "with_cr (on_k8s (SyncPublisherProxySecret env (eg_namespace (fst es1)) secret)) es1 = (Ret t, es2)"
    and "setup_environment t es2 = (Ret (), es3)" and "backend_config (fst es3) = Ret c"
    and "checkDomain env (bc_domain c) (op_k8s (snd es3)) = Ret dm"
    and "getEventMeshBackendConfigHash env (bc_eventMeshSecret c) (bc_eventTypePrefix c) dm = Ret h"
    and "with_cr (eventmesh_apply_hash env (fst es3) h) es3 = (Ret (), es4)"
    and "with_cr (ensure_eventmesh_manager env dm) es4 = (Ret (), es5)"
    and "op_isEventMeshSubManagerStarted (snd es5) \<and> es' = es5 \<or>
      \<not> op_isEventMeshSubManagerStarted (snd es5) \<and>
      startEventMeshSubManager env (getDefaultSubscriptionConfig (snd es3)) (getEventMeshSubManagerParams (snd es3))
        (snd es5) = (Ret (), snd es') \<and>
      fst es' = map_status (\<lambda>st. st\<lparr>gs_backendConfigHash := h\<rparr>) (fst es5)"
proof -
  from assms obtain es1 t es2 es3 c dm h es4 es5 where run:
    "syncOauth2ClientIDAndSecret env es = (Ret (), es1)"
    "with_cr (on_k8s (SyncPublisherProxySecret env (eg_namespace (fst es1)) secret)) es1 = (Ret t, es2)"
    "setup_environment t es2 = (Ret (), es3)" "backend_config (fst es3) = Ret c"
    "checkDomain env (bc_domain c) (op_k8s (snd es3)) = Ret dm"
    "getEventMeshBackendConfigHash env (bc_eventMeshSecret c) (bc_eventTypePrefix c) dm = Ret h"
    "with_cr (eventmesh_apply_hash env (fst es3) h) es3 = (Ret (), es4)"
    "with_cr (ensure_eventmesh_manager env dm) es4 = (Ret (), es5)"
    and last: "(if op_isEventMeshSubManagerStarted (snd es5) then (Ret (), es5)
      else bindR (with_cr (startEventMeshSubManager env (getDefaultSubscriptionConfig (snd es3))
          (getEventMeshSubManagerParams (snd es3))) es5) (\<lambda>_ es.
        (Ret (), (map_status (\<lambda>st. st\<lparr>gs_backendConfigHash := h\<rparr>) (fst es), snd es)))) = (Ret (), es')"
    unfolding reconcileEventMeshSubManager_def Let_def
    by (elim bindR_RetE) (simp add: wrap_err_Ret)
  have "op_isEventMeshSubManagerStarted (snd es5) \<and> es' = es5 \<or>
      \<not> op_isEventMeshSubManagerStarted (snd es5) \<and>
      startEventMeshSubManager env (getDefaultSubscriptionConfig (snd es3)) (getEventMeshSubManagerParams (snd es3))
        (snd es5) = (Ret (), snd es') \<and>
      fst es' = map_status (\<lambda>st. st\<lparr>gs_backendConfigHash := h\<rparr>) (fst es5)"
    using last
    by (cases "op_isEventMeshSubManagerStarted (snd es5)") (auto simp: with_cr_Ret elim!: bindR_RetE)
  with run show ?thesis by (rule that)
qed

lemma reconcileEventMeshSubManager_running:
  assumes "reconcileEventMeshSubManager env secret es = (Ret (), es')"
  shows "op_isEventMeshSubManagerStarted (snd es')"
proof -
  have "op_isEventMeshSubManagerStarted t"
    if "startEventMeshSubManager env d p u = (Ret (), t)" for d p t u
    using em_slot.start_Ret [of env "(d, p)" u t] that by simp
  then show ?thesis using assms by (elim reconcileEventMeshSubManager_RetE disjE conjE) simp_all
qed

text \<open>
  An EventMesh subscription manager that was created but never started (its start failed) is
  kept and started by a later reconciliation even if the configuration has changed since: stopping
  it does nothing because it is not started. The status then records the hash of the new
  configuration although the running manager was created for the old domain.
\<close>

theorem eventmesh_manager_stale:
  assumes "em_pending m (snd es)" and "reconcileEventMeshSubManager env secret es = (Ret (), es')"
  shows "op_eventMeshSubManager (snd es') = Some m \<and> op_isEventMeshSubManagerStarted (snd es') \<and>
    (\<exists>c dm h. backend_config (fst es') = Ret c \<and>
       getEventMeshBackendConfigHash env (bc_eventMeshSecret c) (bc_eventTypePrefix c) dm = Ret h \<and>
       gs_backendConfigHash (eg_status (fst es')) = h \<and> (\<not> IsEmpty (bc_domain c) \<longrightarrow> dm = bc_domain c))"
  using assms(2)
proof (rule reconcileEventMeshSubManager_RetE)
  fix es1 t es2 es3 c dm h es4 es5
  assume o: "syncOauth2ClientIDAndSecret env es = (Ret (), es1)"
    and p: "with_cr (on_k8s (SyncPublisherProxySecret env (eg_namespace (fst es1)) secret)) es1 = (Ret t, es2)"
    and v: "setup_environment t es2 = (Ret (), es3)" and c: "backend_config (fst es3) = Ret c"
    and d: "checkDomain env (bc_domain c) (op_k8s (snd es3)) = Ret dm"
    and h: "getEventMeshBackendConfigHash env (bc_eventMeshSecret c) (bc_eventTypePrefix c) dm = Ret h"
    and a: "with_cr (eventmesh_apply_hash env (fst es3) h) es3 = (Ret (), es4)"
    and n: "with_cr (ensure_eventmesh_manager env dm) es4 = (Ret (), es5)"
    and z: "op_isEventMeshSubManagerStarted (snd es5) \<and> es' = es5 \<or>
      \<not> op_isEventMeshSubManagerStarted (snd es5) \<and>
      startEventMeshSubManager env (getDefaultSubscriptionConfig (snd es3)) (getEventMeshSubManagerParams (snd es3))
        (snd es5) = (Ret (), snd es') \<and>
      fst es' = map_status (\<lambda>st. st\<lparr>gs_backendConfigHash := h\<rparr>) (fst es5)"
  have "em_pending m (snd es2)"
    using oauth2_keeps_pending [OF assms(1) o] p
    by (auto simp: with_cr_Ret on_k8s_def split: prod.splits result.splits) (metis em_pending_frame(1))
  then have es3: "em_pending m (snd es3)" using v by (auto simp: setup_environment_def split: prod.splits result.splits)
  then have "es4 = es3" using a
    by (auto simp: with_cr_Ret eventmesh_apply_hash_def em_stop_noop em_pending_def prod_eq_iff split: if_splits)
  moreover from this have "es5 = es4" using n es3
    by (auto simp: with_cr_Ret ensure_eventmesh_manager_def em_pending_def prod_eq_iff split: option.splits)
  ultimately have "es5 = es3" by simp
  moreover have "\<not> IsEmpty (bc_domain c) \<longrightarrow> dm = bc_domain c" using d by (auto simp: checkDomain_def)
  ultimately show ?thesis
    using z es3 c h em_slot.start_Ret [of env "(d, q)" "snd es5" "snd es'" for d q]
    by (auto simp: em_pending_def map_status_def backend_config_def)
qed

subsection \<open>Examples\<close>

lemma example_slots_ok: "slots_ok (example_op_state e)"
  by (simp add: slots_ok_def example_op_state_def NewReconciler_def)

abbreviation example_nats_url :: string where
  "example_nats_url \<equiv> ''nats://eventing-nats.kyma-system.svc.cluster.local:4222''"

lemma Itoa_4222: "Itoa 4222 = ''4222''"
  by code_simp

lemma example_nats_config:
  "\<exists>c. GetNatsConfig example_op_env (example_eventing t) (example_cluster e) = Ret c \<and> nc_URL c = example_nats_url"
  by (simp add: GetNatsConfig_def GetNATSConfig_def getNATSUrl_def GetNATSResources_def backend_config_def Itoa_4222
      example_op_env_def example_util_def example_client_def example_cluster_def)

theorem reconcileNATSSubManager_current_config_witness:
  "\<exists>e' t. reconcileNATSSubManager example_op_env (example_eventing ''NATS'')
       (example_op_state (example_eventing ''NATS'')) = (Ret e', t) \<and>
     op_natsSubManager t = Some example_nats_url \<and> gs_backendConfigHash (eg_status e') = 55"
proof -
  let ?e = "example_eventing ''NATS''" and ?s = "example_op_state (example_eventing ''NATS'')"
  obtain c where c: "GetNatsConfig example_op_env ?e (op_k8s ?s) = Ret c" "nc_URL c = example_nats_url"
    using example_nats_config [of "''NATS''" ?e] by (auto simp: example_op_state_def NewReconciler_def)
  have h: "getNATSBackendConfigHash example_op_env (getDefaultSubscriptionConfig ?s) c = Ret 55"
    using c(2) by (simp add: getNATSBackendConfigHash_def example_op_env_def example_util_def int64_def)
  have new: "gs_backendConfigHash (eg_status ?e) \<noteq> 55" by (simp add: example_eventing_def)
  obtain e' t where run: "reconcileNATSSubManager example_op_env ?e ?s = (Ret e', t)"
    using c h new
    by (simp add: reconcileNATSSubManager_def Let_def nats_apply_hash_def ensure_nats_manager_def
        startNATSSubManager_def example_op_state_def NewReconciler_def example_op_env_def example_managers_def new_manager_def)
  from reconcileNATSSubManager_current_config [OF run example_slots_ok c(1) h new] run c(2)
  show ?thesis by (auto simp: example_op_env_def example_managers_def new_manager_def)
qed

definition example_oauth_secret :: Secret where
  "example_oauth_secret =
     (newSecret ''eventing-webhook-auth'' ''kyma-system'')\<lparr>sec_data := Some (fmap_of_list
        [(''client_id'', ''a''), (''client_secret'', ''b''), (''token_url'', ''c''), (''certs_url'', ''d'')])\<rparr>"

definition example_em_secret :: Secret where
  "example_em_secret =
     (newSecret ''em'' ''kyma-system'')\<lparr>sec_data := Some (fmap_of_list
        [(''namespace'', ''ns''), (''messaging'', ''[]'')])\<rparr>"

text \<open>A manager for an old domain whose start failed.\<close>

definition example_pending :: "(string, unit, cluster) op_state" where
  "example_pending =
     (example_op_state (example_eventing ''EventMesh''))
       \<lparr>op_eventMeshSubManager := Some ''old.domain'',
        op_k8s := (example_cluster (example_eventing ''EventMesh''))
          \<lparr>clu_objects := [OSecret example_oauth_secret, OSecret example_em_secret]\<rparr>\<rparr>"

lemma example_pending_sync:
  "\<exists>es1. syncOauth2ClientIDAndSecret example_op_env (example_eventing ''EventMesh'', example_pending) = (Ret (), es1) \<and>
     fst es1 = example_eventing ''EventMesh'' \<and> op_k8s (snd es1) = op_k8s example_pending \<and>
     op_eventMeshSubManager (snd es1) = Some ''old.domain'' \<and> \<not> op_isEventMeshSubManagerStarted (snd es1) \<and>
     op_environ (snd es1) = Map.empty"
  by (simp add: syncOauth2ClientIDAndSecret_def getOAuth2ClientCredentials_def with_cr_def example_pending_def
      example_op_state_def NewReconciler_def GetSecret_def example_op_env_def example_client_def
      cluster_find_def example_oauth_secret_def newSecret_def secret_key_def example_env_config_def
      isOauth2CredentialsInitialized_def Let_def)

lemma example_publisher_secret:
  "\<exists>t k. SyncPublisherProxySecret example_op_env ''kyma-system'' example_em_secret k0 = (Ret t, k) \<and>
     entries (sec_data t) = getSecretStringData ''id'' ''secret'' ''https://token'' ''client_credentials'' ''https://ems'' ''ns''"
  by (simp add: SyncPublisherProxySecret_def getSecretForPublisher_def example_em_secret_def newSecret_def
      example_op_env_def example_util_def example_client_def PatchApply_def Let_def)

lemma set_env_or_Ret: "CHR 0x00 \<notin> set v \<Longrightarrow> set_env_or n v en = (Ret (), en(n \<mapsto> v))"
  by (simp add: set_env_or_def Setenv_def)

lemma example_environment:
  assumes "entries (sec_data t) =
    getSecretStringData ''id'' ''secret'' ''https://token'' ''client_credentials'' ''https://ems'' ''ns''"
  shows "\<exists>en'. setUpEnvironmentForEventMesh t (example_eventing b) en = (Ret (), en')"
  using assms
  by (simp add: setUpEnvironmentForEventMesh_def Let_def getSecretStringData_def set_env_or_Ret backend_config_def
      example_backend_config_def)

lemma example_domain_not_empty: "\<not> IsEmpty ''kyma.io''"
  by code_simp

theorem eventmesh_manager_stale_witness:
  "\<exists>es'. reconcileEventMeshSubManager example_op_env example_em_secret
       (example_eventing ''EventMesh'', example_pending) = (Ret (), es') \<and>
     op_eventMeshSubManager (snd es') = Some ''old.domain'' \<and> op_isEventMeshSubManagerStarted (snd es')"
proof -
  let ?env = example_op_env and ?es = "(example_eventing ''EventMesh'', example_pending)"
  obtain es1 where es1: "syncOauth2ClientIDAndSecret ?env ?es = (Ret (), es1)"
      "fst es1 = example_eventing ''EventMesh''" "op_eventMeshSubManager (snd es1) = Some ''old.domain''"
      "\<not> op_isEventMeshSubManagerStarted (snd es1)"
    using example_pending_sync by blast
  obtain t k where t: "SyncPublisherProxySecret ?env ''kyma-system'' example_em_secret (op_k8s (snd es1)) = (Ret t, k)"
      "entries (sec_data t) = getSecretStringData ''id'' ''secret'' ''https://token'' ''client_credentials'' ''https://ems'' ''ns''"
    using example_publisher_secret by blast
  obtain en where en: "setUpEnvironmentForEventMesh t (example_eventing ''EventMesh'') (op_environ (snd es1)) = (Ret (), en)"
    using example_environment [OF t(2)] by blast
  have dm: "checkDomain ?env ''kyma.io'' k = Ret ''kyma.io''" for k
    by (simp add: checkDomain_def example_domain_not_empty)
  have h: "\<exists>h. getEventMeshBackendConfigHash ?env a b c = Ret h" for a b c
    by (simp add: getEventMeshBackendConfigHash_def example_op_env_def example_util_def)
  obtain h where h: "getEventMeshBackendConfigHash ?env ''kyma-system/em'' ''sap.kyma.custom'' ''kyma.io'' = Ret h"
    using h by blast
  have "\<exists>es'. reconcileEventMeshSubManager ?env example_em_secret ?es = (Ret (), es')"
    using es1 t en dm h
    by (simp add: reconcileEventMeshSubManager_def wrap_err_def with_cr_def on_k8s_def setup_environment_def
        backend_config_def example_backend_config_def Let_def eventmesh_apply_hash_def em_stop_noop
        ensure_eventmesh_manager_def startEventMeshSubManager_def example_op_env_def example_managers_def)
  then obtain es' where es': "reconcileEventMeshSubManager ?env example_em_secret ?es = (Ret (), es')" by blast
  have "em_pending ''old.domain'' (snd ?es)"
    by (simp add: em_pending_def example_pending_def example_op_state_def NewReconciler_def)
  from eventmesh_manager_stale [OF this es'] es' show ?thesis by blast
qed

end
