(* ===== verification/JetStream_Backend.thy ===== *)
theory JetStream_Backend
  imports JetStream_Utils
begin

section \<open>The JetStream backend (pkg/backend/jetstream/jetstream.go)\<close>

text \<open>
  The state of the backend is the record \<open>JetStream\<close>: the connection, the JetStream context, the
  map from identifiers to NATS subscriptions and the map from Subscriptions to sinks. The
  NATS client and server are not part of the repository: \<open>nats_api\<close> is a record of functions
  on a type \<open>'w\<close> of worlds, one per call the code makes, and an operation of the backend takes
  the pair of backend and world to a result and a new pair.

  A Go map is ranged over in an arbitrary order; \<open>na_order m\<close> is the order in which the keys of
  \<open>m\<close> are visited. Logging and metrics are left out.

  Calls on a nil connection or a nil JetStream context panic, which is a \<open>Crash\<close> here.
\<close>

subsection \<open>State and environment\<close>

text \<open>What the closure that \<^verbatim>\<open>getCallback\<close> returns has captured.\<close>

record Callback =
  cb_subKeyPrefix :: string
  cb_subscriptionName :: string
  cb_subscriptionNamespace :: string

record Subscriber =
  sb_handle :: nat
  sb_subject :: string
  sb_callback :: Callback

type_synonym subs = "SubscriptionSubjectIdentifier \<rightharpoonup> Subscriber"

record JetStream =
  js_Config :: NATSConfig
  js_Conn :: "nat option"
  js_jsCtx :: bool
  js_client :: bool
  js_subscriptions :: subs
  js_sinks :: "string \<rightharpoonup> string"
  js_connClosedHandler :: "nat option"
  js_cleaner :: Cleaner
  js_subsConfig :: DefaultSubscriptionConfig

record 'w nats_api =
  na_order :: "subs \<Rightarrow> SubscriptionSubjectIdentifier list"
  na_show :: "Subscriber \<Rightarrow> string"
  na_ParseQuantity :: "string \<Rightarrow> int result"
  na_Connect :: "string \<Rightarrow> 'w \<Rightarrow> nat result \<times> 'w"
  na_Status :: "nat \<Rightarrow> 'w \<Rightarrow> int"
  na_Close :: "nat \<Rightarrow> 'w \<Rightarrow> 'w"
  na_SetClosedHandler :: "nat \<Rightarrow> nat \<Rightarrow> 'w \<Rightarrow> 'w"
  na_SetReconnectHandler :: "nat \<Rightarrow> 'w \<Rightarrow> 'w"
  na_JetStream :: "nat \<Rightarrow> 'w \<Rightarrow> unit result \<times> 'w"
  na_NewClientHTTP :: "NATSConfig \<Rightarrow> goerr option"
  na_StreamInfo :: "string \<Rightarrow> 'w \<Rightarrow> StreamConfig result \<times> 'w"
  na_AddStream :: "StreamConfig \<Rightarrow> 'w \<Rightarrow> unit result \<times> 'w"
  na_UpdateStream :: "StreamConfig \<Rightarrow> 'w \<Rightarrow> unit result \<times> 'w"
  na_Consumers :: "string \<Rightarrow> 'w \<Rightarrow> ConsumerInfo list \<times> 'w"
  na_ConsumerInfo :: "string \<Rightarrow> string \<Rightarrow> 'w \<Rightarrow> ConsumerInfo result \<times> 'w"
  na_AddConsumer :: "string \<Rightarrow> ConsumerConfig \<Rightarrow> 'w \<Rightarrow> ConsumerInfo result \<times> 'w"
  na_UpdateConsumer :: "string \<Rightarrow> ConsumerConfig \<Rightarrow> 'w \<Rightarrow> ConsumerInfo result \<times> 'w"
  na_DeleteConsumer :: "string \<Rightarrow> string \<Rightarrow> 'w \<Rightarrow> unit result \<times> 'w"
  na_Subscribe :: "string \<Rightarrow> Callback \<Rightarrow> SubOpt list \<Rightarrow> 'w \<Rightarrow> nat result \<times> 'w"
  na_IsValid :: "nat \<Rightarrow> 'w \<Rightarrow> bool"
  na_Unsubscribe :: "nat \<Rightarrow> 'w \<Rightarrow> unit result \<times> 'w"
  na_NewInbox :: "'w \<Rightarrow> string"

type_synonym 'w js_state = "JetStream \<times> 'w"

text \<open>The values of \<^verbatim>\<open>nats.Status\<close> that the code compares with.\<close>

abbreviation CONNECTED :: int where "CONNECTED \<equiv> 1"
abbreviation CLOSED :: int where "CLOSED \<equiv> 2"

abbreviation nil_dereference :: string where
  "nil_dereference \<equiv> ''invalid memory address or nil pointer dereference''"

definition call :: "('w \<Rightarrow> 'a result \<times> 'w) \<Rightarrow> 'w js_state \<Rightarrow> ('w js_state, 'a) outcome" where
  "call f s = (case f (snd s) of (r, w) \<Rightarrow> (r, (fst s, w)))"

text \<open>A method call on \<^verbatim>\<open>js.jsCtx\<close>.\<close>

definition ctx_call :: "('w \<Rightarrow> 'a result \<times> 'w) \<Rightarrow> 'w js_state \<Rightarrow> ('w js_state, 'a) outcome" where
  "ctx_call f s = (if js_jsCtx (fst s) then call f s else (Crash nil_dereference, s))"

definition NewJetStream :: "NATSConfig \<Rightarrow> Cleaner \<Rightarrow> DefaultSubscriptionConfig \<Rightarrow> JetStream" where
  "NewJetStream config cleaner subsConfig =
     \<lparr>js_Config = config, js_Conn = None, js_jsCtx = False, js_client = False,
      js_subscriptions = Map.empty, js_sinks = Map.empty, js_connClosedHandler = None,
      js_cleaner = cleaner, js_subsConfig = subsConfig\<rparr>"

definition set_subs :: "subs \<Rightarrow> 'w js_state \<Rightarrow> 'w js_state" where
  "set_subs m s = ((fst s)\<lparr>js_subscriptions := m\<rparr>, snd s)"

abbreviation delete_sub :: "SubscriptionSubjectIdentifier \<Rightarrow> 'w js_state \<Rightarrow> 'w js_state" where
  "delete_sub key s \<equiv> set_subs ((js_subscriptions (fst s))(key := None)) s"

text \<open>\<^verbatim>\<open>js.GetJetStreamSubject\<close> and the identifier of an event type of the status.\<close>

definition subject_of :: "JetStream \<Rightarrow> Subscription \<Rightarrow> EventType \<Rightarrow> string" where
  "subject_of js subscription eventType =
     GetJetStreamSubject (js_Config js) (js_cleaner js) (spec_source (sub_spec subscription))
       (et_cleanType eventType) (spec_typeMatching (sub_spec subscription))"

definition key_of :: "JetStream \<Rightarrow> Subscription \<Rightarrow> EventType \<Rightarrow> SubscriptionSubjectIdentifier" where
  "key_of js subscription eventType =
     NewSubscriptionSubjectIdentifier subscription (subject_of js subscription eventType)"

subsection \<open>Connection and stream\<close>

definition initNATSConn :: "'w nats_api \<Rightarrow> nat option \<Rightarrow> 'w js_state \<Rightarrow> ('w js_state, unit) outcome" where
  "initNATSConn api connCloseHandler s =
     (if (case js_Conn (fst s) of None \<Rightarrow> True | Some c \<Rightarrow> na_Status api c (snd s) \<noteq> CONNECTED) then
        (case na_Connect api (nc_URL (js_Config (fst s))) (snd s) of
           (Err err, w) \<Rightarrow> (Err (wrap_text ''failed to connect to NATS JetStream: '' err), (fst s, w))
         | (Crash p, w) \<Rightarrow> (Crash p, (fst s, w))
         | (Ret conn, w) \<Rightarrow>
             if na_Status api conn w \<noteq> CONNECTED
             then (Err (Plain KOther ''failed to connect to NATS JetStream: %!w(<nil>)''), (fst s, w))
             else
               let w' = (case connCloseHandler of Some h \<Rightarrow> na_SetClosedHandler api conn h w | None \<Rightarrow> w)
               in (Ret (), ((fst s)\<lparr>js_Conn := Some conn, js_connClosedHandler := connCloseHandler\<rparr>,
                            na_SetReconnectHandler api conn w')))
      else (Ret (), s))"

definition streamIsConfiguredCorrectly :: "StreamConfig \<Rightarrow> StreamConfig \<Rightarrow> bool" where
  "streamIsConfiguredCorrectly got want \<longleftrightarrow>
     (if sc_Name got \<noteq> sc_Name want \<or> sc_Storage got \<noteq> sc_Storage want \<or>
         sc_Replicas got \<noteq> sc_Replicas want \<or> sc_Retention got \<noteq> sc_Retention want \<or>
         sc_MaxMsgs got \<noteq> sc_MaxMsgs want \<or> sc_MaxBytes got \<noteq> sc_MaxBytes want \<or>
         sc_Discard got \<noteq> sc_Discard want
      then False else sc_Subjects got = sc_Subjects want)"

definition ensureStreamExistsAndIsConfiguredCorrectly ::
  "'w nats_api \<Rightarrow> 'w js_state \<Rightarrow> ('w js_state, unit) outcome" where
  "ensureStreamExistsAndIsConfiguredCorrectly api s =
     bindR (getStreamConfig (na_ParseQuantity api) (js_Config (fst s)), s) (\<lambda>streamConfig s.
       (case ctx_call (na_StreamInfo api (nc_JSStreamName (js_Config (fst s)))) s of
          (Err err, s) \<Rightarrow>
            if err_has_kind KStreamNotFound err then ctx_call (na_AddStream api streamConfig) s
            else (Err err, s)
        | (Crash p, s) \<Rightarrow> (Crash p, s)
        | (Ret info, s) \<Rightarrow>
            if \<not> streamIsConfiguredCorrectly info streamConfig
            then ctx_call (na_UpdateStream api streamConfig) s
            else (Ret (), s)))"

definition handleReconnect :: "'w nats_api \<Rightarrow> 'w js_state \<Rightarrow> ('w js_state, unit) outcome" where
  "handleReconnect api s =
     (case ensureStreamExistsAndIsConfiguredCorrectly api s of
        (Crash p, s') \<Rightarrow> (Crash p, s')
      | (_, s') \<Rightarrow> (Ret (), s'))"

definition initJSContext :: "'w nats_api \<Rightarrow> 'w js_state \<Rightarrow> ('w js_state, unit) outcome" where
  "initJSContext api s =
     (case js_Conn (fst s) of
        None \<Rightarrow> (Crash nil_dereference, s)
      | Some conn \<Rightarrow>
          (case na_JetStream api conn (snd s) of
             (Err err, w) \<Rightarrow>
               (Err (wrap_text ''failed to create the JetStream context: '' err), (fst s, w))
           | (Crash p, w) \<Rightarrow> (Crash p, (fst s, w))
           | (Ret _, w) \<Rightarrow> (Ret (), ((fst s)\<lparr>js_jsCtx := True\<rparr>, w))))"

definition initCloudEventClient :: "'w nats_api \<Rightarrow> 'w js_state \<Rightarrow> ('w js_state, unit) outcome" where
  "initCloudEventClient api s =
     (if js_client (fst s) then (Ret (), s)
      else case na_NewClientHTTP api (js_Config (fst s)) of
        Some err \<Rightarrow> (Err err, s)
      | None \<Rightarrow> (Ret (), ((fst s)\<lparr>js_client := True\<rparr>, snd s)))"

definition Initialize :: "'w nats_api \<Rightarrow> nat option \<Rightarrow> 'w js_state \<Rightarrow> ('w js_state, unit) outcome" where
  "Initialize api connCloseHandler s =
     bindR (of_err (js_validateConfig (js_Config (fst s))), s) (\<lambda>_ s.
     bindR (initNATSConn api connCloseHandler s) (\<lambda>_ s.
     bindR (initJSContext api s) (\<lambda>_ s.
     bindR (initCloudEventClient api s) (\<lambda>_ s.
     ensureStreamExistsAndIsConfiguredCorrectly api s))))"

definition Shutdown :: "'w nats_api \<Rightarrow> 'w js_state \<Rightarrow> 'w js_state" where
  "Shutdown api s =
     (case js_Conn (fst s) of
        None \<Rightarrow> s
      | Some c \<Rightarrow> if na_Status api c (snd s) \<noteq> CLOSED then (fst s, na_Close api c (snd s)) else s)"

definition checkJetStreamConnection :: "'w nats_api \<Rightarrow> 'w js_state \<Rightarrow> ('w js_state, unit) outcome" where
  "checkJetStreamConnection api s =
     (if (case js_Conn (fst s) of None \<Rightarrow> True | Some c \<Rightarrow> na_Status api c (snd s) \<noteq> CONNECTED) then
        (case Initialize api (js_connClosedHandler (fst s)) s of
           (Err err, s') \<Rightarrow>
             (case js_Conn (fst s') of
                None \<Rightarrow> (Crash nil_dereference, s')
              | Some c \<Rightarrow>
                  (Err (wrap_text (''failed to connect to JetStream with status ''
                     @ Itoa (na_Status api c (snd s')) @ '': '') err), s'))
         | (Crash p, s') \<Rightarrow> (Crash p, s')
         | (Ret _, s') \<Rightarrow> (Ret (), s'))
      else (Ret (), s))"

subsection \<open>Deleting\<close>

definition deleteConsumerFromJetStream ::
  "'w nats_api \<Rightarrow> string \<Rightarrow> 'w js_state \<Rightarrow> ('w js_state, unit) outcome" where
  "deleteConsumerFromJetStream api name s =
     (case ctx_call (na_DeleteConsumer api (nc_JSStreamName (js_Config (fst s))) name) s of
        (Err err, s') \<Rightarrow>
          if \<not> err_has_kind KConsumerNotFound err
          then (Err (MakeConsumerError ErrDeleteConsumer err name), s') else (Ret (), s')
      | (Crash p, s') \<Rightarrow> (Crash p, s')
      | (Ret _, s') \<Rightarrow> (Ret (), s'))"

text \<open>\<^verbatim>\<open>if jsSub.IsValid() { if err := jsSub.Unsubscribe() ... }\<close> of both delete functions.\<close>

definition unsubscribe_valid ::
  "'w nats_api \<Rightarrow> Subscriber \<Rightarrow> 'w js_state \<Rightarrow> ('w js_state, unit) outcome" where
  "unsubscribe_valid api jsSub s =
     (if na_IsValid api (sb_handle jsSub) (snd s) then
        (case call (na_Unsubscribe api (sb_handle jsSub)) s of
           (Err err, s') \<Rightarrow> (Err (MakeSubscriptionError ErrFailedUnsubscribe err (na_show api jsSub)), s')
         | (Crash p, s') \<Rightarrow> (Crash p, s')
         | (Ret _, s') \<Rightarrow> (Ret (), s'))
      else (Ret (), s))"

definition deleteSubscriptionFromJetStream ::
  "'w nats_api \<Rightarrow> Subscriber \<Rightarrow> SubscriptionSubjectIdentifier \<Rightarrow> 'w js_state \<Rightarrow> ('w js_state, unit) outcome" where
  "deleteSubscriptionFromJetStream api jsSub jsSubKey s =
     bindR (unsubscribe_valid api jsSub s) (\<lambda>_ s.
     bindR (deleteConsumerFromJetStream api (ConsumerName jsSubKey) s) (\<lambda>_ s.
     (Ret (), delete_sub jsSubKey s)))"

definition deleteSubscriptionFromJetStreamOnly ::
  "'w nats_api \<Rightarrow> Subscriber \<Rightarrow> SubscriptionSubjectIdentifier \<Rightarrow> 'w js_state \<Rightarrow> ('w js_state, unit) outcome" where
  "deleteSubscriptionFromJetStreamOnly api jsSub jsSubKey s =
     bindR (unsubscribe_valid api jsSub s) (\<lambda>_ s. (Ret (), delete_sub jsSubKey s))"

text \<open>
  \<^verbatim>\<open>for key, jsSub := range js.subscriptions { if !isJsSubAssociatedWithKymaSub(key, sub) ... }\<close>:
  the keys in the order of the iteration, the value read when the key is reached, a key that
  has been deleted meanwhile skipped.
\<close>

definition range_associated ::
  "'w nats_api \<Rightarrow> Subscription \<Rightarrow>
   (SubscriptionSubjectIdentifier \<Rightarrow> Subscriber \<Rightarrow> 'w js_state \<Rightarrow> ('w js_state, unit) outcome) \<Rightarrow>
   'w js_state \<Rightarrow> ('w js_state, unit) outcome" where
  "range_associated api subscription body s =
     for_each (\<lambda>key s.
       case js_subscriptions (fst s) key of
         None \<Rightarrow> (Ret (), s)
       | Some jsSub \<Rightarrow>
           bindR (isJsSubAssociatedWithKymaSub key subscription, s) (\<lambda>associated s.
             if associated then body key jsSub s else (Ret (), s)))
       (na_order api (js_subscriptions (fst s))) s"

definition DeleteSubscription :: "'w nats_api \<Rightarrow> Subscription \<Rightarrow> 'w js_state \<Rightarrow> ('w js_state, unit) outcome" where
  "DeleteSubscription api subscription s =
     bindR (checkJetStreamConnection api s) (\<lambda>_ s.
     bindR (range_associated api subscription
              (\<lambda>key jsSub. deleteSubscriptionFromJetStream api jsSub key) s) (\<lambda>_ s.
     bindR (for_each (\<lambda>subject s.
              deleteConsumerFromJetStream api (ConsumerName (key_of (fst s) subscription subject)) s)
              (items (st_types (sub_status subscription))) s) (\<lambda>_ s.
     (Ret (), ((fst s)\<lparr>js_sinks := (js_sinks (fst s))(createKeyPrefix subscription := None)\<rparr>, snd s)))))"

definition DeleteSubscriptionsOnly ::
  "'w nats_api \<Rightarrow> Subscription \<Rightarrow> 'w js_state \<Rightarrow> ('w js_state, unit) outcome" where
  "DeleteSubscriptionsOnly api subscription s =
     bindR (checkJetStreamConnection api s) (\<lambda>_ s.
     range_associated api subscription
       (\<lambda>key jsSub. deleteSubscriptionFromJetStreamOnly api jsSub key) s)"

fun isConsumerUsedByKymaSub :: "JetStream \<Rightarrow> string \<Rightarrow> Subscription list \<Rightarrow> bool" where
  "isConsumerUsedByKymaSub js consumerName [] \<longleftrightarrow> False"
| "isConsumerUsedByKymaSub js consumerName (sub # subscriptions) \<longleftrightarrow>
     (let cleanedTypes = GetCleanEventTypes sub (js_cleaner js);
          jsSubjects = GetJetStreamSubjects (js_Config js) (js_cleaner js) (spec_source (sub_spec sub))
            (GetCleanEventTypesFromEventTypes (items cleanedTypes)) (spec_typeMatching (sub_spec sub))
      in list_ex (\<lambda>jsSubject. consumerName = computeConsumerName sub jsSubject) jsSubjects
         \<or> isConsumerUsedByKymaSub js consumerName subscriptions)"

definition DeleteInvalidConsumers ::
  "'w nats_api \<Rightarrow> Subscription list \<Rightarrow> 'w js_state \<Rightarrow> ('w js_state, unit) outcome" where
  "DeleteInvalidConsumers api subscriptions s =
     bindR (ctx_call (\<lambda>w. case na_Consumers api (nc_JSStreamName (js_Config (fst s))) w of
              (cs, w') \<Rightarrow> (Ret cs, w')) s) (\<lambda>consumers s.
     for_each (\<lambda>con s.
       if \<not> ci_PushBound con \<and> \<not> isConsumerUsedByKymaSub (fst s) (ci_Name con) subscriptions
       then deleteConsumerFromJetStream api (ci_Name con) s else (Ret (), s)) consumers s)"

subsection \<open>Synchronising\<close>

definition runtimeSubscriptionExistsInKymaSub ::
  "JetStream \<Rightarrow> SubscriptionSubjectIdentifier \<Rightarrow> Subscription \<Rightarrow> bool" where
  "runtimeSubscriptionExistsInKymaSub js runtimeSubscriptionKey subscription \<longleftrightarrow>
     list_ex (\<lambda>subject.
       let jsSubject = getJetStreamSubject (js_Config js) (js_cleaner js)
             (spec_source (sub_spec subscription)) (et_cleanType subject)
             (spec_typeMatching (sub_spec subscription));
           jsSubKey = NewSubscriptionSubjectIdentifier subscription jsSubject
       in si_consumerName runtimeSubscriptionKey = si_consumerName jsSubKey)
     (items (st_types (sub_status subscription)))"

definition consumerSubjectExistsInKymaSub :: "JetStream \<Rightarrow> ConsumerInfo \<Rightarrow> Subscription \<Rightarrow> bool" where
  "consumerSubjectExistsInKymaSub js consumer subscription \<longleftrightarrow>
     ContainsString
       (GetJetStreamSubjects (js_Config js) (js_cleaner js) (spec_source (sub_spec subscription))
          (GetCleanEventTypesFromEventTypes (items (st_types (sub_status subscription))))
          (spec_typeMatching (sub_spec subscription)))
       (cc_FilterSubject (ci_Config consumer))"

definition cleanupUnnecessaryJetStreamSubscribers ::
  "'w nats_api \<Rightarrow> Subscriber \<Rightarrow> Subscription \<Rightarrow> SubscriptionSubjectIdentifier \<Rightarrow> 'w js_state \<Rightarrow>
   ('w js_state, unit) outcome" where
  "cleanupUnnecessaryJetStreamSubscribers api jsSub subscription key s =
     (case ctx_call (na_ConsumerInfo api (nc_JSStreamName (js_Config (fst s))) (ConsumerName key)) s of
        (Err err, s) \<Rightarrow>
          if err_has_kind KConsumerNotFound err then
            bindR (deleteConsumerFromJetStream api (ConsumerName key) s) (\<lambda>_ s. (Ret (), delete_sub key s))
          else (Err err, s)
      | (Crash p, s) \<Rightarrow> (Crash p, s)
      | (Ret consumer, s) \<Rightarrow>
          if \<not> consumerSubjectExistsInKymaSub (fst s) consumer subscription
          then deleteSubscriptionFromJetStream api jsSub key s
          else (Ret (), s))"

definition syncSubscriptionEventType ::
  "'w nats_api \<Rightarrow> SubscriptionSubjectIdentifier \<Rightarrow> Subscription \<Rightarrow> Subscriber \<Rightarrow> 'w js_state \<Rightarrow>
   ('w js_state, unit) outcome" where
  "syncSubscriptionEventType api key subscription subscriber s =
     (if \<not> na_IsValid api (sb_handle subscriber) (snd s)
         \<and> runtimeSubscriptionExistsInKymaSub (fst s) key subscription
      then (Ret (), s)
      else cleanupUnnecessaryJetStreamSubscribers api subscriber subscription key s)"

definition syncSubscriptionEventTypes ::
  "'w nats_api \<Rightarrow> Subscription \<Rightarrow> 'w js_state \<Rightarrow> ('w js_state, unit) outcome" where
  "syncSubscriptionEventTypes api subscription s =
     range_associated api subscription
       (\<lambda>key jsSub. syncSubscriptionEventType api key subscription jsSub) s"

definition getOrCreateConsumer ::
  "'w nats_api \<Rightarrow> Subscription \<Rightarrow> EventType \<Rightarrow> 'w js_state \<Rightarrow> ('w js_state, ConsumerInfo) outcome" where
  "getOrCreateConsumer api subscription subject s =
     (let jsSubject = subject_of (fst s) subscription subject;
          jsSubKey = key_of (fst s) subscription subject;
          stream = nc_JSStreamName (js_Config (fst s))
      in case ctx_call (na_ConsumerInfo api stream (ConsumerName jsSubKey)) s of
           (Err err, s) \<Rightarrow>
             if err_has_kind KConsumerNotFound err then
               (case ctx_call (na_AddConsumer api stream
                   (getConsumerConfig (na_NewInbox api (snd s)) (js_Config (fst s)) jsSubKey jsSubject
                      (GetMaxInFlightMessages subscription (js_subsConfig (fst s))))) s of
                  (Err err, s) \<Rightarrow> (Err (MakeError ErrAddConsumer err), s)
                | r \<Rightarrow> r)
             else (Err (MakeError ErrGetConsumer err), s)
         | r \<Rightarrow> r)"

text \<open>\<^verbatim>\<open>js.jsCtx.Subscribe\<close> and the store of the new NATS subscription under its identifier.\<close>

definition subscribe_and_store ::
  "'w nats_api \<Rightarrow> Subscription \<Rightarrow> EventType \<Rightarrow> Callback \<Rightarrow> SubOpt list \<Rightarrow> 'w js_state \<Rightarrow>
   ('w js_state, unit) outcome" where
  "subscribe_and_store api subscription subject asyncCallback opts s =
     (let jsSubject = subject_of (fst s) subscription subject;
          jsSubKey = key_of (fst s) subscription subject
      in case ctx_call (na_Subscribe api jsSubject asyncCallback opts) s of
           (Err err, s) \<Rightarrow> (Err (MakeError ErrFailedSubscribe err), s)
         | (Crash p, s) \<Rightarrow> (Crash p, s)
         | (Ret h, s) \<Rightarrow>
             (Ret (), set_subs ((js_subscriptions (fst s))(jsSubKey \<mapsto>
                \<lparr>sb_handle = h, sb_subject = jsSubject, sb_callback = asyncCallback\<rparr>)) s))"

definition createNATSSubscription ::
  "'w nats_api \<Rightarrow> Subscription \<Rightarrow> EventType \<Rightarrow> Callback \<Rightarrow> 'w js_state \<Rightarrow> ('w js_state, unit) outcome" where
  "createNATSSubscription api subscription subject asyncCallback s =
     subscribe_and_store api subscription subject asyncCallback
       (getDefaultSubscriptionOptions (js_Config (fst s)) (key_of (fst s) subscription subject)
          (GetMaxInFlightMessages subscription (js_subsConfig (fst s)))) s"

definition bindInvalidSubscriptions ::
  "'w nats_api \<Rightarrow> Subscription \<Rightarrow> EventType \<Rightarrow> Callback \<Rightarrow> 'w js_state \<Rightarrow> ('w js_state, unit) outcome" where
  "bindInvalidSubscriptions api subscription subject asyncCallback s =
     subscribe_and_store api subscription subject asyncCallback
       [Bind (nc_JSStreamName (js_Config (fst s))) (ConsumerName (key_of (fst s) subscription subject))] s"

definition syncConsumerMaxInFlight ::
  "'w nats_api \<Rightarrow> Subscription \<Rightarrow> ConsumerInfo \<Rightarrow> 'w js_state \<Rightarrow> ('w js_state, unit) outcome" where
  "syncConsumerMaxInFlight api subscription consumerInfo s =
     (let maxInFlight = GetMaxInFlightMessages subscription (js_subsConfig (fst s)) in
      if cc_MaxAckPending (ci_Config consumerInfo) = maxInFlight then (Ret (), s)
      else
        let consumerConfig = (ci_Config consumerInfo)\<lparr>cc_MaxAckPending := maxInFlight\<rparr> in
        (case ctx_call (na_UpdateConsumer api (nc_JSStreamName (js_Config (fst s))) consumerConfig) s of
           (Err updateErr, s) \<Rightarrow> (Err (MakeError ErrUpdateConsumer updateErr), s)
         | (Crash p, s) \<Rightarrow> (Crash p, s)
         | (Ret _, s) \<Rightarrow> (Ret (), s)))"

text \<open>
  The body of the loop of \<^verbatim>\<open>syncConsumerAndSubscription\<close> for one event type, with its two
  conditional steps.
\<close>

definition create_if_missing ::
  "'w nats_api \<Rightarrow> Subscription \<Rightarrow> Callback \<Rightarrow> EventType \<Rightarrow> ConsumerInfo \<Rightarrow> Subscriber option \<Rightarrow>
   'w js_state \<Rightarrow> ('w js_state, unit) outcome" where
  "create_if_missing api subscription asyncCallback eventType consumerInfo natsSubscription s =
     (if natsSubscription = None \<and> \<not> ci_PushBound consumerInfo
      then createNATSSubscription api subscription eventType asyncCallback s
      else (Ret (), s))"

definition rebind_if_invalid ::
  "'w nats_api \<Rightarrow> Subscription \<Rightarrow> Callback \<Rightarrow> EventType \<Rightarrow> Subscriber option \<Rightarrow> 'w js_state \<Rightarrow>
   ('w js_state, unit) outcome" where
  "rebind_if_invalid api subscription asyncCallback eventType natsSubscription s =
     (case natsSubscription of
        None \<Rightarrow> (Ret (), s)
      | Some sub \<Rightarrow>
          if \<not> na_IsValid api (sb_handle sub) (snd s)
          then bindInvalidSubscriptions api subscription eventType asyncCallback s
          else (Ret (), s))"

definition sync_event_type ::
  "'w nats_api \<Rightarrow> Subscription \<Rightarrow> Callback \<Rightarrow> EventType \<Rightarrow> 'w js_state \<Rightarrow> ('w js_state, unit) outcome" where
  "sync_event_type api subscription asyncCallback eventType s =
     (let jsSubKey = key_of (fst s) subscription eventType in
      bindR (getOrCreateConsumer api subscription eventType s) (\<lambda>consumerInfo s.
        let natsSubscription = js_subscriptions (fst s) jsSubKey in
        bindR (create_if_missing api subscription asyncCallback eventType consumerInfo
                 natsSubscription s) (\<lambda>_ s.
        if js_subscriptions (fst s) jsSubKey = None
        then (Err (MakeError_nil ErrMissingSubscription), s)
        else
          bindR (rebind_if_invalid api subscription asyncCallback eventType natsSubscription s) (\<lambda>_ s.
          syncConsumerMaxInFlight api subscription consumerInfo s))))"

definition syncConsumerAndSubscription ::
  "'w nats_api \<Rightarrow> Subscription \<Rightarrow> Callback \<Rightarrow> 'w js_state \<Rightarrow> ('w js_state, unit) outcome" where
  "syncConsumerAndSubscription api subscription asyncCallback s =
     for_each (sync_event_type api subscription asyncCallback)
       (items (st_types (sub_status subscription))) s"

definition store_sink :: "Subscription \<Rightarrow> 'w js_state \<Rightarrow> 'w js_state" where
  "store_sink subscription s =
     (let subKeyPrefix = createKeyPrefix subscription; sink = spec_sink (sub_spec subscription) in
      if js_sinks (fst s) subKeyPrefix \<noteq> Some sink
      then ((fst s)\<lparr>js_sinks := (js_sinks (fst s))(subKeyPrefix \<mapsto> sink)\<rparr>, snd s) else s)"

definition SyncSubscription :: "'w nats_api \<Rightarrow> Subscription \<Rightarrow> 'w js_state \<Rightarrow> ('w js_state, unit) outcome" where
  "SyncSubscription api subscription s =
     bindR (checkJetStreamConnection api s) (\<lambda>_ s.
     bindR (syncSubscriptionEventTypes api subscription s) (\<lambda>_ s.
     let asyncCallback =
           \<lparr>cb_subKeyPrefix = createKeyPrefix subscription, cb_subscriptionName = sub_name subscription,
            cb_subscriptionNamespace = sub_namespace subscription\<rparr>
     in syncConsumerAndSubscription api subscription asyncCallback (store_sink subscription s)))"

subsection \<open>Frame conditions\<close>

text \<open>
  \<open>frame K s t\<close>: between \<open>s\<close> and \<open>t\<close> at most the connection, the world and the stored
  subscriptions with identifiers in \<open>K\<close> have changed.
\<close>

definition frame :: "SubscriptionSubjectIdentifier set \<Rightarrow> 'w js_state \<Rightarrow> 'w js_state \<Rightarrow> bool" where
  "frame K s t \<longleftrightarrow>
     js_Config (fst t) = js_Config (fst s) \<and> js_cleaner (fst t) = js_cleaner (fst s) \<and>
     js_subsConfig (fst t) = js_subsConfig (fst s) \<and> js_sinks (fst t) = js_sinks (fst s) \<and>
     (\<forall>k. k \<notin> K \<longrightarrow> js_subscriptions (fst t) k = js_subscriptions (fst s) k)"

lemma frame_refl [simp, intro!]: "frame K s s"
  by (simp add: frame_def)

lemma frame_trans: "frame K s t \<Longrightarrow> frame K t u \<Longrightarrow> frame K s u"
  by (simp add: frame_def)

lemma frame_same: "fst t = fst s \<Longrightarrow> frame K s t"
  by (simp add: frame_def)

lemma frame_mono: "frame K s t \<Longrightarrow> K \<subseteq> L \<Longrightarrow> frame L s t"
  by (auto simp: frame_def)

lemma frame_empty_subs: "frame {} s t \<Longrightarrow> js_subscriptions (fst t) = js_subscriptions (fst s)"
  by (auto simp: frame_def)

lemma frame_keys:
  "frame K s t \<Longrightarrow> subject_of (fst t) = subject_of (fst s) \<and> key_of (fst t) = key_of (fst s)"
  by (simp add: frame_def fun_eq_iff subject_of_def key_of_def)

lemma frame_bindR:
  assumes "frame K s (snd m)" and "\<And>a. fst m = Ret a \<Longrightarrow> frame K (snd m) (snd (f a (snd m)))"
  shows "frame K s (snd (bindR m f))"
  using frame_trans assms by (rule bindR_rel)

lemma frame_for_each:
  assumes "\<And>x s. x \<in> set xs \<Longrightarrow> frame K s (snd (f x s))"
  shows "frame K s (snd (for_each f xs s))"
  using frame_trans frame_refl assms by (rule for_each_rel)

lemma ctx_callD: "ctx_call f s = (r, t) \<Longrightarrow> fst t = fst s"
  by (auto simp: ctx_call_def call_def split: if_splits prod.splits)

lemma callD: "call f s = (r, t) \<Longrightarrow> fst t = fst s"
  by (auto simp: call_def split: prod.splits)

lemma fst_ctx_call [simp]: "fst (snd (ctx_call f s)) = fst s"
  by (metis ctx_callD prod.collapse)

lemma fst_call [simp]: "fst (snd (call f s)) = fst s"
  by (metis callD prod.collapse)

lemma set_subs_simps [simp]:
  "js_subscriptions (fst (set_subs m s)) = m" "js_sinks (fst (set_subs m s)) = js_sinks (fst s)"
  "js_Config (fst (set_subs m s)) = js_Config (fst s)"
  "js_cleaner (fst (set_subs m s)) = js_cleaner (fst s)"
  "js_subsConfig (fst (set_subs m s)) = js_subsConfig (fst s)"
  "snd (set_subs m s) = snd s"
  by (simp_all add: set_subs_def)

lemma frame_set_subs:
  "(\<And>l. l \<notin> K \<Longrightarrow> m l = js_subscriptions (fst s) l) \<Longrightarrow> frame K s (set_subs m s)"
  by (auto simp: frame_def)

lemma frame_delete_sub: "k \<in> K \<Longrightarrow> frame K s (delete_sub k s)"
  by (auto simp: frame_def)

lemmas split_outcomes = prod.splits result.splits option.splits if_splits

lemma initNATSConn_frame: "frame {} s (snd (initNATSConn api h s))"
  by (auto simp: initNATSConn_def frame_def Let_def split: split_outcomes)

lemma initJSContext_frame: "frame {} s (snd (initJSContext api s))"
  by (auto simp: initJSContext_def frame_def split: split_outcomes)

lemma initCloudEventClient_frame: "frame {} s (snd (initCloudEventClient api s))"
  by (auto simp: initCloudEventClient_def frame_def split: split_outcomes)

lemma ensureStream_frame: "frame {} s (snd (ensureStreamExistsAndIsConfiguredCorrectly api s))"
  unfolding ensureStreamExistsAndIsConfiguredCorrectly_def
  by (rule frame_bindR) (auto simp: frame_same dest!: ctx_callD split: split_outcomes)

lemma handleReconnect_frame: "frame {} s (snd (handleReconnect api s))"
  using ensureStream_frame [of s api] by (auto simp: handleReconnect_def split: prod.splits result.splits)

lemma Initialize_frame: "frame {} s (snd (Initialize api h s))"
  unfolding Initialize_def
  by (intro frame_bindR) (auto intro: initNATSConn_frame initJSContext_frame initCloudEventClient_frame
      ensureStream_frame)

lemma checkJetStreamConnection_frame: "frame {} s (snd (checkJetStreamConnection api s))"
  using Initialize_frame [of s api "js_connClosedHandler (fst s)"]
  by (auto simp: checkJetStreamConnection_def split: split_outcomes)

lemma deleteConsumer_same: "fst (snd (deleteConsumerFromJetStream api name s)) = fst s"
  by (auto simp: deleteConsumerFromJetStream_def dest!: ctx_callD split: split_outcomes)

lemma unsubscribe_valid_same: "fst (snd (unsubscribe_valid api jsSub s)) = fst s"
  by (auto simp: unsubscribe_valid_def dest!: callD split: split_outcomes)

text \<open>\<open>removes K s t\<close>: a \<open>frame K\<close> step that stores no subscription.\<close>

definition removes :: "SubscriptionSubjectIdentifier set \<Rightarrow> 'w js_state \<Rightarrow> 'w js_state \<Rightarrow> bool" where
  "removes K s t \<longleftrightarrow> frame K s t \<and> js_subscriptions (fst t) \<subseteq>\<^sub>m js_subscriptions (fst s)"

lemma removes_frame: "removes K s t \<Longrightarrow> frame K s t"
  by (simp add: removes_def)

lemma removes_refl [simp, intro!]: "removes K s s"
  by (simp add: removes_def)

lemma removes_trans: "removes K s t \<Longrightarrow> removes K t u \<Longrightarrow> removes K s u"
  unfolding removes_def by (blast intro: frame_trans map_le_trans)

lemma removes_same: "fst t = fst s \<Longrightarrow> removes K s t"
  by (simp add: removes_def frame_same)

lemma removes_bindR:
  assumes "removes K s (snd m)" and "\<And>a t. removes K t (snd (f a t))"
  shows "removes K s (snd (bindR m f))"
  using removes_trans assms(1) assms(2) by (rule bindR_rel)

lemma removes_delete_sub: "k \<in> K \<Longrightarrow> removes K s (snd (r, delete_sub k s))"
  by (auto simp: removes_def map_le_def intro: frame_delete_sub)

lemma deleteConsumer_removes: "removes K s (snd (deleteConsumerFromJetStream api name s))"
  by (rule removes_same) (rule deleteConsumer_same)

lemma unsubscribe_valid_removes: "removes K s (snd (unsubscribe_valid api jsSub s))"
  by (rule removes_same) (rule unsubscribe_valid_same)

lemmas removes_intros =
  removes_bindR removes_delete_sub deleteConsumer_removes unsubscribe_valid_removes

lemma deleteSubscription_removes:
  "k \<in> K \<Longrightarrow> removes K s (snd (deleteSubscriptionFromJetStream api jsSub k s))"
  unfolding deleteSubscriptionFromJetStream_def by (intro removes_intros)

lemma deleteSubscriptionOnly_removes:
  "k \<in> K \<Longrightarrow> removes K s (snd (deleteSubscriptionFromJetStreamOnly api jsSub k s))"
  unfolding deleteSubscriptionFromJetStreamOnly_def by (intro removes_intros)

lemma cleanup_removes:
  assumes k: "k \<in> K"
  shows "removes K s (snd (cleanupUnnecessaryJetStreamSubscribers api jsSub sub k s))"
proof -
  obtain r t where ct: "ctx_call (na_ConsumerInfo api (nc_JSStreamName (js_Config (fst s)))
      (ConsumerName k)) s = (r, t)" by (rule prod.exhaust)
  have "removes K s t" using ctx_callD [OF ct] by (rule removes_same)
  moreover have "removes K t (snd (bindR (deleteConsumerFromJetStream api (ConsumerName k) t)
      (\<lambda>_ s. (Ret (), delete_sub k s))))"
    using k by (intro removes_intros)
  moreover have "removes K t (snd (deleteSubscriptionFromJetStream api jsSub k t))"
    using k by (rule deleteSubscription_removes)
  ultimately show ?thesis
    by (auto simp: cleanupUnnecessaryJetStreamSubscribers_def ct intro: removes_trans split: result.splits)
qed

lemma syncSubscriptionEventType_removes:
  "k \<in> K \<Longrightarrow> removes K s (snd (syncSubscriptionEventType api k sub jsSub s))"
  by (simp add: syncSubscriptionEventType_def cleanup_removes)

lemma removes_for_each:
  assumes "\<And>x s. x \<in> set xs \<Longrightarrow> removes K s (snd (f x s))"
  shows "removes K s (snd (for_each f xs s))"
  using removes_trans removes_refl assms by (rule for_each_rel)

lemma range_associated_removes:
  assumes "\<And>k jsSub s. isJsSubAssociatedWithKymaSub k sub = Ret True \<Longrightarrow> removes K s (snd (body k jsSub s))"
  shows "removes K s (snd (range_associated api sub body s))"
  unfolding range_associated_def
  by (rule removes_for_each)
    (simp add: bindR_pure assms split: option.splits result.splits)

lemma getOrCreateConsumer_same: "fst (snd (getOrCreateConsumer api sub et s)) = fst s"
  by (auto simp: getOrCreateConsumer_def Let_def dest!: ctx_callD split: split_outcomes)

lemma subscribe_and_store_frame:
  "key_of (fst s) sub et \<in> K \<Longrightarrow> frame K s (snd (subscribe_and_store api sub et cb opts s))"
  by (auto simp: subscribe_and_store_def Let_def frame_def dest!: ctx_callD split: split_outcomes)

lemma syncConsumerMaxInFlight_same: "fst (snd (syncConsumerMaxInFlight api sub ci s)) = fst s"
  by (auto simp: syncConsumerMaxInFlight_def Let_def dest!: ctx_callD split: split_outcomes)

text \<open>The identifiers of a Subscription's event types.\<close>

definition own_keys :: "JetStream \<Rightarrow> Subscription \<Rightarrow> SubscriptionSubjectIdentifier set" where
  "own_keys js sub = key_of js sub ` set (items (st_types (sub_status sub)))"

definition associated_keys :: "Subscription \<Rightarrow> SubscriptionSubjectIdentifier set" where
  "associated_keys sub = {k. isJsSubAssociatedWithKymaSub k sub = Ret True}"

text \<open>
  \<open>adds K sub cb s t\<close>: a \<open>frame K\<close> step in which stored subscriptions are kept or replaced, and the
  new ones call back with \<open>cb\<close> and are stored under the identifier of \<open>sub\<close> and their subject.
\<close>

definition adds :: "SubscriptionSubjectIdentifier set \<Rightarrow> Subscription \<Rightarrow> Callback \<Rightarrow> 'w js_state \<Rightarrow> 'w js_state \<Rightarrow> bool" where
  "adds K sub cb s t \<longleftrightarrow>
     frame K s t \<and> dom (js_subscriptions (fst s)) \<subseteq> dom (js_subscriptions (fst t)) \<and>
     (\<forall>k sb. js_subscriptions (fst t) k = Some sb \<longrightarrow>
        js_subscriptions (fst s) k = Some sb \<or>
        k \<in> K \<and> sb_callback sb = cb \<and> k = NewSubscriptionSubjectIdentifier sub (sb_subject sb))"

lemma adds_refl [simp, intro!]: "adds K sub cb s s"
  by (simp add: adds_def)

lemma adds_trans: "adds K sub cb s t \<Longrightarrow> adds K sub cb t u \<Longrightarrow> adds K sub cb s u"
  unfolding adds_def by (blast intro: frame_trans)

lemma adds_same: "fst t = fst s \<Longrightarrow> adds K sub cb s t"
  by (simp add: adds_def frame_same)

lemma adds_keys:
  "adds K sub cb s t \<Longrightarrow> subject_of (fst t) = subject_of (fst s) \<and> key_of (fst t) = key_of (fst s)"
  by (auto simp: adds_def dest: frame_keys)

lemma adds_bindR:
  assumes "adds K sub cb s (snd m)" and "\<And>a t. adds K sub cb s t \<Longrightarrow> adds K sub cb t (snd (f a t))"
  shows "adds K sub cb s (snd (bindR m f))"
  using adds_trans assms(1) assms(2) [OF assms(1)] by (rule bindR_rel)

lemma subscribe_and_store_adds:
  "key_of (fst s) sub et \<in> K \<Longrightarrow> adds K sub cb s (snd (subscribe_and_store api sub et cb opts s))"
  by (auto simp: subscribe_and_store_def adds_def frame_def Let_def key_of_def dest!: ctx_callD split: split_outcomes)

lemma create_if_missing_adds:
  "key_of (fst s) sub et \<in> K \<Longrightarrow> adds K sub cb s (snd (create_if_missing api sub cb et ci ns s))"
  by (simp add: create_if_missing_def createNATSSubscription_def subscribe_and_store_adds)

lemma rebind_if_invalid_adds:
  "key_of (fst s) sub et \<in> K \<Longrightarrow> adds K sub cb s (snd (rebind_if_invalid api sub cb et ns s))"
  by (simp add: rebind_if_invalid_def bindInvalidSubscriptions_def subscribe_and_store_adds
      split: option.splits)

lemma syncConsumerMaxInFlight_adds: "adds K sub cb s (snd (syncConsumerMaxInFlight api sub ci s))"
  by (rule adds_same) (rule syncConsumerMaxInFlight_same)

lemma sync_event_type_adds:
  assumes "key_of (fst s) sub et \<in> K"
  shows "adds K sub cb s (snd (sync_event_type api sub cb et s))"
  unfolding sync_event_type_def Let_def
proof (rule adds_bindR)
  show "adds K sub cb s (snd (getOrCreateConsumer api sub et s))"
    by (rule adds_same) (rule getOrCreateConsumer_same)
  fix ci t
  assume t: "adds K sub cb s t"
  have key: "key_of (fst u) sub et \<in> K" if "adds K sub cb t u" for u
    using assms adds_keys [OF adds_trans [OF t that]] by simp
  show "adds K sub cb t (snd (bindR (create_if_missing api sub cb et ci
      (js_subscriptions (fst t) (key_of (fst s) sub et)) t) (\<lambda>_ sa.
      if js_subscriptions (fst sa) (key_of (fst s) sub et) = None
      then (Err (MakeError_nil ErrMissingSubscription), sa)
      else bindR (rebind_if_invalid api sub cb et (js_subscriptions (fst t) (key_of (fst s) sub et)) sa)
        (\<lambda>_. syncConsumerMaxInFlight api sub ci))))"
    by (rule adds_bindR)
      (auto intro!: key create_if_missing_adds adds_bindR rebind_if_invalid_adds
        syncConsumerMaxInFlight_adds)
qed

lemma syncConsumerAndSubscription_adds:
  "adds (own_keys (fst s) sub) sub cb s (snd (syncConsumerAndSubscription api sub cb s))"
proof -
  let ?K = "own_keys (fst s) sub"
  have "adds ?K sub cb s t \<longrightarrow> adds ?K sub cb s (snd (for_each (sync_event_type api sub cb) ets t))"
    if "set ets \<subseteq> set (items (st_types (sub_status sub)))" for ets t
    using that
  proof (induction ets arbitrary: t)
    case (Cons et ets)
    show ?case
    proof
      assume t: "adds ?K sub cb s t"
      obtain r u where ru: "sync_event_type api sub cb et t = (r, u)" by (rule prod.exhaust)
      have "key_of (fst t) sub et \<in> ?K" using Cons.prems adds_keys [OF t] by (auto simp: own_keys_def)
      then have "adds ?K sub cb t u" using sync_event_type_adds [of t sub et ?K cb api] ru by simp
      with t have "adds ?K sub cb s u" by (rule adds_trans)
      then show "adds ?K sub cb s (snd (for_each (sync_event_type api sub cb) (et # ets) t))"
        using Cons by (cases r) (auto simp: ru)
    qed
  qed simp
  then show ?thesis unfolding syncConsumerAndSubscription_def by blast
qed

subsection \<open>What a successful call has done\<close>

lemma sync_event_type_present:
  assumes "sync_event_type api sub cb et s = (Ret u, t)"
  shows "js_subscriptions (fst t) (key_of (fst s) sub et) \<noteq> None"
proof -
  let ?k = "key_of (fst s) sub et"
  obtain ns ci s1 s2 where there: "js_subscriptions (fst s1) ?k \<noteq> None"
    and rebind: "rebind_if_invalid api sub cb et ns s1 = (Ret (), s2)"
    and last: "syncConsumerMaxInFlight api sub ci s2 = (Ret u, t)"
    using assms unfolding sync_event_type_def Let_def
    by (auto elim!: bindR_RetE split: if_splits) blast
  have "adds UNIV sub cb s1 s2" using rebind_if_invalid_adds [of s1 sub et UNIV cb api ns] rebind by simp
  moreover have "fst t = fst s2" using syncConsumerMaxInFlight_same [of api sub ci s2] last by simp
  ultimately show ?thesis using there by (auto simp: adds_def)
qed

lemma syncConsumerAndSubscription_present:
  assumes "syncConsumerAndSubscription api sub cb s = (Ret u, t)"
  shows "own_keys (fst s) sub \<subseteq> dom (js_subscriptions (fst t))"
proof
  fix k
  assume "k \<in> own_keys (fst s) sub"
  then obtain et where et: "et \<in> set (items (st_types (sub_status sub)))" and k: "k = key_of (fst s) sub et"
    by (auto simp: own_keys_def)
  obtain ys zs s1 s2 where "items (st_types (sub_status sub)) = ys @ et # zs"
    and before: "for_each (sync_event_type api sub cb) ys s = (Ret (), s1)"
    and at: "sync_event_type api sub cb et s1 = (Ret (), s2)"
    and after: "for_each (sync_event_type api sub cb) zs s2 = (Ret (), t)"
    using for_each_RetE [OF assms [unfolded syncConsumerAndSubscription_def] et] by metis
  have step: "adds UNIV sub cb a (snd (for_each (sync_event_type api sub cb) xs a))" for xs a
    by (rule for_each_rel) (auto intro: adds_trans sync_event_type_adds)
  have "key_of (fst s1) = key_of (fst s)" using adds_keys [OF step [of s ys]] before by simp
  then have "k \<in> dom (js_subscriptions (fst s2))" using sync_event_type_present [OF at] k by auto
  moreover have "adds UNIV sub cb s2 t" using step [of s2 zs] after by simp
  ultimately show "k \<in> dom (js_subscriptions (fst t))" by (auto simp: adds_def)
qed

lemma range_associated_deletes:
  assumes body: "\<And>k j s t. body k j s = (Ret (), t) \<Longrightarrow>
      js_subscriptions (fst t) = (js_subscriptions (fst s))(k := None)"
    and order: "set (na_order api (js_subscriptions (fst s))) = dom (js_subscriptions (fst s))"
    and run: "range_associated api sub body s = (Ret u, t)"
  shows "js_subscriptions (fst t) = (\<lambda>k. if k \<in> associated_keys sub then None else js_subscriptions (fst s) k)"
proof -
  let ?F = "\<lambda>key s. case js_subscriptions (fst s) key of None \<Rightarrow> (Ret (), s)
      | Some jsSub \<Rightarrow> bindR (isJsSubAssociatedWithKymaSub key sub, s)
          (\<lambda>associated s. if associated then body key jsSub s else (Ret (), s))"
  have one: "js_subscriptions (fst b) =
      (if k \<in> associated_keys sub then (js_subscriptions (fst a))(k := None) else js_subscriptions (fst a))"
    if "?F k a = (Ret (), b)" for k a b
    using that body by (auto simp: bindR_pure associated_keys_def split: split_outcomes)
  have loop: "js_subscriptions (fst b) =
      (\<lambda>k. if k \<in> set ks \<and> k \<in> associated_keys sub then None else js_subscriptions (fst a) k)"
    if "for_each ?F ks a = (Ret (), b)" for ks a b
    using that
  proof (induction ks arbitrary: a)
    case (Cons k ks)
    then obtain c where c: "?F k a = (Ret (), c)" and rest: "for_each ?F ks c = (Ret (), b)"
      by (auto elim!: bindR_RetE)
    show ?case unfolding Cons.IH [OF rest] one [OF c] by (auto simp: fun_eq_iff)
  qed simp
  have "for_each ?F (na_order api (js_subscriptions (fst s))) s = (Ret (), t)"
    using run by (simp add: range_associated_def)
  from loop [OF this] show ?thesis
    unfolding order by (auto simp: fun_eq_iff domIff)
qed

lemma deleteSubscription_Ret:
  assumes "deleteSubscriptionFromJetStream api j k s = (Ret (), t)"
  shows "js_subscriptions (fst t) = (js_subscriptions (fst s))(k := None)"
proof -
  obtain s1 s2 where 1: "unsubscribe_valid api j s = (Ret (), s1)"
    and 2: "deleteConsumerFromJetStream api (ConsumerName k) s1 = (Ret (), s2)" and t: "t = delete_sub k s2"
    using assms by (auto simp: deleteSubscriptionFromJetStream_def elim!: bindR_RetE)
  have "fst s2 = fst s"
    using unsubscribe_valid_same [of api j s] deleteConsumer_same [of api "ConsumerName k" s1] 1 2 by simp
  with t show ?thesis by simp
qed

lemma deleteSubscriptionOnly_Ret:
  assumes "deleteSubscriptionFromJetStreamOnly api j k s = (Ret (), t)"
  shows "js_subscriptions (fst t) = (js_subscriptions (fst s))(k := None)"
  using assms unsubscribe_valid_same [of api j s]
  by (auto simp: deleteSubscriptionFromJetStreamOnly_def elim!: bindR_RetE)

lemma store_sink_sinks:
  "js_sinks (fst (store_sink sub s)) = (js_sinks (fst s))(createKeyPrefix sub \<mapsto> spec_sink (sub_spec sub))"
  by (auto simp: store_sink_def Let_def)

lemma store_sink_frame [simp]:
  "js_subscriptions (fst (store_sink sub s)) = js_subscriptions (fst s)"
  "js_Config (fst (store_sink sub s)) = js_Config (fst s)"
  "js_cleaner (fst (store_sink sub s)) = js_cleaner (fst s)"
  "js_subsConfig (fst (store_sink sub s)) = js_subsConfig (fst s)"
  by (simp_all add: store_sink_def Let_def)

lemma store_sink_keys: "own_keys (fst (store_sink sub s)) = own_keys (fst s)"
  by (simp add: fun_eq_iff own_keys_def key_of_def subject_of_def)

lemma frame_own_keys: "frame K s t \<Longrightarrow> own_keys (fst t) = own_keys (fst s)"
  by (simp add: fun_eq_iff own_keys_def frame_keys)

lemma syncTypes_removes: "removes (associated_keys sub) s (snd (syncSubscriptionEventTypes api sub s))"
  unfolding syncSubscriptionEventTypes_def
  by (rule range_associated_removes) (simp add: syncSubscriptionEventType_removes associated_keys_def)

text \<open>The closure that \<open>SyncSubscription\<close> hands to NATS.\<close>

definition callback_of :: "Subscription \<Rightarrow> Callback" where
  "callback_of sub =
     \<lparr>cb_subKeyPrefix = createKeyPrefix sub, cb_subscriptionName = sub_name sub,
      cb_subscriptionNamespace = sub_namespace sub\<rparr>"

text \<open>The stages of \<open>SyncSubscription\<close>, successful or not.\<close>

lemma SyncSubscription_stages:
  obtains (early) "\<nexists>u. fst (SyncSubscription api sub s) = Ret u"
      "removes (associated_keys sub) s (snd (SyncSubscription api sub s))"
    | (late) s2 where "removes (associated_keys sub) s s2"
        "SyncSubscription api sub s = syncConsumerAndSubscription api sub (callback_of sub) (store_sink sub s2)"
proof -
  obtain r1 s1 where 1: "checkJetStreamConnection api s = (r1, s1)" by (rule prod.exhaust)
  have "frame {} s s1" using checkJetStreamConnection_frame [of s api] 1 by simp
  then have s1: "removes (associated_keys sub) s s1"
    by (auto simp: removes_def frame_empty_subs elim: frame_mono)
  show thesis
  proof (cases "\<exists>u. r1 = Ret u")
    case False
    with 1 s1 show thesis by (intro early) (cases r1; auto simp: SyncSubscription_def)+
  next
    case True
    obtain r2 s2 where 2: "syncSubscriptionEventTypes api sub s1 = (r2, s2)" by (rule prod.exhaust)
    have s2: "removes (associated_keys sub) s s2"
      using removes_trans [OF s1 syncTypes_removes [of sub s1 api]] 2 by simp
    show thesis
    proof (cases "\<exists>u. r2 = Ret u")
      case False
      with 1 2 True s2 show thesis by (intro early) (cases r2; auto simp: SyncSubscription_def)+
    next
      case r2: True
      show thesis
        by (rule late [OF s2]) (use 1 2 True r2 in \<open>auto simp: SyncSubscription_def callback_of_def\<close>)
    qed
  qed
qed

lemma for_each_deleteConsumer_same:
  "fst (snd (for_each (\<lambda>x s. deleteConsumerFromJetStream api (name x s) s) xs s)) = fst s"
  by (rule for_each_rel [where R = "\<lambda>a b. fst b = fst a"]) (simp_all add: deleteConsumer_same)

lemma DeleteSubscription_stages:
  assumes order: "set (na_order api (js_subscriptions (fst s))) = dom (js_subscriptions (fst s))"
  obtains (failed) "\<nexists>u. fst (DeleteSubscription api sub s) = Ret u"
      "removes (associated_keys sub) s (snd (DeleteSubscription api sub s))"
    | (complete) "fst (DeleteSubscription api sub s) = Ret ()"
      "js_subscriptions (fst (snd (DeleteSubscription api sub s)))
         = (\<lambda>k. if k \<in> associated_keys sub then None else js_subscriptions (fst s) k)"
      "js_sinks (fst (snd (DeleteSubscription api sub s)))
         = (js_sinks (fst s))(createKeyPrefix sub := None)"
proof -
  let ?body = "\<lambda>key jsSub. deleteSubscriptionFromJetStream api jsSub key"
  let ?loop = "for_each (\<lambda>subject s. deleteConsumerFromJetStream api
      (ConsumerName (key_of (fst s) sub subject)) s) (items (st_types (sub_status sub)))"
  obtain r1 s1 where 1: "checkJetStreamConnection api s = (r1, s1)" by (rule prod.exhaust)
  obtain r2 s2 where 2: "range_associated api sub ?body s1 = (r2, s2)" by (rule prod.exhaust)
  obtain r3 s3 where 3: "?loop s2 = (r3, s3)" by (rule prod.exhaust)
  have f1: "frame {} s s1" using checkJetStreamConnection_frame [of s api] 1 by simp
  have subs1: "js_subscriptions (fst s1) = js_subscriptions (fst s)" by (rule frame_empty_subs [OF f1])
  have s1: "removes (associated_keys sub) s s1"
    using f1 by (auto simp: removes_def subs1 elim: frame_mono)
  have "removes (associated_keys sub) s1 s2"
    using range_associated_removes [of sub "associated_keys sub" ?body s1 api] 2
    by (simp add: deleteSubscription_removes associated_keys_def)
  with s1 have s2: "removes (associated_keys sub) s s2" by (rule removes_trans)
  have same: "fst s3 = fst s2"
    using for_each_deleteConsumer_same
      [of api "\<lambda>subject s. ConsumerName (key_of (fst s) sub subject)" "items (st_types (sub_status sub))" s2] 3
    by simp
  have s3: "removes (associated_keys sub) s s3" using removes_trans [OF s2 removes_same [OF same]] .
  show thesis
  proof (cases "\<exists>u v w. r1 = Ret u \<and> r2 = Ret v \<and> r3 = Ret w")
    case False
    show thesis
      by (rule failed) (use False 1 2 3 s1 s2 s3 in
          \<open>cases r1; cases r2; cases r3; auto simp: DeleteSubscription_def\<close>)+
  next
    case True
    then have run: "DeleteSubscription api sub s = (Ret (),
        ((fst s3)\<lparr>js_sinks := (js_sinks (fst s3))(createKeyPrefix sub := None)\<rparr>, snd s3))"
      using 1 2 3 by (auto simp: DeleteSubscription_def)
    have "js_subscriptions (fst s2) = (\<lambda>k. if k \<in> associated_keys sub then None else js_subscriptions (fst s) k)"
      using range_associated_deletes [of ?body api s1 sub "()" s2, OF deleteSubscription_Ret]
        True 2 order subs1 by auto
    moreover have "js_sinks (fst s2) = js_sinks (fst s)"
      using removes_frame [OF s2] by (simp add: frame_def)
    ultimately show thesis by (intro complete) (simp_all add: run same)
  qed
qed

lemma DeleteSubscriptionsOnly_removes:
  "removes (associated_keys sub) s (snd (DeleteSubscriptionsOnly api sub s))"
proof -
  have "removes (associated_keys sub) s (snd (checkJetStreamConnection api s))"
    using checkJetStreamConnection_frame [of s api]
    by (auto simp: removes_def frame_empty_subs elim: frame_mono)
  moreover have "removes (associated_keys sub) t (snd (range_associated api sub
      (\<lambda>key jsSub. deleteSubscriptionFromJetStreamOnly api jsSub key) t))" for t
    by (rule range_associated_removes) (simp add: deleteSubscriptionOnly_removes associated_keys_def)
  ultimately show ?thesis
    unfolding DeleteSubscriptionsOnly_def by (rule removes_bindR)
qed

lemma DeleteInvalidConsumers_same: "fst (snd (DeleteInvalidConsumers api subscriptions s)) = fst s"
proof -
  have loop: "fst (snd (for_each (\<lambda>con s.
      if \<not> ci_PushBound con \<and> \<not> isConsumerUsedByKymaSub (fst s) (ci_Name con) subscriptions
      then deleteConsumerFromJetStream api (ci_Name con) s else (Ret (), s)) cs t)) = fst t" for cs t
    by (rule for_each_rel [where R = "\<lambda>a b. fst b = fst a"]) (simp_all add: deleteConsumer_same)
  show ?thesis
    unfolding DeleteInvalidConsumers_def
    by (rule bindR_rel [where R = "\<lambda>a b. fst b = fst a"], simp, simp, rule loop)
qed

lemma SyncSubscription_effect:
  assumes "SyncSubscription api sub s = (Ret (), t)"
  shows "own_keys (fst s) sub \<subseteq> dom (js_subscriptions (fst t))"
    and "js_sinks (fst t) = (js_sinks (fst s))(createKeyPrefix sub \<mapsto> spec_sink (sub_spec sub))"
    and "k \<notin> own_keys (fst s) sub \<Longrightarrow> k \<notin> associated_keys sub \<Longrightarrow>
        js_subscriptions (fst t) k = js_subscriptions (fst s) k"
    and "own_keys (fst t) = own_keys (fst s)"
proof -
  obtain s2 where late: "removes (associated_keys sub) s s2"
      "SyncSubscription api sub s = syncConsumerAndSubscription api sub (callback_of sub) (store_sink sub s2)"
    by (rule SyncSubscription_stages [of api sub s]) (use assms in simp_all)
  have fr: "frame (associated_keys sub) s s2" using late(1) by (rule removes_frame)
  have keys: "own_keys (fst (store_sink sub s2)) = own_keys (fst s)"
    using frame_own_keys [OF fr] by (simp add: store_sink_keys)
  have run: "syncConsumerAndSubscription api sub (callback_of sub) (store_sink sub s2) = (Ret (), t)"
    using late(2) assms by simp
  have adds: "adds (own_keys (fst s) sub) sub (callback_of sub) (store_sink sub s2) t"
    using syncConsumerAndSubscription_adds [of "store_sink sub s2" sub "callback_of sub" api] run keys by simp
  show "own_keys (fst s) sub \<subseteq> dom (js_subscriptions (fst t))"
    using syncConsumerAndSubscription_present [OF run] keys by simp
  show "js_sinks (fst t) = (js_sinks (fst s))(createKeyPrefix sub \<mapsto> spec_sink (sub_spec sub))"
    using adds fr by (simp add: adds_def frame_def store_sink_sinks)
  show "js_subscriptions (fst t) k = js_subscriptions (fst s) k"
    if "k \<notin> own_keys (fst s) sub" "k \<notin> associated_keys sub"
    using that adds fr by (simp add: adds_def frame_def)
  show "own_keys (fst t) = own_keys (fst s)"
    using adds frame_own_keys [of "own_keys (fst s) sub" "store_sink sub s2" t] keys by (simp add: adds_def)
qed

subsection \<open>The backend as a state machine\<close>

text \<open>
  The calls that the reconciler, the manager and the NATS client make, in any order and with any
  arguments, with changes of the world by others in between.
\<close>

inductive js_step :: "'w nats_api \<Rightarrow> 'w js_state \<Rightarrow> 'w js_state \<Rightarrow> bool" for api where
  initialize: "js_step api s (snd (Initialize api h s))"
| shutdown: "js_step api s (Shutdown api s)"
| reconnect: "js_step api s (snd (handleReconnect api s))"
| sync: "js_step api s (snd (SyncSubscription api sub s))"
| delete: "set (na_order api (js_subscriptions (fst s))) = dom (js_subscriptions (fst s)) \<Longrightarrow>
     js_step api s (snd (DeleteSubscription api sub s))"
| delete_only: "js_step api s (snd (DeleteSubscriptionsOnly api sub s))"
| delete_invalid: "js_step api s (snd (DeleteInvalidConsumers api subscriptions s))"
| world: "js_step api (js, w) (js, w')"

inductive js_reachable :: "'w nats_api \<Rightarrow> 'w js_state \<Rightarrow> bool" for api where
  start: "js_reachable api (NewJetStream config cleaner subsConfig, w)"
| step: "js_reachable api s \<Longrightarrow> js_step api s t \<Longrightarrow> js_reachable api t"

text \<open>
  Every stored NATS subscription carries the callback of the Subscription it was made for and is
  stored under the identifier of that Subscription and its subject. If the subject contains no
  slash, the identifier names the Subscription and its sink is stored, so a message that arrives
  can be dispatched. A subject with a slash cuts the name off at the wrong place
  (\<open>associated_slash\<close>), and deleting the Subscription then leaves the NATS subscription without a
  sink.
\<close>

definition sinks_inv :: "JetStream \<Rightarrow> bool" where
  "sinks_inv js \<longleftrightarrow>
     (\<forall>k sb. js_subscriptions js k = Some sb \<longrightarrow>
        (\<exists>sub. k = NewSubscriptionSubjectIdentifier sub (sb_subject sb) \<and> sb_callback sb = callback_of sub) \<and>
        (CHR ''/'' \<notin> set (sb_subject sb) \<longrightarrow>
           NamespacedName k = Ret (cb_subKeyPrefix (sb_callback sb)) \<and>
           js_sinks js (cb_subKeyPrefix (sb_callback sb)) \<noteq> None))"

lemma sinks_invD:
  assumes "sinks_inv js" and "js_subscriptions js k = Some sb" and "CHR ''/'' \<notin> set (sb_subject sb)"
  shows "NamespacedName k = Ret (cb_subKeyPrefix (sb_callback sb))"
    and "\<exists>sink. js_sinks js (cb_subKeyPrefix (sb_callback sb)) = Some sink"
  using assms by (auto simp: sinks_inv_def)

lemma sinks_inv_removes: "sinks_inv (fst s) \<Longrightarrow> removes K s t \<Longrightarrow> sinks_inv (fst t)"
  unfolding sinks_inv_def removes_def frame_def map_le_def by (metis domI)

lemma sinks_inv_frame: "sinks_inv (fst s) \<Longrightarrow> frame {} s t \<Longrightarrow> sinks_inv (fst t)"
  by (simp add: sinks_inv_def frame_def)

lemma sinks_inv_SyncSubscription:
  assumes inv: "sinks_inv (fst s)"
  shows "sinks_inv (fst (snd (SyncSubscription api sub s)))"
proof (cases rule: SyncSubscription_stages [of api sub s])
  case early
  with inv show ?thesis by (blast intro: sinks_inv_removes)
next
  case (late s2)
  let ?t = "snd (SyncSubscription api sub s)"
  have inv2: "sinks_inv (fst s2)" using inv late(1) by (rule sinks_inv_removes)
  have keys: "own_keys (fst (store_sink sub s2)) sub = own_keys (fst s) sub"
    using frame_own_keys [OF removes_frame [OF late(1)]] by (simp add: store_sink_keys)
  have adds: "adds (own_keys (fst s) sub) sub (callback_of sub) (store_sink sub s2) ?t"
    using syncConsumerAndSubscription_adds [of "store_sink sub s2" sub "callback_of sub" api] late(2) keys
    by simp
  then have sinks: "js_sinks (fst ?t) = (js_sinks (fst s2))(createKeyPrefix sub \<mapsto> spec_sink (sub_spec sub))"
    by (simp add: adds_def frame_def store_sink_sinks)
  show ?thesis
    unfolding sinks_inv_def
  proof (intro allI impI)
    fix k sb
    assume "js_subscriptions (fst ?t) k = Some sb"
    then consider "js_subscriptions (fst s2) k = Some sb"
      | "k = NewSubscriptionSubjectIdentifier sub (sb_subject sb)" "sb_callback sb = callback_of sub"
      using adds by (auto simp: adds_def)
    then show "(\<exists>sub. k = NewSubscriptionSubjectIdentifier sub (sb_subject sb) \<and> sb_callback sb = callback_of sub) \<and>
        (CHR ''/'' \<notin> set (sb_subject sb) \<longrightarrow>
           NamespacedName k = Ret (cb_subKeyPrefix (sb_callback sb)) \<and>
           js_sinks (fst ?t) (cb_subKeyPrefix (sb_callback sb)) \<noteq> None)"
    proof cases
      case 1
      then show ?thesis using inv2 by (simp add: sinks_inv_def sinks)
    next
      case 2
      then have "NamespacedName k = Ret (createKeyPrefix sub)" if "CHR ''/'' \<notin> set (sb_subject sb)"
        using NamespacedName_New [OF that] by metis
      with 2 show ?thesis by (auto simp: sinks callback_of_def)
    qed
  qed
qed

lemma sinks_inv_DeleteSubscription:
  assumes inv: "sinks_inv (fst s)"
    and order: "set (na_order api (js_subscriptions (fst s))) = dom (js_subscriptions (fst s))"
  shows "sinks_inv (fst (snd (DeleteSubscription api sub s)))"
proof (rule DeleteSubscription_stages [OF order, of sub])
  assume "removes (associated_keys sub) s (snd (DeleteSubscription api sub s))"
  with inv show ?thesis by (rule sinks_inv_removes)
next
  assume complete: "js_subscriptions (fst (snd (DeleteSubscription api sub s)))
         = (\<lambda>k. if k \<in> associated_keys sub then None else js_subscriptions (fst s) k)"
      "js_sinks (fst (snd (DeleteSubscription api sub s)))
         = (js_sinks (fst s))(createKeyPrefix sub := None)"
  have "cb_subKeyPrefix (sb_callback sb) \<noteq> createKeyPrefix sub"
    if "k \<notin> associated_keys sub" "js_subscriptions (fst s) k = Some sb" "CHR ''/'' \<notin> set (sb_subject sb)" for k sb
    using that sinks_invD(1) [OF inv that(2,3)] by (auto simp: associated_keys_def isJsSubAssociatedWithKymaSub_def)
  with inv complete show ?thesis by (auto simp: sinks_inv_def split: if_splits)
qed

lemma sinks_inv_step:
  assumes "js_step api s t" and "sinks_inv (fst s)"
  shows "sinks_inv (fst t)"
  using assms
proof cases
  case (initialize h)
  then show ?thesis using assms(2) by (auto intro: sinks_inv_frame Initialize_frame)
next
  case shutdown
  then show ?thesis using assms(2) by (auto simp: Shutdown_def split: option.splits)
next
  case reconnect
  then show ?thesis using assms(2) by (auto intro: sinks_inv_frame handleReconnect_frame)
next
  case (delete_only sub)
  then show ?thesis using assms(2) by (blast intro: sinks_inv_removes DeleteSubscriptionsOnly_removes)
qed (use assms(2) in \<open>auto simp: DeleteInvalidConsumers_same
      intro: sinks_inv_SyncSubscription sinks_inv_DeleteSubscription\<close>)

lemma js_reachable_sinks:
  assumes "js_reachable api s"
  shows "sinks_inv (fst s)"
  using assms
proof (induction rule: js_reachable.induct)
  case (start config cleaner subsConfig w)
  show ?case by (simp add: sinks_inv_def NewJetStream_def)
next
  case (step s t)
  then show ?case by (blast intro: sinks_inv_step)
qed

subsection \<open>An example server\<close>

text \<open>
  A server that is always connected and whose world is the list of its consumers; the
  witnesses below run the backend against it.
\<close>

definition example_info :: "string \<Rightarrow> ConsumerConfig \<Rightarrow> ConsumerInfo" where
  "example_info name config = \<lparr>ci_Name = name, ci_Config = config, ci_PushBound = False\<rparr>"

definition example_type :: EventType where
  "example_type = \<lparr>et_originalType = ''order.created.v1'', et_cleanType = ''order.created.v1''\<rparr>"

definition example_synced :: Subscription where
  "example_synced = example_subscription
     \<lparr>sub_status := empty_SubscriptionStatus\<lparr>st_types := Some [example_type]\<rparr>\<rparr>"

definition example_defaults :: DefaultSubscriptionConfig where
  "example_defaults = \<lparr>dsc_maxInFlightMessages = 10, dsc_dispatcherRetryPeriod = 0, dsc_dispatcherMaxRetries = 10\<rparr>"

definition example_new :: JetStream where
  "example_new = NewJetStream example_config JetStreamCleaner example_defaults"

definition example_js :: JetStream where
  "example_js = example_new\<lparr>js_Conn := Some 0, js_jsCtx := True, js_client := True\<rparr>"

definition example_key :: SubscriptionSubjectIdentifier where
  "example_key = key_of example_js example_synced example_type"

definition example_api :: "(string \<times> ConsumerConfig) list nats_api" where
  "example_api =
     \<lparr>na_order = (\<lambda>m. if m example_key = None then [] else [example_key]),
      na_show = (\<lambda>sb. ''subscriber''),
      na_ParseQuantity = (\<lambda>q. Ret (- 1)),
      na_Connect = (\<lambda>u w. (Ret 0, w)),
      na_Status = (\<lambda>c w. CONNECTED),
      na_Close = (\<lambda>c w. w),
      na_SetClosedHandler = (\<lambda>c h w. w),
      na_SetReconnectHandler = (\<lambda>c w. w),
      na_JetStream = (\<lambda>c w. (Ret (), w)),
      na_NewClientHTTP = (\<lambda>cfg. None),
      na_StreamInfo = (\<lambda>n w. (Err (Plain KStreamNotFound ''stream not found''), w)),
      na_AddStream = (\<lambda>sc w. (Ret (), w)),
      na_UpdateStream = (\<lambda>sc w. (Ret (), w)),
      na_Consumers = (\<lambda>n w. (map (\<lambda>(name, config). example_info name config) w, w)),
      na_ConsumerInfo = (\<lambda>st name w. case map_of w name of
          Some config \<Rightarrow> (Ret (example_info name config), w)
        | None \<Rightarrow> (Err (Plain KConsumerNotFound ''consumer not found''), w)),
      na_AddConsumer = (\<lambda>st config w.
        (Ret (example_info (cc_Durable config) config), (cc_Durable config, config) # w)),
      na_UpdateConsumer = (\<lambda>st config w.
        (Ret (example_info (cc_Durable config) config), (cc_Durable config, config) # w)),
      na_DeleteConsumer = (\<lambda>st name w. (Ret (), filter (\<lambda>p. fst p \<noteq> name) w)),
      na_Subscribe = (\<lambda>sub cb opts w. (Ret (length w), w)),
      na_IsValid = (\<lambda>h w. True),
      na_Unsubscribe = (\<lambda>h w. (Ret (), w)),
      na_NewInbox = (\<lambda>w. ''_INBOX'')\<rparr>"

lemma example_api_simps [simp]:
  "na_Connect example_api u w = (Ret 0, w)" "na_JetStream example_api c w = (Ret (), w)"
  "na_SetReconnectHandler example_api c w = w" "na_SetClosedHandler example_api c h w = w"
  "na_NewClientHTTP example_api cfg = None" "na_ParseQuantity example_api q = Ret (- 1)"
  "na_StreamInfo example_api n w = (Err (Plain KStreamNotFound ''stream not found''), w)"
  "na_AddStream example_api sc w = (Ret (), w)"
  "na_ConsumerInfo example_api st name w = (case map_of w name of
     Some config \<Rightarrow> (Ret (example_info name config), w)
   | None \<Rightarrow> (Err (Plain KConsumerNotFound ''consumer not found''), w))"
  "na_AddConsumer example_api st config w =
     (Ret (example_info (cc_Durable config) config), (cc_Durable config, config) # w)"
  "na_DeleteConsumer example_api st name w = (Ret (), filter (\<lambda>p. fst p \<noteq> name) w)"
  "na_Subscribe example_api subj cb opts w = (Ret (length w), w)"
  "na_IsValid example_api h w" "na_Unsubscribe example_api h w = (Ret (), w)"
  "na_NewInbox example_api w = ''_INBOX''"
  by (simp_all add: example_api_def)

lemma example_connected [simp]:
  "na_Status example_api c w = CONNECTED" "js_Conn example_js = Some 0" "js_jsCtx example_js"
  "js_subscriptions example_js = Map.empty" "js_sinks example_js = Map.empty"
  "js_Config example_js = example_config" "js_cleaner example_js = JetStreamCleaner"
  by (simp_all add: example_api_def example_js_def example_new_def NewJetStream_def)

lemma example_synced_types [simp]: "items (st_types (sub_status example_synced)) = [example_type]"
  by (simp add: example_synced_def)

lemma example_order [simp]:
  "na_order example_api m = (if m example_key = None then [] else [example_key])"
  by (simp add: example_api_def)

lemma example_maxInFlight [simp]: "GetMaxInFlightMessages example_synced d = 10"
  by (simp add: GetMaxInFlightMessages_def example_synced_def example_subscription_def example_Atoi)

definition example_after :: "(string \<times> ConsumerConfig) list js_state" where
  "example_after = snd (SyncSubscription example_api example_synced (example_js, []))"

lemma example_sync: "SyncSubscription example_api example_synced (example_js, []) = (Ret (), example_after)"
proof -
  have "fst (SyncSubscription example_api example_synced (example_js, [])) = Ret ()"
    by (simp add: SyncSubscription_def checkJetStreamConnection_def syncSubscriptionEventTypes_def
        range_associated_def syncConsumerAndSubscription_def sync_event_type_def getOrCreateConsumer_def
        create_if_missing_def createNATSSubscription_def subscribe_and_store_def rebind_if_invalid_def
        syncConsumerMaxInFlight_def ctx_call_def call_def store_sink_def Let_def set_subs_def
        example_info_def getConsumerConfig_def key_of_def subject_of_def)
  then show ?thesis by (simp add: example_after_def prod_eq_iff)
qed

lemma example_subject: "subject_of example_js example_synced example_type = ''kyma.source.order.created.v1''"
  by (simp add: subject_of_def GetJetStreamSubject_def Let_def example_config_def example_synced_def
      example_subscription_def example_type_def JetStreamCleaner_def JetStreamCleaner_CleanSource_def
      invalidSourceCharacters_def invalidEventTypeCharacters_def is_regex_space_def)

lemma example_associated: "isJsSubAssociatedWithKymaSub example_key example_synced = Ret True"
  by (simp add: example_key_def key_of_def associated_New example_subject)

definition example_live :: "(string \<times> ConsumerConfig) list js_state" where
  "example_live =
     (example_js\<lparr>js_subscriptions := [example_key \<mapsto> \<lparr>sb_handle = 0, sb_subject = ''kyma.source.order.created.v1'',
        sb_callback = callback_of example_synced\<rparr>], js_sinks := [''ns/sub'' \<mapsto> ''http://svc.ns.svc.cluster.local'']\<rparr>,
      [])"

lemma example_live_order:
  "set (na_order example_api (js_subscriptions (fst example_live))) = dom (js_subscriptions (fst example_live))"
  by (simp add: example_live_def)

lemma example_delete:
  "fst (DeleteSubscription example_api example_synced example_live) = Ret ()"
  by (simp add: DeleteSubscription_def checkJetStreamConnection_def range_associated_def example_live_def
      example_associated deleteSubscriptionFromJetStream_def unsubscribe_valid_def call_def
      deleteConsumerFromJetStream_def ctx_call_def set_subs_def)

lemma example_after_reachable: "js_reachable example_api example_after"
proof -
  have "js_reachable example_api (example_new, [])"
    unfolding example_new_def by (rule js_reachable.start)
  moreover have "snd (Initialize example_api None (example_new, [])) = (example_js, [])"
    using example_config_valid
    by (simp add: Initialize_def initNATSConn_def initJSContext_def initCloudEventClient_def
        ensureStreamExistsAndIsConfiguredCorrectly_def ctx_call_def call_def getStreamConfig_def
        example_new_def NewJetStream_def example_js_def example_config_def Let_def
        toJetStreamStorageType_def toJetStreamRetentionPolicy_def toJetStreamDiscardPolicy_def)
  ultimately have "js_reachable example_api (example_js, [])"
    by (metis js_reachable.step js_step.initialize)
  then show ?thesis
    unfolding example_after_def by (blast intro: js_reachable.step js_step.sync)
qed

lemma example_after_client: "js_client (fst example_after)"
  by (simp add: example_after_def SyncSubscription_def checkJetStreamConnection_def syncSubscriptionEventTypes_def
      range_associated_def syncConsumerAndSubscription_def sync_event_type_def getOrCreateConsumer_def
      create_if_missing_def createNATSSubscription_def subscribe_and_store_def rebind_if_invalid_def
      syncConsumerMaxInFlight_def ctx_call_def call_def store_sink_def Let_def set_subs_def
      example_info_def getConsumerConfig_def key_of_def subject_of_def)
    (simp add: example_js_def)

lemma example_after_stored:
  obtains sb where "js_subscriptions (fst example_after) example_key = Some sb"
    and "sb_callback sb = callback_of example_synced" and "CHR ''/'' \<notin> set (sb_subject sb)"
proof -
  have key: "example_key \<in> own_keys example_js example_synced"
    by (simp add: own_keys_def example_key_def)
  then obtain sb where sb: "js_subscriptions (fst example_after) example_key = Some sb"
    using SyncSubscription_effect(1) [OF example_sync] by auto
  have subject: "subject_of (example_js\<lparr>js_sinks := m\<rparr>) example_synced example_type = ''kyma.source.order.created.v1''" for m
    using example_subject by (simp add: subject_of_def)
  have "sb_callback sb = callback_of example_synced \<and> CHR ''/'' \<notin> set (sb_subject sb)"
    using sb
    by (simp add: example_after_def SyncSubscription_def checkJetStreamConnection_def syncSubscriptionEventTypes_def
        range_associated_def syncConsumerAndSubscription_def sync_event_type_def getOrCreateConsumer_def
        create_if_missing_def createNATSSubscription_def subscribe_and_store_def rebind_if_invalid_def
        syncConsumerMaxInFlight_def ctx_call_def call_def store_sink_def Let_def set_subs_def
        example_info_def getConsumerConfig_def callback_of_def split: if_splits)
      (auto simp: subject)
  with sb that show thesis by blast
qed

subsection \<open>Properties\<close>

text \<open>
  C13. When \<^verbatim>\<open>SyncSubscription\<close> succeeds, there is a stored NATS subscription for every event type
  of the Subscription's status, the sink is stored under the Subscription's name and all other
  sinks are as before, and no NATS subscription of another Subscription has been touched.
\<close>

theorem SyncSubscription_success:
  assumes "SyncSubscription api sub s = (Ret (), t)"
  shows "own_keys (fst s) sub \<subseteq> dom (js_subscriptions (fst t)) \<and>
     js_sinks (fst t) = (js_sinks (fst s))(createKeyPrefix sub \<mapsto> spec_sink (sub_spec sub)) \<and>
     (\<forall>k. k \<notin> own_keys (fst s) sub \<longrightarrow> k \<notin> associated_keys sub \<longrightarrow>
        js_subscriptions (fst t) k = js_subscriptions (fst s) k)"
  using SyncSubscription_effect [OF assms] by blast

theorem SyncSubscription_success_witness:
  "own_keys example_js example_synced \<subseteq> dom (js_subscriptions (fst example_after)) \<and>
   js_sinks (fst example_after) ''ns/sub'' = Some ''http://svc.ns.svc.cluster.local''"
  using SyncSubscription_success [OF example_sync]
  by (simp add: createKeyPrefix_def example_synced_def example_subscription_def)

text \<open>
  C14. When \<^verbatim>\<open>DeleteSubscription\<close> succeeds, no NATS subscription associated with the Subscription is
  left, its sink is forgotten, and the NATS subscriptions and sinks of all other
  Subscriptions are exactly those from before, whatever the iteration order over the map.
\<close>

theorem DeleteSubscription_success:
  assumes "DeleteSubscription api sub s = (Ret (), t)"
    and "set (na_order api (js_subscriptions (fst s))) = dom (js_subscriptions (fst s))"
  shows "js_subscriptions (fst t)
       = (\<lambda>k. if isJsSubAssociatedWithKymaSub k sub = Ret True then None else js_subscriptions (fst s) k) \<and>
     js_sinks (fst t) = (js_sinks (fst s))(createKeyPrefix sub := None)"
  by (rule DeleteSubscription_stages [OF assms(2), of sub])
    (use assms(1) in \<open>auto simp: associated_keys_def\<close>)

theorem DeleteSubscription_success_witness:
  "js_subscriptions (fst (snd (DeleteSubscription example_api example_synced example_live))) example_key = None \<and>
   js_sinks (fst (snd (DeleteSubscription example_api example_synced example_live))) ''ns/sub'' = None"
proof -
  have run: "DeleteSubscription example_api example_synced example_live
      = (Ret (), snd (DeleteSubscription example_api example_synced example_live))"
    using example_delete by (metis prod.collapse)
  have "createKeyPrefix example_synced = ''ns/sub''"
    by (simp add: createKeyPrefix_def example_synced_def example_subscription_def)
  then show ?thesis
    using DeleteSubscription_success [OF run example_live_order] example_associated by simp
qed

text \<open>
  \<^verbatim>\<open>DeleteSubscriptionsOnly\<close> on a live connection changes nothing on the server that
  unsubscribing does not change, in particular it deletes no consumer, and it keeps all
  sinks; when it succeeds, exactly the associated NATS subscriptions are gone.
\<close>

theorem DeleteSubscriptionsOnly_keeps_consumers:
  assumes live: "js_Conn (fst s) = Some c" "na_Status api c (snd s) = CONNECTED"
    and unsubscribe: "\<And>h w. obs (snd (na_Unsubscribe api h w)) = obs w"
    and order: "set (na_order api (js_subscriptions (fst s))) = dom (js_subscriptions (fst s))"
  shows "obs (snd (snd (DeleteSubscriptionsOnly api sub s))) = obs (snd s) \<and>
     js_sinks (fst (snd (DeleteSubscriptionsOnly api sub s))) = js_sinks (fst s) \<and>
     (fst (DeleteSubscriptionsOnly api sub s) = Ret () \<longrightarrow>
        js_subscriptions (fst (snd (DeleteSubscriptionsOnly api sub s)))
          = (\<lambda>k. if isJsSubAssociatedWithKymaSub k sub = Ret True then None else js_subscriptions (fst s) k))"
proof (intro conjI impI)
  let ?body = "\<lambda>key jsSub. deleteSubscriptionFromJetStreamOnly api jsSub key"
  have run: "DeleteSubscriptionsOnly api sub s = range_associated api sub ?body s"
    using live by (simp add: DeleteSubscriptionsOnly_def checkJetStreamConnection_def)
  let ?R = "\<lambda>a b. obs (snd b) = obs (snd a)"
  have body: "?R a (snd (deleteSubscriptionFromJetStreamOnly api j k a))" for j k a
    unfolding deleteSubscriptionFromJetStreamOnly_def
  proof (rule bindR_rel [where R = ?R])
    obtain r w where "na_Unsubscribe api (sb_handle j) (snd a) = (r, w)" by (rule prod.exhaust)
    then show "?R a (snd (unsubscribe_valid api j a))"
      using unsubscribe [of "sb_handle j" "snd a"]
      by (auto simp: unsubscribe_valid_def call_def split: result.splits)
  qed simp_all
  show "?R s (snd (DeleteSubscriptionsOnly api sub s))"
    unfolding run range_associated_def
    by (rule for_each_rel [where R = ?R]) (auto simp: bindR_pure body split: option.splits result.splits)
  show "js_sinks (fst (snd (DeleteSubscriptionsOnly api sub s))) = js_sinks (fst s)"
    using DeleteSubscriptionsOnly_removes [of sub s api] by (simp add: removes_def frame_def)
  assume "fst (DeleteSubscriptionsOnly api sub s) = Ret ()"
  then have "range_associated api sub ?body s = (Ret (), snd (DeleteSubscriptionsOnly api sub s))"
    by (metis run prod.collapse)
  from range_associated_deletes [OF deleteSubscriptionOnly_Ret order this]
  show "js_subscriptions (fst (snd (DeleteSubscriptionsOnly api sub s)))
      = (\<lambda>k. if isJsSubAssociatedWithKymaSub k sub = Ret True then None else js_subscriptions (fst s) k)"
    by (simp add: associated_keys_def)
qed

theorem DeleteSubscriptionsOnly_keeps_consumers_witness:
  "snd (snd (DeleteSubscriptionsOnly example_api example_synced example_live)) = snd example_live"
  using DeleteSubscriptionsOnly_keeps_consumers
    [of example_live 0 example_api "\<lambda>w. w" example_synced, OF _ _ _ example_live_order]
  by (simp add: example_live_def)

text \<open>
  C11. In every state the backend can reach through its operations, in any order, every stored
  NATS subscription is stored under the identifier of the Subscription whose callback it has. If
  its subject contains no slash, that identifier names the Subscription and the sink is stored
  under the name the callback looks up, so the callback finds its sink. A subject with a slash,
  which exact type matching lets through, can lose its sink.
\<close>

theorem reachable_sinks_inv:
  assumes "js_reachable api s"
  shows "sinks_inv (fst s)"
  using assms by (rule js_reachable_sinks)

theorem reachable_sinks_inv_witness: "sinks_inv (fst example_after)"
  using example_after_reachable by (rule reachable_sinks_inv)

text \<open>
  A stream counts as configured correctly exactly when it agrees with the wanted
  configuration on every field that \<^verbatim>\<open>getStreamConfig\<close> sets, except for the maximal number of
  messages per subject: a stream that differs only there is left as it is and no update is
  sent, although the comparison is documented to cover the fields the configuration defines.
\<close>

theorem ensureStream_ignores_MaxMsgsPerSubject:
  assumes "getStreamConfig (na_ParseQuantity api) (js_Config js) = Ret want"
    and "na_StreamInfo api (nc_JSStreamName (js_Config js)) w = (Ret (want\<lparr>sc_MaxMsgsPerSubject := n\<rparr>), w')"
    and "js_jsCtx js"
  shows "ensureStreamExistsAndIsConfiguredCorrectly api (js, w) = (Ret (), (js, w')) \<and>
     (streamIsConfiguredCorrectly got want \<longleftrightarrow>
        got\<lparr>sc_MaxMsgsPerSubject := 0\<rparr> = want\<lparr>sc_MaxMsgsPerSubject := 0\<rparr>)"
proof
  show "ensureStreamExistsAndIsConfiguredCorrectly api (js, w) = (Ret (), (js, w'))"
    using assms by (simp add: ensureStreamExistsAndIsConfiguredCorrectly_def ctx_call_def call_def
        streamIsConfiguredCorrectly_def)
  show "streamIsConfiguredCorrectly got want \<longleftrightarrow>
      got\<lparr>sc_MaxMsgsPerSubject := 0\<rparr> = want\<lparr>sc_MaxMsgsPerSubject := 0\<rparr>"
    by (cases got; cases want) (auto simp: streamIsConfiguredCorrectly_def)
qed

definition example_stream :: StreamConfig where
  "example_stream =
     \<lparr>sc_Name = ''sap'', sc_Storage = FileStorage, sc_Replicas = 1, sc_Retention = InterestPolicy,
      sc_MaxMsgs = -1, sc_MaxBytes = -1, sc_Discard = DiscardNew, sc_MaxMsgsPerSubject = 100,
      sc_Subjects = [''kyma.>'']\<rparr>"

theorem ensureStream_ignores_MaxMsgsPerSubject_witness:
  "ensureStreamExistsAndIsConfiguredCorrectly
     (example_api\<lparr>na_StreamInfo := \<lambda>n w. (Ret (example_stream\<lparr>sc_MaxMsgsPerSubject := 1\<rparr>), w)\<rparr>)
     (example_js, []) = (Ret (), (example_js, []))"
proof -
  let ?api = "example_api\<lparr>na_StreamInfo := \<lambda>n w. (Ret (example_stream\<lparr>sc_MaxMsgsPerSubject := 1\<rparr>), w)\<rparr>"
  have "getStreamConfig (na_ParseQuantity ?api) (js_Config example_js) = Ret example_stream"
    by (simp add: getStreamConfig_def example_config_def example_stream_def toJetStreamStorageType_def
        toJetStreamRetentionPolicy_def toJetStreamDiscardPolicy_def)
  from ensureStream_ignores_MaxMsgsPerSubject [OF this, of "[]" 1] show ?thesis by simp
qed

text \<open>
  While there is no connection yet, a failed attempt to connect makes every operation that
  checks the connection panic: the error message asks the nil connection for its status.
\<close>

theorem checkJetStreamConnection_panics:
  assumes "js_Conn (fst s) = None" and "js_validateConfig (js_Config (fst s)) = None"
    and "na_Connect api (nc_URL (js_Config (fst s))) (snd s) = (Err e, w)"
  shows "checkJetStreamConnection api s = (Crash nil_dereference, (fst s, w)) \<and>
     SyncSubscription api sub s = (Crash nil_dereference, (fst s, w)) \<and>
     DeleteSubscription api sub s = (Crash nil_dereference, (fst s, w))"
proof -
  have "checkJetStreamConnection api s = (Crash nil_dereference, (fst s, w))"
    using assms by (simp add: checkJetStreamConnection_def Initialize_def initNATSConn_def)
  then show ?thesis by (simp add: SyncSubscription_def DeleteSubscription_def)
qed

theorem checkJetStreamConnection_panics_witness:
  "fst (SyncSubscription (example_api\<lparr>na_Connect := \<lambda>u w. (Err (Plain KOther ''no servers''), w)\<rparr>)
     example_synced (example_new, [])) = Crash nil_dereference"
  using checkJetStreamConnection_panics
    [of "(example_new, [])" "example_api\<lparr>na_Connect := \<lambda>u w. (Err (Plain KOther ''no servers''), w)\<rparr>"
        "Plain KOther ''no servers''" "[]" example_synced] example_config_valid
  by (simp add: example_new_def NewJetStream_def)

end
