(* ===== verification/Subscription_Managers.thy ===== *)
theory Subscription_Managers
  imports JetStream_Backend Eventmesh_Reconcile Api_Eventing
begin

section \<open>The subscription managers (pkg/subscriptionmanager)\<close>

text \<open>
  The two implementations of \<^verbatim>\<open>manager.Manager\<close>, which the operator of \<open>Sub_Managers\<close> starts and
  stops: they create a backend and a reconciler, and clean up behind a backend that is switched off.
  The dynamic Kubernetes client and the JSON converters are the functions of \<open>dynamic_client\<close> on a
  type \<open>'k\<close> of clusters; \<open>'u\<close> are unstructured lists and objects, \<open>'j\<close> is JSON. Setting up the
  unmanaged controller is a function of the cluster. The context of the manager is \<open>Some True\<close> while it
  runs and \<open>Some False\<close> after it was cancelled; without a context there is no cancel function.
\<close>

subsection \<open>The dynamic client\<close>

record ('u, 'j, 'k) dynamic_client =
  dc_ListSubscriptions :: "('k, 'u) call"
  dc_MarshalJSON :: "'u \<Rightarrow> 'j result"
  dc_Unmarshal :: "'j \<Rightarrow> Subscription list result"
  dc_ToUnstructured :: "Subscription \<Rightarrow> 'u result"
  dc_UpdateStatus :: "string \<Rightarrow> 'u \<Rightarrow> ('k, unit) call"
  dc_DeleteAPIRule :: "string \<Rightarrow> string \<Rightarrow> ('k, unit) call"

definition ConvertUnstructListToSubList :: "('u, 'j, 'k) dynamic_client \<Rightarrow> 'u \<Rightarrow> Subscription list result" where
  "ConvertUnstructListToSubList dc unstructuredList =
     (case dc_MarshalJSON dc unstructuredList of
        Ret subscriptionListBytes \<Rightarrow> dc_Unmarshal dc subscriptionListBytes
      | Err err \<Rightarrow> Err err
      | Crash p \<Rightarrow> Crash p)"

definition UpdateSubscriptionStatus :: "('u, 'j, 'k) dynamic_client \<Rightarrow> Subscription \<Rightarrow> ('k, unit) call" where
  "UpdateSubscriptionStatus dc sub k =
     (case dc_ToUnstructured dc sub of
        Ret unstructuredObj \<Rightarrow> dc_UpdateStatus dc (sub_namespace sub) unstructuredObj k
      | Err err \<Rightarrow> (Err (wrap_text ''convert subscription to unstructured failed: '' err), k)
      | Crash p \<Rightarrow> (Crash p, k))"

text \<open>Listing and converting all Subscriptions, the same in the three places that do it.\<close>

definition all_subscriptions :: "('u, 'j, 'k) dynamic_client \<Rightarrow> ('k, Subscription list) call" where
  "all_subscriptions dc k =
     bindR (wrap_err ''list subscriptions failed: '' (dc_ListSubscriptions dc k)) (\<lambda>u k.
       wrap_err ''convert subscriptionList from unstructured list failed: '' (ConvertUnstructListToSubList dc u, k))"

text \<open>A failed step of a cleanup is logged and remembered; only a panic ends the loop.\<close>

definition attempt :: "('s, 'a) outcome \<Rightarrow> ('s, bool) outcome" where
  "attempt m = (case m of (Ret _, s) \<Rightarrow> (Ret True, s) | (Err err, s) \<Rightarrow> (Ret False, s) | (Crash p, s) \<Rightarrow> (Crash p, s))"

fun cleanup_all :: "('a \<Rightarrow> 's \<Rightarrow> ('s, bool) outcome) \<Rightarrow> 'a list \<Rightarrow> bool \<Rightarrow> 's \<Rightarrow> ('s, bool) outcome" where
  "cleanup_all f [] successful s = (Ret successful, s)"
| "cleanup_all f (x # xs) successful s = bindR (f x s) (\<lambda>ok s. cleanup_all f xs (successful \<and> ok) s)"

subsection \<open>JetStream\<close>

definition GetNewNATSConfig :: "NATSConfig \<Rightarrow> Eventing \<Rightarrow> NATSConfig result" where
  "GetNewNATSConfig nc eventingCR =
     (case EventingSpec.es_backend (eg_spec eventingCR) of
        None \<Rightarrow> Crash nil_pointer
      | Some b \<Rightarrow> let c = eb_config b in
          Ret (nc\<lparr>nc_EventTypePrefix := bc_eventTypePrefix c,
                 nc_JSStreamStorageType := ToLower (bc_natsStreamStorageType c),
                 nc_JSStreamReplicas := bc_natsStreamReplicas c,
                 nc_JSStreamMaxBytes := q_text (bc_natsStreamMaxSize c),
                 nc_JSStreamMaxMsgsPerTopic := bc_natsMaxMsgsPerTopic c\<rparr>))"

text \<open>
  The state with what the manager acts on: the metrics, the cluster and the world of NATS. The
  manager and the reconciler share the backend, so \<open>js_backend\<close> is the current one.
\<close>

record ('w, 'k) js_manager =
  jm_envCfg :: NATSConfig
  jm_backendv2 :: "JetStream option"
  jm_ctx :: "bool option"
  jm_mgr :: bool
  jm_metrics :: status_metrics
  jm_k8s :: 'k
  jm_world :: 'w

definition NewSubscriptionManager_js :: "NATSConfig \<Rightarrow> status_metrics \<Rightarrow> 'k \<Rightarrow> 'w \<Rightarrow> ('w, 'k) js_manager" where
  "NewSubscriptionManager_js natsConfig metrics k w =
     \<lparr>jm_envCfg = natsConfig, jm_backendv2 = None, jm_ctx = None, jm_mgr = False, jm_metrics = metrics,
      jm_k8s = k, jm_world = w\<rparr>"

definition Init_js :: "(('w, 'k) js_manager, unit) call" where
  "Init_js sm =
     (if nc_URL (jm_envCfg sm) = '''' then (Err (Plain KOther ''env var URL must be a non-empty value''), sm)
      else (Ret (), sm\<lparr>jm_mgr := True\<rparr>))"

text \<open>Running an operation of the backend of the manager.\<close>

definition on_js :: "('w js_state \<Rightarrow> ('w js_state, 'a) outcome) \<Rightarrow> (('w, 'k) js_manager, 'a) call" where
  "on_js f sm =
     (case jm_backendv2 sm of
        None \<Rightarrow> (Crash nil_pointer, sm)
      | Some js \<Rightarrow> (case f (js, jm_world sm) of (r, (js, w)) \<Rightarrow> (r, sm\<lparr>jm_backendv2 := Some js, jm_world := w\<rparr>)))"

definition on_jm_cluster :: "('k, 'a) call \<Rightarrow> (('w, 'k) js_manager, 'a) call" where
  "on_jm_cluster f sm = (case f (jm_k8s sm) of (r, k) \<Rightarrow> (r, sm\<lparr>jm_k8s := k\<rparr>))"

text \<open>
  \<open>handler\<close> is \<^verbatim>\<open>HandleNatsConnClose\<close> of the new reconciler, \<open>listAll\<close> the client of the controller
  manager and \<open>setup\<close> its \<^verbatim>\<open>SetupUnmanaged\<close>. Without \<^verbatim>\<open>Init\<close> there is no controller manager.
\<close>

definition Start_js ::
  "'w nats_api \<Rightarrow> nat \<Rightarrow> ('k, Subscription list) call \<Rightarrow> ('k, unit) call \<Rightarrow> DefaultSubscriptionConfig \<Rightarrow>
   (('w, 'k) js_manager, unit) call" where
  "Start_js api handler listAll setup defaultSubsConfig sm =
     (let sm = sm\<lparr>jm_metrics := ResetSubscriptionStatus (jm_metrics sm), jm_ctx := Some True\<rparr> in
      if \<not> jm_mgr sm then (Crash nil_pointer, sm)
      else
        let sm = sm\<lparr>jm_backendv2 := Some (NewJetStream (jm_envCfg sm) JetStreamCleaner defaultSubsConfig)\<rparr> in
        bindR (wrap_err ''failed to initialise jetstream reconciler: '' (on_js (Initialize api (Some handler)) sm)) (\<lambda>_ sm.
        bindR (wrap_err ''failed to get all subscription resources: '' (on_jm_cluster listAll sm)) (\<lambda>subs sm.
        bindR (on_js (DeleteInvalidConsumers api subs) sm) (\<lambda>_ sm.
          describe_failed ''unable to setup the NATS subscription controller: '' (on_jm_cluster setup sm)))))"

text \<open>The cleanup of one Subscription: its status, then its consumers.\<close>

definition cleanup_js_sub ::
  "'w nats_api \<Rightarrow> ('u, 'j, 'k) dynamic_client \<Rightarrow> Subscription \<Rightarrow> (('w, 'k) js_manager, bool) call" where
  "cleanup_js_sub api dc sub sm =
     bindR (attempt (on_jm_cluster (UpdateSubscriptionStatus dc (DuplicateWithStatusDefaults sub)) sm)) (\<lambda>updated sm.
     bindR (attempt (on_js (DeleteSubscription api sub) sm)) (\<lambda>deleted sm.
       (Ret (updated \<and> deleted), sm)))"

text \<open>The result of \<^verbatim>\<open>cleanupv2\<close> is nil after the loop; the flag that is logged is returned here.\<close>

definition cleanupv2 ::
  "'w nats_api \<Rightarrow> ('u, 'j, 'k) dynamic_client \<Rightarrow> (('w, 'k) js_manager, bool) call" where
  "cleanupv2 api dc sm =
     (if jm_backendv2 sm = None then (Err (Plain KOther ''converting backend to JetStream v2 backend failed''), sm)
      else bindR (on_jm_cluster (all_subscriptions dc) sm) (\<lambda>subs sm.
        cleanup_all (cleanup_js_sub api dc) subs True sm))"

definition Stop_js ::
  "'w nats_api \<Rightarrow> ('u, 'j, 'k) dynamic_client \<Rightarrow> bool \<Rightarrow> (('w, 'k) js_manager, unit) call" where
  "Stop_js api dc runCleanup sm =
     (let sm = (case jm_backendv2 sm of
                  None \<Rightarrow> sm
                | Some js \<Rightarrow> sm\<lparr>jm_world := snd (Shutdown api (js, jm_world sm))\<rparr>) in
      if jm_ctx sm = None then (Crash nil_pointer, sm)
      else
        let sm = sm\<lparr>jm_ctx := Some False\<rparr> in
        if \<not> runCleanup then (Ret (), sm)
        else bindR (cleanupv2 api dc sm) (\<lambda>_ sm. (Ret (), sm)))"

subsection \<open>EventMesh\<close>

abbreviation ParamNameClientID :: string where "ParamNameClientID \<equiv> ''client_id''"
abbreviation ParamNameClientSecret :: string where "ParamNameClientSecret \<equiv> ''client_secret''"
abbreviation ParamNameTokenURL :: string where "ParamNameTokenURL \<equiv> ''token_url''"
abbreviation ParamNameCertsURL :: string where "ParamNameCertsURL \<equiv> ''certs_url''"

abbreviation ErrDomainEmpty :: goerr where "ErrDomainEmpty \<equiv> Sentinel ''domain must be a non-empty value''"

definition param :: "(string, string) fmap \<Rightarrow> string \<Rightarrow> string" where
  "param params name = (case fmlookup params name of None \<Rightarrow> '''' | Some v \<Rightarrow> v)"

definition getOAuth2ClientCredentials_params :: "(string, string) fmap \<Rightarrow> OAuth2ClientCredentials" where
  "getOAuth2ClientCredentials_params params =
     \<lparr>cc_clientID = param params ParamNameClientID, cc_clientSecret = param params ParamNameClientSecret,
      cc_tokenURL = param params ParamNameTokenURL, cc_certsURL = param params ParamNameCertsURL\<rparr>"

record ('e, 'k) em_manager =
  mm_envCfg :: EnvConfig
  mm_domain :: string
  mm_eventMeshBackend :: "'e EventMesh option"
  mm_ctx :: "bool option"
  mm_mgr :: bool
  mm_metrics :: status_metrics
  mm_k8s :: 'k
  mm_server :: 'e

text \<open>\<open>cfg\<close> is what \<^verbatim>\<open>env.GetConfig()\<close> reads from the environment at that time.\<close>

definition NewSubscriptionManager_em :: "EnvConfig \<Rightarrow> string \<Rightarrow> status_metrics \<Rightarrow> 'k \<Rightarrow> 'e \<Rightarrow> ('e, 'k) em_manager" where
  "NewSubscriptionManager_em cfg domain metrics k e =
     \<lparr>mm_envCfg = cfg, mm_domain = domain, mm_eventMeshBackend = None, mm_ctx = None, mm_mgr = False,
      mm_metrics = metrics, mm_k8s = k, mm_server = e\<rparr>"

definition Init_em :: "(('e, 'k) em_manager, unit) call" where
  "Init_em c = (if mm_domain c = '''' then (Err ErrDomainEmpty, c) else (Ret (), c\<lparr>mm_mgr := True\<rparr>))"

definition Start_em ::
  "(EnvConfig \<Rightarrow> goerr + 'e http_lib) \<Rightarrow> EnvConfig \<Rightarrow> ('k, unit) call \<Rightarrow> (string, string) fmap \<Rightarrow>
   (('e, 'k) em_manager, unit) call" where
  "Start_em newAuthenticatedClient cfg setup params c =
     (let c = c\<lparr>mm_metrics := ResetSubscriptionStatus (mm_metrics c), mm_ctx := Some True, mm_envCfg := cfg\<rparr>;
          nameMapper = NewBEBSubscriptionNameMapper (TrimSpace (mm_domain c)) MaxSubscriptionNameLength
      in if \<not> mm_mgr c then (Crash nil_pointer, c)
         else case Initialize_em newAuthenticatedClient cfg (NewEventMesh (getOAuth2ClientCredentials_params params) nameMapper) of
           (Ret _, em) \<Rightarrow>
             let c = c\<lparr>mm_eventMeshBackend := Some em\<rparr> in
             (case setup (mm_k8s c) of
                (Err err, k) \<Rightarrow> (Err (describe ''setup EventMesh subscription controller failed: '' err), c\<lparr>mm_k8s := k\<rparr>)
              | (r, k) \<Rightarrow> (r, c\<lparr>mm_k8s := k\<rparr>))
         | (Err err, _) \<Rightarrow> (Crash (Error err), c)
         | (Crash p, _) \<Rightarrow> (Crash p, c))"

definition not_ready_copy :: "Subscription \<Rightarrow> Subscription" where
  "not_ready_copy sub =
     (let desiredSub = DuplicateWithStatusDefaults sub; st = sub_status desiredSub
      in desiredSub\<lparr>sub_status := st\<lparr>st_ready := False, st_backend := CopyHashes (st_backend st) (st_backend (sub_status sub))\<rparr>\<rparr>)"

text \<open>The loop assigns \<^verbatim>\<open>err\<close> in every pass that updates a status.\<close>

fun mark_all_not_ready ::
  "('u, 'j, 'k) dynamic_client \<Rightarrow> Subscription list \<Rightarrow> goerr option \<Rightarrow> ('k, unit) call" where
  "mark_all_not_ready dc [] err k = (of_err err, k)"
| "mark_all_not_ready dc (sub # subs) err k =
     (if \<not> st_ready (sub_status sub) then mark_all_not_ready dc subs err k
      else case UpdateSubscriptionStatus dc (not_ready_copy sub) k of
        (Ret _, k) \<Rightarrow> mark_all_not_ready dc subs None k
      | (Err e, k) \<Rightarrow> mark_all_not_ready dc subs (Some e) k
      | (Crash p, k) \<Rightarrow> (Crash p, k))"

definition markAllV1Alpha2SubscriptionsAsNotReady :: "('u, 'j, 'k) dynamic_client \<Rightarrow> ('k, unit) call" where
  "markAllV1Alpha2SubscriptionsAsNotReady dc k =
     bindR (all_subscriptions dc k) (\<lambda>subs k. mark_all_not_ready dc subs None k)"

text \<open>The cleanup of one Subscription, on the pair of cluster and EventMesh.\<close>

definition on_fst :: "('k, 'a) call \<Rightarrow> ('k \<times> 'e, 'a) call" where
  "on_fst f s = (case f (fst s) of (r, k) \<Rightarrow> (r, (k, snd s)))"

definition on_snd :: "('e, 'a) call \<Rightarrow> ('k \<times> 'e, 'a) call" where
  "on_snd f s = (case f (snd s) of (r, e) \<Rightarrow> (r, (fst s, e)))"

definition cleanup_em_sub ::
  "'e EventMesh \<Rightarrow> ('u, 'j, 'k) dynamic_client \<Rightarrow> Subscription \<Rightarrow> ('k \<times> 'e, bool) call" where
  "cleanup_em_sub em dc sub s =
     (let apiRule = bk_apiRuleName (st_backend (sub_status sub)) in
      bindR (if apiRule \<noteq> '''' then attempt (on_fst (dc_DeleteAPIRule dc (sub_namespace sub) apiRule) s) else (Ret True, s))
        (\<lambda>ruleDeleted s.
      bindR (attempt (on_fst (UpdateSubscriptionStatus dc (DuplicateWithStatusDefaults sub)) s)) (\<lambda>updated s.
      bindR (attempt (on_snd (DeleteSubscription_em em sub) s)) (\<lambda>deleted s.
        (Ret (ruleDeleted \<and> updated \<and> deleted), s)))))"

text \<open>As in \<open>cleanupv2\<close>, the code returns nil after the loop and only logs the flag.\<close>

definition cleanupEventMesh ::
  "('u, 'j, 'k) dynamic_client \<Rightarrow> 'e EventMesh option \<Rightarrow> ('k \<times> 'e, bool) call" where
  "cleanupEventMesh dc backend s =
     (case backend of
        None \<Rightarrow> (Err (Plain KOther ''no EventMesh backend exists: convert backend handler to EventMesh handler failed''), s)
      | Some em \<Rightarrow> bindR (on_fst (all_subscriptions dc) s) (\<lambda>subs s. cleanup_all (cleanup_em_sub em dc) subs True s))"

definition stopEventMeshBackend ::
  "('u, 'j, 'k) dynamic_client \<Rightarrow> bool \<Rightarrow> (('e, 'k) em_manager, unit) call" where
  "stopEventMeshBackend dc runCleanup c =
     (if \<not> runCleanup
      then (case markAllV1Alpha2SubscriptionsAsNotReady dc (mm_k8s c) of (r, k) \<Rightarrow> (r, c\<lparr>mm_k8s := k\<rparr>))
      else (case bindR (cleanupEventMesh dc (mm_eventMeshBackend c) (mm_k8s c, mm_server c)) (\<lambda>_ s. (Ret (), s)) of
              (r, (k, e)) \<Rightarrow> (r, c\<lparr>mm_k8s := k, mm_server := e\<rparr>)))"

definition Stop_em :: "('u, 'j, 'k) dynamic_client \<Rightarrow> bool \<Rightarrow> (('e, 'k) em_manager, unit) call" where
  "Stop_em dc runCleanup c = stopEventMeshBackend dc runCleanup (c\<lparr>mm_ctx := map_option (\<lambda>_. False) (mm_ctx c)\<rparr>)"

subsection \<open>The factory\<close>

definition NewJetStreamManager ::
  "Eventing \<Rightarrow> NATSConfig \<Rightarrow> status_metrics \<Rightarrow> 'k \<Rightarrow> 'w \<Rightarrow> ('w, 'k) js_manager result" where
  "NewJetStreamManager eventing natsConfig metrics k w =
     (case GetNewNATSConfig natsConfig eventing of
        Ret cfg \<Rightarrow> Ret (NewSubscriptionManager_js cfg metrics k w)
      | Err err \<Rightarrow> Err err
      | Crash p \<Rightarrow> Crash p)"

definition NewEventMeshManager :: "EnvConfig \<Rightarrow> string \<Rightarrow> status_metrics \<Rightarrow> 'k \<Rightarrow> 'e \<Rightarrow> ('e, 'k) em_manager result" where
  "NewEventMeshManager cfg domain metrics k e = Ret (NewSubscriptionManager_em cfg domain metrics k e)"

subsection \<open>Cleaning up\<close>

text \<open>What every successful step establishes and keeps holds for all elements after a successful loop.\<close>

lemma cleanup_all_success:
  assumes "cleanup_all f xs ok s = (Ret True, t)"
    and "\<And>x s t. f x s = (Ret True, t) \<Longrightarrow> Q x t"
    and "\<And>x y s t. Q x s \<Longrightarrow> f y s = (Ret True, t) \<Longrightarrow> Q x t"
  shows "ok \<and> (\<forall>x\<in>set xs. Q x t) \<and> (\<forall>y. Q y s \<longrightarrow> Q y t)"
  using assms(1)
proof (induction xs arbitrary: ok s)
  case (Cons x xs)
  from Cons.prems obtain ok' s' where step: "f x s = (Ret ok', s')" and rest: "cleanup_all f xs (ok \<and> ok') s' = (Ret True, t)"
    by (auto simp: bindR_Ret_iff)
  from Cons.IH [OF rest] have ih: "ok \<and> ok'" "\<forall>y\<in>set xs. Q y t" "\<forall>y. Q y s' \<longrightarrow> Q y t" by blast+
  with step have "f x s = (Ret True, s')" by simp
  with assms(2,3) ih show ?case by auto
qed simp

lemma attempt_True [simp]: "attempt m = (Ret True, t) \<longleftrightarrow> (\<exists>a. m = (Ret a, t))"
  by (cases m; cases "fst m") (auto simp: attempt_def)

lemma cleanup_em_sub_deletes:
  assumes "cleanup_em_sub em dc sub s = (Ret True, t)"
  shows "\<exists>u. DeleteSubscription_em em sub (snd s) = (Ret u, snd t)"
proof -
  from assms obtain r s1 v s2 where
    1: "(if bk_apiRuleName (st_backend (sub_status sub)) \<noteq> '''' then attempt (on_fst (dc_DeleteAPIRule dc (sub_namespace sub)
          (bk_apiRuleName (st_backend (sub_status sub)))) s) else (Ret True, s)) = (Ret r, s1)"
    and 2: "attempt (on_fst (UpdateSubscriptionStatus dc (DuplicateWithStatusDefaults sub)) s1) = (Ret v, s2)"
    and 3: "attempt (on_snd (DeleteSubscription_em em sub) s2) = (Ret True, t)"
    by (auto simp: cleanup_em_sub_def Let_def bindR_Ret_iff)
  have fst: "snd t' = snd s'" if "on_fst g s' = (x, t')" for g :: "('a, unit) call" and s' t' :: "'a \<times> 'b" and x
    using that by (auto simp: on_fst_def split: prod.splits)
  from 1 fst have "snd s1 = snd s" by (auto simp: attempt_def split: if_splits prod.splits result.splits)
  moreover from 2 fst have "snd s2 = snd s1" by (auto simp: attempt_def split: prod.splits result.splits)
  ultimately show ?thesis using 3 by (auto simp: on_snd_def split: prod.splits)
qed

text \<open>
  C19. If the cleanup of the EventMesh manager is successful, which is what it logs, then nothing is
  left on EventMesh under the name of any Subscription of the cluster.
\<close>

theorem cleanupEventMesh_success:
  fixes k :: 'k and e :: 'e
  assumes "ems_service c subs" and "mb_client em = Some c" and "all_subscriptions dc k = (Ret xs, k1)"
    and "cleanupEventMesh dc (Some em) (k, e) = (Ret True, (k', e'))"
  shows "\<forall>sub\<in>set xs. \<exists>n. MapSubscriptionName (mb_subNameMapper em) (sub_name sub) (sub_namespace sub) = Ret n \<and> subs e' n = None"
proof -
  let ?name = "\<lambda>sub. MapSubscriptionName (mb_subNameMapper em) (sub_name sub) (sub_namespace sub)"
  have del: "\<exists>n. ?name sub = Ret n \<and> subs b' = (subs b)(n := None)" if "DeleteSubscription_em em sub b = (Ret u, b')" for sub u b b'
    using that ems_service.deleteSubscription_gone [OF assms(1,2)] by (auto simp: DeleteSubscription_em_def bindR_Ret_iff)
  have run: "cleanup_all (cleanup_em_sub em dc) xs True (k1, e) = (Ret True, (k', e'))"
    using assms(3,4) by (simp add: cleanupEventMesh_def on_fst_def)
  have gone: "\<exists>n. ?name sub = Ret n \<and> subs (snd t) = (subs (snd s))(n := None)"
    if "cleanup_em_sub em dc sub s = (Ret True, t)" for sub s t
    using cleanup_em_sub_deletes [OF that] del by blast
  let ?Q = "\<lambda>(sub :: Subscription) (s :: 'k \<times> 'e). \<exists>n. ?name sub = Ret n \<and> subs (snd s) n = None"
  have "True \<and> (\<forall>x\<in>set xs. ?Q x (k', e')) \<and> (\<forall>y. ?Q y (k1, e) \<longrightarrow> ?Q y (k', e'))"
    by (rule cleanup_all_success [OF run, where Q = ?Q]) (auto dest!: gone)
  then show ?thesis by simp
qed

text \<open>
  Marking the Subscriptions as not ready reports only the last update: a failure of an earlier one
  is overwritten, and the result is nil if the status of the last ready Subscription was written.
\<close>

theorem mark_all_not_ready_last_error:
  assumes "\<forall>x k. \<exists>r k'. UpdateSubscriptionStatus dc x k = (r, k') \<and> (\<forall>p. r \<noteq> Crash p)"
    and "st_ready (sub_status sub)"
  shows "\<exists>k1. fst (mark_all_not_ready dc (subs @ [sub]) err k) = fst (UpdateSubscriptionStatus dc (not_ready_copy sub) k1)"
proof (induction subs arbitrary: err k)
  case Nil
  show ?case
  proof (cases "UpdateSubscriptionStatus dc (not_ready_copy sub) k")
    case (Pair r k')
    with assms(2) show ?thesis by (cases r) (auto intro!: exI [of _ k])
  qed
next
  case (Cons x subs)
  show ?case
  proof (cases "UpdateSubscriptionStatus dc (not_ready_copy x) k")
    case (Pair r k')
    with assms(1) Cons show ?thesis by (cases r) (auto, metis fst_conv prod.inject)
  qed
qed

subsection \<open>The connection of a stopped JetStream manager\<close>

text \<open>What the calls of the NATS client do to the status of a connection: only connecting and closing change it.\<close>

definition status_stable :: "'w nats_api \<Rightarrow> bool" where
  "status_stable api \<longleftrightarrow>
     (\<forall>c d w. na_Status api c (na_SetReconnectHandler api d w) = na_Status api c w) \<and>
     (\<forall>c d h w. na_Status api c (na_SetClosedHandler api d h w) = na_Status api c w) \<and>
     (\<forall>c d w. na_Status api c (snd (na_JetStream api d w)) = na_Status api c w) \<and>
     (\<forall>c n w. na_Status api c (snd (na_StreamInfo api n w)) = na_Status api c w) \<and>
     (\<forall>c x w. na_Status api c (snd (na_AddStream api x w)) = na_Status api c w) \<and>
     (\<forall>c x w. na_Status api c (snd (na_UpdateStream api x w)) = na_Status api c w) \<and>
     (\<forall>c n w. na_Status api c (snd (na_Consumers api n w)) = na_Status api c w) \<and>
     (\<forall>c st n w. na_Status api c (snd (na_DeleteConsumer api st n w)) = na_Status api c w) \<and>
     (\<forall>c h w. na_Status api c (snd (na_Unsubscribe api h w)) = na_Status api c w)"

definition connected :: "'w nats_api \<Rightarrow> 'w js_state \<Rightarrow> bool" where
  "connected api s \<longleftrightarrow> (case js_Conn (fst s) of None \<Rightarrow> False | Some c \<Rightarrow> na_Status api c (snd s) = CONNECTED)"

definition stays_connected :: "'w nats_api \<Rightarrow> 'w js_state \<Rightarrow> 'w js_state \<Rightarrow> bool" where
  "stays_connected api s t \<longleftrightarrow> (connected api s \<longrightarrow> connected api t)"

lemma stays_connected_refl [simp]: "stays_connected api s s"
  by (simp add: stays_connected_def)

lemma stays_connected_trans: "stays_connected api a b \<Longrightarrow> stays_connected api b c \<Longrightarrow> stays_connected api a c"
  by (simp add: stays_connected_def)

lemma connected_chain:
  assumes "stays_connected api s (snd m)"
    and "\<And>a. fst m = Ret a \<Longrightarrow> stays_connected api (snd m) (snd (f a (snd m)))"
  shows "stays_connected api s (snd (bindR m f))"
  using stays_connected_trans assms by (rule bindR_rel)

lemma connected_loop:
  assumes "\<And>x s. x \<in> set xs \<Longrightarrow> stays_connected api s (snd (f x s))"
  shows "stays_connected api s (snd (for_each f xs s))"
  using stays_connected_trans stays_connected_refl assms by (rule for_each_rel)

lemma stays_connected_ctx_call:
  assumes "\<And>c w. na_Status api c (snd (f w)) = na_Status api c w"
  shows "stays_connected api s (snd (ctx_call f s))" and "stays_connected api s (snd (call f s))"
  using assms [of _ "snd s"]
  by (auto simp: stays_connected_def connected_def ctx_call_def call_def split: prod.split option.splits)

lemma stays_connected_set_subs [simp]: "stays_connected api s (set_subs m t) \<longleftrightarrow> stays_connected api s t"
  by (simp add: stays_connected_def connected_def set_subs_def split: option.split)

lemma deleteConsumer_stays:
  assumes "status_stable api" shows "stays_connected api s (snd (deleteConsumerFromJetStream api n s))"
proof -
  let ?m = "ctx_call (na_DeleteConsumer api (nc_JSStreamName (js_Config (fst s))) n) s"
  have "stays_connected api s (snd ?m)"
    by (rule stays_connected_ctx_call) (use assms in \<open>simp add: status_stable_def\<close>)
  then show ?thesis by (cases ?m; cases "fst ?m") (auto simp: deleteConsumerFromJetStream_def)
qed

lemma unsubscribe_stays:
  assumes "status_stable api" shows "stays_connected api s (snd (unsubscribe_valid api jsSub s))"
proof -
  let ?m = "call (na_Unsubscribe api (sb_handle jsSub)) s"
  have "stays_connected api s (snd ?m)"
    by (rule stays_connected_ctx_call) (use assms in \<open>simp add: status_stable_def\<close>)
  then show ?thesis by (cases ?m; cases "fst ?m") (auto simp: unsubscribe_valid_def)
qed

lemma deleteSubscriptionFromJetStream_stays:
  assumes "status_stable api" shows "stays_connected api s (snd (deleteSubscriptionFromJetStream api jsSub key s))"
  unfolding deleteSubscriptionFromJetStream_def
  by (auto intro!: connected_chain unsubscribe_stays [OF assms] deleteConsumer_stays [OF assms])

lemma ensureStream_stays:
  assumes "status_stable api" shows "stays_connected api s (snd (ensureStreamExistsAndIsConfiguredCorrectly api s))"
proof -
  have 1: "stays_connected api t (snd (ctx_call (na_StreamInfo api n) t))"
    "stays_connected api t (snd (ctx_call (na_AddStream api x) t))"
    "stays_connected api t (snd (ctx_call (na_UpdateStream api x) t))" for t n x
    by (rule stays_connected_ctx_call; use assms in \<open>simp add: status_stable_def\<close>)+
  have "stays_connected api t (snd (case ctx_call (na_StreamInfo api n) t of
        (Err err, s) \<Rightarrow> if err_has_kind KStreamNotFound err then ctx_call (na_AddStream api x) s else (Err err, s)
      | (Crash p, s) \<Rightarrow> (Crash p, s)
      | (Ret info, s) \<Rightarrow> if \<not> streamIsConfiguredCorrectly info x then ctx_call (na_UpdateStream api x) s else (Ret (), s)))"
    for t n x
  proof -
    obtain r t' where m: "ctx_call (na_StreamInfo api n) t = (r, t')" by (metis prod.exhaust)
    with 1(1) [of t n] have "stays_connected api t t'" by simp
    note after = stays_connected_trans [OF this 1(2)] stays_connected_trans [OF this 1(3)] this
    with m show ?thesis by (cases r) simp_all
  qed
  then show ?thesis
    unfolding ensureStreamExistsAndIsConfiguredCorrectly_def by (intro connected_chain) auto
qed

text \<open>A check of the connection that returns leaves it connected.\<close>

lemma initNATSConn_connected:
  assumes "status_stable api" and "initNATSConn api h s = (Ret (), t)"
  shows "connected api t"
  using assms
  by (auto simp: initNATSConn_def connected_def status_stable_def Let_def split: if_splits prod.splits result.splits option.splits)

lemma Initialize_connected:
  assumes "status_stable api" and "Initialize api h s = (Ret (), t)"
  shows "connected api t"
proof -
  from assms(2) obtain s1 s2 s3 where 1: "initNATSConn api h s = (Ret (), s1)" and 2: "initJSContext api s1 = (Ret (), s2)"
    and 3: "initCloudEventClient api s2 = (Ret (), s3)"
    and 4: "ensureStreamExistsAndIsConfiguredCorrectly api s3 = (Ret (), t)"
    by (auto simp: Initialize_def bindR_Ret_iff)
  have "connected api s1" using initNATSConn_connected [OF assms(1) 1] .
  moreover have "stays_connected api s1 s2"
    using 2 assms(1) by (auto simp: initJSContext_def stays_connected_def connected_def status_stable_def
        split: option.splits prod.splits result.splits) (metis snd_conv)+
  moreover have "stays_connected api s2 s3"
    using 3 by (auto simp: initCloudEventClient_def stays_connected_def connected_def split: if_splits option.splits)
  moreover have "stays_connected api s3 t" using ensureStream_stays [OF assms(1), of s3] 4 by simp
  ultimately show ?thesis by (simp add: stays_connected_def)
qed

lemma DeleteInvalidConsumers_stays:
  assumes "status_stable api"
  shows "stays_connected api s (snd (DeleteInvalidConsumers api subs s))"
  unfolding DeleteInvalidConsumers_def
proof (rule connected_chain)
  show "stays_connected api s (snd (ctx_call (\<lambda>w. case na_Consumers api (nc_JSStreamName (js_Config (fst s))) w of
      (cs, w') \<Rightarrow> (Ret cs, w')) s))"
    by (rule stays_connected_ctx_call) (use assms in \<open>simp add: status_stable_def case_prod_unfold\<close>)
qed (rule connected_loop, simp add: deleteConsumer_stays [OF assms])

lemma checkConnection_connected:
  assumes "status_stable api" and "checkJetStreamConnection api s = (Ret (), t)"
  shows "connected api t"
  using assms(2) Initialize_connected [OF assms(1)]
  by (fastforce simp: checkJetStreamConnection_def connected_def split: if_splits option.splits prod.splits result.splits)

lemma DeleteSubscription_connected:
  assumes "status_stable api" and "DeleteSubscription api sub s = (Ret (), t)"
  shows "connected api t"
proof -
  from assms(2) obtain s1 s2 s3 where 1: "checkJetStreamConnection api s = (Ret (), s1)"
    and 2: "range_associated api sub (\<lambda>key jsSub. deleteSubscriptionFromJetStream api jsSub key) s1 = (Ret (), s2)"
    and 3: "for_each (\<lambda>subject s. deleteConsumerFromJetStream api (ConsumerName (key_of (fst s) sub subject)) s)
       (items (st_types (sub_status sub))) s2 = (Ret (), s3)"
    and t: "t = ((fst s3)\<lparr>js_sinks := (js_sinks (fst s3))(createKeyPrefix sub := None)\<rparr>, snd s3)"
    by (auto simp: DeleteSubscription_def bindR_Ret_iff)
  have "connected api s1" using checkConnection_connected [OF assms(1) 1] .
  moreover have "stays_connected api s1 (snd (range_associated api sub (\<lambda>key jsSub. deleteSubscriptionFromJetStream api jsSub key) s1))"
    unfolding range_associated_def
    by (rule connected_loop)
      (auto split: option.split intro!: connected_chain deleteSubscriptionFromJetStream_stays [OF assms(1)])
  then have "stays_connected api s1 s2" using 2 by simp
  moreover have "stays_connected api s2 (snd (for_each (\<lambda>subject s. deleteConsumerFromJetStream api (ConsumerName (key_of (fst s) sub subject)) s)
       (items (st_types (sub_status sub))) s2))"
    by (rule connected_loop) (rule deleteConsumer_stays [OF assms(1)])
  then have "stays_connected api s2 s3" using 3 by simp
  ultimately show ?thesis using t by (auto simp: stays_connected_def connected_def split: option.splits)
qed

lemma cleanup_js_sub_deletes:
  assumes "cleanup_js_sub api dc sub sm = (Ret True, t)"
  shows "\<exists>js js'. jm_backendv2 sm = Some js \<and> jm_backendv2 t = Some js' \<and> DeleteSubscription api sub (js, jm_world sm) = (Ret (), (js', jm_world t))"
proof -
  from assms obtain v s1 where 1: "attempt (on_jm_cluster (UpdateSubscriptionStatus dc (DuplicateWithStatusDefaults sub)) sm) = (Ret v, s1)"
    and 2: "attempt (on_js (DeleteSubscription api sub) s1) = (Ret True, t)"
    by (auto simp: cleanup_js_sub_def bindR_Ret_iff)
  from 1 have "jm_backendv2 s1 = jm_backendv2 sm" "jm_world s1 = jm_world sm"
    by (auto simp: attempt_def on_jm_cluster_def split: prod.splits result.splits)
  with 2 show ?thesis by (auto simp: on_js_def split: prod.splits option.splits)
qed

text \<open>
  Stopping the JetStream manager with a cleanup closes its connection and then opens another one
  that stays: the cleanup of the first Subscription connects again, and nothing closes the connection
  after the loop.
\<close>

theorem Stop_js_reconnects:
  fixes api :: "'w nats_api" and k :: 'k
  assumes "status_stable api" and "\<forall>c w. na_Status api c (na_Close api c w) = CLOSED"
    and "jm_backendv2 sm = Some js" and "js_Conn js = Some c" and "jm_ctx sm \<noteq> None"
    and "all_subscriptions dc (jm_k8s sm) = (Ret subs, k)" and "subs \<noteq> []"
    and "cleanupv2 api dc (sm\<lparr>jm_world := snd (Shutdown api (js, jm_world sm)), jm_ctx := Some False\<rparr>) = (Ret True, sm')"
  shows "\<not> connected api (Shutdown api (js, jm_world sm)) \<and> Stop_js api dc True sm = (Ret (), sm') \<and>
    (\<exists>js'. jm_backendv2 sm' = Some js' \<and> connected api (js', jm_world sm'))"
proof -
  let ?closed = "sm\<lparr>jm_world := snd (Shutdown api (js, jm_world sm)), jm_ctx := Some False\<rparr>"
  have "\<not> connected api (Shutdown api (js, jm_world sm))"
    using assms(2,4) by (auto simp: Shutdown_def connected_def)
  moreover have "Stop_js api dc True sm = (Ret (), sm')"
    using assms(3,5,8) by (auto simp: Stop_js_def Let_def)
  moreover have "\<exists>js'. jm_backendv2 sm' = Some js' \<and> connected api (js', jm_world sm')"
  proof -
    have run: "cleanup_all (cleanup_js_sub api dc) subs True (?closed\<lparr>jm_k8s := k\<rparr>) = (Ret True, sm')"
      using assms(3,6,8) by (simp add: cleanupv2_def on_jm_cluster_def)
    let ?Q = "\<lambda>(_ :: Subscription) (t :: ('w, 'k) js_manager). \<exists>js'. jm_backendv2 t = Some js' \<and> connected api (js', jm_world t)"
    have step: "?Q y t" if "cleanup_js_sub api dc y s = (Ret True, t)" for y s t
      using cleanup_js_sub_deletes [OF that] DeleteSubscription_connected [OF assms(1)] by blast
    have "True \<and> (\<forall>x\<in>set subs. ?Q x sm') \<and> (\<forall>y. ?Q y (?closed\<lparr>jm_k8s := k\<rparr>) \<longrightarrow> ?Q y sm')"
      by (rule cleanup_all_success [OF run, where Q = ?Q]) (rule step, assumption)+
    with assms(7) show ?thesis by (cases subs) auto
  qed
  ultimately show ?thesis by blast
qed

subsection \<open>Examples\<close>

text \<open>A cluster is its list of Subscriptions; writing the status of the one named \<^verbatim>\<open>stuck\<close> fails.\<close>

definition example_dc :: "(Subscription list, Subscription list, Subscription list) dynamic_client" where
  "example_dc =
     \<lparr>dc_ListSubscriptions = (\<lambda>k. (Ret k, k)), dc_MarshalJSON = Ret, dc_Unmarshal = Ret, dc_ToUnstructured = (\<lambda>s. Ret [s]),
      dc_UpdateStatus = (\<lambda>ns u k. (if list_ex (\<lambda>s. sub_name s = ''stuck'') u then Err (Plain KOther ''conflict'') else Ret (), k)),
      dc_DeleteAPIRule = (\<lambda>ns n k. (Ret (), k))\<rparr>"

theorem cleanupEventMesh_success_witness:
  "stored (snd (snd (cleanupEventMesh example_dc (Some example_em) ([example_subscription], [example_server])))) example_em_name = None"
proof -
  have del: "DeleteSubscription_em example_em example_subscription [example_server] = (Ret (), [])"
    by (simp add: DeleteSubscription_em_def example_em_mapper deleteSubscription_def with_client_def example_client
        store_Delete stored_def example_server_def example_desired_def)
  have list: "all_subscriptions example_dc [example_subscription] = (Ret [example_subscription], [example_subscription])"
    by (simp add: all_subscriptions_def example_dc_def wrap_err_def ConvertUnstructListToSubList_def)
  have "UpdateSubscriptionStatus example_dc (DuplicateWithStatusDefaults example_subscription) k = (Ret (), k)" for k
    by (simp add: UpdateSubscriptionStatus_def example_dc_def DuplicateWithStatusDefaults_def example_subscription_def)
  with del list have "cleanupEventMesh example_dc (Some example_em) ([example_subscription], [example_server]) =
      (Ret True, ([example_subscription], []))"
    by (simp add: cleanupEventMesh_def cleanup_em_sub_def on_fst_def on_snd_def attempt_def Let_def
        example_subscription_def empty_SubscriptionStatus_def empty_Backend_def)
  from cleanupEventMesh_success [OF store.ems_service_axioms example_client list this] this example_em_mapper
  show ?thesis by simp
qed

definition example_ready_sub :: "string \<Rightarrow> Subscription" where
  "example_ready_sub n = example_subscription\<lparr>sub_name := n, sub_status := empty_SubscriptionStatus\<lparr>st_ready := True\<rparr>\<rparr>"

text \<open>The first update fails and nil is returned.\<close>

theorem mark_all_not_ready_last_error_witness:
  "fst (mark_all_not_ready example_dc [example_ready_sub ''stuck'', example_ready_sub ''sub''] None []) = Ret () \<and>
   fst (UpdateSubscriptionStatus example_dc (not_ready_copy (example_ready_sub ''stuck'')) []) = Err (Plain KOther ''conflict'')"
proof -
  have upd: "UpdateSubscriptionStatus example_dc x k =
      (if sub_name x = ''stuck'' then Err (Plain KOther ''conflict'') else Ret (), k)" for x k
    by (simp add: UpdateSubscriptionStatus_def example_dc_def)
  have name: "sub_name (not_ready_copy (example_ready_sub n)) = n" for n
    by (simp add: not_ready_copy_def Let_def DuplicateWithStatusDefaults_def example_ready_sub_def)
  have "\<forall>x k. \<exists>r k'. UpdateSubscriptionStatus example_dc x k = (r, k') \<and> (\<forall>p. r \<noteq> Crash p)" by (simp add: upd)
  moreover have "st_ready (sub_status (example_ready_sub ''sub''))" by (simp add: example_ready_sub_def)
  ultimately have "\<exists>k1. fst (mark_all_not_ready example_dc ([example_ready_sub ''stuck''] @ [example_ready_sub ''sub'']) None []) =
      fst (UpdateSubscriptionStatus example_dc (not_ready_copy (example_ready_sub ''sub'')) k1)"
    by (rule mark_all_not_ready_last_error)
  then show ?thesis by (simp add: upd name)
qed

text \<open>A server with one connection, which is open or not.\<close>

definition example_stop_api :: "bool nats_api" where
  "example_stop_api =
     \<lparr>na_order = (\<lambda>m. []), na_show = (\<lambda>sb. ''subscriber''), na_ParseQuantity = (\<lambda>q. Ret (- 1)),
      na_Connect = (\<lambda>u w. (Ret 0, True)), na_Status = (\<lambda>c w. if w then CONNECTED else CLOSED), na_Close = (\<lambda>c w. False),
      na_SetClosedHandler = (\<lambda>c h w. w), na_SetReconnectHandler = (\<lambda>c w. w), na_JetStream = (\<lambda>c w. (Ret (), w)),
      na_NewClientHTTP = (\<lambda>cfg. None), na_StreamInfo = (\<lambda>n w. (Err (Plain KStreamNotFound ''stream not found''), w)),
      na_AddStream = (\<lambda>sc w. (Ret (), w)), na_UpdateStream = (\<lambda>sc w. (Ret (), w)), na_Consumers = (\<lambda>n w. ([], w)),
      na_ConsumerInfo = (\<lambda>st n w. (Err (Plain KConsumerNotFound ''consumer not found''), w)),
      na_AddConsumer = (\<lambda>st c w. (Err (Plain KOther ''full''), w)), na_UpdateConsumer = (\<lambda>st c w. (Err (Plain KOther ''full''), w)),
      na_DeleteConsumer = (\<lambda>st n w. (Ret (), w)), na_Subscribe = (\<lambda>s cb opts w. (Ret 0, w)), na_IsValid = (\<lambda>h w. False),
      na_Unsubscribe = (\<lambda>h w. (Ret (), w)), na_NewInbox = (\<lambda>w. ''_INBOX'')\<rparr>"

definition example_jsm :: "(bool, Subscription list) js_manager" where
  "example_jsm = \<lparr>jm_envCfg = example_config, jm_backendv2 = Some example_js, jm_ctx = Some True, jm_mgr = True,
     jm_metrics = Map.empty, jm_k8s = [example_subscription], jm_world = True\<rparr>"

lemma example_reconnect:
  "\<exists>js. DeleteSubscription example_stop_api example_subscription (example_js, False) = (Ret (), (js, True))"
  using example_config_valid
  by (simp add: DeleteSubscription_def checkJetStreamConnection_def Initialize_def initNATSConn_def initJSContext_def
      initCloudEventClient_def ensureStreamExistsAndIsConfiguredCorrectly_def getStreamConfig_def toJetStreamStorageType_def
      toJetStreamRetentionPolicy_def toJetStreamDiscardPolicy_def ctx_call_def call_def range_associated_def
      example_stop_api_def example_js_def example_new_def NewJetStream_def example_config_def Let_def
      example_subscription_def empty_SubscriptionStatus_def)

theorem Stop_js_reconnects_witness:
  "\<exists>sm' js'. Stop_js example_stop_api example_dc True example_jsm = (Ret (), sm') \<and> jm_backendv2 sm' = Some js' \<and>
     connected example_stop_api (js', jm_world sm')"
proof -
  obtain sm' where run: "cleanupv2 example_stop_api example_dc (example_jsm\<lparr>jm_world :=
      snd (Shutdown example_stop_api (example_js, jm_world example_jsm)), jm_ctx := Some False\<rparr>) = (Ret True, sm')"
  proof -
    let ?sm = "example_jsm\<lparr>jm_world := snd (Shutdown example_stop_api (example_js, jm_world example_jsm)), jm_ctx := Some False\<rparr>"
    obtain js where del: "DeleteSubscription example_stop_api example_subscription (example_js, False) = (Ret (), (js, True))"
      using example_reconnect by blast
    have "jm_world ?sm = False" "jm_k8s ?sm = [example_subscription]" "jm_backendv2 ?sm = Some example_js"
      by (simp_all add: Shutdown_def example_stop_api_def example_jsm_def)
    then have "cleanupv2 example_stop_api example_dc ?sm = (Ret True, ?sm\<lparr>jm_backendv2 := Some js, jm_world := True\<rparr>)"
      using del
      by (simp add: cleanupv2_def on_jm_cluster_def on_js_def attempt_def all_subscriptions_def wrap_err_def cleanup_js_sub_def
          ConvertUnstructListToSubList_def UpdateSubscriptionStatus_def example_dc_def DuplicateWithStatusDefaults_def
          example_subscription_def)
    with that show thesis by blast
  qed
  have "status_stable example_stop_api" "\<forall>c w. na_Status example_stop_api c (na_Close example_stop_api c w) = CLOSED"
    by (simp_all add: status_stable_def example_stop_api_def)
  moreover have "jm_backendv2 example_jsm = Some example_js" "js_Conn example_js = Some 0" "jm_ctx example_jsm \<noteq> None"
    by (simp_all add: example_jsm_def)
  moreover have "all_subscriptions example_dc (jm_k8s example_jsm) = (Ret [example_subscription], [example_subscription])"
    by (simp add: all_subscriptions_def example_dc_def wrap_err_def ConvertUnstructListToSubList_def example_jsm_def)
  ultimately show ?thesis using Stop_js_reconnects [OF _ _ _ _ _ _ _ run] by blast
qed

end
