(* ===== verification/Operator_Managers.thy ===== *)
theory Operator_Managers
  imports Sub_Managers Subscription_Managers
begin

section \<open>The operator on the subscription managers of the program\<close>

text \<open>
  \<open>Sub_Managers\<close> knows the subscription managers by the interface \<open>sub_managers\<close>. Here the interface
  is the one of \<open>Subscription_Managers\<close>: a manager is an object on a heap, the factory allocates it,
  and its methods run on the cluster, the metrics and the two messaging services that all of them
  share. What is shown relates a reconciliation of the operator to the state of the backend behind
  the manager.
\<close>

subsection \<open>The heap of managers\<close>

datatype ('w, 'e, 'k) managed = JetStream_manager "('w, 'k) js_manager" | EventMesh_manager "('e, 'k) em_manager"

record ('w, 'e, 'k) world =
  wd_k8s :: 'k
  wd_metrics :: status_metrics
  wd_nats :: 'w
  wd_ems :: 'e
  wd_managers :: "nat \<rightharpoonup> ('w, 'e, 'k) managed"
  wd_next :: nat

text \<open>
  What the managers are given: the NATS library, the dynamic client, the authenticated HTTP client,
  the set-up of the two controllers, the client of the controller manager, and \<^verbatim>\<open>env.GetConfig\<close>, which
  reads the environment of the process and ends it if a variable is missing.
\<close>

record ('u, 'j, 'w, 'e, 'k) manager_env =
  me_nats :: "'w nats_api"
  me_dynamic :: "('u, 'j, 'k) dynamic_client"
  me_newAuthenticatedClient :: "EnvConfig \<Rightarrow> goerr + 'e http_lib"
  me_connClosed :: nat
  me_ListSubscriptions :: "('k, Subscription list) call"
  me_setup_js :: "('k, unit) call"
  me_setup_em :: "('k, unit) call"
  me_GetConfig :: "(string \<rightharpoonup> string) \<Rightarrow> EnvConfig result"

definition allocate :: "('w, 'e, 'k) managed \<Rightarrow> (('w, 'e, 'k) world, nat) call" where
  "allocate m wd = (Ret (wd_next wd), wd\<lparr>wd_managers := (wd_managers wd)(wd_next wd \<mapsto> m), wd_next := Suc (wd_next wd)\<rparr>)"

text \<open>A method runs on the shared state, and leaves what it made of it.\<close>

definition run_js :: "nat \<Rightarrow> (('w, 'k) js_manager, unit) call \<Rightarrow> ('w, 'k) js_manager \<Rightarrow> (('w, 'e, 'k) world, unit) call" where
  "run_js h f m wd =
     (case f (m\<lparr>jm_metrics := wd_metrics wd, jm_k8s := wd_k8s wd, jm_world := wd_nats wd\<rparr>) of
        (r, m) \<Rightarrow> (r, wd\<lparr>wd_managers := (wd_managers wd)(h \<mapsto> JetStream_manager m), wd_metrics := jm_metrics m,
                        wd_k8s := jm_k8s m, wd_nats := jm_world m\<rparr>))"

definition run_em :: "nat \<Rightarrow> (('e, 'k) em_manager, unit) call \<Rightarrow> ('e, 'k) em_manager \<Rightarrow> (('w, 'e, 'k) world, unit) call" where
  "run_em h f m wd =
     (case f (m\<lparr>mm_metrics := wd_metrics wd, mm_k8s := wd_k8s wd, mm_server := wd_ems wd\<rparr>) of
        (r, m) \<Rightarrow> (r, wd\<lparr>wd_managers := (wd_managers wd)(h \<mapsto> EventMesh_manager m), wd_metrics := mm_metrics m,
                        wd_k8s := mm_k8s m, wd_ems := mm_server m\<rparr>))"

definition run_manager ::
  "(('w, 'k) js_manager, unit) call \<Rightarrow> (('e, 'k) em_manager, unit) call \<Rightarrow> nat \<Rightarrow> (('w, 'e, 'k) world, unit) call" where
  "run_manager f g h wd =
     (case wd_managers wd h of
        None \<Rightarrow> (Crash nil_pointer, wd)
      | Some (JetStream_manager m) \<Rightarrow> run_js h f m wd
      | Some (EventMesh_manager m) \<Rightarrow> run_em h g m wd)"

definition start_em_manager ::
  "('u, 'j, 'w, 'e, 'k) manager_env \<Rightarrow> params \<Rightarrow> (string \<rightharpoonup> string) \<Rightarrow> (('e, 'k) em_manager, unit) call" where
  "start_em_manager me ps environ m =
     (case me_GetConfig me environ of
        Ret cfg \<Rightarrow> Start_em (me_newAuthenticatedClient me) cfg (me_setup_em me) ps m
      | Err err \<Rightarrow> (Err err, m)
      | Crash p \<Rightarrow> (Crash p, m))"

definition managers_of :: "('u, 'j, 'w, 'e, 'k) manager_env \<Rightarrow> (nat, ('w, 'e, 'k) world) sub_managers" where
  "managers_of me =
     \<lparr>sm_NewJetStreamManager = (\<lambda>eventing natsConfig wd.
        case NewJetStreamManager eventing natsConfig (wd_metrics wd) (wd_k8s wd) (wd_nats wd) of
          Ret m \<Rightarrow> allocate (JetStream_manager m) wd
        | Err err \<Rightarrow> (Err err, wd)
        | Crash p \<Rightarrow> (Crash p, wd)),
      sm_NewEventMeshManager = (\<lambda>domain environ wd.
        bindR (me_GetConfig me environ, wd) (\<lambda>cfg wd.
        case NewEventMeshManager cfg domain (wd_metrics wd) (wd_k8s wd) (wd_ems wd) of
          Ret m \<Rightarrow> allocate (EventMesh_manager m) wd
        | Err err \<Rightarrow> (Err err, wd)
        | Crash p \<Rightarrow> (Crash p, wd))),
      sm_Init = run_manager Init_js Init_em,
      sm_Start = (\<lambda>h defaultSubsConfig ps environ.
        run_manager (Start_js (me_nats me) (me_connClosed me) (me_ListSubscriptions me) (me_setup_js me) defaultSubsConfig)
          (start_em_manager me ps environ) h),
      sm_Stop = (\<lambda>h runCleanup. run_manager (Stop_js (me_nats me) (me_dynamic me) runCleanup)
          (Stop_em (me_dynamic me) runCleanup) h)\<rparr>"

subsection \<open>The managers after a call that returns\<close>

lemma run_js_Ret:
  "run_js h f m wd = (Ret (), wd') \<longleftrightarrow>
     (\<exists>m'. f (m\<lparr>jm_metrics := wd_metrics wd, jm_k8s := wd_k8s wd, jm_world := wd_nats wd\<rparr>) = (Ret (), m') \<and>
       wd' = wd\<lparr>wd_managers := (wd_managers wd)(h \<mapsto> JetStream_manager m'), wd_metrics := jm_metrics m',
         wd_k8s := jm_k8s m', wd_nats := jm_world m'\<rparr>)"
  by (auto simp: run_js_def split: prod.split)

lemma on_js_Ret:
  "on_js f m = (Ret a, t) \<longleftrightarrow>
     (\<exists>js js' w. jm_backendv2 m = Some js \<and> f (js, jm_world m) = (Ret a, (js', w)) \<and>
       t = m\<lparr>jm_backendv2 := Some js', jm_world := w\<rparr>)"
  by (auto simp: on_js_def split: option.split prod.split)

lemma on_jm_cluster_Ret: "on_jm_cluster f m = (Ret a, t) \<longleftrightarrow> (\<exists>k. f (jm_k8s m) = (Ret a, k) \<and> t = m\<lparr>jm_k8s := k\<rparr>)"
  by (auto simp: on_jm_cluster_def split: prod.split)

text \<open>A JetStream manager that has started serves with its configuration on an open connection.\<close>

definition js_manager_up :: "'w nats_api \<Rightarrow> NATSConfig \<Rightarrow> ('w, 'k) js_manager \<Rightarrow> bool" where
  "js_manager_up api cfg m \<longleftrightarrow>
     jm_ctx m = Some True \<and> jm_envCfg m = cfg \<and>
     (\<exists>js. jm_backendv2 m = Some js \<and> js_Config js = cfg \<and> connected api (js, jm_world m))"

lemma Start_js_up:
  assumes "status_stable api" and "Start_js api h listAll setup d m = (Ret (), t)"
  shows "js_manager_up api (jm_envCfg m) t"
proof -
  let ?js = "NewJetStream (jm_envCfg m) JetStreamCleaner d"
  from assms(2) obtain js1 w1 subs k js2 w2 where
    1: "Initialize api (Some h) (?js, jm_world m) = (Ret (), (js1, w1))" and
    2: "DeleteInvalidConsumers api subs (js1, w1) = (Ret (), (js2, w2))" and
    t: "jm_ctx t = Some True" "jm_envCfg t = jm_envCfg m" "jm_backendv2 t = Some js2" "jm_world t = w2"
    by (auto simp: Start_js_def Let_def bindR_Ret_iff wrap_err_Ret on_js_Ret on_jm_cluster_Ret describe_failed_Ret
        split: if_splits)
  have "connected api (js1, w1)" using Initialize_connected [OF assms(1) 1] .
  moreover have "stays_connected api (js1, w1) (js2, w2)"
    using DeleteInvalidConsumers_stays [OF assms(1), of "(js1, w1)" subs] 2 by simp
  moreover have "js_Config js1 = jm_envCfg m"
    using Initialize_frame [of "(?js, jm_world m)" api "Some h"] 1 by (simp add: frame_def NewJetStream_def)
  moreover have "js2 = js1" using DeleteInvalidConsumers_same [of api subs "(js1, w1)"] 2 by simp
  ultimately show ?thesis using t by (simp add: js_manager_up_def stays_connected_def)
qed

subsection \<open>A reconciliation starts the manager of the current configuration\<close>

lemma ensure_nats_manager_fresh:
  assumes "oe_managers env = managers_of me" and "op_natsSubManager s = None" and "ensure_nats_manager env e c s = (Ret (), t)"
  obtains h cfg m where "GetNewNATSConfig c e = Ret cfg" and "op_natsSubManager t = Some h"
    and "wd_managers (op_k8s t) h = Some (JetStream_manager m)" and "jm_envCfg m = cfg"
    and "op_isNATSSubManagerStarted t = op_isNATSSubManagerStarted s"
proof -
  from assms obtain h k where new: "new_manager (oe_managers env) (sm_NewJetStreamManager (oe_managers env) e c) (op_k8s s) = (Ret h, k)"
    and t: "t = s\<lparr>op_k8s := k, op_natsSubManager := Some h\<rparr>"
    by (auto simp: ensure_nats_manager_def split: prod.splits result.splits)
  from new assms(1) obtain m k1 where "NewJetStreamManager e c (wd_metrics (op_k8s s)) (wd_k8s (op_k8s s)) (wd_nats (op_k8s s)) = Ret m"
    and alloc: "allocate (JetStream_manager m) (op_k8s s) = (Ret h, k1)" and init: "run_manager Init_js Init_em h k1 = (Ret (), k)"
    by (auto simp: new_manager_def managers_of_def bindR_Ret_iff split: result.splits)
  then obtain cfg where cfg: "GetNewNATSConfig c e = Ret cfg" "jm_envCfg m = cfg"
    by (auto simp: NewJetStreamManager_def NewSubscriptionManager_js_def split: result.splits)
  from alloc have "wd_managers k1 h = Some (JetStream_manager m)" by (auto simp: allocate_def)
  with init obtain m' where "wd_managers k h = Some (JetStream_manager m')" "jm_envCfg m' = jm_envCfg m"
    by (auto simp: run_manager_def run_js_Ret Init_js_def split: if_splits)
  with t cfg that show thesis by simp
qed

lemma startNATSSubManager_up:
  assumes "oe_managers env = managers_of me" and "status_stable (me_nats me)" and "op_natsSubManager s = Some h"
    and "wd_managers (op_k8s s) h = Some (JetStream_manager m)" and "startNATSSubManager env d s = (Ret (), t)"
  shows "op_natsSubManager t = Some h \<and> (\<exists>m'. wd_managers (op_k8s t) h = Some (JetStream_manager m') \<and>
    js_manager_up (me_nats me) (jm_envCfg m) m' \<and> jm_world m' = wd_nats (op_k8s t))"
proof -
  from assms obtain k where start: "run_manager (Start_js (me_nats me) (me_connClosed me) (me_ListSubscriptions me) (me_setup_js me) d)
      (start_em_manager me fmempty (op_environ s)) h (op_k8s s) = (Ret (), k)"
    and t: "t = s\<lparr>op_k8s := k, op_isNATSSubManagerStarted := True\<rparr>"
    by (auto simp: startNATSSubManager_def managers_of_def split: prod.splits result.splits)
  from start assms(4) obtain m' where
    "Start_js (me_nats me) (me_connClosed me) (me_ListSubscriptions me) (me_setup_js me) d
       (m\<lparr>jm_metrics := wd_metrics (op_k8s s), jm_k8s := wd_k8s (op_k8s s), jm_world := wd_nats (op_k8s s)\<rparr>) = (Ret (), m')"
    and "wd_managers k h = Some (JetStream_manager m')" "wd_nats k = jm_world m'"
    by (auto simp: run_manager_def run_js_Ret)
  with Start_js_up [OF assms(2) this(1)] t assms(3) show ?thesis by simp
qed

text \<open>
  C9. When the hash of the NATS configuration differs from the one in the status, a reconciliation of
  the subscription manager that returns ends with a JetStream manager of the program that runs with
  the configuration of the Eventing resource, and whose backend is connected to NATS with it.
\<close>

theorem reconcileNATSSubManager_serves:
  assumes "oe_managers env = managers_of me" and "status_stable (me_nats me)"
    and "reconcileNATSSubManager env e s = (Ret e', t)" and "slots_ok s" and "GetNatsConfig env e (op_k8s s) = Ret c"
    and "getNATSBackendConfigHash env (getDefaultSubscriptionConfig s) c = Ret specHash"
    and "gs_backendConfigHash (eg_status e) \<noteq> specHash"
  shows "\<exists>h m cfg. GetNewNATSConfig c e = Ret cfg \<and> op_natsSubManager t = Some h \<and>
    wd_managers (op_k8s t) h = Some (JetStream_manager m) \<and> js_manager_up (me_nats me) cfg m \<and>
    jm_world m = wd_nats (op_k8s t) \<and> gs_backendConfigHash (eg_status e') = specHash"
proof -
  obtain s1 s2 where hash: "nats_apply_hash env e specHash s = (Ret (), s1)" and ensure: "ensure_nats_manager env e c s1 = (Ret (), s2)"
    and run: "op_isNATSSubManagerStarted s2 \<and> e' = e \<and> t = s2 \<or>
      \<not> op_isNATSSubManagerStarted s2 \<and> startNATSSubManager env (getDefaultSubscriptionConfig s) s2 = (Ret (), t) \<and>
      e' = map_status (\<lambda>es. es\<lparr>gs_backendConfigHash := specHash\<rparr>) e"
    using assms(3,5,6) by (auto elim: reconcileNATSSubManager_RetE)
  have none: "op_natsSubManager s1 = None" "\<not> op_isNATSSubManagerStarted s1"
    using nats_apply_hash_changed [OF hash assms(7,4)] by simp_all
  obtain h cfg m where new: "GetNewNATSConfig c e = Ret cfg" "op_natsSubManager s2 = Some h"
    "wd_managers (op_k8s s2) h = Some (JetStream_manager m)" "jm_envCfg m = cfg" "\<not> op_isNATSSubManagerStarted s2"
    using ensure_nats_manager_fresh [OF assms(1) none(1) ensure] none(2) by metis
  with run startNATSSubManager_up [OF assms(1,2) new(2,3)] show ?thesis by (fastforce simp: map_status_def)
qed

subsection \<open>A stop that fails\<close>

lemma snd_attempt [simp]: "snd (attempt m) = snd m"
  by (simp add: attempt_def split: prod.split result.split)

lemma jm_ctx_calls [simp]:
  "jm_ctx (snd (on_jm_cluster f m)) = jm_ctx m" "jm_ctx (snd (on_js g m)) = jm_ctx m"
  by (simp_all add: on_jm_cluster_def on_js_def split: prod.split option.split)

lemma cleanup_js_sub_ctx: "jm_ctx (snd (cleanup_js_sub api dc sub m)) = jm_ctx m"
  unfolding cleanup_js_sub_def by (intro bindR_rel [where R = "\<lambda>a b. jm_ctx b = jm_ctx a"]) simp_all

lemma cleanup_all_ctx: "jm_ctx (snd (cleanup_all (cleanup_js_sub api dc) subs ok m)) = jm_ctx m"
proof (induction subs arbitrary: ok m)
  case (Cons x xs)
  show ?case unfolding cleanup_all.simps
    by (rule bindR_rel [where R = "\<lambda>a b. jm_ctx b = jm_ctx a"]) (simp_all add: Cons cleanup_js_sub_ctx)
qed simp

lemma Stop_js_ctx:
  assumes "Stop_js api dc runCleanup m = (r, m')" and "jm_ctx m \<noteq> None"
  shows "jm_ctx m' = Some False"
proof -
  have "jm_ctx (snd (cleanupv2 api dc x)) = jm_ctx x" for x
    unfolding cleanupv2_def
    by (auto simp: on_jm_cluster_def cleanup_all_ctx split: prod.split intro: bindR_rel [where R = "\<lambda>a b. jm_ctx b = jm_ctx a"])
  note cleanup = this
  have "jm_ctx (snd (bindR (cleanupv2 api dc x) (\<lambda>_ sm. (Ret (), sm)))) = jm_ctx x" for x
    by (rule bindR_rel [where R = "\<lambda>a b. jm_ctx b = jm_ctx a"]) (simp_all add: cleanup)
  with assms show ?thesis
    by (auto simp: Stop_js_def Let_def split: if_splits option.splits dest: arg_cong [where f = "\<lambda>x. jm_ctx (snd x)"])
qed

text \<open>
  C35. If stopping the NATS manager with a cleanup fails, as it does when the Subscriptions cannot be
  listed, its controller is cancelled but the operator keeps it as started. A switch back to NATS
  then reconciles without an error and changes nothing: no Subscription is reconciled any more.
\<close>

theorem failed_stop_leaves_dead_manager:
  assumes "oe_managers env = managers_of me" and "op_natsSubManager s = Some h" and "op_isNATSSubManagerStarted s"
    and "wd_managers (op_k8s s) h = Some (JetStream_manager m)" and "jm_ctx m = Some True"
    and "stopNATSSubManager env True s = (Err err, s1)" and "GetNatsConfig env e (op_k8s s1) = Ret c"
    and "getNATSBackendConfigHash env (getDefaultSubscriptionConfig s1) c = Ret (gs_backendConfigHash (eg_status e))"
  shows "reconcileNATSSubManager env e s1 = (Ret e, s1) \<and>
    (\<exists>m1. op_natsSubManager s1 = Some h \<and> wd_managers (op_k8s s1) h = Some (JetStream_manager m1) \<and> jm_ctx m1 = Some False)"
proof -
  from assms(1-3,6) obtain k where stop: "run_manager (Stop_js (me_nats me) (me_dynamic me) True) (Stop_em (me_dynamic me) True) h
      (op_k8s s) = (Err err, k)" and s1: "s1 = s\<lparr>op_k8s := k\<rparr>"
    by (auto simp: stopNATSSubManager_def managers_of_def split: prod.splits result.splits)
  from stop assms(4) obtain m1 where
    "Stop_js (me_nats me) (me_dynamic me) True
       (m\<lparr>jm_metrics := wd_metrics (op_k8s s), jm_k8s := wd_k8s (op_k8s s), jm_world := wd_nats (op_k8s s)\<rparr>) = (Err err, m1)"
    and m1: "wd_managers k h = Some (JetStream_manager m1)"
    by (auto simp: run_manager_def run_js_def split: prod.splits)
  from Stop_js_ctx [OF this(1)] assms(5) have "jm_ctx m1 = Some False" by simp
  moreover have "reconcileNATSSubManager env e s1 = (Ret e, s1)"
    using assms(2,3,7,8) s1
    by (simp add: reconcileNATSSubManager_def Let_def nats_apply_hash_def ensure_nats_manager_def)
  ultimately show ?thesis using m1 s1 assms(2) by simp
qed

subsection \<open>The EventMesh manager and its credentials\<close>

lemma run_em_Ret:
  "run_em h f m wd = (Ret (), wd') \<longleftrightarrow>
     (\<exists>m'. f (m\<lparr>mm_metrics := wd_metrics wd, mm_k8s := wd_k8s wd, mm_server := wd_ems wd\<rparr>) = (Ret (), m') \<and>
       wd' = wd\<lparr>wd_managers := (wd_managers wd)(h \<mapsto> EventMesh_manager m'), wd_metrics := mm_metrics m',
         wd_k8s := mm_k8s m', wd_ems := mm_server m'\<rparr>)"
  by (auto simp: run_em_def split: prod.split)

definition client_credentials :: "oauth2Credentials \<Rightarrow> OAuth2ClientCredentials" where
  "client_credentials c =
     \<lparr>cc_clientID = oc_clientID c, cc_clientSecret = oc_clientSecret c, cc_tokenURL = oc_tokenURL c, cc_certsURL = oc_certsURL c\<rparr>"

lemma params_credentials:
  "getOAuth2ClientCredentials_params (getEventMeshSubManagerParams s) = client_credentials (op_oauth2credentials s)"
  by (simp add: getOAuth2ClientCredentials_params_def getEventMeshSubManagerParams_def client_credentials_def param_def)

text \<open>A backend that was initialised with a configuration and with credentials.\<close>

definition em_configured :: "EnvConfig \<Rightarrow> OAuth2ClientCredentials \<Rightarrow> 'e EventMesh \<Rightarrow> bool" where
  "em_configured cfg credentials em \<longleftrightarrow>
     mb_client em \<noteq> None \<and> mb_namespace em = cfg_bebNamespace cfg \<and> mb_eventMeshPrefix em = cfg_eventTypePrefix cfg \<and>
     mb_oAuth2credentials em = credentials \<and> mb_webhookAuth em = Some (getWebHookAuth credentials)"

definition em_manager_up :: "EnvConfig \<Rightarrow> OAuth2ClientCredentials \<Rightarrow> ('e, 'k) em_manager \<Rightarrow> bool" where
  "em_manager_up cfg credentials m \<longleftrightarrow>
     mm_ctx m = Some True \<and> mm_envCfg m = cfg \<and> (\<exists>em. mm_eventMeshBackend m = Some em \<and> em_configured cfg credentials em)"

lemma Start_em_up:
  assumes "Start_em newClient cfg setup ps m = (Ret (), t)"
  shows "em_manager_up cfg (getOAuth2ClientCredentials_params ps) t \<and> mm_domain t = mm_domain m"
  using assms
  by (auto simp: Start_em_def Let_def em_manager_up_def em_configured_def Initialize_em_def NewEventMesh_def bindR_Ret_iff
      split: if_splits prod.splits result.splits sum.splits)

text \<open>A manager that is not started is left alone by the credentials.\<close>

lemma oauth2_same_eventmesh:
  assumes "\<not> op_isEventMeshSubManagerStarted (snd es)" and "syncOauth2ClientIDAndSecret env es = (r, es')"
  shows "same_eventmesh (snd es) (snd es')"
proof -
  have stop: "same_eventmesh (snd es) (snd (snd (oauth2_stop env es)))"
    using em_stop_noop [OF assms(1), of env True] by (auto simp: oauth2_stop_def with_cr_def split: prod.splits)
  obtain q where q: "with_cr (getOAuth2ClientCredentials env (eg_namespace (fst es))) es = (q, es)"
    using getOAuth2_snd [of env "eg_namespace (fst es)" "snd es"]
    by (cases "getOAuth2ClientCredentials env (eg_namespace (fst es)) (snd es)") (simp add: with_cr_def)
  obtain r1 es1 where 1: "oauth2_stop env es = (r1, es1)" by (rule prod.exhaust)
  show ?thesis using assms(2) q stop 1
    by (cases q; cases r1)
      (auto simp: syncOauth2ClientIDAndSecret_def Let_def same_eventmesh_def split: if_splits)
qed

lemma oauth2_credentials:
  assumes "syncOauth2ClientIDAndSecret env es = (Ret (), es')"
  shows "fst (getOAuth2ClientCredentials env (eg_namespace (fst es)) (snd es)) = Ret (op_oauth2credentials (snd es'))"
proof -
  obtain q where q: "with_cr (getOAuth2ClientCredentials env (eg_namespace (fst es))) es = (q, es)"
    and fst: "fst (getOAuth2ClientCredentials env (eg_namespace (fst es)) (snd es)) = q"
    using getOAuth2_snd [of env "eg_namespace (fst es)" "snd es"]
    by (cases "getOAuth2ClientCredentials env (eg_namespace (fst es)) (snd es)") (simp add: with_cr_def)
  show ?thesis using assms q fst
    by (auto simp: syncOauth2ClientIDAndSecret_def Let_def bindR_Ret_iff split: result.splits if_splits
        dest: arg_cong [where f = op_oauth2credentials])
qed

lemma em_ops_credentials:
  "op_oauth2credentials (snd (eventmesh_apply_hash env e h s)) = op_oauth2credentials s"
  "op_oauth2credentials (snd (ensure_eventmesh_manager env d s)) = op_oauth2credentials s"
  "op_oauth2credentials (snd (startEventMeshSubManager env c p s)) = op_oauth2credentials s"
  "op_environ (snd (eventmesh_apply_hash env e h s)) = op_environ s"
  "op_environ (snd (ensure_eventmesh_manager env d s)) = op_environ s"
  "op_environ (snd (startEventMeshSubManager env c p s)) = op_environ s"
  by (auto simp: eventmesh_apply_hash_def stopEventMeshSubManager_def ensure_eventmesh_manager_def startEventMeshSubManager_def
      split: option.split prod.split result.split)

lemma ensure_eventmesh_manager_fresh:
  assumes "oe_managers env = managers_of me" and "op_eventMeshSubManager s = None"
    and "ensure_eventmesh_manager env domain s = (Ret (), t)"
  obtains h m where "op_eventMeshSubManager t = Some h" and "wd_managers (op_k8s t) h = Some (EventMesh_manager m)"
    and "mm_domain m = domain"
proof -
  from assms obtain h k where
    new: "new_manager (oe_managers env) (sm_NewEventMeshManager (oe_managers env) domain (op_environ s)) (op_k8s s) = (Ret h, k)"
    and t: "t = s\<lparr>op_k8s := k, op_eventMeshSubManager := Some h\<rparr>"
    by (auto simp: ensure_eventmesh_manager_def split: prod.splits result.splits)
  from new assms(1) obtain cfg k1 where "allocate (EventMesh_manager
      (NewSubscriptionManager_em cfg domain (wd_metrics (op_k8s s)) (wd_k8s (op_k8s s)) (wd_ems (op_k8s s)))) (op_k8s s) = (Ret h, k1)"
    and init: "run_manager Init_js Init_em h k1 = (Ret (), k)"
    by (auto simp: new_manager_def managers_of_def bindR_Ret_iff NewEventMeshManager_def)
  then obtain m where m: "mm_domain m = domain" and alloc: "allocate (EventMesh_manager m) (op_k8s s) = (Ret h, k1)"
    using that by (force simp: NewSubscriptionManager_em_def)
  from alloc have "wd_managers k1 h = Some (EventMesh_manager m)" by (auto simp: allocate_def)
  with init obtain m' where "wd_managers k h = Some (EventMesh_manager m')" "mm_domain m' = mm_domain m"
    by (auto simp: run_manager_def run_em_Ret Init_em_def split: if_splits)
  with t m that show thesis by simp
qed

lemma startEventMeshSubManager_up:
  assumes "oe_managers env = managers_of me" and "op_eventMeshSubManager s = Some h"
    and "wd_managers (op_k8s s) h = Some (EventMesh_manager m)" and "startEventMeshSubManager env d ps s = (Ret (), t)"
  shows "op_eventMeshSubManager t = Some h \<and> (\<exists>m' cfg. wd_managers (op_k8s t) h = Some (EventMesh_manager m') \<and>
    me_GetConfig me (op_environ s) = Ret cfg \<and> em_manager_up cfg (getOAuth2ClientCredentials_params ps) m' \<and>
    mm_domain m' = mm_domain m)"
proof -
  from assms obtain k where start: "run_manager (Start_js (me_nats me) (me_connClosed me) (me_ListSubscriptions me) (me_setup_js me) d)
      (start_em_manager me ps (op_environ s)) h (op_k8s s) = (Ret (), k)"
    and t: "t = s\<lparr>op_k8s := k, op_isEventMeshSubManagerStarted := True\<rparr>"
    by (auto simp: startEventMeshSubManager_def managers_of_def split: prod.splits result.splits)
  from start assms(3) obtain m' cfg where "me_GetConfig me (op_environ s) = Ret cfg" and
    "Start_em (me_newAuthenticatedClient me) cfg (me_setup_em me) ps
       (m\<lparr>mm_metrics := wd_metrics (op_k8s s), mm_k8s := wd_k8s (op_k8s s), mm_server := wd_ems (op_k8s s)\<rparr>) = (Ret (), m')"
    and "wd_managers k h = Some (EventMesh_manager m')"
    by (auto simp: run_manager_def run_em_Ret start_em_manager_def split: result.splits)
  with Start_em_up [OF this(2)] t assms(2) show ?thesis by simp
qed

text \<open>
  C10. When no EventMesh manager is there, a reconciliation that returns ends with an EventMesh manager
  of the program that runs: its backend was initialised with the configuration that the environment
  of the process then holds, and with the webhook credentials that the secret in the cluster held
  when the reconciliation began.
\<close>

theorem reconcileEventMeshSubManager_serves:
  assumes "oe_managers env = managers_of me" and "reconcileEventMeshSubManager env secret es = (Ret (), es')"
    and "op_eventMeshSubManager (snd es) = None" and "\<not> op_isEventMeshSubManagerStarted (snd es)"
  shows "\<exists>h m cfg credentials. op_eventMeshSubManager (snd es') = Some h \<and>
    wd_managers (op_k8s (snd es')) h = Some (EventMesh_manager m) \<and>
    me_GetConfig me (op_environ (snd es')) = Ret cfg \<and>
    fst (getOAuth2ClientCredentials env (eg_namespace (fst es)) (snd es)) = Ret credentials \<and>
    em_manager_up cfg (client_credentials credentials) m"
proof -
  obtain es1 t es2 es3 c dm h es4 es5 where 1: "syncOauth2ClientIDAndSecret env es = (Ret (), es1)"
    and 2: "with_cr (on_k8s (SyncPublisherProxySecret env (eg_namespace (fst es1)) secret)) es1 = (Ret t, es2)"
    and 3: "setup_environment t es2 = (Ret (), es3)"
    and 4: "with_cr (eventmesh_apply_hash env (fst es3) h) es3 = (Ret (), es4)"
    and 5: "with_cr (ensure_eventmesh_manager env dm) es4 = (Ret (), es5)"
    and 6: "op_isEventMeshSubManagerStarted (snd es5) \<and> es' = es5 \<or>
      \<not> op_isEventMeshSubManagerStarted (snd es5) \<and>
      startEventMeshSubManager env (getDefaultSubscriptionConfig (snd es3)) (getEventMeshSubManagerParams (snd es3))
        (snd es5) = (Ret (), snd es') \<and>
      fst es' = map_status (\<lambda>st. st\<lparr>gs_backendConfigHash := h\<rparr>) (fst es5)"
    using assms(2) by (rule reconcileEventMeshSubManager_RetE)
  have "op_eventMeshSubManager (snd es1) = None" "\<not> op_isEventMeshSubManagerStarted (snd es1)"
    using oauth2_same_eventmesh [OF assms(4) 1] assms(3,4) by (simp_all add: same_eventmesh_def)
  with 2 3 have 33: "op_eventMeshSubManager (snd es3) = None" "\<not> op_isEventMeshSubManagerStarted (snd es3)"
    and cred3: "op_oauth2credentials (snd es3) = op_oauth2credentials (snd es1)"
    by (auto simp: with_cr_def on_k8s_def setup_environment_def split: prod.splits)
  with 4 have 44: "snd es4 = snd es3"
    using em_stop_noop [of "snd es3" env False] by (auto simp: with_cr_Ret eventmesh_apply_hash_def split: if_splits)
  from 5 have "ensure_eventmesh_manager env dm (snd es4) = (Ret (), snd es5)" by (simp add: with_cr_Ret)
  then obtain hd m where new: "op_eventMeshSubManager (snd es5) = Some hd"
    "wd_managers (op_k8s (snd es5)) hd = Some (EventMesh_manager m)"
    using 33 44 by (metis ensure_eventmesh_manager_fresh [OF assms(1)])
  have "\<not> op_isEventMeshSubManagerStarted (snd es5)"
    using 5 33 44 em_slot.ensure_Ret [of env dm "snd es4" "snd es5"] by (simp add: with_cr_Ret)
  with 6 have start: "startEventMeshSubManager env (getDefaultSubscriptionConfig (snd es3)) (getEventMeshSubManagerParams (snd es3))
      (snd es5) = (Ret (), snd es')" by simp
  have "op_environ (snd es') = op_environ (snd es5)" using em_ops_credentials(6) [of env _ _ "snd es5"] start by (metis snd_conv)
  moreover have "op_oauth2credentials (snd es3) = op_oauth2credentials (snd es1)" by (rule cred3)
  ultimately show ?thesis
    using startEventMeshSubManager_up [OF assms(1) new start] oauth2_credentials [OF 1] params_credentials [of "snd es3"] by auto
qed

lemma SyncPublisherProxySecret_state:
  "snd (SyncPublisherProxySecret env ns secret k) = k \<or> (\<exists>x. snd (SyncPublisherProxySecret env ns secret k) = snd (rc_Patch (oe_client env) x k))"
proof (cases "getSecretForPublisher (oe_util env) secret ns")
  case (Ret x)
  obtain r k' where patch: "rc_Patch (oe_client env) (OSecret x) k = (r, k')" by (rule prod.exhaust)
  have "snd (SyncPublisherProxySecret env ns secret k) = k'"
    using Ret patch by (cases r) (auto simp: SyncPublisherProxySecret_def PatchApply_def split: k8s_object.split)
  then show ?thesis using patch by (metis snd_conv)
qed (simp_all add: SyncPublisherProxySecret_def)

text \<open>
  C36. A changed EventMesh secret does not reach a manager that runs. With the same webhook credentials
  and the same hash, in which only the name of the secret counts, a reconciliation puts the
  credentials of the secret into the environment of the process and leaves every manager as it is.
\<close>

theorem running_manager_keeps_old_secret:
  assumes "oe_managers env = managers_of me" and "reconcileEventMeshSubManager env secret es = (Ret (), es')"
    and "op_eventMeshSubManager (snd es) = Some h" and "op_isEventMeshSubManagerStarted (snd es)"
    and "isOauth2CredentialsInitialized (snd es)"
    and "fst (getOAuth2ClientCredentials env (eg_namespace (fst es)) (snd es)) = Ret (op_oauth2credentials (snd es))"
    and "backend_config (fst es) = Ret c"
    and "\<And>k dm. checkDomain env (bc_domain c) k = Ret dm \<Longrightarrow>
      getEventMeshBackendConfigHash env (bc_eventMeshSecret c) (bc_eventTypePrefix c) dm = Ret (gs_backendConfigHash (eg_status (fst es)))"
    and "\<And>x k. wd_managers (snd (rc_Patch (oe_client env) x k)) = wd_managers k"
  shows "wd_managers (op_k8s (snd es')) = wd_managers (op_k8s (snd es)) \<and> op_eventMeshSubManager (snd es') = Some h \<and>
    op_isEventMeshSubManagerStarted (snd es') \<and>
    (\<exists>t k. SyncPublisherProxySecret env (eg_namespace (fst es)) secret (op_k8s (snd es)) = (Ret t, k) \<and>
      setUpEnvironmentForEventMesh t (fst es) (op_environ (snd es)) = (Ret (), op_environ (snd es')))"
proof -
  obtain es1 t es2 es3 c' dm hash es4 es5 where 1: "syncOauth2ClientIDAndSecret env es = (Ret (), es1)"
    and 2: "with_cr (on_k8s (SyncPublisherProxySecret env (eg_namespace (fst es1)) secret)) es1 = (Ret t, es2)"
    and 3: "setup_environment t es2 = (Ret (), es3)" and c': "backend_config (fst es3) = Ret c'"
    and dm: "checkDomain env (bc_domain c') (op_k8s (snd es3)) = Ret dm"
    and hash: "getEventMeshBackendConfigHash env (bc_eventMeshSecret c') (bc_eventTypePrefix c') dm = Ret hash"
    and 4: "with_cr (eventmesh_apply_hash env (fst es3) hash) es3 = (Ret (), es4)"
    and 5: "with_cr (ensure_eventmesh_manager env dm) es4 = (Ret (), es5)"
    and 6: "op_isEventMeshSubManagerStarted (snd es5) \<and> es' = es5 \<or>
      \<not> op_isEventMeshSubManagerStarted (snd es5) \<and>
      startEventMeshSubManager env (getDefaultSubscriptionConfig (snd es3)) (getEventMeshSubManagerParams (snd es3))
        (snd es5) = (Ret (), snd es') \<and>
      fst es' = map_status (\<lambda>st. st\<lparr>gs_backendConfigHash := hash\<rparr>) (fst es5)"
    using assms(2) by (rule reconcileEventMeshSubManager_RetE)
  have "with_cr (getOAuth2ClientCredentials env (eg_namespace (fst es))) es = (Ret (op_oauth2credentials (snd es)), es)"
    using assms(6) getOAuth2_snd [of env "eg_namespace (fst es)" "snd es"]
    by (cases "getOAuth2ClientCredentials env (eg_namespace (fst es)) (snd es)") (simp add: with_cr_def)
  with 1 assms(5) have es1: "es1 = es" by (simp add: syncOauth2ClientIDAndSecret_def Let_def)
  from 2 obtain k where sync: "SyncPublisherProxySecret env (eg_namespace (fst es)) secret (op_k8s (snd es)) = (Ret t, k)"
    and es2: "es2 = (fst es, (snd es)\<lparr>op_k8s := k\<rparr>)"
    by (auto simp: es1 with_cr_def on_k8s_def split: prod.splits)
  from sync have "wd_managers k = wd_managers (op_k8s (snd es))"
    using SyncPublisherProxySecret_state [of env "eg_namespace (fst es)" secret "op_k8s (snd es)"] assms(9) by auto
  moreover from 3 es2 obtain en where en: "setUpEnvironmentForEventMesh t (fst es) (op_environ (snd es)) = (Ret (), en)"
    and es3: "es3 = (fst es, (snd es)\<lparr>op_k8s := k, op_environ := en\<rparr>)"
    by (auto simp: setup_environment_def split: prod.splits)
  moreover have "es4 = es3"
    using 4 assms(7,8) c' dm hash es3 by (auto simp: eventmesh_apply_hash_def with_cr_def)
  moreover have "es5 = es3" using 5 \<open>es4 = es3\<close> es3 assms(3) by (simp add: ensure_eventmesh_manager_def with_cr_def)
  ultimately show ?thesis using 6 sync en assms(3,4) by auto
qed

subsection \<open>Examples\<close>

text \<open>The operator's client acts on the cluster of the world and on nothing else.\<close>

definition on_wd :: "('k \<Rightarrow> 'a \<times> 'k) \<Rightarrow> ('w, 'e, 'k) world \<Rightarrow> 'a \<times> ('w, 'e, 'k) world" where
  "on_wd f wd = (case f (wd_k8s wd) of (r, k) \<Rightarrow> (r, wd\<lparr>wd_k8s := k\<rparr>))"

definition lift_client :: "'k raw_client \<Rightarrow> ('w, 'e, 'k) world raw_client" where
  "lift_client c =
     \<lparr>rc_GetDeployment = (\<lambda>n ns wd. rc_GetDeployment c n ns (wd_k8s wd)),
      rc_UpdateDeployment = (\<lambda>d. on_wd (rc_UpdateDeployment c d)), rc_Delete = (\<lambda>x. on_wd (rc_Delete c x)),
      rc_Patch = (\<lambda>x. on_wd (rc_Patch c x)), rc_ListNATS = (\<lambda>ns wd. rc_ListNATS c ns (wd_k8s wd)),
      rc_GetSecret = (\<lambda>ns n wd. rc_GetSecret c ns n (wd_k8s wd)), rc_GetCRD = (\<lambda>n wd. rc_GetCRD c n (wd_k8s wd)),
      rc_ListSubscriptions = (\<lambda>wd. rc_ListSubscriptions c (wd_k8s wd)),
      rc_GetConfigMap = (\<lambda>n ns wd. rc_GetConfigMap c n ns (wd_k8s wd)),
      rc_GetEventing = (\<lambda>ns n wd. rc_GetEventing c ns n (wd_k8s wd)),
      rc_UpdateEventing = (\<lambda>e. on_wd (rc_UpdateEventing c e)),
      rc_StatusUpdateEventing = (\<lambda>e. on_wd (rc_StatusUpdateEventing c e))\<rparr>"

lemma lift_client_managers [simp]: "wd_managers (snd (rc_Patch (lift_client c) x wd)) = wd_managers wd"
  by (simp add: lift_client_def on_wd_def split: prod.split)

text \<open>
  A cluster of \<open>Eventing_Manager\<close>, a NATS server with one connection and an EventMesh with a store of
  subscriptions. With \<open>listing\<close> false the dynamic client cannot list the Subscriptions.
\<close>

type_synonym example_world = "(bool, ems_store, cluster) world"

definition example_cluster_dc :: "bool \<Rightarrow> (Subscription list, Subscription list, cluster) dynamic_client" where
  "example_cluster_dc listing =
     \<lparr>dc_ListSubscriptions = (\<lambda>k. (if listing then Ret (clu_subscriptions k) else Err (Plain KOther ''timeout''), k)),
      dc_MarshalJSON = Ret, dc_Unmarshal = Ret, dc_ToUnstructured = (\<lambda>s. Ret [s]),
      dc_UpdateStatus = (\<lambda>ns u k. (Ret (), k)), dc_DeleteAPIRule = (\<lambda>ns n k. (Ret (), k))\<rparr>"

definition example_env_value :: "string option \<Rightarrow> string" where
  "example_env_value v = (case v of None \<Rightarrow> '''' | Some t \<Rightarrow> t)"

definition example_menv :: "bool \<Rightarrow> (Subscription list, Subscription list, bool, ems_store, cluster) manager_env" where
  "example_menv listing =
     \<lparr>me_nats = example_stop_api, me_dynamic = example_cluster_dc listing, me_newAuthenticatedClient = (\<lambda>cfg. Inr store_http),
      me_connClosed = 0, me_ListSubscriptions = (\<lambda>k. (Ret (clu_subscriptions k), k)), me_setup_js = (\<lambda>k. (Ret (), k)),
      me_setup_em = (\<lambda>k. (Ret (), k)),
      me_GetConfig = (\<lambda>environ. Ret \<lparr>cfg_bebAPIURL = example_env_value (environ ''BEB_API_URL''), cfg_exemptHandshake = True,
        cfg_qos = ''AT_LEAST_ONCE'', cfg_contentMode = '''', cfg_bebNamespace = example_env_value (environ ''BEB_NAMESPACE''),
        cfg_eventTypePrefix = example_env_value (environ ''EVENT_TYPE_PREFIX'')\<rparr>)\<rparr>"

definition example_world_env :: "bool \<Rightarrow> (nat, unit, example_world) op_env" where
  "example_world_env listing =
     \<lparr>oe_client = lift_client example_client, oe_lib = example_lib, oe_conds = example_cond_lib,
      oe_util = example_util\<lparr>ul_Process := (\<lambda>c. Inr example_config)\<rparr>, oe_managers = managers_of (example_menv listing),
      oe_io = \<lparr>io_Connect = (\<lambda>u opts k. (Inr (), k)), io_IsConnected = (\<lambda>c k. True), io_IsClosed = (\<lambda>c k. False),
               io_Close = (\<lambda>c k. k), io_SetReconnectHandler = (\<lambda>c h k. k), io_SetDisconnectErrHandler = (\<lambda>c h k. k)\<rparr>,
      oe_builder = example_builder, oe_Watch = (\<lambda>kind k. (None, k)),
      oe_informer = \<lparr>inf_AddEventHandler = (\<lambda>n k. (None, k)), inf_RemoveEventHandler = (\<lambda>n k. (None, k)),
                     inf_Start = (\<lambda>n k. k), inf_Shutdown = (\<lambda>n k. k)\<rparr>,
      oe_allowedEventingCR = Some (''eventing'', ''kyma-system''), oe_maxReconnects = 10, oe_reconnectWait = 3,
      oe_now = 7\<rparr>"

definition example_wd :: "string \<Rightarrow> example_world" where
  "example_wd b =
     \<lparr>wd_k8s = (example_cluster (example_eventing b))\<lparr>clu_objects := [OSecret example_oauth_secret, OSecret example_em_secret]\<rparr>,
      wd_metrics = Map.empty, wd_nats = False, wd_ems = [], wd_managers = Map.empty, wd_next = 0\<rparr>"

definition example_world_state :: "string \<Rightarrow> (nat, unit, example_world) op_state" where
  "example_world_state b = NewReconciler example_env_config (example_wd b) Map.empty"

lemma example_world_simps [simp]:
  "oe_managers (example_world_env l) = managers_of (example_menv l)" "oe_client (example_world_env l) = lift_client example_client"
  "me_nats (example_menv l) = example_stop_api"
  by (simp_all add: example_world_env_def example_menv_def)

lemma example_stop_stable: "status_stable example_stop_api"
  by (simp add: status_stable_def example_stop_api_def)

lemma example_lower: "ToLower ''File'' = ''file''"
  by code_simp

definition example_natsConfig :: NATSConfig where
  "example_natsConfig = example_config
     \<lparr>nc_URL := example_nats_url, nc_JSStreamStorageType := ''File'', nc_JSStreamReplicas := 3, nc_JSStreamMaxBytes := ''700Mi'',
      nc_JSStreamMaxMsgsPerTopic := 1000000, nc_EventTypePrefix := ''sap.kyma.custom''\<rparr>"

lemma example_natsConfig_URL: "nc_URL example_natsConfig = example_nats_url"
  by (simp add: example_natsConfig_def)

lemma example_world_nats_config:
  assumes "clu_nats (wd_k8s wd) = clu_nats (example_cluster (example_eventing ''NATS''))"
    and "eg_namespace e = ''kyma-system''" and "eg_spec e = eg_spec (example_eventing b)"
  shows "GetNatsConfig (example_world_env l) e wd = Ret example_natsConfig"
  using assms
  by (simp add: GetNatsConfig_def GetNATSConfig_def getNATSUrl_def GetNATSResources_def backend_config_def Itoa_4222
      example_world_env_def example_util_def lift_client_def example_client_def example_cluster_def example_eventing_def
      example_backend_config_def example_natsConfig_def)

lemma example_new_config:
  "GetNewNATSConfig example_natsConfig (example_eventing b) = Ret (example_natsConfig\<lparr>nc_JSStreamStorageType := ''file''\<rparr>)"
  by (simp add: GetNewNATSConfig_def example_eventing_def example_backend_config_def example_natsConfig_def example_lower)

lemma example_natsConfig_valid: "js_validateConfig (example_natsConfig\<lparr>nc_JSStreamStorageType := ''file''\<rparr>) = None"
  by (simp add: js_validateConfig_def validate_policies_None example_config_def example_natsConfig_def
      toJetStreamStorageType_def toJetStreamRetentionPolicy_def toJetStreamDiscardPolicy_def)

lemma example_nats_hash:
  "getNATSBackendConfigHash (example_world_env l) d example_natsConfig = Ret 55"
  by (simp add: getNATSBackendConfigHash_def example_world_env_def example_util_def int64_def example_natsConfig_def)

lemma example_start_js:
  assumes "jm_envCfg m = example_natsConfig\<lparr>nc_JSStreamStorageType := ''file''\<rparr>" and "jm_mgr m" and "jm_world m = False"
  shows "\<exists>t. Start_js example_stop_api h (\<lambda>k. (Ret (f k), k)) (\<lambda>k. (Ret (), k)) d m = (Ret (), t)"
  using example_natsConfig_valid assms
  by (simp add: Start_js_def on_js_def on_jm_cluster_def wrap_err_def describe_failed_def DeleteInvalidConsumers_def
      Initialize_def initNATSConn_def initJSContext_def initCloudEventClient_def ensureStreamExistsAndIsConfiguredCorrectly_def
      getStreamConfig_def toJetStreamStorageType_def toJetStreamRetentionPolicy_def toJetStreamDiscardPolicy_def ctx_call_def
      call_def example_stop_api_def NewJetStream_def example_config_def example_natsConfig_def Let_def)

theorem reconcileNATSSubManager_serves_witness:
  "\<exists>e' t h m. reconcileNATSSubManager (example_world_env True) (example_eventing ''NATS'') (example_world_state ''NATS'') = (Ret e', t) \<and>
     op_natsSubManager t = Some h \<and> wd_managers (op_k8s t) h = Some (JetStream_manager m) \<and>
     js_manager_up example_stop_api (example_natsConfig\<lparr>nc_JSStreamStorageType := ''file''\<rparr>) m \<and>
     gs_backendConfigHash (eg_status e') = 55"
proof -
  let ?env = "example_world_env True" and ?e = "example_eventing ''NATS''" and ?s = "example_world_state ''NATS''"
  let ?cfg = "example_natsConfig\<lparr>nc_JSStreamStorageType := ''file''\<rparr>"
  have c: "GetNatsConfig ?env ?e (op_k8s ?s) = Ret example_natsConfig"
    by (rule example_world_nats_config [where b = "''NATS''"])
      (simp_all add: example_world_state_def NewReconciler_def example_wd_def example_cluster_def example_eventing_def)
  have new: "gs_backendConfigHash (eg_status ?e) \<noteq> 55" by (simp add: example_eventing_def)
  have ok: "slots_ok ?s" by (simp add: slots_ok_def example_world_state_def NewReconciler_def)
  define m where "m = (NewSubscriptionManager_js ?cfg Map.empty (wd_k8s (example_wd ''NATS'')) False)\<lparr>jm_mgr := True\<rparr>"
  obtain t where "Start_js example_stop_api 0 (\<lambda>k. (Ret (clu_subscriptions k), k)) (\<lambda>k. (Ret (), k))
      (getDefaultSubscriptionConfig ?s) m = (Ret (), t)"
    using example_start_js [of m 0 clu_subscriptions "getDefaultSubscriptionConfig ?s"]
    by (auto simp: m_def NewSubscriptionManager_js_def)
  note start = this
  let ?wd = "(example_wd ''NATS'')\<lparr>wd_managers := [0 \<mapsto> JetStream_manager m], wd_next := 1\<rparr>"
  have started: "\<not> op_isNATSSubManagerStarted ?s" by (simp add: example_world_state_def NewReconciler_def)
  have k8s: "op_k8s ?s = example_wd ''NATS''" by (simp add: example_world_state_def NewReconciler_def)
  have "nats_apply_hash ?env ?e 55 ?s = (Ret (), ?s)"
    using new by (simp add: nats_apply_hash_def example_world_state_def NewReconciler_def)
  moreover have "ensure_nats_manager ?env ?e example_natsConfig ?s = (Ret (), ?s\<lparr>op_k8s := ?wd, op_natsSubManager := Some 0\<rparr>)"
    by (simp add: ensure_nats_manager_def new_manager_def managers_of_def NewJetStreamManager_def example_new_config allocate_def
        run_manager_def run_js_def Init_js_def example_world_state_def NewReconciler_def example_wd_def m_def
        NewSubscriptionManager_js_def example_natsConfig_URL)
  moreover have "\<exists>t. startNATSSubManager ?env (getDefaultSubscriptionConfig ?s) (?s\<lparr>op_k8s := ?wd, op_natsSubManager := Some 0\<rparr>) = (Ret (), t)"
  proof -
    have "m\<lparr>jm_metrics := wd_metrics ?wd, jm_k8s := wd_k8s ?wd, jm_world := wd_nats ?wd\<rparr> = m"
      by (simp add: m_def NewSubscriptionManager_js_def example_wd_def)
    with start show ?thesis
      by (simp add: startNATSSubManager_def managers_of_def run_manager_def run_js_def example_menv_def)
  qed
  ultimately have "\<exists>e' t. reconcileNATSSubManager ?env ?e ?s = (Ret e', t)"
    using c started by (auto simp: reconcileNATSSubManager_def Let_def example_nats_hash)
  then obtain e' t where run: "reconcileNATSSubManager ?env ?e ?s = (Ret e', t)" by blast
  from reconcileNATSSubManager_serves [OF _ _ run ok c example_nats_hash new, of "example_menv True"] run example_stop_stable
  show ?thesis by (auto simp: example_new_config)
qed

text \<open>A running NATS manager, and a dynamic client that cannot list the Subscriptions.\<close>

definition example_recorded :: Eventing where
  "example_recorded = map_status (\<lambda>st. st\<lparr>gs_backendConfigHash := 55\<rparr>) (example_eventing ''NATS'')"

definition example_running_js :: "(bool, cluster) js_manager" where
  "example_running_js =
     \<lparr>jm_envCfg = example_config, jm_backendv2 = Some example_js, jm_ctx = Some True, jm_mgr = True,
      jm_metrics = Map.empty, jm_k8s = example_cluster example_recorded, jm_world = True\<rparr>"

definition example_running_state :: "(nat, unit, example_world) op_state" where
  "example_running_state =
     (example_world_state ''NATS'')\<lparr>op_natsSubManager := Some 0, op_isNATSSubManagerStarted := True,
        op_k8s := (example_wd ''NATS'')\<lparr>wd_managers := [0 \<mapsto> JetStream_manager example_running_js], wd_nats := True\<rparr>\<rparr>"

lemma example_failing_stop:
  assumes "jm_backendv2 m \<noteq> None" and "jm_ctx m \<noteq> None"
  shows "\<exists>err m'. Stop_js api (example_cluster_dc False) True m = (Err err, m') \<and> jm_k8s m' = jm_k8s m"
  using assms
  by (auto simp: Stop_js_def cleanupv2_def on_jm_cluster_def all_subscriptions_def wrap_err_def example_cluster_dc_def Let_def
      split: option.split)

theorem failed_stop_leaves_dead_manager_witness:
  "\<exists>err s1 m1. stopNATSSubManager (example_world_env False) True example_running_state = (Err err, s1) \<and>
     reconcileNATSSubManager (example_world_env False) example_recorded s1 = (Ret example_recorded, s1) \<and>
     op_isNATSSubManagerStarted s1 \<and> wd_managers (op_k8s s1) 0 = Some (JetStream_manager m1) \<and> jm_ctx m1 = Some False"
proof -
  let ?env = "example_world_env False" and ?s = "example_running_state"
  have "\<exists>err k. stopNATSSubManager ?env True ?s = (Err err, ?s\<lparr>op_k8s := k\<rparr>) \<and>
      clu_nats (wd_k8s k) = clu_nats (example_cluster (example_eventing ''NATS''))"
  proof -
    define m where "m = example_running_js\<lparr>jm_metrics := Map.empty, jm_k8s := wd_k8s (example_wd ''NATS''), jm_world := True\<rparr>"
    obtain err m' where m': "Stop_js example_stop_api (example_cluster_dc False) True m = (Err err, m')" "jm_k8s m' = jm_k8s m"
      using example_failing_stop [of m example_stop_api] by (auto simp: m_def example_running_js_def)
    have "stopNATSSubManager ?env True ?s = (Err err, ?s\<lparr>op_k8s := (op_k8s ?s)\<lparr>wd_managers := [0 \<mapsto> JetStream_manager m'],
        wd_metrics := jm_metrics m', wd_k8s := jm_k8s m', wd_nats := jm_world m'\<rparr>\<rparr>)"
      using m' by (simp add: stopNATSSubManager_def managers_of_def run_manager_def run_js_def example_running_state_def
          example_menv_def m_def example_wd_def)
    then show ?thesis using m'(2) by (fastforce simp: m_def example_wd_def example_cluster_def)
  qed
  then obtain err k where stop: "stopNATSSubManager ?env True ?s = (Err err, ?s\<lparr>op_k8s := k\<rparr>)"
    and nats: "clu_nats (wd_k8s k) = clu_nats (example_cluster (example_eventing ''NATS''))" by blast
  have "GetNatsConfig ?env example_recorded (op_k8s (?s\<lparr>op_k8s := k\<rparr>)) = Ret example_natsConfig"
    by (rule example_world_nats_config [where b = "''NATS''"])
      (simp_all add: nats example_recorded_def map_status_def example_eventing_def)
  moreover have "getNATSBackendConfigHash ?env (getDefaultSubscriptionConfig (?s\<lparr>op_k8s := k\<rparr>)) example_natsConfig =
      Ret (gs_backendConfigHash (eg_status example_recorded))"
    by (simp add: example_nats_hash example_recorded_def map_status_def)
  moreover have "op_natsSubManager ?s = Some 0" "op_isNATSSubManagerStarted ?s"
    "wd_managers (op_k8s ?s) 0 = Some (JetStream_manager example_running_js)" "jm_ctx example_running_js = Some True"
    by (simp_all add: example_running_state_def example_running_js_def)
  ultimately show ?thesis
    using failed_stop_leaves_dead_manager [of ?env "example_menv False" ?s 0 example_running_js err "?s\<lparr>op_k8s := k\<rparr>"
        example_recorded example_natsConfig] stop by auto
qed

text \<open>The calls of a reconciliation for EventMesh in this world.\<close>

definition example_credentials :: oauth2Credentials where
  "example_credentials = \<lparr>oc_clientID = ''a'', oc_clientSecret = ''b'', oc_tokenURL = ''c'', oc_certsURL = ''d''\<rparr>"

lemma example_get_credentials:
  assumes "clu_objects (wd_k8s (op_k8s s)) = [OSecret example_oauth_secret, OSecret example_em_secret]"
    and "op_backendConfig s = example_env_config"
  shows "getOAuth2ClientCredentials (example_world_env l) ''kyma-system'' s = (Ret example_credentials, s)"
  using assms
  by (simp add: getOAuth2ClientCredentials_def GetSecret_def lift_client_def example_client_def cluster_find_def
      example_oauth_secret_def newSecret_def secret_key_def example_env_config_def example_credentials_def Let_def)

lemma example_world_publisher:
  "\<exists>t k. SyncPublisherProxySecret (example_world_env l) ''kyma-system'' example_em_secret wd = (Ret t, wd\<lparr>wd_k8s := k\<rparr>) \<and>
     entries (sec_data t) = getSecretStringData ''id'' ''secret'' ''https://token'' ''client_credentials'' ''https://ems'' ''ns''"
proof -
  have "\<exists>k. wd\<lparr>wd_k8s := x\<rparr> = wd\<lparr>wd_k8s := k\<rparr>" for x by blast
  then show ?thesis
    by (simp add: SyncPublisherProxySecret_def getSecretForPublisher_def example_em_secret_def newSecret_def lift_client_def
        on_wd_def example_world_env_def example_util_def example_client_def PatchApply_def Let_def)
qed

lemma example_world_domain: "checkDomain (example_world_env l) ''kyma.io'' k = Ret ''kyma.io''"
  by (simp add: checkDomain_def example_domain_not_empty)

lemma example_world_hash:
  obtains h where "getEventMeshBackendConfigHash (example_world_env l) ''kyma-system/em'' ''sap.kyma.custom'' ''kyma.io'' = Ret h"
  by (simp add: getEventMeshBackendConfigHash_def example_world_env_def example_util_def)

lemma example_start_em:
  assumes "mm_mgr m"
  shows "\<exists>t. Start_em (\<lambda>cfg. Inr store_http) cfg (\<lambda>k. (Ret (), k)) ps m = (Ret (), t)"
  using assms
  by (simp add: Start_em_def Let_def Initialize_em_def NewEventMesh_def NewHTTPClient_def store_http_def)

lemma example_em_config: "backend_config (example_eventing b) = Ret example_backend_config"
  by (simp add: backend_config_def example_eventing_def)

lemma reconcileEventMeshSubManager_run:
  assumes "syncOauth2ClientIDAndSecret env (e, s) = (Ret (), (e, s1))"
    and "SyncPublisherProxySecret env (eg_namespace e) secret (op_k8s s1) = (Ret t, k)"
    and "setUpEnvironmentForEventMesh t e (op_environ s1) = (Ret (), en)"
    and "backend_config e = Ret c" and "checkDomain env (bc_domain c) k = Ret dm"
    and "getEventMeshBackendConfigHash env (bc_eventMeshSecret c) (bc_eventTypePrefix c) dm = Ret h"
    and "eventmesh_apply_hash env e h (s1\<lparr>op_k8s := k, op_environ := en\<rparr>) = (Ret (), s4)"
    and "ensure_eventmesh_manager env dm s4 = (Ret (), s5)"
    and "op_isEventMeshSubManagerStarted s5 \<or> (\<forall>d. \<exists>s6. startEventMeshSubManager env d
      (getEventMeshSubManagerParams (s1\<lparr>op_k8s := k, op_environ := en\<rparr>)) s5 = (Ret (), s6))"
  shows "\<exists>es'. reconcileEventMeshSubManager env secret (e, s) = (Ret (), es')"
proof -
  obtain s6 where "op_isEventMeshSubManagerStarted s5 \<or> startEventMeshSubManager env
      (getDefaultSubscriptionConfig (s1\<lparr>op_k8s := k, op_environ := en\<rparr>))
      (getEventMeshSubManagerParams (s1\<lparr>op_k8s := k, op_environ := en\<rparr>)) s5 = (Ret (), s6)"
    using assms(9) by blast
  with assms(1-8) show ?thesis
    by (auto simp: reconcileEventMeshSubManager_def wrap_err_def with_cr_def on_k8s_def setup_environment_def Let_def)
qed

definition example_em_world_state :: "(nat, unit, example_world) op_state" where
  "example_em_world_state =
     (example_world_state ''EventMesh'')\<lparr>op_eventMeshSubManager := Some 0, op_isEventMeshSubManagerStarted := True,
        op_oauth2credentials := example_credentials\<rparr>"

lemma example_world_state_simps [simp]:
  "op_k8s (example_world_state b) = example_wd b" "op_eventMeshSubManager (example_world_state b) = None"
  "\<not> op_isEventMeshSubManagerStarted (example_world_state b)" "\<not> isOauth2CredentialsInitialized (example_world_state b)"
  by (simp_all add: example_world_state_def NewReconciler_def isOauth2CredentialsInitialized_def)

theorem reconcileEventMeshSubManager_serves_witness:
  "\<exists>es' h m cfg. reconcileEventMeshSubManager (example_world_env True) example_em_secret
       (example_eventing ''EventMesh'', example_world_state ''EventMesh'') = (Ret (), es') \<and>
     op_eventMeshSubManager (snd es') = Some h \<and> wd_managers (op_k8s (snd es')) h = Some (EventMesh_manager m) \<and>
     em_manager_up cfg (client_credentials example_credentials) m"
proof -
  let ?env = "example_world_env True" and ?e = "example_eventing ''EventMesh''" and ?s = "example_world_state ''EventMesh''"
  have get: "getOAuth2ClientCredentials ?env ''kyma-system'' ?s = (Ret example_credentials, ?s)"
    by (rule example_get_credentials) (simp_all add: example_world_state_def NewReconciler_def example_wd_def)
  have ns: "eg_namespace ?e = ''kyma-system''" by (simp add: example_eventing_def)
  let ?s1 = "?s\<lparr>op_oauth2credentials := example_credentials\<rparr>"
  have sync: "syncOauth2ClientIDAndSecret ?env (?e, ?s) = (Ret (), (?e, ?s1))"
    by (simp add: syncOauth2ClientIDAndSecret_def with_cr_def ns get Let_def)
  obtain t k where t: "SyncPublisherProxySecret ?env (eg_namespace ?e) example_em_secret (op_k8s ?s1) =
      (Ret t, (example_wd ''EventMesh'')\<lparr>wd_k8s := k\<rparr>)"
    "entries (sec_data t) = getSecretStringData ''id'' ''secret'' ''https://token'' ''client_credentials'' ''https://ems'' ''ns''"
    using example_world_publisher [of True "op_k8s ?s1"] ns by auto
  obtain en where en: "setUpEnvironmentForEventMesh t ?e (op_environ ?s1) = (Ret (), en)"
    using example_environment [OF t(2)] by blast
  obtain h where h: "getEventMeshBackendConfigHash ?env ''kyma-system/em'' ''sap.kyma.custom'' ''kyma.io'' = Ret h"
    by (rule example_world_hash)
  let ?wd = "(example_wd ''EventMesh'')\<lparr>wd_k8s := k\<rparr>"
  let ?s3 = "?s1\<lparr>op_k8s := ?wd, op_environ := en\<rparr>"
  obtain cfg where cfg: "me_GetConfig (example_menv True) en = Ret cfg" by (simp add: example_menv_def)
  define m where "m = (NewSubscriptionManager_em cfg ''kyma.io'' (wd_metrics ?wd) k (wd_ems ?wd))\<lparr>mm_mgr := True\<rparr>"
  let ?s5 = "?s3\<lparr>op_k8s := ?wd\<lparr>wd_managers := [0 \<mapsto> EventMesh_manager m], wd_next := 1\<rparr>, op_eventMeshSubManager := Some 0\<rparr>"
  have ensure: "ensure_eventmesh_manager ?env ''kyma.io'' ?s3 = (Ret (), ?s5)"
    using cfg
    by (simp add: ensure_eventmesh_manager_def new_manager_def managers_of_def NewEventMeshManager_def allocate_def
        run_manager_def run_em_def Init_em_def example_wd_def m_def NewSubscriptionManager_em_def)
  obtain t' where "Start_em (\<lambda>cfg. Inr store_http) cfg (\<lambda>k. (Ret (), k)) (getEventMeshSubManagerParams ?s3)
      (m\<lparr>mm_metrics := wd_metrics ?wd, mm_k8s := k, mm_server := wd_ems ?wd\<rparr>) = (Ret (), t')"
    using example_start_em [of "m\<lparr>mm_metrics := wd_metrics ?wd, mm_k8s := k, mm_server := wd_ems ?wd\<rparr>"] by (auto simp: m_def)
  then have start: "\<exists>s6. startEventMeshSubManager ?env d (getEventMeshSubManagerParams ?s3) ?s5 = (Ret (), s6)" for d
    using cfg
    by (simp add: startEventMeshSubManager_def managers_of_def run_manager_def run_em_def start_em_manager_def example_menv_def)
  have "eventmesh_apply_hash ?env ?e h ?s3 = (Ret (), ?s3)"
    by (simp add: eventmesh_apply_hash_def em_stop_noop)
  from reconcileEventMeshSubManager_run [OF sync t(1) en example_em_config _ _ this ensure] h example_world_domain start
  obtain es' where run: "reconcileEventMeshSubManager ?env example_em_secret (?e, ?s) = (Ret (), es')"
    by (auto simp: example_backend_config_def)
  with reconcileEventMeshSubManager_serves [of ?env "example_menv True" example_em_secret "(?e, ?s)" es'] get ns
  show ?thesis by fastforce
qed

theorem running_manager_keeps_old_secret_witness:
  "\<exists>h es'. reconcileEventMeshSubManager (example_world_env True) example_em_secret
       (map_status (\<lambda>st. st\<lparr>gs_backendConfigHash := h\<rparr>) (example_eventing ''EventMesh''), example_em_world_state) = (Ret (), es') \<and>
     wd_managers (op_k8s (snd es')) = wd_managers (op_k8s example_em_world_state) \<and> op_eventMeshSubManager (snd es') = Some 0"
proof -
  let ?env = "example_world_env True" and ?s = example_em_world_state
  obtain h where h: "getEventMeshBackendConfigHash ?env ''kyma-system/em'' ''sap.kyma.custom'' ''kyma.io'' = Ret h"
    by (rule example_world_hash)
  let ?e = "map_status (\<lambda>st. st\<lparr>gs_backendConfigHash := h\<rparr>) (example_eventing ''EventMesh'')"
  have get: "getOAuth2ClientCredentials ?env ''kyma-system'' ?s = (Ret example_credentials, ?s)"
    by (rule example_get_credentials) (simp_all add: example_em_world_state_def example_world_state_def NewReconciler_def example_wd_def)
  have ns: "eg_namespace ?e = ''kyma-system''" by (simp add: example_eventing_def map_status_def)
  have facts: "op_eventMeshSubManager ?s = Some 0" "op_isEventMeshSubManagerStarted ?s" "isOauth2CredentialsInitialized ?s"
    "op_oauth2credentials ?s = example_credentials" "gs_backendConfigHash (eg_status ?e) = h"
    by (simp_all add: example_em_world_state_def isOauth2CredentialsInitialized_def example_credentials_def map_status_def)
  have config: "backend_config ?e = Ret example_backend_config"
    using example_em_config [of "''EventMesh''"] by (simp add: backend_config_def map_status_def)
  have sync: "syncOauth2ClientIDAndSecret ?env (?e, ?s) = (Ret (), (?e, ?s))"
    by (simp add: syncOauth2ClientIDAndSecret_def with_cr_def ns get Let_def facts)
  obtain t wd where t: "SyncPublisherProxySecret ?env (eg_namespace ?e) example_em_secret (op_k8s ?s) = (Ret t, wd)"
    "entries (sec_data t) = getSecretStringData ''id'' ''secret'' ''https://token'' ''client_credentials'' ''https://ems'' ''ns''"
    using example_world_publisher [of True "op_k8s ?s"] ns by auto
  obtain en where "setUpEnvironmentForEventMesh t (example_eventing ''EventMesh'') (op_environ ?s) = (Ret (), en)"
    using example_environment [OF t(2)] by blast
  then have en: "setUpEnvironmentForEventMesh t ?e (op_environ ?s) = (Ret (), en)"
    by (simp add: setUpEnvironmentForEventMesh_def backend_config_def map_status_def)
  let ?s3 = "?s\<lparr>op_k8s := wd, op_environ := en\<rparr>"
  have "eventmesh_apply_hash ?env ?e h ?s3 = (Ret (), ?s3)" "ensure_eventmesh_manager ?env ''kyma.io'' ?s3 = (Ret (), ?s3)"
    by (simp_all add: eventmesh_apply_hash_def ensure_eventmesh_manager_def facts)
  from reconcileEventMeshSubManager_run [OF sync t(1) en config _ _ this] h example_world_domain facts
  obtain es' where run: "reconcileEventMeshSubManager ?env example_em_secret (?e, ?s) = (Ret (), es')"
    by (auto simp: example_backend_config_def)
  have "wd_managers (op_k8s (snd es')) = wd_managers (op_k8s ?s) \<and> op_eventMeshSubManager (snd es') = Some 0"
    using running_manager_keeps_old_secret [of ?env "example_menv True" example_em_secret "(?e, ?s)" es' 0 example_backend_config]
      run facts get ns config h example_world_domain
    by (auto simp: example_backend_config_def)
  with run show ?thesis by blast
qed

end
