(* ===== verification/Eventing_Reconciler.thy ===== *)
theory Eventing_Reconciler
  imports Sub_Managers
begin

section \<open>The Eventing reconciler (operator/eventing/controller.go)\<close>

text \<open>
  \<^verbatim>\<open>Reconcile\<close> and everything it calls. A handler returns the result and the error of the Go
  function as an \<open>op_return\<close>; \<open>Crash\<close> is a panic or a call that never returns. The Eventing
  resource that the handlers pass around and change is the first component of the state of a
  \<open>cr_call\<close>.
\<close>

abbreviation ErrSubscriptionExists :: goerr where
  "ErrSubscriptionExists \<equiv> Sentinel ''cannot delete the eventing module as subscription exists''"
abbreviation ErrUnsupportedBackedType :: goerr where
  "ErrUnsupportedBackedType \<equiv> Sentinel ''backend type not supported''"
abbreviation ErrNatsModuleMissing :: goerr where
  "ErrNatsModuleMissing \<equiv> Sentinel ''NATS module has to be installed''"
abbreviation ErrAPIGatewayModuleMissing :: goerr where
  "ErrAPIGatewayModuleMissing \<equiv>
     Sentinel ''API-Gateway module is needed for EventMesh backend. APIRules CRD is not installed''"

type_synonym ('m, 'c, 'k) handled = "op_return result \<times> ('m, 'c, 'k) op_state"

text \<open>\<^verbatim>\<open>return result, r.sync...(...)\<close>: the error of the last call is the error of the handler.\<close>

definition returning ::
  "op_result \<Rightarrow> ('k \<Rightarrow> goerr option \<times> 'k) \<Rightarrow> ('m, 'c, 'k) op_state \<Rightarrow> ('m, 'c, 'k) handled" where
  "returning r f s = (case err_on_k8s f s of (e, s) \<Rightarrow> (Ret (r, e), s))"

text \<open>A call whose error ends the handler, with what is done then.\<close>

definition on_err ::
  "('s, 'a) outcome \<Rightarrow> (goerr \<Rightarrow> 's \<Rightarrow> 'b result \<times> 't) \<Rightarrow> (string \<Rightarrow> 's \<Rightarrow> 'b result \<times> 't) \<Rightarrow>
   ('a \<Rightarrow> 's \<Rightarrow> 'b result \<times> 't) \<Rightarrow> 'b result \<times> 't" where
  "on_err m f p g = (case m of (Ret a, s) \<Rightarrow> g a s | (Err e, s) \<Rightarrow> f e s | (Crash c, s) \<Rightarrow> p c s)"

abbreviation crashed :: "string \<Rightarrow> 's \<Rightarrow> 'b result \<times> 's" where "crashed c s \<equiv> (Crash c, s)"
abbreviation crashed_cr :: "string \<Rightarrow> 'e \<times> 's \<Rightarrow> 'b result \<times> 's" where "crashed_cr c es \<equiv> (Crash c, snd es)"

subsection \<open>Watches and the NATS connection\<close>

definition SkipEnqueueOnCreate :: "'e \<Rightarrow> bool" where
  "SkipEnqueueOnCreate e = False"

text \<open>\<open>equal\<close> is \<^verbatim>\<open>object.Semantic.DeepEqual\<close> on the kind of objects the predicate is used for.\<close>

definition SkipEnqueueOnUpdateAfterSemanticCompare ::
  "('o \<Rightarrow> 'o \<Rightarrow> bool) \<Rightarrow> ('o \<Rightarrow> string) \<Rightarrow> string \<Rightarrow> 'o \<Rightarrow> 'o \<Rightarrow> bool" where
  "SkipEnqueueOnUpdateAfterSemanticCompare equal name nameFilter old new =
     (if \<not> Contains (name old) nameFilter then False else \<not> equal old new)"

definition watchResource ::
  "('m, 'c, 'k) op_env \<Rightarrow> string \<Rightarrow> ('m, 'c, 'k) op_state \<Rightarrow> goerr option \<times> ('m, 'c, 'k) op_state" where
  "watchResource env kind s = err_on_k8s (oe_Watch env kind) s"

text \<open>The watcher is stored before the watch on its events is set up and the watcher is started.\<close>

definition startNATSCRWatch ::
  "('m, 'c, 'k) op_env \<Rightarrow> Eventing \<Rightarrow> ('m, 'c, 'k) op_state \<Rightarrow> goerr option \<times> ('m, 'c, 'k) op_state" where
  "startNATSCRWatch env eventing s =
     (let ns = eg_namespace eventing;
          w = (case op_natsWatchers s ns of Some w \<Rightarrow> w | None \<Rightarrow> NewResourceWatcher ns)
      in if op_natsWatchers s ns \<noteq> None \<and> IsStarted w then (None, s)
         else (case oe_Watch env ''NATS'' (op_k8s s) of
                 (Some err, k) \<Rightarrow> (Some err, s\<lparr>op_k8s := k, op_natsWatchers := (op_natsWatchers s)(ns \<mapsto> w)\<rparr>)
               | (None, k) \<Rightarrow>
                   (case Start_watcher (oe_informer env) w k of
                      (w, k) \<Rightarrow> (None, s\<lparr>op_k8s := k, op_natsWatchers := (op_natsWatchers s)(ns \<mapsto> w)\<rparr>))))"

definition stopNATSCRWatch :: "('m, 'c, 'k) op_env \<Rightarrow> Eventing \<Rightarrow> ('m, 'c, 'k, unit) op_call" where
  "stopNATSCRWatch env eventing s =
     (case op_natsWatchers s (eg_namespace eventing) of
        None \<Rightarrow> (Ret (), s)
      | Some w \<Rightarrow>
          bindR (on_k8s (Stop_watcher (oe_informer env) w) s) (\<lambda>_ s.
            (Ret (), s\<lparr>op_natsWatchers := (op_natsWatchers s)(eg_namespace eventing := None)\<rparr>)))"

text \<open>Both handlers that are registered enqueue the Eventing resource.\<close>

definition connectToNATS ::
  "('m, 'c, 'k) op_env \<Rightarrow> Eventing \<Rightarrow> ('m, 'c, 'k) op_state \<Rightarrow> goerr option \<times> ('m, 'c, 'k) op_state" where
  "connectToNATS env eventingCR s =
     (let conn = (case op_natsConnection s of None \<Rightarrow> Build (oe_builder env) | Some c \<Rightarrow> c) in
      case Connect (oe_io env) eventingCR eventingCR conn (op_k8s s) of
        (err, conn, k) \<Rightarrow> (err, s\<lparr>op_natsConnection := Some conn, op_k8s := k\<rparr>))"

definition disconnect_nats :: "('m, 'c, 'k) op_env \<Rightarrow> ('m, 'c, 'k) op_state \<Rightarrow> ('m, 'c, 'k) op_state" where
  "disconnect_nats env s =
     (case op_natsConnection s of None \<Rightarrow> s | Some c \<Rightarrow> s\<lparr>op_k8s := Disconnect (oe_io env) c (op_k8s s)\<rparr>)"

definition ResetNATSConnection :: "('m, 'c, 'k) op_env \<Rightarrow> ('m, 'c, 'k) op_state \<Rightarrow> ('m, 'c, 'k) op_state" where
  "ResetNATSConnection env s = (disconnect_nats env s)\<lparr>op_natsConnection := None\<rparr>"

definition GetEventMeshSubManager :: "('m, 'c, 'k) op_state \<Rightarrow> 'm option" where
  "GetEventMeshSubManager s = op_eventMeshSubManager s"

definition SetEventMeshSubManager :: "'m option \<Rightarrow> ('m, 'c, 'k) op_state \<Rightarrow> ('m, 'c, 'k) op_state" where
  "SetEventMeshSubManager m s = s\<lparr>op_eventMeshSubManager := m\<rparr>"

subsection \<open>The publisher proxy\<close>

definition handlePublisherProxy ::
  "('m, 'c, 'k) op_env \<Rightarrow> Eventing \<Rightarrow> string \<Rightarrow> ('m, 'c, 'k, Deployment) op_call" where
  "handlePublisherProxy env eventing backendType s =
     bindR (if backendType = NatsBackendType
            then (case GetNatsConfig env eventing (op_k8s s) of
                    Ret c \<Rightarrow> Ret (Some c) | Err err \<Rightarrow> Err err | Crash p \<Rightarrow> Crash p)
            else Ret None, s) (\<lambda>natsConfig s.
     bindR (on_k8s (DeployPublisherProxy (oe_lib env) (oe_client env) (op_managerConfig s) eventing natsConfig
              backendType) s) (\<lambda>deployment s.
     bindR (on_k8s (DeployPublisherProxyResources (oe_lib env) (oe_client env) eventing deployment) s) (\<lambda>_ s.
       (Ret deployment, s))))"

subsection \<open>Deletion\<close>

definition finalize ::
  "('m, 'c, 'k) op_env \<Rightarrow> Eventing \<Rightarrow> ('m, 'c, 'k) op_state \<Rightarrow> ('m, 'c, 'k) handled" where
  "finalize env eventing s = (case removeFinalizer_op env eventing (op_k8s s) of (r, k) \<Rightarrow> (Ret r, s\<lparr>op_k8s := k\<rparr>))"

definition deleteClusterScopedResources ::
  "('m, 'c, 'k) op_env \<Rightarrow> Eventing \<Rightarrow> 'k \<Rightarrow> ('k, unit) outcome" where
  "deleteClusterScopedResources env eventingCR k =
     bindR (DeleteClusterRole (oe_client env) (GetPublisherClusterRoleName eventingCR) (eg_namespace eventingCR) k) (\<lambda>_ k.
       DeleteClusterRoleBinding (oe_client env) (GetPublisherClusterRoleBindingName eventingCR) (eg_namespace eventingCR) k)"

text \<open>Once nothing blocks the deletion: stop the manager, delete the resources, remove the finalizer.\<close>

definition delete_backend ::
  "('m, 'c, 'k) op_env \<Rightarrow> Eventing \<Rightarrow> string \<Rightarrow> ('m, 'c, 'k) op_state \<Rightarrow> ('m, 'c, 'k) handled" where
  "delete_backend env eventing backendType s =
     on_err (if backendType = NatsBackendType then stopNATSSubManager env True s else stopEventMeshSubManager env True s)
       (\<lambda>err. returning no_requeue
          (if backendType = NatsBackendType then syncStatusWithNATSErr env eventing err
           else syncStatusWithSubscriptionManagerErrWithReason env ConditionReasonEventMeshSubManagerStopFailed
                  eventing err))
       crashed
       (\<lambda>_ s. let eventing = map_status (SetSubscriptionManagerReadyConditionToFalse (oe_conds env) (oe_now env)
                    ConditionReasonStopped ConditionSubscriptionManagerStoppedMessage) eventing in
          on_err (on_k8s (deleteClusterScopedResources env eventing) s)
            (\<lambda>err. returning no_requeue
               (syncStatusWithPublisherProxyErrWithReason env ConditionReasonDeletionError eventing err))
            crashed
            (\<lambda>_. finalize env (map_status (SetPublisherProxyConditionToFalse (oe_conds env) (oe_now env)
               ConditionReasonDeleted ConditionPublisherProxyDeletedMessage) eventing)))"

definition handleEventingDeletion ::
  "('m, 'c, 'k) op_env \<Rightarrow> Eventing \<Rightarrow> ('m, 'c, 'k) op_state \<Rightarrow> ('m, 'c, 'k) handled" where
  "handleEventingDeletion env eventing s =
     (if \<not> containsFinalizer_op env eventing then (Ret (no_requeue, None), s)
      else case es_backend (eg_spec eventing) of
        None \<Rightarrow> finalize env eventing s
      | Some b \<Rightarrow>
          (case SubscriptionExists (oe_client env) (op_k8s s) of
             Crash p \<Rightarrow> (Crash p, s)
           | Err err \<Rightarrow>
               returning no_requeue (syncStatusWithDeletionErr env (map_status SetStateError eventing) err) s
           | Ret True \<Rightarrow>
               returning \<lparr>res_Requeue = True, res_RequeueAfter = 0\<rparr>
                 (syncStatusWithDeletionErr env (map_status SetStateWarning eventing) ErrSubscriptionExists) s
           | Ret False \<Rightarrow> delete_backend env eventing (eb_type b) s))"

subsection \<open>Backend switching\<close>

text \<open>Stopping the previously active backend, and what is done once it is stopped.\<close>

definition stop_previous ::
  "('m, 'c, 'k) op_env \<Rightarrow> Eventing \<Rightarrow> ('m, 'c, 'k, unit) op_call" where
  "stop_previous env eventingCR s =
     (if gs_activeBackend (eg_status eventingCR) = NatsBackendType
      then bindR (stopNATSSubManager env True s) (\<lambda>_ s.
           bindR (stopNATSCRWatch env eventingCR s) (\<lambda>_ s. (Ret (), disconnect_nats env s)))
      else stopEventMeshSubManager env True s)"

definition switch_backend :: "('m, 'c, 'k) op_env \<Rightarrow> ('m, 'c, 'k, unit) cr_call" where
  "switch_backend env es =
     bindR (with_cr (stop_previous env (fst es)) es) (\<lambda>_ es.
       let eventingCR = map_status (ClearConditions_eventing \<circ> SetStateProcessing) (fst es) in
       with_cr (on_k8s (DeletePublisherProxyResources (oe_client env) eventingCR)) (eventingCR, snd es))"

definition handleBackendSwitching :: "('m, 'c, 'k) op_env \<Rightarrow> ('m, 'c, 'k, unit) cr_call" where
  "handleBackendSwitching env es =
     (if IsPreviousBackendEmpty (fst es) then (Ret (), es)
      else bindR (IsSpecBackendTypeChanged (fst es), es) (\<lambda>changed es.
        if \<not> changed then (Ret (), es) else switch_backend env es))"

subsection \<open>The two backends\<close>

definition backend_type :: "Eventing \<Rightarrow> string result" where
  "backend_type e = (case es_backend (eg_spec e) of None \<Rightarrow> Crash nil_backend | Some b \<Rightarrow> Ret (eb_type b))"

text \<open>The error that is marked as terminal is never nil: the status calls join it with their cause.\<close>

definition terminal :: "('m, 'c, 'k) handled \<Rightarrow> ('m, 'c, 'k) handled" where
  "terminal h = (case h of (Ret (r, e), s) \<Rightarrow> (Ret (r, map_option Terminal e), s) | _ \<Rightarrow> h)"

text \<open>From the publisher on, with NATS available.\<close>

definition run_nats ::
  "('m, 'c, 'k) op_env \<Rightarrow> Eventing \<Rightarrow> ('m, 'c, 'k) op_state \<Rightarrow> ('m, 'c, 'k) handled" where
  "run_nats env eventingCR s =
     bindR (backend_type eventingCR, s) (\<lambda>backendType s.
     on_err (handlePublisherProxy env eventingCR backendType s)
       (\<lambda>err. returning no_requeue (syncStatusWithPublisherProxyErr env eventingCR err)) crashed
       (\<lambda>deployment s.
          on_err (reconcileNATSSubManager env eventingCR s)
            (\<lambda>err. returning no_requeue (syncStatusWithNATSErr env eventingCR err)) crashed
            (\<lambda>eventingCR. on_k8s (handleEventingState env deployment eventingCR))))"

definition reconcileNATSBackend ::
  "('m, 'c, 'k) op_env \<Rightarrow> Eventing \<Rightarrow> ('m, 'c, 'k) op_state \<Rightarrow> ('m, 'c, 'k) handled" where
  "reconcileNATSBackend env eventingCR s =
     (case GetCRD (oe_client env) ''nats.operator.kyma-project.io'' (op_k8s s) of
        Crash p \<Rightarrow> (Crash p, s)
      | Err err \<Rightarrow>
          if err_has_kind KNotFound err
          then on_err (on_k8s (DeletePublisherProxyResources (oe_client env) eventingCR) s)
                 (\<lambda>delErr s. (Ret (no_requeue, Some delErr), s)) crashed
                 (\<lambda>_. returning no_requeue (syncStatusWithNATSState env StateWarning eventingCR
                        (Wrapped ['''', '': ''] [ErrNatsModuleMissing, err])))
          else (Ret (no_requeue, Some err), s)
      | Ret _ \<Rightarrow>
          (case startNATSCRWatch env eventingCR s of
             (Some err, s) \<Rightarrow> returning no_requeue (syncStatusWithNATSErr env eventingCR err) s
           | (None, s) \<Rightarrow>
               (case connectToNATS env eventingCR s of
                  (Some connErr, s) \<Rightarrow>
                    let h = returning no_requeue (syncStatusWithNATSState env StateWarning eventingCR connErr) s in
                    if errors_Is connErr ErrCannotConnect then terminal h else h
                | (None, s) \<Rightarrow>
                    run_nats env (map_status (SetNATSAvailableConditionToTrue (oe_conds env) (oe_now env)) eventingCR) s)))"

definition run_eventmesh ::
  "('m, 'c, 'k) op_env \<Rightarrow> Eventing \<Rightarrow> ('m, 'c, 'k) op_state \<Rightarrow> ('m, 'c, 'k) handled" where
  "run_eventmesh env eventing s =
     bindR (backend_type eventing, s) (\<lambda>backendType s.
     on_err (handlePublisherProxy env eventing backendType s)
       (\<lambda>err. returning no_requeue (syncStatusWithPublisherProxyErr env eventing err)) crashed
       (\<lambda>deployment. on_k8s (handleEventingState env deployment eventing)))"

definition eventmesh_failed ::
  "('m, 'c, 'k) op_env \<Rightarrow> goerr \<Rightarrow> Eventing \<times> ('m, 'c, 'k) op_state \<Rightarrow> ('m, 'c, 'k) handled" where
  "eventmesh_failed env err es =
     returning no_requeue
       (if IsMalformattedSecretErr err
        then syncSubManagerStatusWithNATSState env StateWarning (fst es) ErrEventMeshSecretMalformatted
        else syncStatusWithSubscriptionManagerErr env (fst es) err) (snd es)"

definition eventmesh_secret_failed ::
  "('m, 'c, 'k) op_env \<Rightarrow> Eventing \<Rightarrow> goerr \<Rightarrow> ('m, 'c, 'k) op_state \<Rightarrow> ('m, 'c, 'k) handled" where
  "eventmesh_secret_failed env eventing err =
     returning no_requeue
       (if err_has_kind KNotFound err
        then syncSubManagerStatusWithNATSState env StateWarning eventing ErrEventMeshSecretMissing
        else syncStatusWithSubscriptionManagerErr env eventing (wrap_text ''failed to get EventMesh secret: '' err))"

definition reconcileEventMeshBackend ::
  "('m, 'c, 'k) op_env \<Rightarrow> Eventing \<Rightarrow> ('m, 'c, 'k) op_state \<Rightarrow> ('m, 'c, 'k) handled" where
  "reconcileEventMeshBackend env eventing s =
     (case APIRuleCRDExists (oe_client env) (op_k8s s) of
        Crash p \<Rightarrow> (Crash p, s)
      | Err err \<Rightarrow> returning no_requeue (syncStatusWithSubscriptionManagerErr env eventing err) s
      | Ret False \<Rightarrow>
          returning no_requeue (syncStatusWithSubscriptionManagerErr env eventing ErrAPIGatewayModuleMissing) s
      | Ret True \<Rightarrow>
          bindR (backend_config eventing, s) (\<lambda>c s.
          on_err (GetSecret (oe_client env) (bc_eventMeshSecret c) (op_k8s s), s)
            (eventmesh_secret_failed env eventing) crashed
            (\<lambda>eventMeshSecret s.
               on_err (reconcileEventMeshSubManager env eventMeshSecret (eventing, s))
                 (eventmesh_failed env) crashed_cr
                 (\<lambda>_ es. run_eventmesh env
                    (map_status (SetSubscriptionManagerReadyConditionToTrue (oe_conds env) (oe_now env) \<circ>
                       SetEventMeshAvailableConditionToTrue (oe_conds env) (oe_now env)) (fst es)) (snd es)))))"

subsection \<open>Reconciliation\<close>

definition handleEventingCRAllowedCheck ::
  "('m, 'c, 'k) op_env \<Rightarrow> string \<times> string \<Rightarrow> Eventing \<Rightarrow> 'k \<Rightarrow> (bool \<times> goerr option) \<times> 'k" where
  "handleEventingCRAllowedCheck env allowed eventing k =
     (if eg_name eventing = fst allowed \<and> eg_namespace eventing = snd allowed then ((True, None), k)
      else
        let errorMessage = ''Only a single Eventing CR with name: '' @ fst allowed @ '' and namespace: '' @ snd allowed @
              '' is allowed to be created in a Kyma cluster.'';
            e = map_status (UpdateConditionPublisherProxyReady (oe_conds env) (oe_now env) ConditionFalse
                  ConditionReasonForbidden errorMessage \<circ> SetStateError) eventing
        in case syncEventingStatus env e k of (err, k) \<Rightarrow> ((False, err), k))"

definition set_application_crd ::
  "bool \<Rightarrow> ('m, 'c, 'k) op_state \<Rightarrow> ('m, 'c, 'k) op_state" where
  "set_application_crd b s =
     (let bc = (op_backendConfig s)\<lparr>ebc_publisherConfig :=
                 (ebc_publisherConfig (op_backendConfig s))\<lparr>pc_applicationCRDEnabled := b\<rparr>\<rparr>
      in s\<lparr>op_backendConfig := bc, op_managerConfig := bc\<rparr>)"

text \<open>From the recording of the active backend on.\<close>

definition reconcile_spec_backend ::
  "('m, 'c, 'k) op_env \<Rightarrow> Eventing \<Rightarrow> ('m, 'c, 'k) op_state \<Rightarrow> ('m, 'c, 'k) handled" where
  "reconcile_spec_backend env e s =
     bindR (SyncStatusActiveBackend e, s) (\<lambda>eventing s.
     case ApplicationCRDExists (oe_client env) (op_k8s s) of
       Crash p \<Rightarrow> (Crash p, s)
     | Err err \<Rightarrow> returning no_requeue (syncStatusWithSubscriptionManagerErr env eventing err) s
     | Ret isApplicationCRDEnabled \<Rightarrow>
         let s = set_application_crd isApplicationCRDEnabled s in
         bindR (backend_type eventing, s) (\<lambda>ty s.
           if ty = NatsBackendType then reconcileNATSBackend env eventing s
           else if ty = EventMeshBackendType then reconcileEventMeshBackend env eventing s
           else (Ret (no_requeue, Some (Terminal (Wrapped ['''', '': '' @ ty] [ErrUnsupportedBackedType]))), s)))"

definition handleEventingReconcile ::
  "('m, 'c, 'k) op_env \<Rightarrow> Eventing \<Rightarrow> ('m, 'c, 'k) op_state \<Rightarrow> ('m, 'c, 'k) handled" where
  "handleEventingReconcile env eventing s =
     (if \<not> containsFinalizer_op env eventing
      then (case addFinalizer_op env eventing (op_k8s s) of (r, k) \<Rightarrow> (Ret r, s\<lparr>op_k8s := k\<rparr>))
      else
        let eventing = InitStateProcessing eventing in
        if HasEmptyBackend (eg_spec eventing)
        then returning no_requeue (syncStatusForEmptyBackend env ConditionBackendNotSpecifiedMessage eventing) s
        else on_err (handleBackendSwitching env (eventing, s))
               (\<lambda>err es. returning no_requeue (syncStatusWithSubscriptionManagerErr env (fst es) err) (snd es))
               crashed_cr
               (\<lambda>_ es. reconcile_spec_backend env (fst es) (snd es)))"

text \<open>The watches on cluster roles and bindings; they are set up again after a failure.\<close>

definition watch_cluster_scoped ::
  "('m, 'c, 'k) op_env \<Rightarrow> ('m, 'c, 'k) op_state \<Rightarrow> goerr option \<times> ('m, 'c, 'k) op_state" where
  "watch_cluster_scoped env s =
     (if op_clusterScopedResourcesWatched s then (None, s)
      else case watchResource env ''ClusterRole'' s of
        (Some err, s) \<Rightarrow> (Some err, s)
      | (None, s) \<Rightarrow>
          (case watchResource env ''ClusterRoleBinding'' s of
             (Some err, s) \<Rightarrow> (Some err, s)
           | (None, s) \<Rightarrow> (None, s\<lparr>op_clusterScopedResourcesWatched := True\<rparr>)))"

definition being_deleted :: "Eventing \<Rightarrow> bool" where
  "being_deleted e \<longleftrightarrow> (case eg_deletionTimestamp e of None \<Rightarrow> False | Some t \<Rightarrow> t \<noteq> 0)"

definition Reconcile_operator ::
  "('m, 'c, 'k) op_env \<Rightarrow> string \<Rightarrow> string \<Rightarrow> ('m, 'c, 'k) op_state \<Rightarrow> ('m, 'c, 'k) handled" where
  "Reconcile_operator env namespace name s =
     (case rc_GetEventing (oe_client env) namespace name (op_k8s s) of
        Inl err \<Rightarrow> (Ret (no_requeue, IgnoreNotFound err), s)
      | Inr eventingCR \<Rightarrow>
          (case watch_cluster_scoped env s of
             (Some err, s) \<Rightarrow> (Ret (no_requeue, Some err), s)
           | (None, s) \<Rightarrow>
               if being_deleted eventingCR then handleEventingDeletion env eventingCR s
               else case oe_allowedEventingCR env of
                 None \<Rightarrow> handleEventingReconcile env eventingCR s
               | Some allowed \<Rightarrow>
                   (case handleEventingCRAllowedCheck env allowed eventingCR (op_k8s s) of
                      ((result, err), k) \<Rightarrow>
                        if \<not> result \<or> err \<noteq> None then (Ret (no_requeue, err), s\<lparr>op_k8s := k\<rparr>)
                        else handleEventingReconcile env eventingCR (s\<lparr>op_k8s := k\<rparr>))))"

subsection \<open>Frame conditions\<close>

text \<open>
  A relation between the states before and after a call that does not depend on the outside
  world, the watchers, the connection or the configuration holds for all calls that leave the
  managers alone, and extends to the handlers from the calls that do not.
\<close>

locale op_frame =
  fixes R :: "('m, 'c, 'k) op_state \<Rightarrow> ('m, 'c, 'k) op_state \<Rightarrow> bool"
  assumes trans: "R a b \<Longrightarrow> R b c \<Longrightarrow> R a c" and refl: "R a a"
    and k8s: "R s (s\<lparr>op_k8s := k\<rparr>)"
    and watchers: "R s (s\<lparr>op_natsWatchers := ws\<rparr>)"
    and conn: "R s (s\<lparr>op_natsConnection := cn\<rparr>)"
    and config: "R s (s\<lparr>op_backendConfig := bc, op_managerConfig := bc\<rparr>)"
    and watched: "R s (s\<lparr>op_clusterScopedResourcesWatched := x\<rparr>)"
begin

lemma on_k8s_rel: "R s (snd (on_k8s f s))" and err_on_k8s_rel: "R s (snd (err_on_k8s g s))"
  by (simp_all add: on_k8s_def err_on_k8s_def k8s split: prod.split)

lemma returning_rel: "R s (snd (returning r f s))"
  using err_on_k8s_rel [of s f] by (auto simp: returning_def split: prod.splits)

lemma finalize_rel: "R s (snd (finalize env e s))"
  by (simp add: finalize_def k8s split: prod.split)

lemma terminal_rel: "R s (snd h) \<Longrightarrow> R s (snd (terminal h))"
  by (auto simp: terminal_def split: prod.splits result.splits)

lemma on_err_rel:
  assumes "R s (snd m)" and "\<And>e t. R t (snd (f e t))" and "\<And>a t. R t (snd (g a t))"
  shows "R s (snd (on_err m f crashed g))"
  using assms by (auto simp: on_err_def split: prod.splits result.splits) (metis snd_conv trans)+

lemma on_err_cr_rel:
  assumes "R s (snd (snd m))" and "\<And>e t. R (snd t) (snd (f e t))" and "\<And>a t. R (snd t) (snd (g a t))"
  shows "R s (snd (on_err m f crashed_cr g))"
  using assms by (auto simp: on_err_def split: prod.splits result.splits) (metis snd_conv trans)+

lemma step:
  assumes "R s (snd m)" and "\<And>a t. R t (snd (f a t))"
  shows "R s (snd (bindR m f))"
  by (rule bindR_rel [where R = R]) (use assms trans in blast)+

lemma watch_rel: "R s (snd (watchResource env kind s))"
  by (simp add: watchResource_def err_on_k8s_rel)

lemma watch_cluster_scoped_rel: "R s (snd (watch_cluster_scoped env s))"
proof (cases "watchResource env ''ClusterRole'' s")
  case (Pair r t)
  then have t: "R s t" using watch_rel [of s env "''ClusterRole''"] by simp
  show ?thesis
  proof (cases "watchResource env ''ClusterRoleBinding'' t")
    case (Pair r' u)
    then have "R t u" using watch_rel [of t env "''ClusterRoleBinding''"] by simp
    with t have u: "R s u" by (rule trans)
    then have "R s (u\<lparr>op_clusterScopedResourcesWatched := True\<rparr>)" by (rule trans) (rule watched)
    with t u Pair \<open>watchResource env ''ClusterRole'' s = (r, t)\<close> show ?thesis
      by (simp add: watch_cluster_scoped_def refl split: option.split)
  qed
qed

lemma startNATSCRWatch_rel: "R s (snd (startNATSCRWatch env e s))"
proof -
  have "R s (s\<lparr>op_k8s := k, op_natsWatchers := ws\<rparr>)" for k ws
    by (rule trans [OF k8s]) (rule watchers)
  then show ?thesis by (simp add: startNATSCRWatch_def Let_def refl split: prod.split option.split)
qed

lemma stopNATSCRWatch_rel: "R s (snd (stopNATSCRWatch env e s))"
proof (cases "op_natsWatchers s (eg_namespace e)")
  case (Some w)
  have "R s (snd (bindR (on_k8s (Stop_watcher (oe_informer env) w) s) (\<lambda>_ s.
      (Ret (), s\<lparr>op_natsWatchers := (op_natsWatchers s)(eg_namespace e := None)\<rparr>))))"
    by (rule step) (simp_all add: on_k8s_rel watchers)
  with Some show ?thesis by (simp add: stopNATSCRWatch_def)
qed (simp add: stopNATSCRWatch_def refl)

lemma connectToNATS_rel: "R s (snd (connectToNATS env e s))"
proof -
  have "R s (s\<lparr>op_natsConnection := c, op_k8s := k\<rparr>)" for c k
    by (rule trans [OF conn]) (rule k8s)
  then show ?thesis by (simp add: connectToNATS_def Let_def split: prod.split)
qed

lemma disconnect_rel: "R s (disconnect_nats env s)"
  by (simp add: disconnect_nats_def refl k8s split: option.split)

lemma handlePublisherProxy_rel: "R s (snd (handlePublisherProxy env e ty s))"
  unfolding handlePublisherProxy_def
  by (rule step, simp add: refl, rule step, simp add: on_k8s_rel, rule step) (simp_all add: on_k8s_rel refl)

lemma step_cr:
  assumes "R s (snd (snd m))" and "\<And>a es. R (snd es) (snd (snd (f a es)))"
  shows "R s (snd (snd (bindR m f)))"
proof -
  obtain r es where m: "m = (r, es)" by (cases m)
  show ?thesis using assms(1) trans [OF _ assms(2)] m by (cases r) auto
qed

lemma stop_previous_rel:
  assumes "\<And>s. R s (snd (stopNATSSubManager env True s))" and "\<And>s. R s (snd (stopEventMeshSubManager env True s))"
  shows "R s (snd (stop_previous env e s))"
proof -
  have "R s (snd (bindR (stopNATSSubManager env True s) (\<lambda>_ s.
      bindR (stopNATSCRWatch env e s) (\<lambda>_ s. (Ret (), disconnect_nats env s)))))"
    by (intro step) (simp_all add: assms stopNATSCRWatch_rel disconnect_rel)
  then show ?thesis by (simp add: stop_previous_def assms)
qed

lemma handleBackendSwitching_rel:
  assumes "\<And>s. R s (snd (stopNATSSubManager env True s))" and "\<And>s. R s (snd (stopEventMeshSubManager env True s))"
  shows "R (snd es) (snd (snd (handleBackendSwitching env es)))"
proof -
  have "R (snd es) (snd (snd (switch_backend env es)))" for es
    unfolding switch_backend_def Let_def
    by (rule step_cr) (simp_all add: stop_previous_rel [OF assms] on_k8s_rel)
  then show ?thesis by (simp add: handleBackendSwitching_def bindR_pure refl split: result.split)
qed

lemma run_eventmesh_rel: "R s (snd (run_eventmesh env e s))"
  unfolding run_eventmesh_def
  by (rule step, simp add: refl, rule on_err_rel) (simp_all add: handlePublisherProxy_rel returning_rel on_k8s_rel)

lemma run_nats_rel:
  assumes "\<And>e s. R s (snd (reconcileNATSSubManager env e s))"
  shows "R s (snd (run_nats env e s))"
  unfolding run_nats_def
  by (rule step, simp add: refl, rule on_err_rel, simp_all add: handlePublisherProxy_rel returning_rel,
      rule on_err_rel) (simp_all add: assms returning_rel on_k8s_rel)

lemma reconcileNATSBackend_rel:
  assumes "\<And>e s. R s (snd (reconcileNATSSubManager env e s))"
  shows "R s (snd (reconcileNATSBackend env e s))"
proof -
  obtain r t where t: "startNATSCRWatch env e s = (r, t)" by (cases "startNATSCRWatch env e s")
  obtain r' u where u: "connectToNATS env e t = (r', u)" by (cases "connectToNATS env e t")
  have st: "R s t" using startNATSCRWatch_rel [of s env e] t by simp
  have "R t u" using connectToNATS_rel [of t env e] u by simp
  with st have su: "R s u" by (rule trans)
  have "R s (snd (on_err (on_k8s (DeletePublisherProxyResources c e) s)
      (\<lambda>delErr s. (Ret (no_requeue, Some delErr), s)) crashed (\<lambda>_. returning no_requeue f)))" for c f
    by (rule on_err_rel) (simp_all add: on_k8s_rel refl returning_rel)
  moreover have "R s (snd (returning q f t))" for q f by (rule trans [OF st returning_rel])
  moreover have "R s (snd (returning q f u))" for q f by (rule trans [OF su returning_rel])
  moreover have "R s (snd (run_nats env e' u))" for e' by (rule trans [OF su run_nats_rel [OF assms]])
  ultimately show ?thesis
    using t u
    by (simp add: reconcileNATSBackend_def Let_def refl terminal_rel split: result.split option.split)
qed

lemma reconcileEventMeshBackend_rel:
  assumes "\<And>sec es. R (snd es) (snd (snd (reconcileEventMeshSubManager env sec es)))"
  shows "R s (snd (reconcileEventMeshBackend env e s))"
proof -
  have failed: "R (snd es) (snd (eventmesh_failed env err es))" for es err
    by (simp add: eventmesh_failed_def returning_rel)
  have "R s (snd (on_err (reconcileEventMeshSubManager env sec (e, s)) (eventmesh_failed env) crashed_cr
      (\<lambda>_ es. run_eventmesh env (f (fst es)) (snd es))))" for s sec f
    using assms [of "(e, s)" sec] by (intro on_err_cr_rel) (simp_all add: failed run_eventmesh_rel)
  then have "R s (snd (on_err (r, s) (eventmesh_secret_failed env e) crashed (\<lambda>sec s.
      on_err (reconcileEventMeshSubManager env sec (e, s)) (eventmesh_failed env) crashed_cr
      (\<lambda>_ es. run_eventmesh env (f (fst es)) (snd es)))))" for s r f
    by (intro on_err_rel) (simp_all add: refl eventmesh_secret_failed_def returning_rel)
  then show ?thesis
    by (simp add: reconcileEventMeshBackend_def returning_rel refl bindR_pure split: result.split bool.split)
qed

end

text \<open>No manager is started.\<close>

definition starts_none :: "('m, 'c, 'k) op_state \<Rightarrow> ('m, 'c, 'k) op_state \<Rightarrow> bool" where
  "starts_none s t \<longleftrightarrow>
     (op_isNATSSubManagerStarted t \<longrightarrow> op_isNATSSubManagerStarted s) \<and>
     (op_isEventMeshSubManagerStarted t \<longrightarrow> op_isEventMeshSubManagerStarted s)"

interpretation nats_kept: op_frame same_nats
  by unfold_locales (auto simp: same_nats_def)

interpretation eventmesh_kept: op_frame same_eventmesh
  by unfold_locales (auto simp: same_eventmesh_def)

interpretation slots_kept: op_frame keeps_ok
  by unfold_locales (auto simp: keeps_ok_def slots_ok_def)

interpretation none_started: op_frame starts_none
  by unfold_locales (auto simp: starts_none_def)

lemma stop_starts_none:
  "starts_none s (snd (stopNATSSubManager env c s))" "starts_none s (snd (stopEventMeshSubManager env c s))"
  by (auto simp: starts_none_def stopNATSSubManager_def stopEventMeshSubManager_def split: option.splits prod.splits result.splits)

text \<open>The running managers are those of one backend.\<close>

definition runs_only :: "string \<Rightarrow> ('m, 'c, 'k) op_state \<Rightarrow> bool" where
  "runs_only ty s \<longleftrightarrow>
     (op_isNATSSubManagerStarted s \<longrightarrow> ty = NatsBackendType) \<and>
     (op_isEventMeshSubManagerStarted s \<longrightarrow> ty = EventMeshBackendType)"

lemma runs_only_starts_none: "runs_only ty s \<Longrightarrow> starts_none s t \<Longrightarrow> runs_only ty t"
  by (auto simp: runs_only_def starts_none_def)

lemma stop_previous_starts_none: "starts_none s (snd (stop_previous env e s))"
  and switching_starts_none: "starts_none (snd es) (snd (snd (handleBackendSwitching env es)))"
  by (rule none_started.stop_previous_rel none_started.handleBackendSwitching_rel; rule stop_starts_none)+

lemma handleBackendSwitching_cases:
  assumes "handleBackendSwitching env (e, s) = (r, (e', t))" and "backend_type e = Ret ty"
  shows "(IsPreviousBackendEmpty e \<or> gs_activeBackend (eg_status e) = ty) \<and> r = Ret () \<and> e' = e \<and> t = s \<or>
    \<not> IsPreviousBackendEmpty e \<and> gs_activeBackend (eg_status e) \<noteq> ty \<and> switch_backend env (e, s) = (r, (e', t))"
  using assms
  by (simp add: handleBackendSwitching_def IsSpecBackendTypeChanged_def backend_type_def split: option.splits if_splits)

lemma switch_backend_RetE:
  assumes "switch_backend env (e, s) = (Ret (), (e', t))"
  obtains u k where "stop_previous env e s = (Ret (), u)"
    and "e' = map_status (ClearConditions_eventing \<circ> SetStateProcessing) e"
    and "DeletePublisherProxyResources (oe_client env) e' (op_k8s u) = (Ret (), k)" and "t = u\<lparr>op_k8s := k\<rparr>"
proof -
  from assms obtain es1 where 1: "with_cr (stop_previous env e) (e, s) = (Ret (), es1)"
    and 2: "with_cr (on_k8s (DeletePublisherProxyResources (oe_client env)
        (map_status (ClearConditions_eventing \<circ> SetStateProcessing) (fst es1))))
      (map_status (ClearConditions_eventing \<circ> SetStateProcessing) (fst es1), snd es1) = (Ret (), (e', t))"
    by (auto simp: switch_backend_def Let_def elim!: bindR_RetE)
  show ?thesis
    using 1 2 by (intro that [of "snd es1" "op_k8s t"]) (simp_all add: with_cr_Ret on_k8s_def split: prod.splits, auto)
qed

text \<open>What \<open>stop_previous\<close> leaves behind.\<close>

lemma stop_previous_Ret:
  assumes "stop_previous env e s = (Ret (), t)" and "slots_ok s"
  shows "if gs_activeBackend (eg_status e) = NatsBackendType
    then \<not> op_isNATSSubManagerStarted t \<and> op_natsWatchers t (eg_namespace e) = None
    else \<not> op_isEventMeshSubManagerStarted t"
proof (cases "gs_activeBackend (eg_status e) = NatsBackendType")
  case True
  then obtain u v where u: "stopNATSSubManager env True s = (Ret (), u)"
      and v: "stopNATSCRWatch env e u = (Ret (), v)" and t: "t = disconnect_nats env v"
    using assms(1) by (auto simp: stop_previous_def elim!: bindR_RetE)
  have "\<not> op_isNATSSubManagerStarted u"
    using nats_slot.stop_stops [OF _ u] assms(2) by (auto simp: slots_ok_def)
  moreover have "same_nats u v" using nats_kept.stopNATSCRWatch_rel [of u env e] v by simp
  moreover have "same_nats v t" using nats_kept.disconnect_rel t by blast
  moreover have "op_natsWatchers v (eg_namespace e) = None"
    using v by (auto simp: stopNATSCRWatch_def elim!: bindR_RetE split: option.splits)
  moreover have "op_natsWatchers t = op_natsWatchers v"
    by (simp add: t disconnect_nats_def split: option.split)
  ultimately show ?thesis using True by (simp add: same_nats_def)
next
  case False
  then show ?thesis
    using assms em_slot.stop_stops [of s env True t] by (auto simp: stop_previous_def slots_ok_def)
qed

lemma switching_runs_only:
  assumes "handleBackendSwitching env (e, s) = (Ret (), (e', t))" and "slots_ok s"
    and "runs_only (gs_activeBackend (eg_status e)) s" and "backend_type e = Ret ty"
  shows "runs_only ty t"
proof -
  consider "t = s" "gs_activeBackend (eg_status e) = '''' \<or> gs_activeBackend (eg_status e) = ty"
    | "switch_backend env (e, s) = (Ret (), (e', t))"
    using handleBackendSwitching_cases [OF assms(1,4)] by (auto simp: IsPreviousBackendEmpty_def)
  then show ?thesis
  proof cases
    case 1
    then show ?thesis using assms(3) by (auto simp: runs_only_def)
  next
    case 2
    then obtain u k where u: "stop_previous env e s = (Ret (), u)" and t: "t = u\<lparr>op_k8s := k\<rparr>"
      by (rule switch_backend_RetE)
    have "starts_none s u" using stop_previous_starts_none [of s env e] u by simp
    moreover have "\<not> op_isNATSSubManagerStarted u \<and> \<not> op_isEventMeshSubManagerStarted u"
      using stop_previous_Ret [OF u assms(2)] assms(3) calculation
      by (cases "gs_activeBackend (eg_status e) = NatsBackendType") (simp_all add: runs_only_def starts_none_def)
    ultimately show ?thesis by (simp add: t runs_only_def)
  qed
qed

subsection \<open>Never two running managers\<close>

lemma set_application_crd_rel [simp]:
  "same_nats s (set_application_crd b s)" "same_eventmesh s (set_application_crd b s)"
  unfolding set_application_crd_def Let_def by (rule nats_kept.config eventmesh_kept.config)+

lemma backend_type_frame [simp]:
  "backend_type (map_status g e) = backend_type e"
  "SyncStatusActiveBackend e = Ret e' \<Longrightarrow> backend_type e' = backend_type e"
  by (auto simp: backend_type_def map_status_def SyncStatusActiveBackend_def split: option.splits)

lemma reconcile_spec_backend_cases:
  assumes "backend_type e = Ret ty"
  obtains (failed) r q where "reconcile_spec_backend env e s = returning r q s" 
    | (crash) p where "reconcile_spec_backend env e s = (Crash p, s)"
    | (nats) e' b where "ty = NatsBackendType" and "backend_type e' = Ret ty"
      and "reconcile_spec_backend env e s = reconcileNATSBackend env e' (set_application_crd b s)"
    | (eventmesh) e' b where "ty = EventMeshBackendType" and "backend_type e' = Ret ty"
      and "reconcile_spec_backend env e s = reconcileEventMeshBackend env e' (set_application_crd b s)"
    | (unsupported) b err where "reconcile_spec_backend env e s = (Ret (no_requeue, Some err), set_application_crd b s)"
proof -
  obtain e' where e': "SyncStatusActiveBackend e = Ret e'"
    using assms by (auto simp: SyncStatusActiveBackend_def backend_type_def split: option.splits)
  then have ty: "backend_type e' = Ret ty" using assms by simp
  show ?thesis
  proof (cases "ApplicationCRDExists (oe_client env) (op_k8s s)")
    case (Ret b)
    consider "ty = NatsBackendType" | "ty \<noteq> NatsBackendType" "ty = EventMeshBackendType"
      | "ty \<noteq> NatsBackendType" "ty \<noteq> EventMeshBackendType" by blast
    then show ?thesis
      using Ret e' ty that(3) [of e' b] that(4) [of e' b] that(5) [of _ b]
      by cases (simp_all add: reconcile_spec_backend_def Let_def)
  next
    case (Err err)
    then show ?thesis using e' that(1) by (simp add: reconcile_spec_backend_def)
  next
    case (Crash p)
    then show ?thesis using e' that(2) by (simp add: reconcile_spec_backend_def)
  qed
qed

lemma reconcile_spec_backend_frame:
  assumes "backend_type e = Ret ty"
  shows "(ty \<noteq> NatsBackendType \<longrightarrow> same_nats s (snd (reconcile_spec_backend env e s))) \<and>
    (ty \<noteq> EventMeshBackendType \<longrightarrow> same_eventmesh s (snd (reconcile_spec_backend env e s)))"
  using assms
proof (cases rule: reconcile_spec_backend_cases [of _ _ env s])
  case (failed r q)
  then show ?thesis by (simp add: nats_kept.returning_rel eventmesh_kept.returning_rel)
next
  case (nats e' b)
  have "same_eventmesh (set_application_crd b s) (snd (reconcileNATSBackend env e' (set_application_crd b s)))"
    by (rule eventmesh_kept.reconcileNATSBackend_rel) (rule reconcileNATSSubManager_frame)
  then have "same_eventmesh s (snd (reconcile_spec_backend env e s))"
    unfolding nats(3) by (rule eventmesh_kept.trans [rotated]) simp
  with nats show ?thesis by simp
next
  case (eventmesh e' b)
  have "same_nats (set_application_crd b s) (snd (reconcileEventMeshBackend env e' (set_application_crd b s)))"
    by (rule nats_kept.reconcileEventMeshBackend_rel) (rule reconcileEventMeshSubManager_frame)
  then have "same_nats s (snd (reconcile_spec_backend env e s))"
    unfolding eventmesh(3) by (rule nats_kept.trans [rotated]) simp
  with eventmesh show ?thesis by simp
qed simp_all

text \<open>A manager that runs after a reconciliation and did not run before is the one of the spec.\<close>

definition starts_spec_only :: "Eventing \<Rightarrow> ('m, 'c, 'k) op_state \<Rightarrow> ('m, 'c, 'k) op_state \<Rightarrow> bool" where
  "starts_spec_only e s t \<longleftrightarrow>
     (op_isNATSSubManagerStarted t \<and> \<not> op_isNATSSubManagerStarted s \<longrightarrow> backend_type e = Ret NatsBackendType) \<and>
     (op_isEventMeshSubManagerStarted t \<and> \<not> op_isEventMeshSubManagerStarted s \<longrightarrow>
        backend_type e = Ret EventMeshBackendType)"

lemma starts_spec_only_none: "starts_none s t \<Longrightarrow> starts_spec_only e s t"
  by (auto simp: starts_none_def starts_spec_only_def)

lemma starts_spec_only_reconcile:
  assumes "backend_type e' = Ret ty" and "backend_type e = Ret ty" and "starts_none s0 s"
  shows "starts_spec_only e s0 (snd (reconcile_spec_backend env e' s))"
  using reconcile_spec_backend_frame [OF assms(1), of s env] assms(2,3)
  by (cases "ty = NatsBackendType"; cases "ty = EventMeshBackendType")
     (auto simp: starts_spec_only_def same_nats_def same_eventmesh_def starts_none_def)

text \<open>The managers that run after a reconciliation are those of one backend, and a new one is the one of the spec.\<close>

definition one_backend :: "Eventing \<Rightarrow> ('m, 'c, 'k) op_state \<Rightarrow> ('m, 'c, 'k) op_state \<Rightarrow> bool" where
  "one_backend e s t \<longleftrightarrow>
     \<not> (op_isNATSSubManagerStarted t \<and> op_isEventMeshSubManagerStarted t) \<and> starts_spec_only e s t"

lemma one_backend_starts_none: "runs_only ty s \<Longrightarrow> starts_none s t \<Longrightarrow> one_backend e s t"
  by (auto simp: runs_only_def starts_none_def one_backend_def starts_spec_only_def)

lemma delete_backend_starts_none: "starts_none s (snd (delete_backend env e ty s))"
  unfolding delete_backend_def Let_def
  by (rule none_started.on_err_rel, simp add: stop_starts_none, simp add: none_started.returning_rel,
      rule none_started.on_err_rel)
     (simp_all add: none_started.on_k8s_rel none_started.returning_rel none_started.finalize_rel)

lemma handleEventingDeletion_starts_none: "starts_none s (snd (handleEventingDeletion env e s))"
  by (simp add: handleEventingDeletion_def none_started.refl none_started.finalize_rel none_started.returning_rel
      delete_backend_starts_none split: option.split result.split bool.split)

lemma one_backend_reconcile:
  assumes "runs_only ty s" and "backend_type e' = Ret ty" and "backend_type e = Ret ty" and "starts_none s0 s"
  shows "one_backend e s0 (snd (reconcile_spec_backend env e' s))"
proof -
  note frame = reconcile_spec_backend_frame [OF assms(2), of s env]
  consider "ty = NatsBackendType" "ty \<noteq> EventMeshBackendType" | "ty = EventMeshBackendType" "ty \<noteq> NatsBackendType"
    | "ty \<noteq> NatsBackendType" "ty \<noteq> EventMeshBackendType"
    by auto
  then show ?thesis
    using frame assms(1,3,4)
    by cases (simp_all add: one_backend_def starts_spec_only_def runs_only_def same_nats_def same_eventmesh_def starts_none_def)
qed

lemma InitStateProcessing_frame [simp]:
  "gs_activeBackend (eg_status (InitStateProcessing e)) = gs_activeBackend (eg_status e)"
  "eg_spec (InitStateProcessing e) = eg_spec e" "backend_type (InitStateProcessing e) = backend_type e"
  by (simp_all add: InitStateProcessing_def map_status_def SetStateProcessing_def backend_type_def)

lemma switch_keeps_spec:
  "handleBackendSwitching env (e, s) = (Ret (), (e', t)) \<Longrightarrow> backend_type e = Ret ty \<Longrightarrow> backend_type e' = Ret ty"
  by (drule (1) handleBackendSwitching_cases) (auto elim: switch_backend_RetE)

lemma handleEventingReconcile_one_backend:
  assumes "slots_ok s" and "runs_only (gs_activeBackend (eg_status e)) s"
  shows "one_backend e s (snd (handleEventingReconcile env e s))"
proof (cases "containsFinalizer_op env e \<and> \<not> HasEmptyBackend (eg_spec e)")
  case False
  have "starts_none s (snd (handleEventingReconcile env e s))"
    using False
    by (auto simp: handleEventingReconcile_def Let_def none_started.k8s none_started.returning_rel split: prod.split)
  then show ?thesis by (rule one_backend_starts_none [OF assms(2)])
next
  case True
  then obtain b where b: "es_backend (eg_spec e) = Some b" by (auto simp: HasEmptyBackend_def split: option.splits)
  then have ty: "backend_type e = Ret (eb_type b)" by (simp add: backend_type_def)
  let ?e = "InitStateProcessing e"
  obtain r e' t where sw: "handleBackendSwitching env (?e, s) = (r, (e', t))" by (metis prod.exhaust)
  have t: "starts_none s t" using switching_starts_none [of "(?e, s)" env] sw by simp
  have run: "handleEventingReconcile env e s = (case r of
      Ret _ \<Rightarrow> reconcile_spec_backend env e' t
    | Err err \<Rightarrow> returning no_requeue (syncStatusWithSubscriptionManagerErr env e' err) t
    | Crash p \<Rightarrow> (Crash p, t))"
    using True sw by (simp add: handleEventingReconcile_def Let_def on_err_def split: result.split)
  show ?thesis
  proof (cases r)
    case (Ret u)
    with sw have sw': "handleBackendSwitching env (?e, s) = (Ret (), (e', t))" by simp
    have "backend_type e' = Ret (eb_type b)" using switch_keeps_spec [OF sw'] ty by simp
    moreover have "runs_only (eb_type b) t" using switching_runs_only [OF sw' assms(1)] assms(2) ty by simp
    ultimately show ?thesis using one_backend_reconcile t ty run Ret by simp
  next
    case (Err err)
    then show ?thesis
      using run one_backend_starts_none [OF assms(2)] none_started.trans [OF t none_started.returning_rel] by simp
  next
    case (Crash p)
    then show ?thesis using run one_backend_starts_none [OF assms(2) t] by simp
  qed
qed

lemma handleEventingReconcile_starts_spec_only: "starts_spec_only e s (snd (handleEventingReconcile env e s))"
proof (cases "containsFinalizer_op env e \<and> \<not> HasEmptyBackend (eg_spec e)")
  case False
  have "starts_none s (snd (handleEventingReconcile env e s))"
    using False
    by (auto simp: handleEventingReconcile_def Let_def none_started.k8s none_started.returning_rel split: prod.split)
  then show ?thesis by (rule starts_spec_only_none)
next
  case True
  then obtain b where "es_backend (eg_spec e) = Some b" by (auto simp: HasEmptyBackend_def split: option.splits)
  then have ty: "backend_type e = Ret (eb_type b)" by (simp add: backend_type_def)
  obtain r e' t where sw: "handleBackendSwitching env (InitStateProcessing e, s) = (r, (e', t))" by (metis prod.exhaust)
  have t: "starts_none s t" using switching_starts_none [of "(InitStateProcessing e, s)" env] sw by simp
  have run: "handleEventingReconcile env e s = (case r of
      Ret _ \<Rightarrow> reconcile_spec_backend env e' t
    | Err err \<Rightarrow> returning no_requeue (syncStatusWithSubscriptionManagerErr env e' err) t
    | Crash p \<Rightarrow> (Crash p, t))"
    using True sw by (simp add: handleEventingReconcile_def Let_def on_err_def split: result.split)
  show ?thesis
  proof (cases r)
    case (Ret u)
    with sw have "backend_type e' = Ret (eb_type b)" using switch_keeps_spec ty by fastforce
    with run Ret show ?thesis by (simp add: starts_spec_only_reconcile ty t)
  qed (simp_all add: run starts_spec_only_none t none_started.trans [OF t none_started.returning_rel])
qed

text \<open>A relation that starting and stopping the managers keeps is kept by a whole reconciliation.\<close>

context op_frame
begin

lemma reconcile_spec_backend_rel:
  assumes "\<And>e s. R s (snd (reconcileNATSSubManager env e s))"
    and "\<And>sec es. R (snd es) (snd (snd (reconcileEventMeshSubManager env sec es)))"
  shows "R s (snd (reconcile_spec_backend env e s))"
proof (cases "backend_type e")
  case (Ret ty)
  have crd: "R s (set_application_crd b s)" for b unfolding set_application_crd_def Let_def by (rule config)
  from Ret show ?thesis
    by (cases rule: reconcile_spec_backend_cases [of _ _ env s])
       (auto simp: refl returning_rel crd intro: trans [OF crd] reconcileNATSBackend_rel reconcileEventMeshBackend_rel assms)
qed (auto simp: refl reconcile_spec_backend_def SyncStatusActiveBackend_def backend_type_def split: option.splits)

lemma handleEventingDeletion_rel:
  assumes "\<And>s. R s (snd (stopNATSSubManager env True s))" and "\<And>s. R s (snd (stopEventMeshSubManager env True s))"
  shows "R s (snd (handleEventingDeletion env e s))"
proof -
  have "R s (snd (delete_backend env e ty s))" for s ty
    unfolding delete_backend_def Let_def
    by (rule on_err_rel, simp add: assms, simp add: returning_rel, rule on_err_rel)
       (simp_all add: on_k8s_rel returning_rel finalize_rel)
  then show ?thesis
    by (simp add: handleEventingDeletion_def refl finalize_rel returning_rel split: option.split result.split bool.split)
qed

lemma handleEventingReconcile_rel:
  assumes "\<And>s. R s (snd (stopNATSSubManager env True s))" and "\<And>s. R s (snd (stopEventMeshSubManager env True s))"
    and "\<And>e s. R s (snd (reconcileNATSSubManager env e s))"
    and "\<And>sec es. R (snd es) (snd (snd (reconcileEventMeshSubManager env sec es)))"
  shows "R s (snd (handleEventingReconcile env e s))"
proof -
  have "R s (snd (on_err (handleBackendSwitching env (e, s))
      (\<lambda>err es. returning no_requeue (g (fst es) err) (snd es)) crashed_cr
      (\<lambda>_ es. reconcile_spec_backend env (fst es) (snd es))))" for e g
    using handleBackendSwitching_rel [OF assms(1,2), of "(e, s)"]
    by (intro on_err_cr_rel) (simp_all add: returning_rel reconcile_spec_backend_rel [OF assms(3,4)])
  then show ?thesis
    by (simp add: handleEventingReconcile_def Let_def returning_rel k8s split: prod.split)
qed

lemma Reconcile_rel:
  assumes "\<And>s. R s (snd (stopNATSSubManager env True s))" and "\<And>s. R s (snd (stopEventMeshSubManager env True s))"
    and "\<And>e s. R s (snd (reconcileNATSSubManager env e s))"
    and "\<And>sec es. R (snd es) (snd (snd (reconcileEventMeshSubManager env sec es)))"
  shows "R s (snd (Reconcile_operator env ns name s))"
proof -
  obtain err t where t: "watch_cluster_scoped env s = (err, t)" by (cases "watch_cluster_scoped env s")
  then have st: "R s t" using watch_cluster_scoped_rel [of s env] by simp
  moreover have "R s (snd (handleEventingDeletion env e t))" for e
    by (rule trans [OF st handleEventingDeletion_rel]) (rule assms)+
  moreover have tk: "R s (t\<lparr>op_k8s := k\<rparr>)" for k by (rule trans [OF st k8s])
  moreover have "R s (snd (handleEventingReconcile env e (t\<lparr>op_k8s := k\<rparr>)))" for e k
    by (rule trans [OF tk handleEventingReconcile_rel]) (rule assms)+
  moreover have "R s (snd (handleEventingReconcile env e t))" for e
    by (rule trans [OF st handleEventingReconcile_rel]) (rule assms)+
  ultimately show ?thesis
    using t by (simp add: Reconcile_operator_def refl split: sum.split option.split prod.split)
qed

end

lemma Reconcile_keeps_ok: "slots_ok s \<Longrightarrow> slots_ok (snd (Reconcile_operator env ns name s))"
  using slots_kept.Reconcile_rel [OF nats_ops_keep_ok(1) eventmesh_ops_keep_ok(1)
      reconcileNATSSubManager_frame(2) reconcileEventMeshSubManager_frame(2)]
  unfolding keeps_ok_def by blast

text \<open>
  The handler that \<open>Reconcile\<close> reaches: the deletion, the reconciliation proper, or none.
\<close>

lemma Reconcile_cases:
  assumes "rc_GetEventing (oe_client env) ns name (op_k8s s) = Inr e"
  obtains (none) r t where "Reconcile_operator env ns name s = (r, t)" and "same_nats s t" and "same_eventmesh s t"
    | (deletion) t where "being_deleted e" and "watch_cluster_scoped env s = (None, t)"
      and "Reconcile_operator env ns name s = handleEventingDeletion env e t"
    | (reconcile) t k where "\<not> being_deleted e" and "watch_cluster_scoped env s = (None, t)"
      and "Reconcile_operator env ns name s = handleEventingReconcile env e (t\<lparr>op_k8s := k\<rparr>)"
proof -
  obtain err t where t: "watch_cluster_scoped env s = (err, t)" by (cases "watch_cluster_scoped env s")
  have st: "same_nats s t" "same_eventmesh s t"
    using nats_kept.watch_cluster_scoped_rel [of s env] eventmesh_kept.watch_cluster_scoped_rel [of s env] t by simp_all
  then have tk: "same_nats s (t\<lparr>op_k8s := k\<rparr>)" "same_eventmesh s (t\<lparr>op_k8s := k\<rparr>)" for k
    by (simp_all add: same_nats_def same_eventmesh_def)
  consider (err) x where "err = Some x" | (del) "err = None" "being_deleted e"
    | (any) "err = None" "\<not> being_deleted e" "oe_allowedEventingCR env = None"
    | (check) a where "err = None" "\<not> being_deleted e" "oe_allowedEventingCR env = Some a" by blast
  then show ?thesis
  proof cases
    case err
    with t st none assms show ?thesis by (simp add: Reconcile_operator_def)
  next
    case del
    with t deletion assms show ?thesis by (simp add: Reconcile_operator_def)
  next
    case any
    with t reconcile [of t "op_k8s t"] assms show ?thesis by (simp add: Reconcile_operator_def)
  next
    case check
    obtain r x k where c: "handleEventingCRAllowedCheck env a e (op_k8s t) = ((r, x), k)" by (metis prod.exhaust)
    show ?thesis
    proof (cases "\<not> r \<or> x \<noteq> None")
      case True
      with check t c tk [of k] none assms show ?thesis by (simp add: Reconcile_operator_def)
    next
      case False
      with check t c reconcile assms show ?thesis by (simp add: Reconcile_operator_def)
    qed
  qed
qed

lemma same_managers:
  assumes "same_nats s t" and "same_eventmesh s t"
  shows "slots_ok t = slots_ok s" "runs_only ty t = runs_only ty s" "one_backend e t u = one_backend e s u"
    "starts_none s t" "starts_spec_only e t u = starts_spec_only e s u"
  using assms by (simp_all add: same_nats_def same_eventmesh_def slots_ok_def runs_only_def one_backend_def
      starts_none_def starts_spec_only_def)

text \<open>Whatever runs before a reconciliation, it starts no other manager than the one of the spec.\<close>

lemma Reconcile_starts_spec_only:
  assumes "rc_GetEventing (oe_client env) ns name (op_k8s s) = Inr e"
  shows "starts_spec_only e s (snd (Reconcile_operator env ns name s))"
proof -
  have frame: "same_nats s t" "same_eventmesh s t" if "watch_cluster_scoped env s = (None, t)" for t
    using nats_kept.watch_cluster_scoped_rel [of s env] eventmesh_kept.watch_cluster_scoped_rel [of s env] that by simp_all
  from assms show ?thesis
  proof (cases rule: Reconcile_cases)
    case (none r t)
    then show ?thesis using starts_spec_only_none [OF same_managers(4) [OF none(2,3)]] by simp
  next
    case (deletion t)
    then show ?thesis
      using starts_spec_only_none [OF none_started.trans [OF _ handleEventingDeletion_starts_none]]
        same_managers(4) [OF frame [OF deletion(2)]] by simp
  next
    case (reconcile t k)
    have same: "same_nats s (t\<lparr>op_k8s := k\<rparr>)" "same_eventmesh s (t\<lparr>op_k8s := k\<rparr>)"
      using frame [OF reconcile(2)] by (simp_all add: same_nats_def same_eventmesh_def)
    show ?thesis
      using handleEventingReconcile_starts_spec_only [of e "t\<lparr>op_k8s := k\<rparr>" env]
      by (simp add: same_managers(5) [OF same] reconcile(3))
  qed
qed

text \<open>
  C1. Whatever is running before, a reconciliation starts no other subscription manager than the one
  of the backend in the spec, and every manager that runs afterwards is there, if that was so before. If no other manager than
  that of the recorded active backend is running before, the managers do not both run
  afterwards. This holds for every result, errors and panics included. Without that condition the
  last statement is false: \<open>unchanged_backend_keeps_other_manager\<close> below.
\<close>

theorem Reconcile_one_backend:
  assumes "rc_GetEventing (oe_client env) ns name (op_k8s s) = Inr e" and "slots_ok s"
  shows "starts_spec_only e s (snd (Reconcile_operator env ns name s)) \<and>
    slots_ok (snd (Reconcile_operator env ns name s)) \<and>
    (runs_only (gs_activeBackend (eg_status e)) s \<longrightarrow>
       one_backend e s (snd (Reconcile_operator env ns name s)))"
proof (intro conjI impI)
  show "starts_spec_only e s (snd (Reconcile_operator env ns name s))"
    by (rule Reconcile_starts_spec_only) (rule assms(1))
  show "slots_ok (snd (Reconcile_operator env ns name s))" by (rule Reconcile_keeps_ok) (rule assms(2))
  assume runs: "runs_only (gs_activeBackend (eg_status e)) s"
  have frame: "same_nats s t" "same_eventmesh s t" if "watch_cluster_scoped env s = (None, t)" for t
    using nats_kept.watch_cluster_scoped_rel [of s env] eventmesh_kept.watch_cluster_scoped_rel [of s env] that by simp_all
  from assms(1) show "one_backend e s (snd (Reconcile_operator env ns name s))"
  proof (cases rule: Reconcile_cases)
    case (none r t)
    then show ?thesis using one_backend_starts_none [OF runs same_managers(4) [OF none(2,3)]] by simp
  next
    case (deletion t)
    then show ?thesis
      using one_backend_starts_none [OF runs none_started.trans [OF _ handleEventingDeletion_starts_none]]
        same_managers(4) [OF frame [OF deletion(2)]] by simp
  next
    case (reconcile t k)
    have same: "same_nats s (t\<lparr>op_k8s := k\<rparr>)" "same_eventmesh s (t\<lparr>op_k8s := k\<rparr>)"
      using frame [OF reconcile(2)] by (simp_all add: same_nats_def same_eventmesh_def)
    have "one_backend e (t\<lparr>op_k8s := k\<rparr>) (snd (handleEventingReconcile env e (t\<lparr>op_k8s := k\<rparr>)))"
      by (rule handleEventingReconcile_one_backend) (simp_all add: same_managers [OF same] assms(2) runs)
    then show ?thesis by (simp add: same_managers(3) [OF same] reconcile(3))
  qed
qed

subsection \<open>Deletion is blocked by Subscriptions\<close>

lemma join_sync_errors:
  assumes "join_sync env e err k = (r, k')"
  shows "\<exists>x. r = Some x \<and> errors_Is x err"
proof -
  obtain x where "r = errors_Join (Some err) x" using assms by (auto simp: join_sync_def split: prod.splits)
  then show ?thesis by (cases x) simp_all
qed

text \<open>
  What a status call does to the outside world: the stored resource gets a status with property
  \<open>P\<close>, unless it cannot be read or has an equal status already.
\<close>

definition writes_status ::
  "('m, 'c, 'k) op_env \<Rightarrow> Eventing \<Rightarrow> (EventingStatus \<Rightarrow> bool) \<Rightarrow> 'k \<Rightarrow> 'k \<Rightarrow> bool" where
  "writes_status env e P k k' \<longleftrightarrow> (\<exists>st. P st \<and>
     (case rc_GetEventing (oe_client env) (eg_namespace e) (eg_name e) k of
        Inl _ \<Rightarrow> k' = k
      | Inr actual \<Rightarrow>
          k' = (if IsEqual_EventingStatus (oe_conds env) (eg_status actual) st then k
                else snd (rc_StatusUpdateEventing (oe_client env) (actual\<lparr>eg_status := st\<rparr>) k))))"

lemma syncEventingStatus_writes:
  assumes "P (RemoveUnsupportedConditions (eg_status e))"
  shows "writes_status env e P k (snd (syncEventingStatus env e k))"
  unfolding writes_status_def
  by (rule exI [of _ "RemoveUnsupportedConditions (eg_status e)"])
     (simp add: assms syncEventingStatus_def updateStatus_op_def Let_def map_status_def split: sum.split)

lemma sync_writes:
  assumes "syncEventingStatus env e' k = (err, k')" and "P (RemoveUnsupportedConditions (eg_status e'))"
    and "eg_namespace e' = eg_namespace e" and "eg_name e' = eg_name e"
  shows "writes_status env e P k k'"
  using syncEventingStatus_writes [of P e' env k] assms by (simp add: writes_status_def)


lemma map_status_simps [simp]:
  "eg_status (map_status g e) = g (eg_status e)" "eg_spec (map_status g e) = eg_spec e"
  "eg_namespace (map_status g e) = eg_namespace e" "eg_name (map_status g e) = eg_name e"
  "eg_finalizers (map_status g e) = eg_finalizers e"
  by (simp_all add: map_status_def)

lemma writes_status_frame [simp]: "writes_status env (map_status g e) = writes_status env e"
  by (intro ext) (simp add: writes_status_def)


subsection \<open>A deletion that ends without an error\<close>

lemma returning_sync_Some [simp]:
  "returning r (syncStatusWithNATSErr env e err) s \<noteq> (Ret (q, None), t)"
  "returning r (syncStatusWithNATSState env x e err) s \<noteq> (Ret (q, None), t)"
  "returning r (syncStatusWithDeletionErr env e err) s \<noteq> (Ret (q, None), t)"
  "returning r (syncStatusWithSubscriptionManagerErrWithReason env x e err) s \<noteq> (Ret (q, None), t)"
  "returning r (syncStatusWithSubscriptionManagerErr env e err) s \<noteq> (Ret (q, None), t)"
  "returning r (syncStatusWithPublisherProxyErrWithReason env x e err) s \<noteq> (Ret (q, None), t)"
  "returning r (syncStatusWithPublisherProxyErr env e err) s \<noteq> (Ret (q, None), t)"
  "returning r (syncSubManagerStatusWithNATSState env x e err) s \<noteq> (Ret (q, None), t)"
  by (auto simp: returning_def err_on_k8s_def syncStatusWithNATSErr_def syncStatusWithNATSState_def
      syncStatusWithDeletionErr_def syncStatusWithSubscriptionManagerErrWithReason_def
      syncStatusWithSubscriptionManagerErr_def syncStatusWithPublisherProxyErrWithReason_def
      syncStatusWithPublisherProxyErr_def syncSubManagerStatusWithNATSState_def
      split: prod.splits dest!: join_sync_errors)

lemma finalize_None:
  "finalize env e s = (Ret (r, None), t) \<Longrightarrow>
   rc_UpdateEventing (oe_client env)
     (e\<lparr>eg_finalizers := ul_RemoveFinalizer (oe_util env) (eg_finalizers e) FinalizerName\<rparr>) (op_k8s s) = (None, op_k8s t) \<and>
   t = s\<lparr>op_k8s := op_k8s t\<rparr>"
  by (auto simp: finalize_def removeFinalizer_op_def split: prod.splits)

lemma delete_backend_None:
  assumes "delete_backend env e ty s = (Ret (r, None), t)"
  obtains u k e' where
    "(if ty = NatsBackendType then stopNATSSubManager env True s else stopEventMeshSubManager env True s) = (Ret (), u)"
    and "deleteClusterScopedResources env e (op_k8s u) = (Ret (), k)"
    and "eg_name e' = eg_name e" and "eg_namespace e' = eg_namespace e"
    and "eg_finalizers e' = ul_RemoveFinalizer (oe_util env) (eg_finalizers e) FinalizerName"
    and "rc_UpdateEventing (oe_client env) e' k = (None, op_k8s t)" and "t = u\<lparr>op_k8s := op_k8s t\<rparr>"
proof -
  let ?stop = "if ty = NatsBackendType then stopNATSSubManager env True s else stopEventMeshSubManager env True s"
  obtain q u where stop: "?stop = (q, u)" by (metis prod.exhaust)
  have q: "q = Ret ()"
    using assms stop by (cases q) (auto simp: delete_backend_def on_err_def split: if_splits)
  let ?e1 = "map_status (SetSubscriptionManagerReadyConditionToFalse (oe_conds env) (oe_now env)
    ConditionReasonStopped ConditionSubscriptionManagerStoppedMessage) e"
  let ?e2 = "map_status (SetPublisherProxyConditionToFalse (oe_conds env) (oe_now env)
    ConditionReasonDeleted ConditionPublisherProxyDeletedMessage) ?e1"
  have same: "deleteClusterScopedResources env ?e1 = deleteClusterScopedResources env e"
    by (rule ext) (simp add: deleteClusterScopedResources_def publisher_names)
  obtain d k where del: "deleteClusterScopedResources env e (op_k8s u) = (d, k)" by (metis prod.exhaust)
  have d: "d = Ret ()"
    using assms stop del q by (cases d) (auto simp: delete_backend_def on_err_def same on_k8s_def split: if_splits)
  have "finalize env ?e2 (u\<lparr>op_k8s := k\<rparr>) = (Ret (r, None), t)"
    using assms stop del q d by (auto simp: delete_backend_def on_err_def same on_k8s_def split: if_splits)
  from finalize_None [OF this] stop del q d show ?thesis
    by (intro that [of u k "?e2\<lparr>eg_finalizers := ul_RemoveFinalizer (oe_util env) (eg_finalizers e) FinalizerName\<rparr>"])
       simp_all
qed

lemma DeleteClusterRole_Ret:
  assumes "object_store c keys"
  shows "DeleteClusterRole c n ns k = (Ret (), k') \<Longrightarrow> keys k' = keys k - {(''ClusterRole'', '''', n)}"
    and "DeleteClusterRoleBinding c n ns k = (Ret (), k') \<Longrightarrow> keys k' = keys k - {(''ClusterRoleBinding'', '''', n)}"
  using delete_keys [OF assms]
  by (fastforce simp: DeleteClusterRole_def DeleteClusterRoleBinding_def DeleteResource_def)+

lemma deleteClusterScopedResources_keys:
  assumes "object_store (oe_client env) keys" and "deleteClusterScopedResources env e k = (Ret (), k')"
  shows "keys k' = keys k - {(''ClusterRole'', '''', GetPublisherClusterRoleName e),
    (''ClusterRoleBinding'', '''', GetPublisherClusterRoleBindingName e)}"
proof -
  from assms(2) obtain k1 where
    "DeleteClusterRole (oe_client env) (GetPublisherClusterRoleName e) (eg_namespace e) k = (Ret (), k1)"
    "DeleteClusterRoleBinding (oe_client env) (GetPublisherClusterRoleBindingName e) (eg_namespace e) k1 = (Ret (), k')"
    by (auto simp: deleteClusterScopedResources_def elim!: bindR_RetE)
  then show ?thesis using DeleteClusterRole_Ret [OF assms(1)] by fastforce
qed

text \<open>
  C3. When the deletion of an Eventing resource with a backend ends without an error, no
  Subscription existed, the subscription manager of the backend in the spec is not running, the
  manager of the other backend is as it was, and the cluster role and the cluster role binding
  of the publisher were gone when the finalizer was removed, which is the last write.
\<close>

theorem deletion_cleans_up:
  assumes "rc_GetEventing (oe_client env) ns name (op_k8s s) = Inr e" and "being_deleted e"
    and "containsFinalizer_op env e" and "es_backend (eg_spec e) = Some b"
    and "op_clusterScopedResourcesWatched s" and "slots_ok s" and "object_store (oe_client env) keys"
    and "Reconcile_operator env ns name s = (Ret (r, None), t)"
  shows "rc_ListSubscriptions (oe_client env) (op_k8s s) = Inr [] \<and>
    (if eb_type b = NatsBackendType then \<not> op_isNATSSubManagerStarted t \<and> same_eventmesh s t
     else \<not> op_isEventMeshSubManagerStarted t \<and> same_nats s t) \<and>
    (\<exists>k e'. (''ClusterRole'', '''', GetPublisherClusterRoleName e) \<notin> keys k \<and>
       (''ClusterRoleBinding'', '''', GetPublisherClusterRoleBindingName e) \<notin> keys k \<and>
       eg_finalizers e' = ul_RemoveFinalizer (oe_util env) (eg_finalizers e) FinalizerName \<and>
       rc_UpdateEventing (oe_client env) e' k = (None, op_k8s t))"
proof -
  have del: "handleEventingDeletion env e s = (Ret (r, None), t)"
    using assms(1,2,5,8) by (simp add: Reconcile_operator_def watch_cluster_scoped_def)
  have none: "rc_ListSubscriptions (oe_client env) (op_k8s s) = Inr []"
    and run: "delete_backend env e (eb_type b) s = (Ret (r, None), t)"
    using del assms(3,4)
    by (auto simp: handleEventingDeletion_def SubscriptionExists_def GetSubscriptions_def
        split: sum.splits list.splits bool.splits)
  from run obtain u k e' where u: "(if eb_type b = NatsBackendType then stopNATSSubManager env True s
        else stopEventMeshSubManager env True s) = (Ret (), u)"
    and k: "deleteClusterScopedResources env e (op_k8s u) = (Ret (), k)"
    and e': "eg_finalizers e' = ul_RemoveFinalizer (oe_util env) (eg_finalizers e) FinalizerName"
      "rc_UpdateEventing (oe_client env) e' k = (None, op_k8s t)" and t: "t = u\<lparr>op_k8s := op_k8s t\<rparr>"
    by (rule delete_backend_None)
  have ut: "same_nats u t" "same_eventmesh u t" by (subst t, simp)+
  have "if eb_type b = NatsBackendType then \<not> op_isNATSSubManagerStarted u \<and> same_eventmesh s u
     else \<not> op_isEventMeshSubManagerStarted u \<and> same_nats s u"
    using u assms(6) nats_slot.stop_stops [of s env True u] em_slot.stop_stops [of s env True u]
      nats_ops_frame(1) [of s env True] eventmesh_ops_frame(1) [of s env True]
    by (auto simp: slots_ok_def split: if_splits)
  moreover have "keys k = keys (op_k8s u) - {(''ClusterRole'', '''', GetPublisherClusterRoleName e),
    (''ClusterRoleBinding'', '''', GetPublisherClusterRoleBindingName e)}"
    by (rule deleteClusterScopedResources_keys [OF assms(7) k])
  ultimately show ?thesis
    using none e' ut by (auto simp: same_nats_def same_eventmesh_def split: if_splits)
qed

subsection \<open>Switching the backend\<close>

text \<open>
  C23. When the active backend that the status records differs from the one in the spec and the
  switch succeeds, the manager of the old backend is not running, the watcher for NATS resources
  is removed if the old backend was NATS, the resources of the publisher are deleted, and the
  resource is in state Processing without conditions.
\<close>

theorem switching_stops_previous_backend:
  assumes "handleBackendSwitching env (e, s) = (Ret (), (e', t))" and "slots_ok s"
    and "backend_type e = Ret ty" and "gs_activeBackend (eg_status e) \<noteq> ty" and "\<not> IsPreviousBackendEmpty e"
    and "object_store (oe_client env) keys"
  shows "(if gs_activeBackend (eg_status e) = NatsBackendType
      then \<not> op_isNATSSubManagerStarted t \<and> op_natsWatchers t (eg_namespace e) = None
      else \<not> op_isEventMeshSubManagerStarted t) \<and>
    keys (op_k8s t) \<inter> obj_key ` set (deleted_resources e) = {} \<and>
    e' = e\<lparr>eg_status := (eg_status e)\<lparr>gs_state := StateProcessing, gs_conditions := []\<rparr>\<rparr>"
proof -
  have "switch_backend env (e, s) = (Ret (), (e', t))"
    using handleBackendSwitching_cases [OF assms(1,3)] assms(4,5) by simp
  then obtain u k where u: "stop_previous env e s = (Ret (), u)"
    and e': "e' = map_status (ClearConditions_eventing \<circ> SetStateProcessing) e"
    and k: "DeletePublisherProxyResources (oe_client env) e' (op_k8s u) = (Ret (), k)" and t: "t = u\<lparr>op_k8s := k\<rparr>"
    by (rule switch_backend_RetE)
  have "deleted_resources e' = deleted_resources e" by (simp add: e' deleted_resources_def publisher_names)
  moreover have "keys k = keys (op_k8s u) - obj_key ` set (deleted_resources e')"
    by (rule delete_all_keys [OF assms(6)]) (use k in \<open>simp add: DeletePublisherProxyResources_def\<close>)
  ultimately have "keys (op_k8s t) \<inter> obj_key ` set (deleted_resources e) = {}" by (auto simp: t)
  moreover have "e' = e\<lparr>eg_status := (eg_status e)\<lparr>gs_state := StateProcessing, gs_conditions := []\<rparr>\<rparr>"
    by (simp add: e' map_status_def ClearConditions_eventing_def SetStateProcessing_def)
  ultimately show ?thesis using stop_previous_Ret [OF u assms(2)] by (simp add: t)
qed

text \<open>
  C24. If setting up the watch for NATS resources fails, the watcher that was created for it is
  kept although it was never started; a later switch to another backend then stops it, which sends
  on a channel that was never made: the reconciliation never returns.
\<close>

theorem failed_watch_blocks_switching:
  assumes "startNATSCRWatch env e s = (Some err, t)" and "op_natsWatchers s (eg_namespace e) = None"
    and "\<not> op_isNATSSubManagerStarted s" and "eg_namespace e' = eg_namespace e"
    and "gs_activeBackend (eg_status e') = NatsBackendType" and "backend_type e' = Ret ty" and "ty \<noteq> NatsBackendType"
  shows "fst (handleBackendSwitching env (e', t\<lparr>op_k8s := k\<rparr>)) = Crash blocks_forever"
proof -
  let ?t = "t\<lparr>op_k8s := k\<rparr>"
  have w: "op_natsWatchers ?t (eg_namespace e') = Some (NewResourceWatcher (eg_namespace e'))"
    using assms(1,2,4) by (auto simp: startNATSCRWatch_def Let_def split: prod.splits result.splits option.splits)
  have "same_nats s ?t" using nats_kept.startNATSCRWatch_rel [of s env e] assms(1) by (simp add: same_nats_def)
  with assms(3) have stop: "stopNATSSubManager env True ?t = (Ret (), ?t)"
    by (simp add: stopNATSSubManager_def same_nats_def split: option.split)
  obtain u where "stopNATSCRWatch env e' ?t = (Crash blocks_forever, u)"
    using w Stop_watcher_new [of "oe_informer env" "eg_namespace e'" k]
    by (cases "Stop_watcher (oe_informer env) (NewResourceWatcher (eg_namespace e')) k")
       (simp add: stopNATSCRWatch_def on_k8s_def)
  then have "fst (switch_backend env (e', ?t)) = Crash blocks_forever"
    using stop assms(5) by (simp add: switch_backend_def stop_previous_def with_cr_def)
  moreover obtain r e2 u2 where "handleBackendSwitching env (e', ?t) = (r, (e2, u2))" by (metis prod.exhaust)
  moreover from handleBackendSwitching_cases [OF this assms(6)] have "switch_backend env (e', ?t) = (r, (e2, u2))"
    using assms(5,7) by (auto simp: IsPreviousBackendEmpty_def)
  ultimately show ?thesis by simp
qed

text \<open>
  A reconciliation trusts the recorded active backend alone: if it is the one in the spec,
  the manager of the other backend is left exactly as it is, also when it is running, as it is
  after a switch whose status could not be written and that is taken back.
\<close>

theorem unchanged_backend_keeps_other_manager:
  assumes "rc_GetEventing (oe_client env) ns name (op_k8s s) = Inr e" and "\<not> being_deleted e"
    and "backend_type e = Ret (gs_activeBackend (eg_status e))"
  shows "(gs_activeBackend (eg_status e) = NatsBackendType \<longrightarrow>
      same_eventmesh s (snd (Reconcile_operator env ns name s))) \<and>
    (gs_activeBackend (eg_status e) = EventMeshBackendType \<longrightarrow>
      same_nats s (snd (Reconcile_operator env ns name s)))"
proof -
  let ?ty = "gs_activeBackend (eg_status e)"
  have "(?ty = NatsBackendType \<longrightarrow> same_eventmesh u (snd (handleEventingReconcile env e u))) \<and>
      (?ty = EventMeshBackendType \<longrightarrow> same_nats u (snd (handleEventingReconcile env e u)))" for u
  proof (cases "containsFinalizer_op env e \<and> \<not> HasEmptyBackend (eg_spec e)")
    case True
    then have ty: "backend_type (InitStateProcessing e) = Ret ?ty" using assms(3) by simp
    have "handleBackendSwitching env (InitStateProcessing e, u) = (Ret (), (InitStateProcessing e, u))"
      using handleBackendSwitching_cases [OF _ ty, of env u] by (metis InitStateProcessing_frame(1) prod.exhaust)
    with True have "handleEventingReconcile env e u = reconcile_spec_backend env (InitStateProcessing e) u"
      by (simp add: handleEventingReconcile_def Let_def on_err_def)
    with reconcile_spec_backend_frame [OF ty, of u env] show ?thesis by auto
  next
    case False
    then show ?thesis
      by (auto simp: handleEventingReconcile_def Let_def nats_kept.returning_rel eventmesh_kept.returning_rel split: prod.split)
  qed
  note rec = this
  from assms(1) show ?thesis
  proof (cases rule: Reconcile_cases)
    case (reconcile t k)
    have "same_nats s (t\<lparr>op_k8s := k\<rparr>)" "same_eventmesh s (t\<lparr>op_k8s := k\<rparr>)"
      using nats_kept.watch_cluster_scoped_rel [of s env] eventmesh_kept.watch_cluster_scoped_rel [of s env] reconcile(2)
      by (simp_all add: same_nats_def same_eventmesh_def)
    with rec [of "t\<lparr>op_k8s := k\<rparr>"] show ?thesis
      unfolding reconcile(3) by (auto intro: nats_kept.trans eventmesh_kept.trans)
  qed (use assms(2) in simp_all)
qed

subsection \<open>The state that is reported\<close>

definition all_replicas :: "Deployment \<Rightarrow> int \<Rightarrow> bool" where
  "all_replicas d n \<longleftrightarrow>
     dst_availableReplicas (dep_status d) = n \<and> dst_readyReplicas (dep_status d) = n \<and>
     dst_updatedReplicas (dep_status d) = n"

text \<open>
  The reported state follows the publisher deployment as it is in the cluster: Ready, with
  PublisherProxyReady=True and the name of the publish service, exactly if all its replicas are
  available, ready and updated, and otherwise Processing without a publish service, to be checked
  again after ten seconds.
\<close>

theorem handleEventingState_reports_deployment:
  assumes "documented_conditions (oe_conds env)"
    and "rc_GetDeployment (oe_client env) (om_name (dep_meta dep)) (om_namespace (dep_meta dep)) k = Inr d"
    and "ds_replicas (dep_spec d) = Some n"
  shows "\<exists>err k'. handleEventingState env dep e k =
      (Ret (\<lparr>res_Requeue = False, res_RequeueAfter = (if all_replicas d n then 0 else 10 * Second)\<rparr>, err), k') \<and>
    writes_status env e (\<lambda>st.
      if all_replicas d n
      then gs_state st = StateReady \<and>
        status_of ConditionPublisherProxyReady st =
          Some (ConditionTrue, ConditionReasonDeployed, ConditionPublisherProxyReadyMessage) \<and>
        gs_publisherService st = GetPublisherPublishServiceName e @ ''.'' @ eg_namespace e
      else gs_state st = StateProcessing \<and>
        status_of ConditionPublisherProxyReady st =
          Some (ConditionFalse, ConditionReasonProcessing, ConditionPublisherProxyProcessingMessage) \<and>
        gs_publisherService st = '''') k k'"
    (is "\<exists>err k'. _ \<and> writes_status env e ?P k k'")
proof -
  let ?e = "map_status ClearPublisherService e"
  let ?e' = "if all_replicas d n
    then map_status (\<lambda>es. SetPublisherService (GetPublisherPublishServiceName e) (eg_namespace e)
           (SetPublisherProxyReadyToTrue (oe_conds env) (oe_now env) es)) ?e
    else map_status (\<lambda>es. UpdateConditionPublisherProxyReady (oe_conds env) (oe_now env) ConditionFalse
           ConditionReasonProcessing ConditionPublisherProxyProcessingMessage (SetStateProcessing es)) ?e"
  obtain err k' where sync: "syncEventingStatus env ?e' k = (err, k')" by (metis prod.exhaust)
  have ready: "IsDeploymentReady (Some d) = Ret (all_replicas d n)"
    using assms(3) by (simp add: IsDeploymentReady_def all_replicas_def)
  have "?P (RemoveUnsupportedConditions (eg_status ?e'))"
    using status_of_UpdateCondition(2) [OF assms(1)]
    by (simp add: status_of_RemoveUnsupported getSupportedConditionsTypes_def SetPublisherService_def
        SetPublisherProxyReadyToTrue_def SetStateProcessing_def ClearPublisherService_def)
  with sync have "writes_status env e ?P k k'"
    by (rule sync_writes) simp_all
  moreover have "handleEventingState env dep e k =
      (Ret (\<lparr>res_Requeue = False, res_RequeueAfter = (if all_replicas d n then 0 else 10 * Second)\<rparr>, err), k')"
    using assms(2) ready sync
    by (cases "all_replicas d n") (simp_all add: handleEventingState_def GetDeployment_def Let_def)
  ultimately show ?thesis by blast
qed

text \<open>
  If the deployment is not found when its state is read, as a cache that lags behind the
  apply answers, the client returns a nil deployment without an error and the reconciliation
  panics.
\<close>

theorem handleEventingState_missing_deployment_panics:
  assumes "rc_GetDeployment (oe_client env) (om_name (dep_meta dep)) (om_namespace (dep_meta dep)) k = Inl err"
    and "err_has_kind KNotFound err"
  shows "handleEventingState env dep e k = (Crash nil_pointer, k)"
  using assms by (simp add: handleEventingState_def GetDeployment_def IgnoreNotFound_def IsDeploymentReady_def Let_def)

subsection \<open>Examples\<close>

text \<open>A reconciler whose NATS manager runs, for an Eventing resource with an existing publisher.\<close>

definition example_running :: "Eventing \<Rightarrow> Subscription list \<Rightarrow> (string, unit, cluster) op_state" where
  "example_running e subs =
     (example_op_state e)
       \<lparr>op_k8s := (example_cluster e)\<lparr>clu_subscriptions := subs, clu_objects := [served (ODeployment example_publisher)]\<rparr>,
        op_natsSubManager := Some ''nats://nats'', op_isNATSSubManagerStarted := True,
        op_clusterScopedResourcesWatched := True,
        op_natsWatchers := [''kyma-system'' \<mapsto>
          \<lparr>rw_namespace = ''kyma-system'', rw_stopCh = OpenChannel, rw_started = True\<rparr>]\<rparr>"

lemma example_running_simps [simp]:
  "op_isNATSSubManagerStarted (example_running e subs)" "op_natsSubManager (example_running e subs) = Some ''nats://nats''"
  "\<not> op_isEventMeshSubManagerStarted (example_running e subs)" "op_eventMeshSubManager (example_running e subs) = None"
  "op_clusterScopedResourcesWatched (example_running e subs)" "slots_ok (example_running e subs)"
  "op_natsConnection (example_running e subs) = None"
  "clu_subscriptions (op_k8s (example_running e subs)) = subs" "clu_eventing (op_k8s (example_running e subs)) = Some e"
  "clu_objects (op_k8s (example_running e subs)) = [served (ODeployment example_publisher)]"
  "op_natsWatchers (example_running e subs) ''kyma-system'' =
     Some \<lparr>rw_namespace = ''kyma-system'', rw_stopCh = OpenChannel, rw_started = True\<rparr>"
  by (simp_all add: example_running_def example_op_state_def NewReconciler_def example_cluster_def slots_ok_def)

definition example_deleted_eventing :: Eventing where
  "example_deleted_eventing = (example_eventing ''NATS'')\<lparr>eg_deletionTimestamp := Some 5\<rparr>"

definition example_switched_eventing :: Eventing where
  "example_switched_eventing =
     (example_eventing ''EventMesh'')\<lparr>eg_status := eg_status (example_eventing ''NATS'')\<rparr>"

lemma example_client_simps [simp]:
  "rc_GetEventing example_client ns name k = (case clu_eventing k of
     Some e \<Rightarrow> if eg_name e = name \<and> eg_namespace e = ns then Inr e else Inl not_found | None \<Rightarrow> Inl not_found)"
  "rc_ListSubscriptions example_client k = Inr (clu_subscriptions k)"
  by (simp_all add: example_client_def)

lemma example_eventing_names [simp]:
  "eg_name (example_eventing t) = ''eventing''" "eg_namespace (example_eventing t) = ''kyma-system''"
  "gs_activeBackend (eg_status (example_eventing t)) = t" "eg_deletionTimestamp (example_eventing t) = None"
  by (simp_all add: example_eventing_def)

theorem Reconcile_one_backend_witness:
  "let s = example_running (example_eventing ''NATS'') [] in
   one_backend (example_eventing ''NATS'') s (snd (Reconcile_operator example_op_env ''kyma-system'' ''eventing'' s)) \<and>
   slots_ok (snd (Reconcile_operator example_op_env ''kyma-system'' ''eventing'' s))"
proof -
  let ?s = "example_running (example_eventing ''NATS'') []"
  have "rc_GetEventing (oe_client example_op_env) ''kyma-system'' ''eventing'' (op_k8s ?s) = Inr (example_eventing ''NATS'')"
    "runs_only (gs_activeBackend (eg_status (example_eventing ''NATS''))) ?s" "slots_ok ?s"
    by (simp_all add: runs_only_def)
  from Reconcile_one_backend [OF this(1,3)] this(2) show ?thesis by (simp add: Let_def)
qed


theorem deletion_cleans_up_witness:
  "\<exists>t. Reconcile_operator example_op_env ''kyma-system'' ''eventing'' (example_running example_deleted_eventing []) =
      (Ret (no_requeue, None), t) \<and> \<not> op_isNATSSubManagerStarted t \<and>
    (\<exists>e'. clu_eventing (op_k8s t) = Some e' \<and> eg_finalizers e' = [])"
proof -
  let ?s = "example_running example_deleted_eventing []" and ?e = example_deleted_eventing
  have e: "rc_GetEventing (oe_client example_op_env) ''kyma-system'' ''eventing'' (op_k8s ?s) = Inr ?e"
    "being_deleted ?e" "containsFinalizer_op example_op_env ?e"
    "es_backend (eg_spec ?e) = Some \<lparr>eb_type = ''NATS'', eb_config = example_backend_config\<rparr>"
    "eg_finalizers ?e = [FinalizerName]"
    by (simp_all add: example_deleted_eventing_def being_deleted_def containsFinalizer_op_def example_util_def
        example_eventing_def)
  have stop: "\<exists>u. stopNATSSubManager example_op_env True ?s = (Ret (), u)"
    by (simp add: stopNATSSubManager_def example_managers_def)
  have del: "\<exists>k'. deleteClusterScopedResources example_op_env e k = (Ret (), k')" for e k
    by (simp add: deleteClusterScopedResources_def DeleteClusterRole_def DeleteClusterRoleBinding_def
        delete_ignoring_def example_client_def IgnoreNotFound_def)
  have "\<exists>t. delete_backend example_op_env ?e ''NATS'' ?s = (Ret (no_requeue, None), t)"
  proof -
    from stop obtain u where u: "stopNATSSubManager example_op_env True ?s = (Ret (), u)" by blast
    have "\<exists>t. finalize example_op_env e v = (Ret (no_requeue, None), t)" for e v
      by (simp add: finalize_def removeFinalizer_op_def example_client_def)
    moreover obtain k where "deleteClusterScopedResources example_op_env
        (map_status (SetSubscriptionManagerReadyConditionToFalse (oe_conds example_op_env) (oe_now example_op_env)
          ConditionReasonStopped ConditionSubscriptionManagerStoppedMessage) ?e) (op_k8s u) = (Ret (), k)"
      using del by blast
    ultimately show ?thesis using u by (simp add: delete_backend_def on_err_def Let_def on_k8s_def)
  qed
  then obtain t where t: "delete_backend example_op_env ?e ''NATS'' ?s = (Ret (no_requeue, None), t)" by blast
  have run: "Reconcile_operator example_op_env ''kyma-system'' ''eventing'' ?s = (Ret (no_requeue, None), t)"
    using e t by (simp add: Reconcile_operator_def watch_cluster_scoped_def handleEventingDeletion_def
        SubscriptionExists_def GetSubscriptions_def)
  have "object_store (oe_client example_op_env) (\<lambda>k. obj_key ` set (clu_objects k))"
    by (simp add: example_object_store)
  from deletion_cleans_up [OF e(1-4) _ _ this run] e(5)
  obtain k e' where "\<not> op_isNATSSubManagerStarted t" "eg_finalizers e' = []"
      and upd: "rc_UpdateEventing example_client e' k = (None, op_k8s t)"
    by (auto simp: example_util_def)
  moreover from upd have "op_k8s t = k\<lparr>clu_eventing := Some e'\<rparr>" by (simp add: example_client_def)
  ultimately show ?thesis using run by simp
qed

theorem switching_stops_previous_backend_witness:
  "\<exists>e' t. handleBackendSwitching example_op_env (example_switched_eventing, example_running example_switched_eventing [])
      = (Ret (), (e', t)) \<and> \<not> op_isNATSSubManagerStarted t \<and> op_natsWatchers t ''kyma-system'' = None"
proof -
  let ?e = example_switched_eventing and ?s = "example_running example_switched_eventing []"
  have e: "backend_type ?e = Ret ''EventMesh''" "gs_activeBackend (eg_status ?e) = ''NATS''" "eg_namespace ?e = ''kyma-system''"
    by (simp_all add: example_switched_eventing_def backend_type_def)
  then have prev: "\<not> IsPreviousBackendEmpty ?e" by (simp add: IsPreviousBackendEmpty_def)
  have "\<exists>u. stop_previous example_op_env ?e ?s = (Ret (), u)"
    using e by (simp add: stop_previous_def stopNATSSubManager_def stopNATSCRWatch_def on_k8s_def example_managers_def
        Stop_watcher_def example_op_env_def)
  then obtain u where u: "stop_previous example_op_env ?e ?s = (Ret (), u)" by blast
  obtain k where "DeletePublisherProxyResources example_client
      (map_status (ClearConditions_eventing \<circ> SetStateProcessing) ?e) (op_k8s u) = (Ret (), k)"
    using example_delete_all unfolding DeletePublisherProxyResources_def by blast
  with u obtain e' t where sw: "switch_backend example_op_env (?e, ?s) = (Ret (), (e', t))"
    by (simp add: switch_backend_def with_cr_def on_k8s_def)
  then have run: "handleBackendSwitching example_op_env (?e, ?s) = (Ret (), (e', t))"
    using e prev by (simp add: handleBackendSwitching_def IsSpecBackendTypeChanged_def backend_type_def split: option.splits)
  have "object_store (oe_client example_op_env) (\<lambda>k. obj_key ` set (clu_objects k))" by (simp add: example_object_store)
  from switching_stops_previous_backend [OF run _ e(1) _ prev this] e run show ?thesis by simp
qed

definition example_watch_fails :: "(string, unit, cluster) op_env" where
  "example_watch_fails = example_op_env\<lparr>oe_Watch := \<lambda>kind k. (Some (Plain KOther ''cache not started''), k)\<rparr>"

theorem failed_watch_blocks_switching_witness:
  "fst (handleBackendSwitching example_watch_fails (example_switched_eventing,
      (snd (startNATSCRWatch example_watch_fails (example_eventing ''NATS'') (example_op_state (example_eventing ''NATS''))))
        \<lparr>op_k8s := empty_cluster\<rparr>)) = Crash blocks_forever"
proof (rule failed_watch_blocks_switching [where ty = "''EventMesh''"])
  let ?s = "example_op_state (example_eventing ''NATS'')"
  show "startNATSCRWatch example_watch_fails (example_eventing ''NATS'') ?s = (Some (Plain KOther ''cache not started''),
      snd (startNATSCRWatch example_watch_fails (example_eventing ''NATS'') ?s))"
    by (simp add: startNATSCRWatch_def example_watch_fails_def example_op_state_def NewReconciler_def Let_def)
qed (simp_all add: example_op_state_def NewReconciler_def example_switched_eventing_def backend_type_def)

theorem unchanged_backend_keeps_other_manager_witness:
  "let s = (example_running (example_eventing ''NATS'') [])
     \<lparr>op_eventMeshSubManager := Some ''old'', op_isEventMeshSubManagerStarted := True\<rparr> in
   op_isEventMeshSubManagerStarted (snd (Reconcile_operator example_op_env ''kyma-system'' ''eventing'' s))"
proof -
  let ?s = "(example_running (example_eventing ''NATS'') [])
     \<lparr>op_eventMeshSubManager := Some ''old'', op_isEventMeshSubManagerStarted := True\<rparr>"
  have "rc_GetEventing (oe_client example_op_env) ''kyma-system'' ''eventing'' (op_k8s ?s) = Inr (example_eventing ''NATS'')"
    and "\<not> being_deleted (example_eventing ''NATS'')"
    and "backend_type (example_eventing ''NATS'') = Ret (gs_activeBackend (eg_status (example_eventing ''NATS'')))"
    by (simp_all add: being_deleted_def backend_type_def)
  from unchanged_backend_keeps_other_manager [OF this] show ?thesis by (simp add: same_eventmesh_def Let_def)
qed

lemma example_publisher_found:
  "rc_GetDeployment example_client (om_name (dep_meta example_publisher)) (om_namespace (dep_meta example_publisher))
     (op_k8s (example_running e subs)) =
   Inr (example_publisher\<lparr>dep_spec := (dep_spec example_publisher)\<lparr>ds_replicas := Some 2\<rparr>,
     dep_status := \<lparr>dst_availableReplicas = 2, dst_readyReplicas = 2, dst_updatedReplicas = 2\<rparr>\<rparr>)"
  by (simp add: example_client_def cluster_find_def example_publisher_def)

theorem handleEventingState_reports_deployment_witness:
  "\<exists>err k. handleEventingState example_op_env example_publisher (example_eventing ''NATS'')
      (op_k8s (example_running (example_eventing ''NATS'') [])) = (Ret (no_requeue, err), k)"
proof -
  let ?d = "example_publisher\<lparr>dep_spec := (dep_spec example_publisher)\<lparr>ds_replicas := Some 2\<rparr>,
     dep_status := \<lparr>dst_availableReplicas = 2, dst_readyReplicas = 2, dst_updatedReplicas = 2\<rparr>\<rparr>"
  have "documented_conditions (oe_conds example_op_env)" by (simp add: example_cond_lib_documented)
  moreover have "rc_GetDeployment (oe_client example_op_env) (om_name (dep_meta example_publisher))
      (om_namespace (dep_meta example_publisher)) (op_k8s (example_running (example_eventing ''NATS'') [])) = Inr ?d"
    by (simp add: example_publisher_found)
  moreover have "ds_replicas (dep_spec ?d) = Some 2" and "all_replicas ?d 2" by (simp_all add: all_replicas_def)
  ultimately show ?thesis using handleEventingState_reports_deployment [of example_op_env example_publisher _ ?d 2 "example_eventing ''NATS''"]
    by fastforce
qed

theorem handleEventingState_missing_deployment_panics_witness:
  "handleEventingState example_op_env example_publisher (example_eventing ''NATS'') empty_cluster
     = (Crash nil_pointer, empty_cluster)"
  by (rule handleEventingState_missing_deployment_panics [where err = not_found])
     (simp_all add: example_client_def cluster_find_def empty_cluster_def)

end
