(* ===== verification/JetStream_Reconciler.thy ===== *)
theory JetStream_Reconciler
  imports JetStream_Backend Metrics
begin

section \<open>The JetStream Subscription reconciler (internal/controller/eventing/subscription/jetstream)\<close>

text \<open>
  One reconciliation of a Subscription: fetch it, handle its deletion or add the finalizer,
  validate it, compute its clean types, hand it to the backend, and write the status. The
  reconciler's collaborators are the functions of \<open>js_rec_env\<close>: the Kubernetes client on a
  type \<open>'k\<close> of cluster states, the validator, and the \<^verbatim>\<open>Backend\<close> interface on a type \<open>'b\<close> of
  backend states. The locale \<open>jetstream_backend\<close> states what the reconciler relies on, and is
  interpreted on the model of the JetStream backend. \<^verbatim>\<open>kmetav1.Now()\<close> is \<open>now\<close> throughout a
  reconciliation. Kubernetes events and logs are left out.
\<close>

subsection \<open>State and environment\<close>

abbreviation requeueDuration :: time where "requeueDuration \<equiv> 10 * Second"
abbreviation backendType :: string where "backendType \<equiv> ''NATS_Jetstream''"

abbreviation errFailedToUpdateStatus :: goerr where
  "errFailedToUpdateStatus \<equiv> Sentinel ''failed to update JetStream subscription status''"
abbreviation errFailedToDeleteSub :: goerr where
  "errFailedToDeleteSub \<equiv> Sentinel ''failed to delete JetStream subscription''"
abbreviation errFailedToUpdateFinalizers :: goerr where
  "errFailedToUpdateFinalizers \<equiv> Sentinel (''failed to update subscription'' @ [CHR 0x27] @ ''s finalizers'')"

record ctrl_result =
  rr_RequeueAfter :: time

abbreviation empty_result :: ctrl_result where "empty_result \<equiv> \<lparr>rr_RequeueAfter = 0\<rparr>"

type_synonym rec_return = "ctrl_result \<times> goerr option"

record ('b, 'k) rstate =
  rs_backend :: 'b
  rs_k8s :: 'k
  rs_metrics :: status_metrics

record ('b, 'k) js_rec_env =
  re_Get :: "string \<Rightarrow> string \<Rightarrow> 'k \<Rightarrow> (goerr + Subscription) \<times> 'k"
  re_List :: "'k \<Rightarrow> Subscription list result"
  re_Update :: "Subscription \<Rightarrow> 'k \<Rightarrow> goerr option \<times> 'k"
  re_StatusUpdate :: "Subscription \<Rightarrow> 'k \<Rightarrow> goerr option \<times> 'k"
  re_Validate :: "Subscription \<Rightarrow> 'k \<Rightarrow> goerr option"
  re_cleaner :: Cleaner
  re_SyncSubscription :: "Subscription \<Rightarrow> 'b \<Rightarrow> ('b, unit) outcome"
  re_DeleteSubscription :: "Subscription \<Rightarrow> 'b \<Rightarrow> ('b, unit) outcome"
  re_DeleteSubscriptionsOnly :: "Subscription \<Rightarrow> 'b \<Rightarrow> ('b, unit) outcome"
  re_GetJetStreamSubjects :: "'b \<Rightarrow> string \<Rightarrow> string list \<Rightarrow> string \<Rightarrow> string list"
  re_StreamName :: "'b \<Rightarrow> string"

subsection \<open>utils.go\<close>

definition isInDeletion :: "Subscription \<Rightarrow> bool" where
  "isInDeletion subscription \<longleftrightarrow>
     (case sub_deletionTimestamp subscription of None \<Rightarrow> False | Some t \<Rightarrow> t \<noteq> 0)"

definition containsFinalizer :: "Subscription \<Rightarrow> bool" where
  "containsFinalizer sub \<longleftrightarrow> ContainsString (sub_finalizers sub) Finalizer"

subsection \<open>Status updates\<close>

definition updateStatus ::
  "('b, 'k) js_rec_env \<Rightarrow> Subscription \<Rightarrow> Subscription \<Rightarrow> 'k \<Rightarrow> goerr option \<times> 'k" where
  "updateStatus env oldSubscription newSubscription k =
     (if IsSubscriptionStatusEqual (sub_status oldSubscription) (sub_status newSubscription) then (None, k)
      else case re_StatusUpdate env newSubscription k of
        (Some err, k') \<Rightarrow> (Some (MakeError errFailedToUpdateStatus err), k')
      | (None, k') \<Rightarrow> (None, k'))"

definition updateSubscriptionStatus ::
  "('b, 'k) js_rec_env \<Rightarrow> Subscription \<Rightarrow> 'k \<Rightarrow> goerr option \<times> 'k" where
  "updateSubscriptionStatus env sub k =
     (case re_Get env (sub_namespace sub) (sub_name sub) k of
        (Inr actualSubscription, k) \<Rightarrow>
          let desiredSubscription = actualSubscription\<lparr>sub_status := sub_status sub\<rparr> in
          (case updateStatus env actualSubscription desiredSubscription k of
             (Some err, k) \<Rightarrow> (Some (MakeError errFailedToUpdateStatus err), k)
           | (None, k) \<Rightarrow> (None, k))
      | (Inl err, k) \<Rightarrow> (Some err, k))"

text \<open>The status that \<^verbatim>\<open>syncSubscriptionStatus\<close> sets before it writes it.\<close>

definition with_sync_status :: "time \<Rightarrow> goerr option \<Rightarrow> Subscription \<Rightarrow> Subscription" where
  "with_sync_status now err sub =
     sub\<lparr>sub_status := SetSubscriptionActiveCondition now err ((sub_status sub)\<lparr>st_ready := (err = None)\<rparr>)\<rparr>"

definition syncSubscriptionStatus ::
  "('b, 'k) js_rec_env \<Rightarrow> time \<Rightarrow> Subscription \<Rightarrow> goerr option \<Rightarrow> 'k \<Rightarrow> Subscription \<times> goerr option \<times> 'k" where
  "syncSubscriptionStatus env now desiredSubscription err k =
     (let d = with_sync_status now err desiredSubscription in (d, updateSubscriptionStatus env d k))"

definition validateSubscription ::
  "('b, 'k) js_rec_env \<Rightarrow> time \<Rightarrow> Subscription \<Rightarrow> 'k \<Rightarrow> Subscription \<times> goerr option" where
  "validateSubscription env now subscription k =
     (let err = re_Validate env subscription k;
          status = (if err \<noteq> None
                    then ClearConditions (ClearBackend (ClearTypes (SetNotReady (sub_status subscription))))
                    else sub_status subscription)
      in (subscription\<lparr>sub_status := SetSubscriptionSpecValidCondition now err status\<rparr>, err))"

definition addFinalizer ::
  "('b, 'k) js_rec_env \<Rightarrow> Subscription \<Rightarrow> 'k \<Rightarrow> rec_return \<times> 'k" where
  "addFinalizer env sub k =
     (case re_Update env (sub\<lparr>sub_finalizers := sub_finalizers sub @ [Finalizer]\<rparr>) k of
        (Some err, k) \<Rightarrow> ((empty_result, Some (MakeError errFailedToUpdateFinalizers err)), k)
      | (None, k) \<Rightarrow> ((empty_result, None), k))"

definition syncEventTypes ::
  "('b, 'k) js_rec_env \<Rightarrow> Subscription \<Rightarrow> 'b \<Rightarrow> Subscription \<times> goerr option" where
  "syncEventTypes env desiredSubscription b =
     (let cleanedTypes = GetCleanEventTypes desiredSubscription (re_cleaner env);
          d1 = (if st_types (sub_status desiredSubscription) \<noteq> cleanedTypes
                then desiredSubscription\<lparr>sub_status := (sub_status desiredSubscription)\<lparr>st_types := cleanedTypes\<rparr>\<rparr>
                else desiredSubscription);
          jsSubjects = re_GetJetStreamSubjects env b (spec_source (sub_spec d1))
            (GetCleanEventTypesFromEventTypes (items cleanedTypes)) (spec_typeMatching (sub_spec d1))
      in case GetBackendJetStreamTypes d1 jsSubjects of
           Err err \<Rightarrow> (d1, Some err)
         | Crash p \<Rightarrow> (d1, Some (Plain KOther p))
         | Ret jsTypes \<Rightarrow>
             (if bk_types (st_backend (sub_status d1)) \<noteq> jsTypes
              then (d1\<lparr>sub_status := (sub_status d1)\<lparr>st_backend := (st_backend (sub_status d1))\<lparr>bk_types := jsTypes\<rparr>\<rparr>\<rparr>,
                    None)
              else (d1, None)))"

subsection \<open>Deletion\<close>

fun remove_metrics ::
  "Subscription \<Rightarrow> string \<Rightarrow> JetStreamTypes list \<Rightarrow> status_metrics \<Rightarrow> status_metrics" where
  "remove_metrics subscription stream [] m = m"
| "remove_metrics subscription stream (t # types) m =
     remove_metrics subscription stream types
       (RemoveSubscriptionStatus (sub_name subscription) (sub_namespace subscription) backendType
          (jt_consumerName t) stream m)"

definition handleSubscriptionDeletion ::
  "('b, 'k) js_rec_env \<Rightarrow> time \<Rightarrow> Subscription \<Rightarrow> ('b, 'k) rstate \<Rightarrow> rec_return result \<times> ('b, 'k) rstate" where
  "handleSubscriptionDeletion env now subscription s =
     (if \<not> ContainsString (sub_finalizers subscription) Finalizer then (Ret (empty_result, None), s)
      else case re_DeleteSubscription env subscription (rs_backend s) of
        (Crash p, b) \<Rightarrow> (Crash p, s\<lparr>rs_backend := b\<rparr>)
      | (Err err, b) \<Rightarrow>
          let deleteSubErr = MakeError errFailedToDeleteSub err in
          (case syncSubscriptionStatus env now subscription (Some deleteSubErr) (rs_k8s s) of
             (_, Some syncErr, k) \<Rightarrow>
               (Ret (empty_result, Some syncErr), s\<lparr>rs_backend := b, rs_k8s := k\<rparr>)
           | (_, None, k) \<Rightarrow>
               (Ret (empty_result, Some deleteSubErr), s\<lparr>rs_backend := b, rs_k8s := k\<rparr>))
      | (Ret _, b) \<Rightarrow>
          let types = bk_types (st_backend (sub_status subscription));
              without = subscription\<lparr>sub_finalizers := RemoveString (sub_finalizers subscription) Finalizer\<rparr>
          in (case re_Update env without (rs_k8s s) of
                (Some err, k) \<Rightarrow>
                  (Ret (empty_result, Some (MakeError errFailedToUpdateFinalizers err)),
                   s\<lparr>rs_backend := b, rs_k8s := k\<rparr>)
              | (None, k) \<Rightarrow>
                  (Ret (empty_result, None),
                   s\<lparr>rs_backend := b, rs_k8s := k,
                     rs_metrics := remove_metrics subscription (re_StreamName env b) types (rs_metrics s)\<rparr>)))"

subsection \<open>Metrics of a reconciliation\<close>

fun remove_stale_metrics ::
  "Subscription \<Rightarrow> Subscription \<Rightarrow> string \<Rightarrow> JetStreamTypes list \<Rightarrow> status_metrics \<Rightarrow> status_metrics" where
  "remove_stale_metrics current desired stream [] m = m"
| "remove_stale_metrics current desired stream (currentType # types) m =
     remove_stale_metrics current desired stream types
       (if \<not> list_ex (\<lambda>dc. jt_consumerName currentType = jt_consumerName dc)
             (bk_types (st_backend (sub_status desired)))
        then RemoveSubscriptionStatus (sub_name current) (sub_namespace current) backendType
               (jt_consumerName currentType) stream m
        else m)"

fun record_metrics ::
  "Subscription \<Rightarrow> string \<Rightarrow> JetStreamTypes list \<Rightarrow> status_metrics \<Rightarrow> status_metrics" where
  "record_metrics desired stream [] m = m"
| "record_metrics desired stream (desiredType # types) m =
     record_metrics desired stream types
       (RecordSubscriptionStatus (st_ready (sub_status desired)) (sub_name desired) (sub_namespace desired)
          backendType (jt_consumerName desiredType) stream m)"

definition updateSubscriptionMetrics ::
  "Subscription \<Rightarrow> Subscription \<Rightarrow> string \<Rightarrow> status_metrics \<Rightarrow> status_metrics" where
  "updateSubscriptionMetrics current desired stream m =
     record_metrics desired stream (bk_types (st_backend (sub_status desired)))
       (remove_stale_metrics current desired stream (bk_types (st_backend (sub_status current))) m)"

subsection \<open>Reconcile\<close>

text \<open>
  From the validation on: the result, the desired Subscription as it is at the end (the
  deferred metrics update reads it) and the new state.
\<close>

type_synonym ('b, 'k) rec_step = "rec_return result \<times> Subscription \<times> ('b, 'k) rstate"

definition reconcile_invalid ::
  "('b, 'k) js_rec_env \<Rightarrow> Subscription \<Rightarrow> goerr \<Rightarrow> ('b, 'k) rstate \<Rightarrow> ('b, 'k) rec_step" where
  "reconcile_invalid env d validationErr s =
     (case (if errors_Is validationErr ErrSinkValidationFailed
            then re_DeleteSubscriptionsOnly env d (rs_backend s) else (Ret (), rs_backend s)) of
        (Crash p, b) \<Rightarrow> (Crash p, d, s\<lparr>rs_backend := b\<rparr>)
      | (Err deleteErr, b) \<Rightarrow> (Ret (empty_result, Some deleteErr), d, s\<lparr>rs_backend := b\<rparr>)
      | (Ret _, b) \<Rightarrow>
          (case updateSubscriptionStatus env d (rs_k8s s) of
             (Some updateErr, k) \<Rightarrow>
               (Ret (empty_result, errors_Join (Some validationErr) (Some updateErr)), d,
                s\<lparr>rs_backend := b, rs_k8s := k\<rparr>)
           | (None, k) \<Rightarrow>
               (Ret (empty_result, Some (Terminal validationErr)), d, s\<lparr>rs_backend := b, rs_k8s := k\<rparr>)))"

definition reconcile_backend ::
  "('b, 'k) js_rec_env \<Rightarrow> time \<Rightarrow> Subscription \<Rightarrow> ('b, 'k) rstate \<Rightarrow> ('b, 'k) rec_step" where
  "reconcile_backend env now d s =
     (case re_SyncSubscription env d (rs_backend s) of
        (Crash p, b) \<Rightarrow> (Crash p, d, s\<lparr>rs_backend := b\<rparr>)
      | (Err syncSubErr, b) \<Rightarrow>
          (case syncSubscriptionStatus env now d (Some syncSubErr) (rs_k8s s) of
             (d', Some syncErr, k) \<Rightarrow>
               (Ret (empty_result, Some syncErr), d', s\<lparr>rs_backend := b, rs_k8s := k\<rparr>)
           | (d', None, k) \<Rightarrow>
               (Ret (if errors_Is syncSubErr ErrMissingSubscription
                     then (\<lparr>rr_RequeueAfter = requeueDuration\<rparr>, None)
                     else (empty_result, Some syncSubErr)), d', s\<lparr>rs_backend := b, rs_k8s := k\<rparr>))
      | (Ret _, b) \<Rightarrow>
          (case syncSubscriptionStatus env now d None (rs_k8s s) of
             (d', err, k) \<Rightarrow> (Ret (empty_result, err), d', s\<lparr>rs_backend := b, rs_k8s := k\<rparr>)))"

definition reconcile_validated ::
  "('b, 'k) js_rec_env \<Rightarrow> time \<Rightarrow> Subscription \<Rightarrow> ('b, 'k) rstate \<Rightarrow> ('b, 'k) rec_step" where
  "reconcile_validated env now d s =
     (case syncEventTypes env d (rs_backend s) of
        (d1, Some err) \<Rightarrow>
          (case syncSubscriptionStatus env now d1 (Some err) (rs_k8s s) of
             (d2, _, k) \<Rightarrow> (Ret (empty_result, Some err), d2, s\<lparr>rs_k8s := k\<rparr>))
      | (d1, None) \<Rightarrow> reconcile_backend env now d1 s)"

definition reconcile_active ::
  "('b, 'k) js_rec_env \<Rightarrow> time \<Rightarrow> Subscription \<Rightarrow> ('b, 'k) rstate \<Rightarrow> ('b, 'k) rec_step" where
  "reconcile_active env now d s =
     (if \<not> containsFinalizer d then
        (case addFinalizer env d (rs_k8s s) of (ret, k) \<Rightarrow>
           (Ret ret, d\<lparr>sub_finalizers := sub_finalizers d @ [Finalizer]\<rparr>, s\<lparr>rs_k8s := k\<rparr>))
      else case validateSubscription env now d (rs_k8s s) of
        (d1, Some validationErr) \<Rightarrow> reconcile_invalid env d1 validationErr s
      | (d1, None) \<Rightarrow> reconcile_validated env now d1 s)"

definition Reconcile_js ::
  "('b, 'k) js_rec_env \<Rightarrow> time \<Rightarrow> string \<Rightarrow> string \<Rightarrow> ('b, 'k) rstate \<Rightarrow> rec_return result \<times> ('b, 'k) rstate" where
  "Reconcile_js env now namespace name s =
     (case re_Get env namespace name (rs_k8s s) of
        (Inl err, k) \<Rightarrow>
          (Ret (empty_result, if err_has_kind KNotFound err then None else Some err), s\<lparr>rs_k8s := k\<rparr>)
      | (Inr currentSubscription, k) \<Rightarrow>
          if isInDeletion currentSubscription
          then handleSubscriptionDeletion env now currentSubscription (s\<lparr>rs_k8s := k\<rparr>)
          else
            (case reconcile_active env now currentSubscription (s\<lparr>rs_k8s := k\<rparr>) of
               (r, d, s') \<Rightarrow>
                 (r, s'\<lparr>rs_metrics := updateSubscriptionMetrics currentSubscription d
                          (re_StreamName env (rs_backend s')) (rs_metrics s')\<rparr>)))"

text \<open>
  \<^verbatim>\<open>HandleNatsConnClose\<close>: the Subscriptions that are sent to the custom channel, or a panic if
  they cannot be listed.
\<close>

definition HandleNatsConnClose :: "('b, 'k) js_rec_env \<Rightarrow> 'k \<Rightarrow> Subscription list result" where
  "HandleNatsConnClose env k =
     (case re_List env k of Ret subs \<Rightarrow> Ret subs | Err err \<Rightarrow> Crash (Error err) | Crash p \<Rightarrow> Crash p)"

subsection \<open>Lemmas on the stages\<close>

lemma syncEventTypes_spec [simp]:
  "sub_spec (fst (syncEventTypes env d b)) = sub_spec d"
  "sub_name (fst (syncEventTypes env d b)) = sub_name d"
  "sub_namespace (fst (syncEventTypes env d b)) = sub_namespace d"
  "st_types (sub_status (fst (syncEventTypes env d b))) = GetCleanEventTypes d (re_cleaner env)"
  "st_conditions (sub_status (fst (syncEventTypes env d b))) = st_conditions (sub_status d)"
  by (auto simp: syncEventTypes_def Let_def split: result.splits)

lemma validateSubscription_spec [simp]:
  "sub_spec (fst (validateSubscription env now d k)) = sub_spec d"
  "sub_name (fst (validateSubscription env now d k)) = sub_name d"
  "sub_namespace (fst (validateSubscription env now d k)) = sub_namespace d"
  "snd (validateSubscription env now d k) = re_Validate env d k"
  by (simp_all add: validateSubscription_def Let_def)

lemma GetCleanEventTypes_cong:
  "sub_spec d = sub_spec d' \<Longrightarrow> GetCleanEventTypes d c = GetCleanEventTypes d' c"
  by (simp add: GetCleanEventTypes_def)

text \<open>A reconciliation that ends without an error and without a requeue has synchronised.\<close>

lemma reconcile_backend_success:
  assumes "reconcile_backend env now d s = (Ret (empty_result, None), d', s')"
  shows "\<exists>b. re_SyncSubscription env d (rs_backend s) = (Ret (), b) \<and> rs_backend s' = b"
  using assms
  by (auto simp: reconcile_backend_def split: prod.splits result.splits option.splits if_splits)

lemma reconcile_active_success:
  assumes "reconcile_active env now d s = (Ret (empty_result, None), d', s')" and "containsFinalizer d"
  shows "\<exists>e b. re_SyncSubscription env e (rs_backend s) = (Ret (), b) \<and> rs_backend s' = b \<and>
     sub_spec e = sub_spec d \<and> sub_name e = sub_name d \<and> sub_namespace e = sub_namespace d \<and>
     st_types (sub_status e) = GetCleanEventTypes d (re_cleaner env)"
proof -
  obtain d1 r1 where 1: "validateSubscription env now d (rs_k8s s) = (d1, r1)" by (rule prod.exhaust)
  obtain d2 r2 where 2: "syncEventTypes env d1 (rs_backend s) = (d2, r2)" by (rule prod.exhaust)
  have "r1 = None"
    using assms 1 by (auto simp: reconcile_active_def reconcile_invalid_def
        split: option.splits prod.splits result.splits)
  moreover have "r2 = None"
    using assms 1 2 \<open>r1 = None\<close> by (auto simp: reconcile_active_def reconcile_validated_def
        split: option.splits prod.splits result.splits)
  ultimately have run: "reconcile_backend env now d2 s = (Ret (empty_result, None), d', s')"
    using assms 1 2 by (simp add: reconcile_active_def reconcile_validated_def)
  have d1: "sub_spec d1 = sub_spec d \<and> sub_name d1 = sub_name d \<and> sub_namespace d1 = sub_namespace d"
    using validateSubscription_spec [of env now d "rs_k8s s"] 1 by simp
  have d2: "sub_spec d2 = sub_spec d1 \<and> sub_name d2 = sub_name d1 \<and> sub_namespace d2 = sub_namespace d1 \<and>
      st_types (sub_status d2) = GetCleanEventTypes d1 (re_cleaner env)"
    using syncEventTypes_spec [of env d1 "rs_backend s"] 2 by simp
  then show ?thesis
    using reconcile_backend_success [OF run] d1 GetCleanEventTypes_cong [of d1 d "re_cleaner env"] by metis
qed

lemma Reconcile_js_success:
  assumes "Reconcile_js env now ns name s = (Ret (empty_result, None), s')"
    and "re_Get env ns name (rs_k8s s) = (Inr sub, k)" and "\<not> isInDeletion sub" and "containsFinalizer sub"
  shows "\<exists>e b. re_SyncSubscription env e (rs_backend s) = (Ret (), b) \<and> rs_backend s' = b \<and>
     sub_spec e = sub_spec sub \<and> sub_name e = sub_name sub \<and> sub_namespace e = sub_namespace sub \<and>
     st_types (sub_status e) = GetCleanEventTypes sub (re_cleaner env)"
proof -
  obtain r d t where a: "reconcile_active env now sub (s\<lparr>rs_k8s := k\<rparr>) = (r, d, t)" by (metis prod.exhaust)
  have "r = Ret (empty_result, None)" and "rs_backend s' = rs_backend t"
    using assms a by (auto simp: Reconcile_js_def)
  then show ?thesis using reconcile_active_success [of env now sub "s\<lparr>rs_k8s := k\<rparr>" d t] a assms(4) by simp
qed

lemma deletion_success:
  assumes "handleSubscriptionDeletion env now sub s = (Ret (res, None), s')" and "containsFinalizer sub"
  shows "\<exists>b. re_DeleteSubscription env sub (rs_backend s) = (Ret (), b) \<and> rs_backend s' = b"
  using assms
  by (auto simp: handleSubscriptionDeletion_def containsFinalizer_def Let_def
      split: prod.splits result.splits option.splits if_splits)

subsection \<open>What the reconciler relies on\<close>

text \<open>
  The contract of the \<^verbatim>\<open>Backend\<close> interface: \<open>serves b sub\<close> says that events of the Subscription's
  types are delivered to its sink, \<open>attached b sub\<close> that something of the Subscription is still
  held, \<open>fair b\<close> that the next iteration over the stored subscriptions visits all of them.
\<close>

locale jetstream_backend =
  fixes sync del :: "Subscription \<Rightarrow> 'b \<Rightarrow> ('b, unit) outcome"
    and serves attached :: "'b \<Rightarrow> Subscription \<Rightarrow> bool"
    and fair :: "'b \<Rightarrow> bool"
  assumes sync_serves: "sync sub b = (Ret (), b') \<Longrightarrow> serves b' sub"
    and del_detaches: "fair b \<Longrightarrow> del sub b = (Ret (), b') \<Longrightarrow> \<not> attached b' sub"
begin

lemma Reconcile_serves:
  assumes "re_SyncSubscription env = sync"
    and "Reconcile_js env now ns name s = (Ret (empty_result, None), s')"
    and "re_Get env ns name (rs_k8s s) = (Inr sub, k)" and "\<not> isInDeletion sub" and "containsFinalizer sub"
  shows "\<exists>e. serves (rs_backend s') e \<and> sub_spec e = sub_spec sub \<and> sub_name e = sub_name sub \<and>
     sub_namespace e = sub_namespace sub \<and>
     st_types (sub_status e) = GetCleanEventTypes sub (re_cleaner env)"
  using Reconcile_js_success [OF assms(2-5)] sync_serves unfolding assms(1) by blast

lemma Reconcile_detaches:
  assumes "re_DeleteSubscription env = del" and "fair (rs_backend s)"
    and "Reconcile_js env now ns name s = (Ret (res, None), s')"
    and "re_Get env ns name (rs_k8s s) = (Inr sub, k)" and "isInDeletion sub" and "containsFinalizer sub"
  shows "\<not> attached (rs_backend s') sub"
proof -
  have "handleSubscriptionDeletion env now sub (s\<lparr>rs_k8s := k\<rparr>) = (Ret (res, None), s')"
    using assms(3-5) by (simp add: Reconcile_js_def)
  from deletion_success [OF this assms(6)] show ?thesis
    using del_detaches assms(1,2) by auto
qed

end

text \<open>The JetStream backend: subscriptions for all event types, and the sink.\<close>

definition js_serves :: "'w js_state \<Rightarrow> Subscription \<Rightarrow> bool" where
  "js_serves s sub \<longleftrightarrow>
     own_keys (fst s) sub \<subseteq> dom (js_subscriptions (fst s)) \<and>
     js_sinks (fst s) (createKeyPrefix sub) = Some (spec_sink (sub_spec sub))"

definition js_attached :: "'w js_state \<Rightarrow> Subscription \<Rightarrow> bool" where
  "js_attached s sub \<longleftrightarrow>
     js_sinks (fst s) (createKeyPrefix sub) \<noteq> None \<or>
     dom (js_subscriptions (fst s)) \<inter> associated_keys sub \<noteq> {}"

definition js_fair :: "'w nats_api \<Rightarrow> 'w js_state \<Rightarrow> bool" where
  "js_fair api s \<longleftrightarrow> set (na_order api (js_subscriptions (fst s))) = dom (js_subscriptions (fst s))"

interpretation jsb: jetstream_backend "SyncSubscription api" "DeleteSubscription api" js_serves js_attached
  "js_fair api" for api
proof
  fix sub b b'
  assume "SyncSubscription api sub b = (Ret (), b')"
  from SyncSubscription_effect [OF this] show "js_serves b' sub" by (simp add: js_serves_def)
next
  fix b sub b'
  assume "js_fair api b" and run: "DeleteSubscription api sub b = (Ret (), b')"
  then have order: "set (na_order api (js_subscriptions (fst b))) = dom (js_subscriptions (fst b))"
    by (simp add: js_fair_def)
  show "\<not> js_attached b' sub"
    by (rule DeleteSubscription_stages [OF order, of sub])
      (use run in \<open>auto simp: js_attached_def split: if_splits\<close>)
qed

subsection \<open>Which statuses are written\<close>

text \<open>Whether the list of conditions has the type with status \<^verbatim>\<open>True\<close>.\<close>

definition cond_true :: "SubscriptionStatus \<Rightarrow> string \<Rightarrow> bool" where
  "cond_true st t \<longleftrightarrow>
     (case cond_view (st_conditions st) t of Some c \<Rightarrow> cond_status c = ConditionTrue | None \<Rightarrow> False)"

text \<open>Ready means: subscribed on the backend and validated.\<close>

definition status_consistent :: "SubscriptionStatus \<Rightarrow> bool" where
  "status_consistent st \<longleftrightarrow>
     (st_ready st \<longleftrightarrow> cond_true st ConditionSubscriptionActive \<and> cond_true st ConditionSubscriptionSpecValid)"

lemma strip_status [simp]: "cond_status (strip c) = cond_status c"
  by (simp add: strip_def)

lemma makeConditions_simps [simp]:
  "cond_type (makeSubscriptionActiveCondition now err) = ConditionSubscriptionActive"
  "cond_status (makeSubscriptionActiveCondition now err) = (if err = None then ConditionTrue else ConditionFalse)"
  "cond_type (makeSubscriptionSpecValidCondition now err) = ConditionSubscriptionSpecValid"
  "cond_status (makeSubscriptionSpecValidCondition now err) = (if err = None then ConditionTrue else ConditionFalse)"
  by (simp_all add: makeSubscriptionActiveCondition_def makeSubscriptionSpecValidCondition_def
      split: option.splits)

lemma cond_true_setCondition:
  assumes "distinct_on cond_type (st_conditions st)"
  shows "cond_true (setCondition c st) t =
     (if t = cond_type c then cond_status c = ConditionTrue else cond_true st t)"
  using setCondition_view [OF assms, of c] by (simp add: cond_true_def)

lemma with_sync_status_consistent:
  assumes "distinct_on cond_type (st_conditions (sub_status sub))"
    and "err = None \<Longrightarrow> cond_true (sub_status sub) ConditionSubscriptionSpecValid"
  shows "status_consistent (sub_status (with_sync_status now err sub))"
proof -
  let ?st = "(sub_status sub)\<lparr>st_ready := (err = None)\<rparr>"
  have "distinct_on cond_type (st_conditions ?st)" using assms(1) by simp
  from cond_true_setCondition [OF this, of "makeSubscriptionActiveCondition now err"] show ?thesis
    using assms(2)
    by (auto simp: status_consistent_def with_sync_status_def SetSubscriptionActiveCondition_def
        cond_true_def cond_view_def)
qed

lemma validateSubscription_conditions:
  assumes "distinct_on cond_type (st_conditions (sub_status sub))"
    and "validateSubscription env now sub k = (d, err)"
  shows "distinct_on cond_type (st_conditions (sub_status d))"
    and "err = None \<Longrightarrow> cond_true (sub_status d) ConditionSubscriptionSpecValid"
    and "err \<noteq> None \<Longrightarrow> status_consistent (sub_status d)"
proof -
  let ?st = "if err \<noteq> None
      then ClearConditions (ClearBackend (ClearTypes (SetNotReady (sub_status sub)))) else sub_status sub"
  have d: "sub_status d = setCondition (makeSubscriptionSpecValidCondition now err) ?st"
    using assms(2) by (auto simp: validateSubscription_def Let_def SetSubscriptionSpecValidCondition_def)
  have dist: "distinct_on cond_type (st_conditions ?st)"
    using assms(1) by (simp add: ClearConditions_def)
  show "distinct_on cond_type (st_conditions (sub_status d))"
    unfolding d by (rule setCondition_distinct [OF dist])
  note ct = cond_true_setCondition [OF dist, of "makeSubscriptionSpecValidCondition now err"]
  show "err = None \<Longrightarrow> cond_true (sub_status d) ConditionSubscriptionSpecValid"
    unfolding d ct by simp
  show "err \<noteq> None \<Longrightarrow> status_consistent (sub_status d)"
    unfolding d status_consistent_def ct
    by (auto simp: ClearConditions_def ClearBackend_def ClearTypes_def SetNotReady_def)
qed

text \<open>
  A property of the cluster that reads, writes of objects and writes of consistent statuses
  keep is kept by the reconciliation.
\<close>

definition keeps :: "('b, 'k) js_rec_env \<Rightarrow> ('k \<Rightarrow> bool) \<Rightarrow> bool" where
  "keeps env Q \<longleftrightarrow>
     (\<forall>ns n k. Q k \<longrightarrow> Q (snd (re_Get env ns n k))) \<and>
     (\<forall>sub k. Q k \<longrightarrow> Q (snd (re_Update env sub k))) \<and>
     (\<forall>sub k. Q k \<longrightarrow> status_consistent (sub_status sub) \<longrightarrow> Q (snd (re_StatusUpdate env sub k)))"

lemma keeps_updateSubscriptionStatus:
  assumes "keeps env Q" and "status_consistent (sub_status sub)" and "Q k"
  shows "Q (snd (updateSubscriptionStatus env sub k))"
proof -
  obtain r k1 where g: "re_Get env (sub_namespace sub) (sub_name sub) k = (r, k1)" by (rule prod.exhaust)
  have k1: "Q k1" using assms(1,3) g unfolding keeps_def by (metis snd_conv)
  have put: "Q k2" if "re_StatusUpdate env (x\<lparr>sub_status := sub_status sub\<rparr>) k1 = (e, k2)" for x e k2
  proof -
    have "Q (snd (re_StatusUpdate env (x\<lparr>sub_status := sub_status sub\<rparr>) k1))"
      using assms(1,2) k1 by (simp add: keeps_def)
    with that show ?thesis by simp
  qed
  show ?thesis
    using k1 by (auto simp: updateSubscriptionStatus_def updateStatus_def g Let_def dest: put
        split: sum.splits prod.splits option.splits if_splits)
qed

lemma keeps_syncSubscriptionStatus:
  assumes "keeps env Q" and "distinct_on cond_type (st_conditions (sub_status sub))"
    and "err = None \<Longrightarrow> cond_true (sub_status sub) ConditionSubscriptionSpecValid" and "Q k"
  shows "Q (snd (snd (syncSubscriptionStatus env now sub err k)))"
  using keeps_updateSubscriptionStatus [OF assms(1) with_sync_status_consistent [OF assms(2,3)] assms(4)]
  by (simp add: syncSubscriptionStatus_def Let_def)

lemma keeps_handleSubscriptionDeletion:
  assumes "keeps env Q" and "distinct_on cond_type (st_conditions (sub_status sub))" and "Q (rs_k8s s)"
  shows "Q (rs_k8s (snd (handleSubscriptionDeletion env now sub s)))"
proof -
  have status: "Q k" if "syncSubscriptionStatus env now sub (Some e) (rs_k8s s) = (d, r, k)" for e d r k
    using keeps_syncSubscriptionStatus [OF assms(1,2) _ assms(3), of "Some e" now] that by simp
  have update: "Q k" if "re_Update env d (rs_k8s s) = (r, k)" for d r k
    using assms(1,3) that unfolding keeps_def by (metis snd_conv)
  show ?thesis
    using assms(3)
    by (auto simp: handleSubscriptionDeletion_def Let_def dest: status update
        split: prod.splits result.splits option.splits)
qed

lemma keeps_reconcile_backend:
  assumes "keeps env Q" and "distinct_on cond_type (st_conditions (sub_status sub))"
    and "cond_true (sub_status sub) ConditionSubscriptionSpecValid" and "Q (rs_k8s s)"
  shows "Q (rs_k8s (snd (snd (reconcile_backend env now sub s))))"
proof -
  have "Q k" if "syncSubscriptionStatus env now sub err (rs_k8s s) = (d, r, k)" for err d r k
    using keeps_syncSubscriptionStatus [OF assms(1,2) _ assms(4), of err now] assms(3) that by simp
  then show ?thesis
    using assms(4) by (auto simp: reconcile_backend_def split: prod.splits result.splits option.splits)
qed

lemma keeps_reconcile_active:
  assumes "keeps env Q" and "distinct_on cond_type (st_conditions (sub_status sub))" and "Q (rs_k8s s)"
  shows "Q (rs_k8s (snd (snd (reconcile_active env now sub s))))"
proof -
  obtain d1 r1 where 1: "validateSubscription env now sub (rs_k8s s) = (d1, r1)" by (rule prod.exhaust)
  obtain d2 r2 where 2: "syncEventTypes env d1 (rs_backend s) = (d2, r2)" by (rule prod.exhaust)
  note v = validateSubscription_conditions [OF assms(2) 1]
  have conds: "st_conditions (sub_status d2) = st_conditions (sub_status d1)"
    using syncEventTypes_spec(5) [of env d1 "rs_backend s"] 2 by simp
  have add: "Q k" if "addFinalizer env sub (rs_k8s s) = (r, k)" for r k
  proof -
    have "Q (snd (re_Update env (sub\<lparr>sub_finalizers := sub_finalizers sub @ [Finalizer]\<rparr>) (rs_k8s s)))"
      using assms(1,3) by (simp add: keeps_def)
    with that show ?thesis by (auto simp: addFinalizer_def split: prod.splits option.splits)
  qed
  have invalid: "Q (rs_k8s (snd (snd (reconcile_invalid env d1 e s))))" if "r1 = Some e" for e
  proof -
    have "Q k" if "updateSubscriptionStatus env d1 (rs_k8s s) = (r, k)" for r k
      using keeps_updateSubscriptionStatus [OF assms(1) v(3) assms(3)] that \<open>r1 = Some e\<close> by simp
    then show ?thesis
      using assms(3) by (auto simp: reconcile_invalid_def split: prod.splits result.splits option.splits)
  qed
  have valid: "Q (rs_k8s (snd (snd (reconcile_validated env now d1 s))))" if "r1 = None"
  proof -
    have "distinct_on cond_type (st_conditions (sub_status d2))" using v(1) conds by simp
    moreover have "cond_true (sub_status d2) ConditionSubscriptionSpecValid"
      using v(2) that conds by (simp add: cond_true_def)
    moreover have "Q k" if "syncSubscriptionStatus env now d2 (Some e) (rs_k8s s) = (d, r, k)" for e d r k
      using keeps_syncSubscriptionStatus [OF assms(1) _ _ assms(3), of d2 "Some e" now] calculation that by simp
    ultimately show ?thesis
      using keeps_reconcile_backend [OF assms(1) _ _ assms(3)]
      by (auto simp: reconcile_validated_def 2 split: option.splits prod.splits)
  qed
  show ?thesis
    using add invalid valid by (auto simp: reconcile_active_def 1 split: prod.splits option.splits)
qed

subsection \<open>An example cluster\<close>

text \<open>
  A cluster that holds one Subscription, with the model of the JetStream backend on the
  example server behind the reconciler.
\<close>

definition example_one :: Subscription where
  "example_one = example_subscription
     \<lparr>sub_spec := (sub_spec example_subscription)\<lparr>spec_types := [''order.created.v1'']\<rparr>\<rparr>"

definition example_rec_env ::
  "((string \<times> ConsumerConfig) list js_state, Subscription) js_rec_env" where
  "example_rec_env =
     \<lparr>re_Get = (\<lambda>ns n k. (Inr k, k)),
      re_List = (\<lambda>k. Ret [k]),
      re_Update = (\<lambda>sub k. (None, sub\<lparr>sub_status := sub_status k\<rparr>)),
      re_StatusUpdate = (\<lambda>sub k. (None, k\<lparr>sub_status := sub_status sub\<rparr>)),
      re_Validate = (\<lambda>sub k. Validate_subscription example_env sub),
      re_cleaner = JetStreamCleaner,
      re_SyncSubscription = SyncSubscription example_api,
      re_DeleteSubscription = DeleteSubscription example_api,
      re_DeleteSubscriptionsOnly = DeleteSubscriptionsOnly example_api,
      re_GetJetStreamSubjects = (\<lambda>s. GetJetStreamSubjects (js_Config (fst s)) (js_cleaner (fst s))),
      re_StreamName = (\<lambda>s. nc_JSStreamName (js_Config (fst s)))\<rparr>"

lemma example_rec_env_simps [simp]:
  "re_Get example_rec_env ns n k = (Inr k, k)"
  "re_Update example_rec_env sub k = (None, sub\<lparr>sub_status := sub_status k\<rparr>)"
  "re_StatusUpdate example_rec_env sub k = (None, k\<lparr>sub_status := sub_status sub\<rparr>)"
  "re_Validate example_rec_env sub k = Validate_subscription example_env sub"
  "re_cleaner example_rec_env = JetStreamCleaner"
  "re_SyncSubscription example_rec_env = SyncSubscription example_api"
  "re_DeleteSubscription example_rec_env = DeleteSubscription example_api"
  "re_GetJetStreamSubjects example_rec_env s = GetJetStreamSubjects (js_Config (fst s)) (js_cleaner (fst s))"
  by (simp_all add: example_rec_env_def fun_eq_iff)

definition example_state :: "Subscription \<Rightarrow> 'b \<Rightarrow> ('b, Subscription) rstate" where
  "example_state sub b = \<lparr>rs_backend = b, rs_k8s = sub, rs_metrics = Map.empty\<rparr>"

lemma example_one_valid: "Validate_subscription example_env example_one = None"
proof -
  have "validateSpec example_env example_one = []"
    by (simp add: validateSpec_def example_one_def example_subscription_def example_env_def
        validateTypeMatching_def validateSource_def isInvalidCE_def validateTypes_def
        getDuplicates_Nil_iff HasPrefix_def validateConfig_def validateConfig_key_def
        ifKeyExistsInConfig_def config_get_def isNotInt_def example_Atoi example_validateSink)
  then show ?thesis
    unfolding Validate_subscription_def
    by (simp add: sinkServiceValidator_validate_def example_one_def example_subscription_def example_sink
        serviceExists_def example_env_def Let_def)
qed

lemma example_sync_single:
  assumes "items (st_types (sub_status d)) = [et]"
  shows "fst (SyncSubscription example_api d (example_js, [])) = Ret ()"
  using assms
  by (simp add: SyncSubscription_def checkJetStreamConnection_def syncSubscriptionEventTypes_def
      range_associated_def syncConsumerAndSubscription_def sync_event_type_def getOrCreateConsumer_def
      create_if_missing_def createNATSSubscription_def subscribe_and_store_def rebind_if_invalid_def
      syncConsumerMaxInFlight_def ctx_call_def call_def store_sink_def Let_def set_subs_def
      example_info_def getConsumerConfig_def key_of_def subject_of_def)

lemma example_updateStatus_ok: "fst (updateSubscriptionStatus example_rec_env sub k) = None"
  by (simp add: updateSubscriptionStatus_def updateStatus_def Let_def)

lemma example_one_facts:
  "containsFinalizer example_one" "\<not> isInDeletion example_one"
  "distinct_on cond_type (st_conditions (sub_status example_one))"
  "items (GetCleanEventTypes example_one c) = [cleanEventTypeOf c TypeMatchingStandard ''order.created.v1'']"
  by (simp_all add: containsFinalizer_def isInDeletion_def example_one_def example_subscription_def
      empty_SubscriptionStatus_def items_GetCleanEventTypes)

lemma example_reconcile:
  "fst (Reconcile_js example_rec_env 7 ''ns'' ''sub'' (example_state example_one (example_js, [])))
     = Ret (empty_result, None)"
proof -
  let ?s = "example_state example_one (example_js, []) :: ((string \<times> ConsumerConfig) list js_state, Subscription) rstate"
  obtain d1 where 1: "validateSubscription example_rec_env 7 example_one example_one = (d1, None)"
    by (simp add: validateSubscription_def Let_def example_one_valid)
  have d1: "sub_spec d1 = sub_spec example_one"
    using validateSubscription_spec(1) [of example_rec_env 7 example_one example_one] 1 by simp
  have types: "GetCleanEventTypes d1 JetStreamCleaner = GetCleanEventTypes example_one JetStreamCleaner"
    using d1 by (rule GetCleanEventTypes_cong)
  have "spec_types (sub_spec d1) = [''order.created.v1'']"
    unfolding d1 by (simp add: example_one_def)
  then have "snd (syncEventTypes example_rec_env d1 (example_js, [])) = None"
    by (simp add: syncEventTypes_def Let_def GetBackendJetStreamTypes_def types example_one_facts(4)
        GetCleanEventTypesFromEventTypes_def)
  then obtain d2 where 2: "syncEventTypes example_rec_env d1 (example_js, []) = (d2, None)"
    by (metis prod.collapse)
  have "items (st_types (sub_status d2)) = [cleanEventTypeOf JetStreamCleaner TypeMatchingStandard ''order.created.v1'']"
    using syncEventTypes_spec(4) [of example_rec_env d1 "(example_js, [])"] 2 types
      example_one_facts(4) by simp
  then obtain b where "SyncSubscription example_api d2 (example_js, []) = (Ret (), b)"
    using example_sync_single by (metis prod.collapse)
  moreover obtain k where "updateSubscriptionStatus example_rec_env (with_sync_status 7 None d2) example_one
      = (None, k)"
    using example_updateStatus_ok by (metis prod.collapse)
  ultimately have "fst (reconcile_active example_rec_env 7 example_one ?s) = Ret (empty_result, None)"
    using example_one_facts(1) 1 2
    by (simp add: reconcile_active_def reconcile_validated_def reconcile_backend_def
        syncSubscriptionStatus_def Let_def example_state_def)
  then show ?thesis
    using example_one_facts(2)
    by (auto simp: Reconcile_js_def example_state_def split: prod.splits)
qed

subsection \<open>Properties\<close>

text \<open>
  C4. When the reconciliation of a Subscription that carries the finalizer ends without error
  and without requeue, the JetStream backend holds a NATS subscription for every clean event
  type of the Subscription's spec and has its sink stored.
\<close>

theorem Reconcile_success_serves:
  assumes "re_SyncSubscription env = SyncSubscription api"
    and "Reconcile_js env now ns name s = (Ret (empty_result, None), s')"
    and "re_Get env ns name (rs_k8s s) = (Inr sub, k)" and "\<not> isInDeletion sub" and "containsFinalizer sub"
  shows "\<exists>e. sub_spec e = sub_spec sub \<and> sub_name e = sub_name sub \<and> sub_namespace e = sub_namespace sub \<and>
     st_types (sub_status e) = GetCleanEventTypes sub (re_cleaner env) \<and>
     own_keys (fst (rs_backend s')) e \<subseteq> dom (js_subscriptions (fst (rs_backend s'))) \<and>
     js_sinks (fst (rs_backend s')) (createKeyPrefix sub) = Some (spec_sink (sub_spec sub))"
  using jsb.Reconcile_serves [OF assms] by (auto simp: js_serves_def createKeyPrefix_def)

theorem Reconcile_success_serves_witness:
  "js_sinks (fst (rs_backend (snd (Reconcile_js example_rec_env 7 ''ns'' ''sub''
     (example_state example_one (example_js, [])))))) ''ns/sub'' = Some ''http://svc.ns.svc.cluster.local''"
proof -
  let ?s = "example_state example_one (example_js, []) :: ((string \<times> ConsumerConfig) list js_state, Subscription) rstate"
  have run: "Reconcile_js example_rec_env 7 ''ns'' ''sub'' ?s
      = (Ret (empty_result, None), snd (Reconcile_js example_rec_env 7 ''ns'' ''sub'' ?s))"
    using example_reconcile by (metis prod.collapse)
  show ?thesis
    using Reconcile_success_serves [OF _ run, of example_api example_one example_one] example_one_facts
    by (auto simp: example_state_def createKeyPrefix_def example_one_def example_subscription_def)
qed

text \<open>
  C5. When the reconciliation of a Subscription that is being deleted ends without error, the
  JetStream backend holds no sink for it any more, no NATS subscription that its check associates
  with the Subscription, and so none under the identifier of the Subscription and a subject
  without a slash. A NATS subscription for a subject with a slash is not found by that check and
  stays, as JetStream_Dispatch shows.
\<close>

theorem Reconcile_deletion_detaches:
  assumes "re_DeleteSubscription env = DeleteSubscription api"
    and "set (na_order api (js_subscriptions (fst (rs_backend s)))) = dom (js_subscriptions (fst (rs_backend s)))"
    and "Reconcile_js env now ns name s = (Ret (res, None), s')"
    and "re_Get env ns name (rs_k8s s) = (Inr sub, k)" and "isInDeletion sub" and "containsFinalizer sub"
  shows "js_sinks (fst (rs_backend s')) (createKeyPrefix sub) = None \<and>
     dom (js_subscriptions (fst (rs_backend s'))) \<inter> {key. isJsSubAssociatedWithKymaSub key sub = Ret True} = {} \<and>
     (\<forall>subject. CHR ''/'' \<notin> set subject \<longrightarrow>
        js_subscriptions (fst (rs_backend s')) (NewSubscriptionSubjectIdentifier sub subject) = None)"
proof -
  have detached: "js_sinks (fst (rs_backend s')) (createKeyPrefix sub) = None"
    "dom (js_subscriptions (fst (rs_backend s'))) \<inter> {key. isJsSubAssociatedWithKymaSub key sub = Ret True} = {}"
    using jsb.Reconcile_detaches [OF assms(1) _ assms(3-6)] assms(2)
    by (simp_all add: js_fair_def js_attached_def associated_keys_def)
  moreover have "js_subscriptions (fst (rs_backend s')) (NewSubscriptionSubjectIdentifier sub subject) = None"
    if "CHR ''/'' \<notin> set subject" for subject
    using detached(2) associated_New [OF that, of sub sub] by (auto simp: disjoint_iff domIff)
  ultimately show ?thesis by simp
qed

definition example_deleted :: Subscription where
  "example_deleted = example_synced\<lparr>sub_deletionTimestamp := Some 5\<rparr>"

lemma example_deleted_prefix: "createKeyPrefix example_deleted = createKeyPrefix example_synced"
  by (simp add: example_deleted_def createKeyPrefix_def)

lemma example_deletion:
  "fst (Reconcile_js example_rec_env 7 ''ns'' ''sub'' (example_state example_deleted example_live))
     = Ret (empty_result, None)"
proof -
  have assoc: "isJsSubAssociatedWithKymaSub example_key example_deleted = Ret True"
    using example_associated
    by (simp add: isJsSubAssociatedWithKymaSub_def example_deleted_prefix split: result.splits)
  have "items (st_types (sub_status example_deleted)) = [example_type]"
    by (simp add: example_deleted_def)
  then have "fst (DeleteSubscription example_api example_deleted example_live) = Ret ()"
    by (simp add: DeleteSubscription_def checkJetStreamConnection_def range_associated_def example_live_def
        assoc deleteSubscriptionFromJetStream_def unsubscribe_valid_def call_def
        deleteConsumerFromJetStream_def ctx_call_def set_subs_def)
  then obtain b where "DeleteSubscription example_api example_deleted example_live = (Ret (), b)"
    by (metis prod.collapse)
  moreover have "isInDeletion example_deleted" "ContainsString (sub_finalizers example_deleted) Finalizer"
    by (simp_all add: isInDeletion_def example_deleted_def example_synced_def example_subscription_def)
  ultimately show ?thesis
    by (simp add: Reconcile_js_def handleSubscriptionDeletion_def example_state_def Let_def)
qed

theorem Reconcile_deletion_detaches_witness:
  "let b = fst (rs_backend (snd (Reconcile_js example_rec_env 7 ''ns'' ''sub''
     (example_state example_deleted example_live)))) in
   js_sinks b (createKeyPrefix example_deleted) = None \<and>
   js_subscriptions b (NewSubscriptionSubjectIdentifier example_deleted ''kyma.source.order.created.v1'') = None"
proof -
  let ?s = "example_state example_deleted example_live"
  have run: "Reconcile_js example_rec_env 7 ''ns'' ''sub'' ?s
      = (Ret (empty_result, None), snd (Reconcile_js example_rec_env 7 ''ns'' ''sub'' ?s))"
    using example_deletion by (metis prod.collapse)
  have order: "set (na_order example_api (js_subscriptions (fst (rs_backend ?s))))
      = dom (js_subscriptions (fst (rs_backend ?s)))"
    using example_live_order by (simp add: example_state_def)
  show ?thesis
    using Reconcile_deletion_detaches [OF _ order run, of example_deleted example_deleted]
    by (simp add: example_state_def isInDeletion_def containsFinalizer_def example_deleted_def
        example_synced_def example_subscription_def Let_def)
qed

text \<open>
  C6. Every status that a reconciliation writes is consistent: \<^verbatim>\<open>ready\<close> is set exactly when both
  the \<^verbatim>\<open>Subscription active\<close> and the \<^verbatim>\<open>Subscription spec valid\<close> condition of the same status
  are \<^verbatim>\<open>True\<close>. (Any property of the cluster that such writes keep is kept by the
  reconciliation, errors and deletions included.)
\<close>

theorem Reconcile_writes_consistent_status:
  assumes "\<And>n m k. Q k \<Longrightarrow> Q (snd (re_Get env n m k))"
    and "\<And>sub k. Q k \<Longrightarrow> Q (snd (re_Update env sub k))"
    and "\<And>sub k. Q k \<Longrightarrow> status_consistent (sub_status sub) \<Longrightarrow> Q (snd (re_StatusUpdate env sub k))"
    and "\<And>sub k. re_Get env ns name (rs_k8s s) = (Inr sub, k) \<Longrightarrow>
           distinct_on cond_type (st_conditions (sub_status sub))"
    and "Q (rs_k8s s)"
  shows "Q (rs_k8s (snd (Reconcile_js env now ns name s)))"
proof -
  have keeps: "keeps env Q" using assms(1-3) by (simp add: keeps_def)
  obtain r k where g: "re_Get env ns name (rs_k8s s) = (r, k)" by (rule prod.exhaust)
  have k: "Q (rs_k8s (s\<lparr>rs_k8s := k\<rparr>))" using assms(1) [OF assms(5), of ns name] g by simp
  show ?thesis
  proof (cases r)
    case (Inl err)
    with k show ?thesis by (simp add: Reconcile_js_def g)
  next
    case (Inr sub)
    then have d: "distinct_on cond_type (st_conditions (sub_status sub))" using assms(4) g by simp
    show ?thesis
      using keeps_handleSubscriptionDeletion [OF keeps d k] keeps_reconcile_active [OF keeps d k]
      by (auto simp: Reconcile_js_def g Inr split: prod.splits)
        (metis snd_conv)
  qed
qed

theorem Reconcile_writes_consistent_status_witness:
  "status_consistent (sub_status (rs_k8s (snd (Reconcile_js example_rec_env 7 ''ns'' ''sub''
     (example_state example_one (example_js, []))))))"
  by (rule Reconcile_writes_consistent_status
      [of "\<lambda>k. status_consistent (sub_status k)" example_rec_env "''ns''" "''sub''"
          "example_state example_one (example_js, [])"])
    (use example_one_facts(3) in \<open>simp_all add: example_state_def, simp add: status_consistent_def
      example_one_def example_subscription_def empty_SubscriptionStatus_def cond_true_def cond_view_def\<close>)

text \<open>
  C7. As long as the backend has not confirmed the deletion, a reconciliation of a Subscription
  that is being deleted leaves everything in the cluster unchanged that reads and status
  updates leave unchanged, in particular the finalizer, and it does not end without an
  error.
\<close>

theorem finalizer_kept_until_deleted:
  assumes get: "\<And>n m k. obs (snd (re_Get env n m k)) = obs k"
    and status: "\<And>sub k. obs (snd (re_StatusUpdate env sub k)) = obs k"
    and "re_Get env ns name (rs_k8s s) = (Inr sub, k)" and "isInDeletion sub" and "containsFinalizer sub"
    and "fst (re_DeleteSubscription env sub (rs_backend s)) \<noteq> Ret ()"
  shows "obs (rs_k8s (snd (Reconcile_js env now ns name s))) = obs (rs_k8s s) \<and>
     (\<nexists>res. fst (Reconcile_js env now ns name s) = Ret (res, None))"
proof -
  obtain r b where del: "re_DeleteSubscription env sub (rs_backend s) = (r, b)" by (rule prod.exhaust)
  have k: "obs k = obs (rs_k8s s)" using get [of ns name "rs_k8s s"] assms(3) by simp
  have put: "obs k2 = obs k1" if "re_StatusUpdate env x k1 = (e, k2)" for x e k1 k2
    using status [of x k1] that by simp
  have fetch: "obs k2 = obs k1" if "re_Get env n m k1 = (x, k2)" for n m k1 x k2
    using get [of n m k1] that by simp
  have upd: "obs k2 = obs k1" if "updateSubscriptionStatus env x k1 = (e, k2)" for x e k1 k2
    using that by (auto simp: updateSubscriptionStatus_def updateStatus_def Let_def dest!: put fetch
        split: sum.splits prod.splits option.splits if_splits)
  have run: "Reconcile_js env now ns name s = handleSubscriptionDeletion env now sub (s\<lparr>rs_k8s := k\<rparr>)"
    using assms(3,4) by (simp add: Reconcile_js_def)
  show ?thesis
    unfolding run using assms(5,6) k del
    by (auto simp: handleSubscriptionDeletion_def containsFinalizer_def syncSubscriptionStatus_def Let_def
        dest: upd split: prod.splits result.splits option.splits)
qed

theorem finalizer_kept_until_deleted_witness:
  "sub_finalizers (rs_k8s (snd (Reconcile_js
     (example_rec_env\<lparr>re_DeleteSubscription := \<lambda>sub b. (Err (Plain KOther ''down''), b)\<rparr>) 7 ''ns'' ''sub''
     (example_state example_deleted example_live)))) = [Finalizer]"
  using finalizer_kept_until_deleted
    [of sub_finalizers "example_rec_env\<lparr>re_DeleteSubscription := \<lambda>sub b. (Err (Plain KOther ''down''), b)\<rparr>"
        "''ns''" "''sub''" "example_state example_deleted example_live" example_deleted example_deleted 7]
  by (simp add: example_state_def isInDeletion_def containsFinalizer_def example_deleted_def
      example_synced_def example_subscription_def)

text \<open>
  C8. When the spec of a Subscription that is not being deleted is invalid for another reason than
  its sink, the reconciliation leaves the backend as it is, its only write is that of the status of
  the Subscription, which is not ready, and it never asks for a requeue. It returns the
  validation error, marked as terminal, if that write succeeds, and the validation error joined
  with the error of the write if it fails.
\<close>

theorem Reconcile_invalid_spec:
  assumes "re_Get env ns name (rs_k8s s) = (Inr sub, k)" and "\<not> isInDeletion sub"
    and "containsFinalizer sub" and "re_Validate env sub k = Some e"
    and "\<not> errors_Is e ErrSinkValidationFailed"
  shows "rs_backend (snd (Reconcile_js env now ns name s)) = rs_backend s \<and>
     (\<exists>d. d = fst (validateSubscription env now sub k) \<and> \<not> st_ready (sub_status d) \<and>
       rs_k8s (snd (Reconcile_js env now ns name s)) = snd (updateSubscriptionStatus env d k) \<and>
       fst (Reconcile_js env now ns name s) =
         Ret (empty_result, Some (case fst (updateSubscriptionStatus env d k) of
             None \<Rightarrow> Terminal e
           | Some updateErr \<Rightarrow> Wrapped ['''', [CHR 0x0A]] [e, updateErr])))"
proof -
  obtain d where d: "validateSubscription env now sub k = (d, Some e)"
    using assms(4) validateSubscription_spec(4) [of env now sub k] by (metis prod.collapse)
  moreover have "\<not> st_ready (sub_status d)"
    using d assms(4) by (auto simp: validateSubscription_def SetSubscriptionSpecValidCondition_def Let_def
        ClearConditions_def ClearBackend_def ClearTypes_def SetNotReady_def)
  ultimately show ?thesis
    using assms by (auto simp: Reconcile_js_def reconcile_active_def reconcile_invalid_def
        split: prod.splits option.splits)
qed

theorem Reconcile_invalid_spec_witness:
  "let env = example_rec_env\<lparr>re_Validate := \<lambda>sub k. Some ErrSubscriptionValidationFailed\<rparr>;
     r = Reconcile_js env 7 ''ns'' ''sub'' (example_state example_one (example_js, [])) in
   rs_backend (snd r) = (example_js, []) \<and>
   (\<exists>err. fst r = Ret (empty_result, Some err) \<and> errors_Is err ErrSubscriptionValidationFailed)"
proof -
  let ?env = "example_rec_env\<lparr>re_Validate := \<lambda>sub k. Some ErrSubscriptionValidationFailed\<rparr>"
  have "\<not> errors_Is ErrSubscriptionValidationFailed ErrSinkValidationFailed" by simp
  then show ?thesis
    using Reconcile_invalid_spec
      [of ?env "''ns''" "''sub''" "example_state example_one (example_js, [])" example_one example_one
          ErrSubscriptionValidationFailed 7] example_one_facts
    by (simp add: example_state_def Let_def split: option.splits)
qed

end
