(* ===== verification/Controller_Setup.thy ===== *)
theory Controller_Setup
  imports Operator_Managers Eventing_Reconciler JetStream_Reconciler
begin

section \<open>The controllers and what triggers them\<close>

text \<open>
  How the controllers are set up (\<open>SetupUnmanaged\<close> of the two Subscription reconcilers and
  \<open>SetupWithManager\<close> of the operator), which events on the resources of the publisher trigger the
  operator, and the channel through which a closed NATS connection triggers the Subscriptions.
\<close>

subsection \<open>SetupUnmanaged\<close>

datatype event_source = KindSource string | ChannelSource string
datatype event_handler = EnqueueRequestForObject | EnqueueRequestForOwner string

text \<open>\<open>cl_go_Start\<close> starts the controller in a goroutine of its own.\<close>

record ('c, 'k) controller_lib =
  cl_NewUnmanaged :: "string \<Rightarrow> ('k, 'c) call"
  cl_Watch :: "'c \<Rightarrow> event_source \<Rightarrow> event_handler \<Rightarrow> ('k, unit) call"
  cl_go_Start :: "'c \<Rightarrow> 'k \<Rightarrow> 'k"

abbreviation reconcilerName :: string where "reconcilerName \<equiv> ''jetstream-subscription-reconciler''"
abbreviation reconcilerName_em :: string where "reconcilerName_em \<equiv> ''eventMesh-subscription-reconciler''"

definition SetupUnmanaged_js :: "('c, 'k) controller_lib \<Rightarrow> ('k, unit) call" where
  "SetupUnmanaged_js lib k =
     bindR (cl_NewUnmanaged lib reconcilerName k) (\<lambda>ctru k.
     bindR (cl_Watch lib ctru (KindSource ''Subscription'') EnqueueRequestForObject k) (\<lambda>_ k.
     bindR (cl_Watch lib ctru (ChannelSource ''customEventsChannel'') EnqueueRequestForObject k) (\<lambda>_ k.
       (Ret (), cl_go_Start lib ctru k))))"

definition SetupUnmanaged_em :: "('c, 'k) controller_lib \<Rightarrow> ('k, unit) call" where
  "SetupUnmanaged_em lib k =
     bindR (wrap_err ''failed to create unmanaged controller: '' (cl_NewUnmanaged lib reconcilerName_em k)) (\<lambda>ctru k.
     bindR (wrap_err ''failed to watch subscriptions: ''
              (cl_Watch lib ctru (KindSource ''Subscription'') EnqueueRequestForObject k)) (\<lambda>_ k.
     bindR (wrap_err ''failed to watch APIRule: ''
              (cl_Watch lib ctru (KindSource ''APIRule'') (EnqueueRequestForOwner ''Subscription'') k)) (\<lambda>_ k.
       (Ret (), cl_go_Start lib ctru k))))"

subsection \<open>SetupWithManager\<close>

datatype 'o object_event = Created 'o | Updated 'o 'o | Deleted 'o | Generic 'o

text \<open>\<^verbatim>\<open>predicate.Funcs\<close> lets the events through for which it has no function.\<close>

definition owned_predicate :: "(k8s_object \<Rightarrow> k8s_object \<Rightarrow> bool) \<Rightarrow> k8s_object object_event \<Rightarrow> bool" where
  "owned_predicate equal e =
     (case e of
        Created x \<Rightarrow> SkipEnqueueOnCreate x
      | Updated old new \<Rightarrow>
          SkipEnqueueOnUpdateAfterSemanticCompare equal (\<lambda>x. om_name (obj_meta x)) ''eventing'' old new
      | Deleted x \<Rightarrow> True
      | Generic x \<Rightarrow> True)"

record controller_spec =
  cs_For :: string
  cs_Owns :: "(string \<times> (k8s_object object_event \<Rightarrow> bool)) list"
  cs_WatchesRawSource :: event_source

definition operator_controller :: "(k8s_object \<Rightarrow> k8s_object \<Rightarrow> bool) \<Rightarrow> controller_spec" where
  "operator_controller equal =
     \<lparr>cs_For = ''Eventing'',
      cs_Owns = [(''Deployment'', owned_predicate equal), (''Service'', owned_predicate equal),
        (''ServiceAccount'', owned_predicate equal), (''HorizontalPodAutoscaler'', owned_predicate equal)],
      cs_WatchesRawSource = ChannelSource ''genericEvents''\<rparr>"

definition SetupWithManager ::
  "(controller_spec \<Rightarrow> ('k, unit) call) \<Rightarrow> (k8s_object \<Rightarrow> k8s_object \<Rightarrow> bool) \<Rightarrow> ('k, unit) call" where
  "SetupWithManager complete equal = complete (operator_controller equal)"

definition enqueues :: "controller_spec \<Rightarrow> string \<Rightarrow> k8s_object object_event \<Rightarrow> bool" where
  "enqueues spec kind e = (case map_of (cs_Owns spec) kind of None \<Rightarrow> False | Some p \<Rightarrow> p e)"

text \<open>A name that is joined with a hyphen contains a text without hyphens exactly if one of its parts does.\<close>

lemma HasPrefix_hyphen:
  assumes "CHR ''-'' \<notin> set p"
  shows "HasPrefix (xs @ CHR ''-'' # ys) p \<longleftrightarrow> HasPrefix xs p"
proof (cases "length p \<le> length xs")
  case False
  then have "CHR ''-'' \<in> set (take (length p) (xs @ CHR ''-'' # ys))"
    by (simp add: not_le) (metis Suc_diff_Suc in_set_conv_decomp take_Suc_Cons append_Nil)
  with assms have "\<not> HasPrefix (xs @ CHR ''-'' # ys) p" by (metis HasPrefix_def)
  moreover have "\<not> HasPrefix xs p" using False by (auto elim: HasPrefixE)
  ultimately show ?thesis by simp
qed (simp add: HasPrefix_def)

lemma Contains_hyphen:
  assumes "CHR ''-'' \<notin> set p" and "p \<noteq> []"
  shows "Contains (xs @ CHR ''-'' # ys) p \<longleftrightarrow> Contains xs p \<or> Contains ys p"
proof (induction xs)
  case Nil
  have "\<not> HasPrefix (CHR ''-'' # ys) p" using HasPrefix_hyphen [OF assms(1), of "[]" ys] assms(2) by (simp add: HasPrefix_def)
  with assms(2) show ?case by simp
next
  case (Cons x xs)
  then show ?case using HasPrefix_hyphen [OF assms(1), of "x # xs" ys] by simp
qed

lemma publisher_name_filter:
  assumes "x \<in> set (ODeployment d # publisher_resources e d)" and "om_name (dep_meta d) = GetPublisherDeploymentName e"
  shows "Contains (om_name (obj_meta x)) ''eventing'' \<longleftrightarrow> Contains (eg_name e) ''eventing''"
proof -
  have "om_name (obj_meta x) \<in> {eg_name e @ CHR ''-'' # t | t. t \<in> set [''publisher-proxy'', ''publisher-proxy-metrics'', ''publisher-proxy-health'']}"
    using assms
    by (auto simp: publisher_resources_def newPublisherProxyServiceAccount_def newPublisherProxyClusterRole_def
        newPublisherProxyClusterRoleBinding_def newPublisherProxyService_def newPublisherProxyMetricsService_def
        newPublisherProxyHealthService_def newHorizontalPodAutoscaler_def publisher_names Let_def)
  then obtain t where "om_name (obj_meta x) = eg_name e @ CHR ''-'' # t"
    and t: "t \<in> set [''publisher-proxy'', ''publisher-proxy-metrics'', ''publisher-proxy-health'']" by blast
  moreover have "\<not> Contains t ''eventing''" using t by (auto simp: HasPrefix_def)
  ultimately show ?thesis using Contains_hyphen [of "''eventing''" "eg_name e" t] by simp
qed

lemma operator_owns:
  "enqueues (operator_controller equal) kind ev \<longleftrightarrow>
     kind \<in> {''Deployment'', ''Service'', ''ServiceAccount'', ''HorizontalPodAutoscaler''} \<and> owned_predicate equal ev"
  by (simp add: enqueues_def operator_controller_def)

text \<open>
  C40. A change of a publisher resource of an owned kind triggers the operator exactly if the objects
  differ and the name of the Eventing resource contains \<^verbatim>\<open>eventing\<close>; its deletion always does, its
  creation never. With another name, which the environment may set, changes of the resources go
  unnoticed.
\<close>

theorem publisher_events_trigger:
  assumes "old \<in> set (ODeployment d # publisher_resources e d)" and "om_name (dep_meta d) = GetPublisherDeploymentName e"
    and "fst (obj_key old) \<in> {''Deployment'', ''Service'', ''ServiceAccount'', ''HorizontalPodAutoscaler''}"
  shows "(enqueues (operator_controller equal) (fst (obj_key old)) (Updated old new) \<longleftrightarrow>
      Contains (eg_name e) ''eventing'' \<and> \<not> equal old new) \<and>
    enqueues (operator_controller equal) (fst (obj_key old)) (Deleted old) \<and>
    \<not> enqueues (operator_controller equal) (fst (obj_key old)) (Created old)"
  using assms(3) publisher_name_filter [OF assms(1,2)]
  by (simp add: operator_owns owned_predicate_def SkipEnqueueOnUpdateAfterSemanticCompare_def SkipEnqueueOnCreate_def)

theorem publisher_events_trigger_witness:
  "\<not> enqueues (operator_controller (=)) ''Deployment''
     (Updated (ODeployment (example_publisher\<lparr>dep_meta := named_meta ''other-publisher-proxy'' ''kyma-system''\<rparr>))
       (ODeployment example_publisher))"
proof -
  let ?e = "(example_eventing ''NATS'')\<lparr>eg_name := ''other''\<rparr>"
  let ?d = "example_publisher\<lparr>dep_meta := named_meta ''other-publisher-proxy'' ''kyma-system''\<rparr>"
  have "\<not> Contains (eg_name ?e) ''eventing''" by (simp add: HasPrefix_def)
  with publisher_events_trigger [of "ODeployment ?d" ?d ?e "(=)" "ODeployment example_publisher"] show ?thesis
    by (simp add: publisher_names)
qed

subsection \<open>The handler of a closed connection\<close>

text \<open>
  The channel has no buffer: sending to it waits for the controller to receive, which it does only
  while it runs.
\<close>

definition enqueueReconciliationForSubscriptions :: "bool \<Rightarrow> Subscription list \<Rightarrow> Subscription list result" where
  "enqueueReconciliationForSubscriptions running subs = (if subs \<noteq> [] \<and> \<not> running then Crash blocks_forever else Ret subs)"

definition closed_handler :: "('b, 'k) js_rec_env \<Rightarrow> bool \<Rightarrow> 'k \<Rightarrow> Subscription list result" where
  "closed_handler env running k =
     (case HandleNatsConnClose env k of
        Ret subs \<Rightarrow> enqueueReconciliationForSubscriptions running subs
      | Err err \<Rightarrow> Err err
      | Crash p \<Rightarrow> Crash p)"

text \<open>
  Stopping the JetStream manager cancels its controller. The handler of the closed connection,
  which the stop itself sets off, then never returns if there is a Subscription, and ends the whole
  process with a panic if the Subscriptions cannot be listed.
\<close>

theorem stop_strands_closed_handler:
  assumes "Stop_js api dc runCleanup m = (r, m')" and "jm_ctx m \<noteq> None"
  shows "(re_List env (jm_k8s m') = Ret (sub # subs) \<longrightarrow>
      closed_handler env (jm_ctx m' = Some True) (jm_k8s m') = Crash blocks_forever) \<and>
    (re_List env (jm_k8s m') = Err err \<longrightarrow> closed_handler env (jm_ctx m' = Some True) (jm_k8s m') = Crash (Error err))"
  using Stop_js_ctx [OF assms]
  by (simp add: closed_handler_def HandleNatsConnClose_def enqueueReconciliationForSubscriptions_def)

end
