(* ===== verification/Peer_Authentication.thy ===== *)
theory Peer_Authentication
  imports Kube_Client
begin

section \<open>Istio peer authentications (pkg/istio/peerauthentication)\<close>

text \<open>
  At its start the operator applies two PeerAuthentications for the metrics endpoints, owned by its
  own Deployment, if Istio is installed. They go through the dynamic client and the unstructured
  converter, which are the functions of \<open>unstructured_client\<close> on a type \<open>'u\<close> of unstructured objects.
  Istio's resource is the record of what the builders set; a decoded Deployment comes with its UID.
\<close>

datatype MutualTLS_Mode = MTLS_UNSET | MTLS_DISABLE | MTLS_PERMISSIVE | MTLS_STRICT

record PeerAuthentication =
  pau_type :: TypeMeta
  pau_meta :: ObjectMeta
  pau_matchLabels :: "gomap option"
  pau_portLevelMtls :: "(nat, MutualTLS_Mode) fmap"

record ('u, 'k) unstructured_client =
  uc_GetDeployment :: "string \<Rightarrow> string \<Rightarrow> 'k \<Rightarrow> goerr + 'u"
  uc_FromUnstructured :: "'u \<Rightarrow> goerr + (Deployment \<times> string)"
  uc_ToUnstructured :: "PeerAuthentication \<Rightarrow> goerr + 'u"
  uc_Patch :: "'u \<Rightarrow> 'k \<Rightarrow> goerr option \<times> 'k"

subsection \<open>The methods of the Kubernetes client\<close>

definition PatchApplyPeerAuthentication ::
  "('u, 'k) unstructured_client \<Rightarrow> PeerAuthentication \<Rightarrow> 'k \<Rightarrow> ('k, unit) outcome" where
  "PatchApplyPeerAuthentication u pa k =
     (case uc_ToUnstructured u pa of
        Inl err \<Rightarrow> (Err err, k)
      | Inr obj \<Rightarrow> (case uc_Patch u obj k of (err, k') \<Rightarrow> (of_err err, k')))"

definition GetDeploymentDynamic ::
  "('u, 'k) unstructured_client \<Rightarrow> string \<Rightarrow> string \<Rightarrow> 'k \<Rightarrow> (Deployment \<times> string) option result" where
  "GetDeploymentDynamic u name namespace k =
     (case uc_GetDeployment u name namespace k of
        Inl err \<Rightarrow> (case IgnoreNotFound err of None \<Rightarrow> Ret None | Some e \<Rightarrow> Err e)
      | Inr obj \<Rightarrow> (case uc_FromUnstructured u obj of Inl err \<Rightarrow> Err err | Inr d \<Rightarrow> Ret (Some d)))"

definition DeleteDeployment :: "'k raw_client \<Rightarrow> string \<Rightarrow> string \<Rightarrow> 'k \<Rightarrow> ('k, unit) outcome" where
  "DeleteDeployment c name namespace =
     delete_ignoring c (ODeployment
       \<lparr>dep_type = no_type, dep_meta = named_meta name namespace,
        dep_spec = \<lparr>ds_replicas = None, ds_selector = None, ds_template =
          \<lparr>pt_meta = named_meta '''' '''', pt_spec =
            \<lparr>ps_containers = [], ps_serviceAccountName = '''', ps_restartPolicy = '''',
             ps_terminationGracePeriodSeconds = None, ps_priorityClassName = '''',
             ps_securityContext = None, ps_podAntiAffinity = None\<rparr>\<rparr>\<rparr>,
        dep_status = \<lparr>dst_availableReplicas = 0, dst_readyReplicas = 0, dst_updatedReplicas = 0\<rparr>\<rparr>)"

subsection \<open>The resources\<close>

abbreviation appKubernetesNameLabel :: string where "appKubernetesNameLabel \<equiv> ''app.kubernetes.io/name''"

definition typeMeta_pa :: TypeMeta where
  "typeMeta_pa = \<lparr>tm_kind = ''PeerAuthentication'', tm_apiVersion = ''security.istio.io/v1beta1''\<rparr>"

definition EventPublisherProxyMetrics :: "string \<Rightarrow> OwnerReference list \<Rightarrow> PeerAuthentication" where
  "EventPublisherProxyMetrics namespace ref =
     \<lparr>pau_type = typeMeta_pa,
      pau_meta = (named_meta ''eventing-publisher-proxy-metrics'' namespace)
        \<lparr>om_labels := Some (fmap_of_list [(appKubernetesNameLabel, ''eventing-publisher-proxy''),
                                          (''app.kubernetes.io/version'', ''0.1.0'')]),
         om_ownerReferences := ref\<rparr>,
      pau_matchLabels = Some (Some (fmap_of_list [(appKubernetesNameLabel, ''eventing-publisher-proxy'')])),
      pau_portLevelMtls = fmap_of_list [(9090, MTLS_PERMISSIVE)]\<rparr>"

definition EventingManagerMetrics :: "string \<Rightarrow> OwnerReference list \<Rightarrow> PeerAuthentication" where
  "EventingManagerMetrics namespace ref =
     \<lparr>pau_type = typeMeta_pa,
      pau_meta = (named_meta ''eventing-manager-metrics'' namespace)
        \<lparr>om_labels := Some (fmap_of_list [(''app.kubernetes.io/name'', ''controller''),
                                          (''app.kubernetes.io/instance'', ''eventing'')]),
         om_ownerReferences := ref\<rparr>,
      pau_matchLabels = Some (Some (fmap_of_list [(appKubernetesNameLabel, ''eventing-manager''),
                                                  (''app.kubernetes.io/instance'', ''eventing-manager'')])),
      pau_portLevelMtls = fmap_of_list [(8080, MTLS_PERMISSIVE)]\<rparr>"

definition ownerReferences :: "Deployment \<times> string \<Rightarrow> OwnerReference list" where
  "ownerReferences deploy =
     [\<lparr>or_apiVersion = ''apps/v1'', or_kind = ''Deployment'', or_name = om_name (dep_meta (fst deploy)),
       or_uid = snd deploy, or_controller = Some True, or_blockOwnerDeletion = Some False\<rparr>]"

definition sync_one :: "('u, 'k) unstructured_client \<Rightarrow> PeerAuthentication \<Rightarrow> 'k \<Rightarrow> ('k, unit) outcome" where
  "sync_one u authentication k =
     (case PatchApplyPeerAuthentication u authentication k of
        (Err err, k') \<Rightarrow> (Err (wrap_text ''failed to patchApply PeerAuthentication: '' err), k')
      | r \<Rightarrow> r)"

definition SyncPeerAuthentications ::
  "'k raw_client \<Rightarrow> ('u, 'k) unstructured_client \<Rightarrow> 'k \<Rightarrow> ('k, unit) outcome" where
  "SyncPeerAuthentications c u k =
     (case PeerAuthenticationCRDExists c k of
        Err err \<Rightarrow> (Err (wrap_text ''error while fetching PeerAuthentication CRD: '' err), k)
      | Crash p \<Rightarrow> (Crash p, k)
      | Ret crdExists \<Rightarrow>
          if \<not> crdExists then (Ret (), k)
          else (case GetDeploymentDynamic u ''eventing-manager'' ''kyma-system'' k of
            Err err \<Rightarrow> (Err (wrap_text ''error while fetching eventing Deployment: '' err), k)
          | Crash p \<Rightarrow> (Crash p, k)
          | Ret None \<Rightarrow> (Err (Plain KOther ''eventing-manager deployment not found''), k)
          | Ret (Some deploy) \<Rightarrow>
              for_each (sync_one u)
                [EventingManagerMetrics (om_namespace (dep_meta (fst deploy))) (ownerReferences deploy),
                 EventPublisherProxyMetrics (om_namespace (dep_meta (fst deploy))) (ownerReferences deploy)] k))"

subsection \<open>What a synchronisation leaves\<close>

text \<open>Objects that were applied, in their order; a patch that fails is none.\<close>

inductive applied :: "('u, 'k) unstructured_client \<Rightarrow> PeerAuthentication list \<Rightarrow> 'k \<Rightarrow> 'k \<Rightarrow> bool"
  for u :: "('u, 'k) unstructured_client" where
  applied_none: "applied u [] k k"
| applied_next: "uc_ToUnstructured u pa = Inr obj \<Longrightarrow> uc_Patch u obj k = (None, k') \<Longrightarrow> applied u pas k' k'' \<Longrightarrow>
    applied u (pa # pas) k k''"

inductive_simps applied_simps [simp]: "applied u [] k k'" "applied u (pa # pas) k k'"

lemma sync_one_Ret:
  "sync_one u pa k = (Ret (), k') \<longleftrightarrow> (\<exists>obj. uc_ToUnstructured u pa = Inr obj \<and> uc_Patch u obj k = (None, k'))"
  by (auto simp: sync_one_def PatchApplyPeerAuthentication_def of_err_def split: sum.splits prod.splits result.splits option.splits)

lemma apply_loop_Ret: "for_each (sync_one u) pas k = (Ret (), k') \<longleftrightarrow> applied u pas k k'"
  by (induction pas arbitrary: k) (auto simp: bindR_Ret_iff sync_one_Ret)

text \<open>
  Without the CRD nothing is written. With it a synchronisation returns exactly if the Deployment of
  the operator exists and both objects were applied, in its namespace and owned by it.
\<close>

lemma SyncPeerAuthentications_iff:
  "SyncPeerAuthentications c u k = (Ret (), k') \<longleftrightarrow>
     (case PeerAuthenticationCRDExists c k of
        Ret False \<Rightarrow> k' = k
      | Ret True \<Rightarrow> \<exists>d uid. GetDeploymentDynamic u ''eventing-manager'' ''kyma-system'' k = Ret (Some (d, uid)) \<and>
          applied u (map (\<lambda>f. f (om_namespace (dep_meta d)) (ownerReferences (d, uid)))
            [EventingManagerMetrics, EventPublisherProxyMetrics]) k k'
      | _ \<Rightarrow> False)"
  unfolding SyncPeerAuthentications_def
  by (auto simp: apply_loop_Ret simp del: for_each.simps applied_simps split: result.split option.split bool.split)

end
