(* ===== verification/JetStream_Dispatch.thy ===== *)
theory JetStream_Dispatch
  imports JetStream_Backend
begin

section \<open>Dispatching a message (getCallback in jetstream.go, pkg/tracing, ConvertMsgToCE)\<close>

text \<open>
  What happens when NATS calls the callback of a subscription with a message: the sink is
  looked up, the message is converted to a CloudEvent, tracing extensions move to headers,
  the original type is restored, the event is sent, and the message is acknowledged or
  rejected with a delay. The effects of one call are a list in the order in which they
  happen. Sending, decoding and the consumer information are parameters.
\<close>

subsection \<open>Events and tracing\<close>

text \<open>Extension values are strings, as \<^verbatim>\<open>%v\<close> prints them.\<close>

record Event =
  ev_id :: string
  ev_source :: string
  ev_type :: string
  ev_extensions :: "string \<rightharpoonup> string"

type_synonym headers = "(string \<times> string) list"

definition removeCEExtension :: "string \<Rightarrow> Event \<Rightarrow> Event" where
  "removeCEExtension key e = e\<lparr>ev_extensions := (ev_extensions e)(key := None)\<rparr>"

definition move_extension :: "string \<Rightarrow> string \<Rightarrow> headers \<times> Event \<Rightarrow> headers \<times> Event" where
  "move_extension extensionKey headerKey he =
     (case he of (traceHeader, event) \<Rightarrow>
        (case ev_extensions event extensionKey of
           Some v \<Rightarrow> (traceHeader @ [(headerKey, v)], removeCEExtension extensionKey event)
         | None \<Rightarrow> (traceHeader, event)))"

definition AddTracingHeadersToContext :: "Event \<Rightarrow> headers \<times> Event" where
  "AddTracingHeadersToContext event =
     (move_extension ''b3flags'' ''X-B3-Flags''
     (move_extension ''b3sampled'' ''X-B3-Sampled''
     (move_extension ''b3spanid'' ''X-B3-SpanId''
     (move_extension ''b3parentspanid'' ''X-B3-ParentSpanId''
     (move_extension ''b3traceid'' ''X-B3-TraceId''
     (move_extension ''traceparent'' ''traceparent'' ([], event)))))))"

definition ConvertMsgToCE ::
  "(string \<Rightarrow> goerr + Event) \<Rightarrow> (Event \<Rightarrow> goerr option) \<Rightarrow> string \<Rightarrow> goerr + Event" where
  "ConvertMsgToCE unmarshal validate msgData =
     (case unmarshal msgData of
        Inl err \<Rightarrow> Inl err
      | Inr event \<Rightarrow> (case validate event of Some err \<Rightarrow> Inl err | None \<Rightarrow> Inr event))"

abbreviation originalTypeHeaderName :: string where "originalTypeHeaderName \<equiv> ''originaltype''"

definition revertEventTypeToOriginal :: "NATSConfig \<Rightarrow> Event \<Rightarrow> Event" where
  "revertEventTypeToOriginal config event =
     (case ev_extensions event originalTypeHeaderName of
        Some orgType \<Rightarrow>
          if orgType \<noteq> [] then event\<lparr>ev_type := orgType\<rparr>
          else event\<lparr>ev_type := TrimPrefix (ev_type event) (nc_JSSubjectPrefix config @ ''.'' @ ev_source event @ ''.'')\<rparr>
      | None \<Rightarrow>
          event\<lparr>ev_type := TrimPrefix (ev_type event) (nc_JSSubjectPrefix config @ ''.'' @ ev_source event @ ''.'')\<rparr>)"

subsection \<open>The callback\<close>

text \<open>What the CloudEvents client returns: acknowledged or not, and the HTTP status if there is one.\<close>

record send_result =
  sr_ack :: bool
  sr_status :: "nat option"

record msg_env =
  me_ConsumerName :: "goerr + string"
  me_Event :: "goerr + Event"
  me_Send :: "string \<Rightarrow> headers \<Rightarrow> Event \<Rightarrow> send_result"
  me_duration :: time

datatype effect =
    Send string headers Event
  | Record_delivery string string string string string nat
  | Record_latency time string string string string string nat
  | NakWithDelay time
  | Ack

definition callback :: "JetStream \<Rightarrow> Callback \<Rightarrow> msg_env \<Rightarrow> effect list result" where
  "callback js cb msg =
     (case js_sinks js (cb_subKeyPrefix cb) of
        None \<Rightarrow> Ret []
      | Some sink \<Rightarrow>
        (case me_ConsumerName msg of
           Inl err \<Rightarrow> Ret []
         | Inr consumer \<Rightarrow>
           (case me_Event msg of
              Inl err \<Rightarrow> Ret []
            | Inr event0 \<Rightarrow>
                (case AddTracingHeadersToContext event0 of (traceHeader, event1) \<Rightarrow>
                   let event = revertEventTypeToOriginal (js_Config js) event1 in
                   if \<not> js_client js then Crash nil_dereference
                   else
                     let result = me_Send msg sink traceHeader event;
                         status = (\<lambda>default. case sr_status result of Some st \<Rightarrow> st | None \<Rightarrow> default);
                         metrics = (\<lambda>status.
                           [Record_delivery (cb_subscriptionName cb) (cb_subscriptionNamespace cb) (ev_type event) consumer sink status,
                            Record_latency (me_duration msg) (cb_subscriptionName cb) (cb_subscriptionNamespace cb) (ev_type event)
                              consumer sink status])
                     in if \<not> sr_ack result
                        then Ret ([Send sink traceHeader event] @ metrics (status 500) @ [NakWithDelay jsConsumerNakDelay])
                        else Ret ([Send sink traceHeader event, Ack] @ metrics (status 200))))))"

subsection \<open>Lemmas\<close>

definition settles :: "effect \<Rightarrow> bool" where
  "settles e \<longleftrightarrow> (case e of Ack \<Rightarrow> True | NakWithDelay t \<Rightarrow> True | _ \<Rightarrow> False)"

lemma move_extension_type [simp]:
  "ev_type (snd (move_extension x h he)) = ev_type (snd he)"
  "ev_source (snd (move_extension x h he)) = ev_source (snd he)"
  by (cases he; simp add: move_extension_def removeCEExtension_def split: option.splits)+

lemma move_extension_ext:
  "ev_extensions (snd (move_extension x h he)) = (ev_extensions (snd he))(x := None)"
  by (cases he) (auto simp: move_extension_def removeCEExtension_def fun_eq_iff split: option.splits)

lemma move_extension_headers:
  "fst (move_extension x h he) = fst he @ (case ev_extensions (snd he) x of Some v \<Rightarrow> [(h, v)] | None \<Rightarrow> [])"
  by (cases he) (simp add: move_extension_def split: option.splits)

text \<open>The metrics of one delivery.\<close>

definition delivery_metrics :: "Callback \<Rightarrow> msg_env \<Rightarrow> string \<Rightarrow> Event \<Rightarrow> string \<Rightarrow> nat \<Rightarrow> effect list" where
  "delivery_metrics cb msg sink event consumer status =
     [Record_delivery (cb_subscriptionName cb) (cb_subscriptionNamespace cb) (ev_type event) consumer sink status,
      Record_latency (me_duration msg) (cb_subscriptionName cb) (cb_subscriptionNamespace cb) (ev_type event) consumer sink status]"

lemma delivery_metrics_filter [simp]:
  "filter settles (delivery_metrics cb msg sink event consumer status) = []"
  "filter (\<lambda>x. \<exists>a b c. x = Send a b c) (delivery_metrics cb msg sink event consumer status) = []"
  by (simp_all add: delivery_metrics_def settles_def)

text \<open>
  What the callback sends for an event, with which headers, and the response code that the
  metrics get: the one of the response, or the default of the branch if the result has none.
\<close>

definition sent_headers :: "Event \<Rightarrow> (string \<times> string) list" where
  "sent_headers e = fst (AddTracingHeadersToContext e)"

definition sent_event :: "JetStream \<Rightarrow> Event \<Rightarrow> Event" where
  "sent_event js e = revertEventTypeToOriginal (js_Config js) (snd (AddTracingHeadersToContext e))"

definition response_code :: "send_result \<Rightarrow> nat" where
  "response_code result =
     (case sr_status result of Some st \<Rightarrow> st | None \<Rightarrow> if sr_ack result then 200 else 500)"

lemma callback_run:
  assumes "js_sinks js (cb_subKeyPrefix cb) = Some sink" and "js_client js"
    and "me_ConsumerName msg = Inr consumer" and "me_Event msg = Inr e"
  shows "callback js cb msg = (let hs = sent_headers e; ev = sent_event js e; result = me_Send msg sink hs ev;
        metrics = delivery_metrics cb msg sink ev consumer (response_code result) in
      Ret (Send sink hs ev # (if sr_ack result then Ack # metrics else metrics @ [NakWithDelay jsConsumerNakDelay])))"
  using assms
  by (simp add: callback_def delivery_metrics_def sent_headers_def sent_event_def response_code_def Let_def
      split: prod.split)

subsection \<open>Properties\<close>

text \<open>
  The tracing extensions of an event travel as headers: each of the six extensions that is
  present becomes one header with its value, all six are removed from the event, and the
  other extensions, the type and the source stay.
\<close>

theorem tracing_moves_extensions:
  "ev_extensions (snd (AddTracingHeadersToContext e)) = ev_extensions e |`
     (- {''traceparent'', ''b3traceid'', ''b3parentspanid'', ''b3spanid'', ''b3sampled'', ''b3flags''}) \<and>
   fst (AddTracingHeadersToContext e) = concat (map (\<lambda>(x, h).
     case ev_extensions e x of Some v \<Rightarrow> [(h, v)] | None \<Rightarrow> [])
     [(''traceparent'', ''traceparent''), (''b3traceid'', ''X-B3-TraceId''),
      (''b3parentspanid'', ''X-B3-ParentSpanId''), (''b3spanid'', ''X-B3-SpanId''),
      (''b3sampled'', ''X-B3-Sampled''), (''b3flags'', ''X-B3-Flags'')]) \<and>
   ev_type (snd (AddTracingHeadersToContext e)) = ev_type e \<and>
   ev_source (snd (AddTracingHeadersToContext e)) = ev_source e"
proof (intro conjI)
  show "ev_extensions (snd (AddTracingHeadersToContext e)) = ev_extensions e |`
     (- {''traceparent'', ''b3traceid'', ''b3parentspanid'', ''b3spanid'', ''b3sampled'', ''b3flags''})"
    by (auto simp: AddTracingHeadersToContext_def move_extension_ext fun_eq_iff restrict_map_def)
  show "fst (AddTracingHeadersToContext e) = concat (map (\<lambda>(x, h).
     case ev_extensions e x of Some v \<Rightarrow> [(h, v)] | None \<Rightarrow> [])
     [(''traceparent'', ''traceparent''), (''b3traceid'', ''X-B3-TraceId''),
      (''b3parentspanid'', ''X-B3-ParentSpanId''), (''b3spanid'', ''X-B3-SpanId''),
      (''b3sampled'', ''X-B3-Sampled''), (''b3flags'', ''X-B3-Flags'')])"
    by (simp add: AddTracingHeadersToContext_def move_extension_headers move_extension_ext)
qed (simp_all add: AddTracingHeadersToContext_def)

text \<open>
  C12. In every reachable state of a backend that has its HTTP client, a message that arrives on a
  stored NATS subscription whose subject has no slash, that has metadata with a consumer name and
  that decodes to an event is sent exactly once, to the sink of the Subscription the subscription
  belongs to, with its tracing extensions as headers and its type reverted, and is settled exactly
  once: acknowledged if the sink acknowledged the event, rejected with the redelivery delay
  otherwise.
\<close>

theorem delivered_message_settled:
  assumes "js_reachable api s" and "js_subscriptions (fst s) k = Some sb"
    and "CHR ''/'' \<notin> set (sb_subject sb)" and "js_client (fst s)"
    and "me_ConsumerName msg = Inr consumer" and "me_Event msg = Inr e"
  shows "\<exists>sink es. NamespacedName k = Ret (cb_subKeyPrefix (sb_callback sb)) \<and>
     js_sinks (fst s) (cb_subKeyPrefix (sb_callback sb)) = Some sink \<and>
     callback (fst s) (sb_callback sb) msg = Ret (Send sink (sent_headers e) (sent_event (fst s) e) # es) \<and>
     filter settles es =
       (if sr_ack (me_Send msg sink (sent_headers e) (sent_event (fst s) e)) then [Ack]
        else [NakWithDelay jsConsumerNakDelay]) \<and>
     filter (\<lambda>x. \<exists>a b c. x = Send a b c) es = []"
proof -
  have inv: "sinks_inv (fst s)" using assms(1) by (rule js_reachable_sinks)
  obtain sink where sink: "js_sinks (fst s) (cb_subKeyPrefix (sb_callback sb)) = Some sink"
    using sinks_invD(2) [OF inv assms(2,3)] by blast
  have "settles Ack" "settles (NakWithDelay jsConsumerNakDelay)" by (simp_all add: settles_def)
  with sinks_invD(1) [OF inv assms(2,3)] sink callback_run [OF sink assms(4-6)] show ?thesis
    by (auto simp: Let_def)
qed

theorem delivered_message_settled_witness:
  "\<exists>sink es ev. js_sinks (fst example_after) ''ns/sub'' = Some sink \<and>
     callback (fst example_after) (callback_of example_synced)
       \<lparr>me_ConsumerName = Inr ''c'', me_Event = Inr \<lparr>ev_id = ''1'', ev_source = ''source'',
          ev_type = ''kyma.source.order.created.v1'', ev_extensions = Map.empty\<rparr>,
        me_Send = (\<lambda>s h e. \<lparr>sr_ack = True, sr_status = Some 200\<rparr>), me_duration = 5\<rparr> = Ret (Send sink [] ev # es) \<and>
     filter settles es = [Ack]"
proof -
  let ?e = "\<lparr>ev_id = ''1'', ev_source = ''source'', ev_type = ''kyma.source.order.created.v1'', ev_extensions = Map.empty\<rparr>"
  let ?msg = "\<lparr>me_ConsumerName = Inr ''c'', me_Event = Inr ?e,
        me_Send = (\<lambda>s h e. \<lparr>sr_ack = True, sr_status = Some 200\<rparr>), me_duration = 5\<rparr> :: msg_env"
  obtain sb where sb: "js_subscriptions (fst example_after) example_key = Some sb"
    and cb: "sb_callback sb = callback_of example_synced" and free: "CHR ''/'' \<notin> set (sb_subject sb)"
    by (rule example_after_stored)
  have prefix: "cb_subKeyPrefix (callback_of example_synced) = ''ns/sub''"
    by (simp add: callback_of_def createKeyPrefix_def example_synced_def example_subscription_def)
  have "sent_headers ?e = []"
    by (simp add: sent_headers_def AddTracingHeadersToContext_def move_extension_headers move_extension_ext)
  then show ?thesis
    using delivered_message_settled [OF example_after_reachable sb free example_after_client,
        of ?msg "''c''"] cb prefix by auto
qed

text \<open>
  Reverting the type of an event undoes the JetStream prefixes: an event published as
  \<^verbatim>\<open>prefix.source.type\<close> without an original-type extension is dispatched with \<^verbatim>\<open>type\<close>, and an event
  with a non-empty original-type extension is dispatched with that type.
\<close>

theorem revertEventType_correct:
  "ev_type (revertEventTypeToOriginal config
     (e\<lparr>ev_type := nc_JSSubjectPrefix config @ ''.'' @ ev_source e @ ''.'' @ t,
        ev_extensions := (ev_extensions e)(originalTypeHeaderName := None)\<rparr>)) = t \<and>
   ev_type (revertEventTypeToOriginal config
     (e\<lparr>ev_extensions := (ev_extensions e)(originalTypeHeaderName \<mapsto> c # cs)\<rparr>)) = c # cs"
  using TrimPrefix_append [of "nc_JSSubjectPrefix config @ ''.'' @ ev_source e @ ''.''" t]
  by (simp add: revertEventTypeToOriginal_def)

text \<open>
  C33. A NATS subscription of a Subscription for a subject with a slash outlives the Subscription:
  when \<^verbatim>\<open>DeleteSubscription\<close> has succeeded, it is stored as before, but the sink is gone, so every
  message that still arrives on it is dropped without being sent, acknowledged or rejected.
\<close>

theorem slashed_subscription_survives:
  assumes "DeleteSubscription api sub s = (Ret (), t)"
    and "set (na_order api (js_subscriptions (fst s))) = dom (js_subscriptions (fst s))"
    and "CHR ''/'' \<in> set subject"
    and "js_subscriptions (fst s) (NewSubscriptionSubjectIdentifier sub subject) = Some sb"
    and "sb_callback sb = callback_of sub"
  shows "js_subscriptions (fst t) (NewSubscriptionSubjectIdentifier sub subject) = Some sb \<and>
    callback (fst t) (sb_callback sb) msg = Ret []"
proof -
  have "NewSubscriptionSubjectIdentifier sub subject \<notin> associated_keys sub"
    using associated_slash [OF assms(3), of sub] by (simp add: associated_keys_def)
  moreover have "js_subscriptions (fst t) = (\<lambda>k. if k \<in> associated_keys sub then None else js_subscriptions (fst s) k)"
    "js_sinks (fst t) (createKeyPrefix sub) = None"
    by (rule DeleteSubscription_stages [OF assms(2), of sub]; use assms(1) in simp)+
  ultimately show ?thesis using assms(4,5) by (simp add: callback_def callback_of_def)
qed

theorem slashed_subscription_survives_witness:
  "let k = NewSubscriptionSubjectIdentifier example_synced ''kyma.a/b.c'';
     api = example_api\<lparr>na_order := \<lambda>m. [k]\<rparr>;
     sb = \<lparr>sb_handle = 0, sb_subject = ''kyma.a/b.c'', sb_callback = callback_of example_synced\<rparr>;
     s = (example_js\<lparr>js_subscriptions := [k \<mapsto> sb], js_sinks := [''ns/sub'' \<mapsto> ''http://svc.ns.svc.cluster.local'']\<rparr>, []) in
   js_subscriptions (fst (snd (DeleteSubscription api example_synced s))) k = Some sb"
proof -
  let ?k = "NewSubscriptionSubjectIdentifier example_synced ''kyma.a/b.c''"
  let ?api = "example_api\<lparr>na_order := \<lambda>m. [?k]\<rparr>"
  let ?sb = "\<lparr>sb_handle = 0, sb_subject = ''kyma.a/b.c'', sb_callback = callback_of example_synced\<rparr>"
  let ?s = "(example_js\<lparr>js_subscriptions := [?k \<mapsto> ?sb], js_sinks := [''ns/sub'' \<mapsto> ''http://svc.ns.svc.cluster.local'']\<rparr>, [])"
  have slash: "CHR ''/'' \<in> set ''kyma.a/b.c''" by simp
  have "fst (DeleteSubscription ?api example_synced ?s) = Ret ()"
    by (simp add: DeleteSubscription_def checkJetStreamConnection_def range_associated_def associated_slash [OF slash]
        deleteConsumerFromJetStream_def ctx_call_def call_def)
  then have run: "DeleteSubscription ?api example_synced ?s = (Ret (), snd (DeleteSubscription ?api example_synced ?s))"
    by (metis prod.collapse)
  have "set (na_order ?api (js_subscriptions (fst ?s))) = dom (js_subscriptions (fst ?s))"
    and "js_subscriptions (fst ?s) ?k = Some ?sb" and "sb_callback ?sb = callback_of example_synced" by simp_all
  from slashed_subscription_survives [OF run this(1) slash this(2,3)] show ?thesis by (simp add: Let_def)
qed

end
