(* ===== verification/Metrics_Collector.thy ===== *)
theory Metrics_Collector
  imports Metrics JetStream_Dispatch
begin

section \<open>The metrics collector (pkg/backend/metrics/collector.go)\<close>

text \<open>
  The five families of metrics with their labels, their registration, and what the dispatch of a
  message leaves in them. A family maps the values of its labels, in the order in which
  \<open>NewCollector\<close> names them, to a sample; the histogram keeps the durations it observed, from which
  the Prometheus library computes the buckets. The gauge of the subscription status is the one of
  \<open>Metrics\<close>.
\<close>

abbreviation healthMetricKey :: string where "healthMetricKey \<equiv> ''eventing_ec_health''"
abbreviation latencyMetricKey :: string where
  "latencyMetricKey \<equiv> ''eventing_ec_nats_subscriber_dispatch_duration_seconds''"
abbreviation deliveryMetricKey :: string where
  "deliveryMetricKey \<equiv> ''eventing_ec_nats_delivery_per_subscription_total''"
abbreviation eventTypeSubscribedMetricKey :: string where
  "eventTypeSubscribedMetricKey \<equiv> ''eventing_ec_event_type_subscribed_total''"
abbreviation subscriptionStatusMetricKey :: string where
  "subscriptionStatusMetricKey \<equiv> ''eventing_ec_subscription_status''"
abbreviation subscriptionNameLabel :: string where "subscriptionNameLabel \<equiv> ''subscription_name''"
abbreviation eventTypeLabel :: string where "eventTypeLabel \<equiv> ''event_type''"
abbreviation sinkLabel :: string where "sinkLabel \<equiv> ''sink''"
abbreviation responseCodeLabel :: string where "responseCodeLabel \<equiv> ''response_code''"
abbreviation subscriptionNamespaceLabel :: string where "subscriptionNamespaceLabel \<equiv> ''subscription_namespace''"
abbreviation consumerNameLabel :: string where "consumerNameLabel \<equiv> ''consumer_name''"

record 'a family =
  fam_key :: string
  fam_labels :: "string list"
  fam_samples :: "string list \<rightharpoonup> 'a"

record Collector =
  co_deliveryPerSubscription :: "nat family"
  co_eventTypes :: "nat family"
  co_latencyPerSubscriber :: "time list family"
  co_health :: "int family"
  co_subscriptionStatus :: status_metrics

definition new_family :: "string \<Rightarrow> string list \<Rightarrow> 'a family" where
  "new_family key labels = \<lparr>fam_key = key, fam_labels = labels, fam_samples = Map.empty\<rparr>"

definition NewCollector :: Collector where
  "NewCollector =
     \<lparr>co_deliveryPerSubscription = new_family deliveryMetricKey
        [subscriptionNameLabel, subscriptionNamespaceLabel, eventTypeLabel, sinkLabel, responseCodeLabel, consumerNameLabel],
      co_eventTypes = new_family eventTypeSubscribedMetricKey
        [subscriptionNameLabel, subscriptionNamespaceLabel, eventTypeLabel, consumerNameLabel],
      co_latencyPerSubscriber = new_family latencyMetricKey
        [subscriptionNameLabel, subscriptionNamespaceLabel, eventTypeLabel, sinkLabel, responseCodeLabel, consumerNameLabel],
      co_health = new_family healthMetricKey [],
      co_subscriptionStatus = Map.empty\<rparr>"

text \<open>\<^verbatim>\<open>WithLabelValues\<close> panics when it is not given one value for each label.\<close>

definition WithLabelValues :: "string list \<Rightarrow> ('a option \<Rightarrow> 'a) \<Rightarrow> 'a family \<Rightarrow> ('a family, unit) outcome" where
  "WithLabelValues values f fam =
     (if length values \<noteq> length (fam_labels fam) then (Crash ''inconsistent label cardinality'', fam)
      else (Ret (), fam\<lparr>fam_samples := (fam_samples fam)(values \<mapsto> f (fam_samples fam values))\<rparr>))"

definition Inc :: "nat option \<Rightarrow> nat" where
  "Inc n = Suc (case n of None \<Rightarrow> 0 | Some n \<Rightarrow> n)"

definition Observe :: "time \<Rightarrow> time list option \<Rightarrow> time list" where
  "Observe d ds = (case ds of None \<Rightarrow> [] | Some ds \<Rightarrow> ds) @ [d]"

definition RecordDeliveryPerSubscription ::
  "string \<Rightarrow> string \<Rightarrow> string \<Rightarrow> string \<Rightarrow> string \<Rightarrow> nat \<Rightarrow> Collector \<Rightarrow> (Collector, unit) outcome" where
  "RecordDeliveryPerSubscription subscriptionName subscriptionNamespace eventType consumerName sink statusCode c =
     (case WithLabelValues
             [subscriptionName, subscriptionNamespace, eventType, sink, Itoa (int statusCode), consumerName]
             Inc (co_deliveryPerSubscription c) of
        (r, fam) \<Rightarrow> (r, c\<lparr>co_deliveryPerSubscription := fam\<rparr>))"

definition RecordLatencyPerSubscription ::
  "time \<Rightarrow> string \<Rightarrow> string \<Rightarrow> string \<Rightarrow> string \<Rightarrow> string \<Rightarrow> nat \<Rightarrow> Collector \<Rightarrow> (Collector, unit) outcome" where
  "RecordLatencyPerSubscription duration subscriptionName subscriptionNamespace eventType consumerName sink statusCode c =
     (case WithLabelValues
             [subscriptionName, subscriptionNamespace, eventType, sink, Itoa (int statusCode), consumerName]
             (Observe duration) (co_latencyPerSubscriber c) of
        (r, fam) \<Rightarrow> (r, c\<lparr>co_latencyPerSubscriber := fam\<rparr>))"

definition RecordEventTypes :: "string \<Rightarrow> string \<Rightarrow> string \<Rightarrow> string \<Rightarrow> Collector \<Rightarrow> (Collector, unit) outcome" where
  "RecordEventTypes subscriptionName subscriptionNamespace eventType consumer c =
     (case WithLabelValues [subscriptionName, subscriptionNamespace, eventType, consumer] Inc (co_eventTypes c) of
        (r, fam) \<Rightarrow> (r, c\<lparr>co_eventTypes := fam\<rparr>))"

text \<open>The registry knows the keys of the registered families; registering one a second time panics.\<close>

definition MustRegister :: "string \<Rightarrow> string set \<Rightarrow> (string set, unit) outcome" where
  "MustRegister key registry =
     (if key \<in> registry then (Crash ''duplicate metrics collector registration attempted'', registry)
      else (Ret (), insert key registry))"

definition RegisterMetrics :: "Collector \<Rightarrow> string set \<Rightarrow> (Collector \<times> string set, unit) outcome" where
  "RegisterMetrics c registry =
     (case for_each MustRegister
             [fam_key (co_deliveryPerSubscription c), fam_key (co_eventTypes c), fam_key (co_latencyPerSubscriber c),
              fam_key (co_health c), subscriptionStatusMetricKey] registry of
        (Ret _, registry) \<Rightarrow>
          (case WithLabelValues [] (\<lambda>_. 1) (co_health c) of (r, fam) \<Rightarrow> (r, c\<lparr>co_health := fam\<rparr>, registry))
      | (r, registry) \<Rightarrow> (r, c, registry))"

subsection \<open>The families of a collector\<close>

text \<open>The sample for a value of every label, whatever the order of the labels.\<close>

definition sample :: "'a family \<Rightarrow> (string \<Rightarrow> string) \<Rightarrow> 'a option" where
  "sample fam value = fam_samples fam (map value (fam_labels fam))"

text \<open>The keys and the labels of the families, which never change.\<close>

abbreviation dispatch_labels :: "string list" where
  "dispatch_labels \<equiv>
     [subscriptionNameLabel, subscriptionNamespaceLabel, eventTypeLabel, sinkLabel, responseCodeLabel, consumerNameLabel]"

definition collector_ok :: "Collector \<Rightarrow> bool" where
  "collector_ok c \<longleftrightarrow>
     fam_key (co_deliveryPerSubscription c) = deliveryMetricKey \<and> fam_key (co_eventTypes c) = eventTypeSubscribedMetricKey \<and>
     fam_key (co_latencyPerSubscriber c) = latencyMetricKey \<and> fam_key (co_health c) = healthMetricKey \<and>
     fam_labels (co_deliveryPerSubscription c) = dispatch_labels \<and> fam_labels (co_latencyPerSubscriber c) = dispatch_labels \<and>
     fam_labels (co_eventTypes c) = [subscriptionNameLabel, subscriptionNamespaceLabel, eventTypeLabel, consumerNameLabel] \<and>
     fam_labels (co_health c) = []"

lemma collector_ok_New [simp]: "collector_ok NewCollector"
  by (simp add: collector_ok_def NewCollector_def new_family_def)

text \<open>No recording panics, and each leaves the families as they are.\<close>

lemma records_ok:
  assumes "collector_ok c"
  shows "\<exists>d. RecordDeliveryPerSubscription n ns t con sink st c = (Ret (), d) \<and> collector_ok d"
    and "\<exists>d. RecordLatencyPerSubscription du n ns t con sink st c = (Ret (), d) \<and> collector_ok d"
    and "\<exists>d. RecordEventTypes n ns t con c = (Ret (), d) \<and> collector_ok d"
  using assms
  by (simp_all add: RecordDeliveryPerSubscription_def RecordLatencyPerSubscription_def RecordEventTypes_def WithLabelValues_def
      collector_ok_def)

subsection \<open>Registration\<close>

definition family_keys :: "string list" where
  "family_keys =
     [deliveryMetricKey, eventTypeSubscribedMetricKey, latencyMetricKey, healthMetricKey, subscriptionStatusMetricKey]"

lemma distinct_family_keys: "distinct family_keys"
  by (simp add: family_keys_def)

lemma register_all:
  assumes "distinct keys" and "registry \<inter> set keys = {}"
  shows "for_each MustRegister keys registry = (Ret (), registry \<union> set keys)"
  using assms
proof (induction keys arbitrary: registry)
  case (Cons x xs)
  then have "MustRegister x registry = (Ret (), insert x registry)" and "insert x registry \<inter> set xs = {}"
    by (auto simp: MustRegister_def)
  with Cons show ?case by simp
qed simp

lemma RegisterMetrics_keys:
  assumes "collector_ok c"
  shows "RegisterMetrics c registry =
    (case for_each MustRegister family_keys registry of
       (Ret _, registry) \<Rightarrow>
         (case WithLabelValues [] (\<lambda>_. 1) (co_health c) of (r, fam) \<Rightarrow> (r, c\<lparr>co_health := fam\<rparr>, registry))
     | (r, registry) \<Rightarrow> (r, c, registry))"
  using assms unfolding RegisterMetrics_def family_keys_def collector_ok_def by metis

text \<open>
  A collector can be registered once: all five families are then registered and the health is 1.
  A second registration panics.
\<close>

theorem RegisterMetrics_once:
  assumes "collector_ok c" and "registry \<inter> set family_keys = {}"
  shows "\<exists>d. RegisterMetrics c registry = (Ret (), d, registry \<union> set family_keys) \<and>
    sample (co_health d) v = Some 1 \<and> collector_ok d \<and>
    (\<exists>p. RegisterMetrics d (registry \<union> set family_keys) = (Crash p, d, registry \<union> set family_keys))"
proof -
  let ?d = "c\<lparr>co_health := (co_health c)\<lparr>fam_samples := (fam_samples (co_health c))([] \<mapsto> 1)\<rparr>\<rparr>"
  have labels: "fam_labels (co_health c) = []" using assms(1) by (simp add: collector_ok_def)
  have "RegisterMetrics c registry = (Ret (), ?d, registry \<union> set family_keys)"
    by (simp add: RegisterMetrics_keys assms register_all distinct_family_keys WithLabelValues_def labels)
  moreover have ok: "collector_ok ?d" using assms(1) by (simp add: collector_ok_def)
  moreover have "sample (co_health ?d) v = Some 1" by (simp add: sample_def labels)
  moreover have "deliveryMetricKey \<in> registry \<union> set family_keys" by (simp add: family_keys_def)
  then have "\<exists>p. for_each MustRegister family_keys (registry \<union> set family_keys) = (Crash p, registry \<union> set family_keys)"
    unfolding family_keys_def by (simp add: MustRegister_def)
  then have "\<exists>p. RegisterMetrics ?d (registry \<union> set family_keys) = (Crash p, ?d, registry \<union> set family_keys)"
    by (auto simp: RegisterMetrics_keys ok)
  ultimately show ?thesis by blast
qed

subsection \<open>The metrics of a delivery\<close>

fun record_effect :: "effect \<Rightarrow> Collector \<Rightarrow> (Collector, unit) outcome" where
  "record_effect (Record_delivery n ns t con sink st) c = RecordDeliveryPerSubscription n ns t con sink st c"
| "record_effect (Record_latency d n ns t con sink st) c = RecordLatencyPerSubscription d n ns t con sink st c"
| "record_effect (Send sink hs ev) c = (Ret (), c)"
| "record_effect (NakWithDelay d) c = (Ret (), c)"
| "record_effect Ack c = (Ret (), c)"

text \<open>The labels of a delivery, by their names.\<close>

definition delivery_value :: "Callback \<Rightarrow> string \<Rightarrow> Event \<Rightarrow> string \<Rightarrow> nat \<Rightarrow> string \<Rightarrow> string" where
  "delivery_value cb sink ev consumer status =
     (\<lambda>_. '''')(subscriptionNameLabel := cb_subscriptionName cb, subscriptionNamespaceLabel := cb_subscriptionNamespace cb,
       eventTypeLabel := ev_type ev, sinkLabel := sink, responseCodeLabel := Itoa (int status), consumerNameLabel := consumer)"

text \<open>One delivery more for these labels, with its duration, and nothing else.\<close>

definition counted :: "Callback \<Rightarrow> msg_env \<Rightarrow> string \<Rightarrow> Event \<Rightarrow> string \<Rightarrow> nat \<Rightarrow> Collector \<Rightarrow> Collector \<Rightarrow> bool" where
  "counted cb msg sink ev consumer status c d \<longleftrightarrow>
     (let v = delivery_value cb sink ev consumer status in
        sample (co_deliveryPerSubscription d) v = Some (Inc (sample (co_deliveryPerSubscription c) v)) \<and>
        sample (co_latencyPerSubscriber d) v = Some (Observe (me_duration msg) (sample (co_latencyPerSubscriber c) v)) \<and>
        (\<forall>w. map w dispatch_labels \<noteq> map v dispatch_labels \<longrightarrow>
           sample (co_deliveryPerSubscription d) w = sample (co_deliveryPerSubscription c) w \<and>
           sample (co_latencyPerSubscriber d) w = sample (co_latencyPerSubscriber c) w)) \<and>
     co_eventTypes d = co_eventTypes c \<and> co_health d = co_health c \<and> co_subscriptionStatus d = co_subscriptionStatus c"

lemma delivery_metrics_recorded:
  assumes "collector_ok c"
  shows "\<exists>d. for_each record_effect (delivery_metrics cb msg sink ev consumer status) c = (Ret (), d) \<and> collector_ok d \<and>
    counted cb msg sink ev consumer status c d"
  using assms
  by (simp add: delivery_metrics_def RecordDeliveryPerSubscription_def RecordLatencyPerSubscription_def WithLabelValues_def
      sample_def delivery_value_def collector_ok_def counted_def Let_def)

text \<open>
  C37. A message whose callback finds its sink, that has a consumer name and decodes to an event, is
  counted once: the counter of the labels that name its Subscription, event type, consumer, sink
  and response code grows by one, its duration is observed once with the same labels, and every
  other sample stays. The response code is that of the answer of the sink; an answer without one
  counts as 200 if it acknowledged the event and as 500 otherwise. No recording panics.
\<close>

theorem delivered_message_counted:
  assumes "collector_ok c" and "js_sinks js (cb_subKeyPrefix cb) = Some sink" and "js_client js"
    and "me_ConsumerName msg = Inr consumer" and "me_Event msg = Inr e" and "callback js cb msg = Ret es"
  shows "\<exists>d. for_each record_effect es c = (Ret (), d) \<and> collector_ok d \<and>
    counted cb msg sink (sent_event js e) consumer
      (response_code (me_Send msg sink (sent_headers e) (sent_event js e))) c d"
proof -
  let ?code = "response_code (me_Send msg sink (sent_headers e) (sent_event js e))"
  obtain d where d: "for_each record_effect (delivery_metrics cb msg sink (sent_event js e) consumer ?code) c = (Ret (), d)"
    "collector_ok d" and rest: "counted cb msg sink (sent_event js e) consumer ?code c d"
    using delivery_metrics_recorded [OF assms(1)] by blast
  have "for_each record_effect es c = (Ret (), d)"
    using d(1) callback_run [OF assms(2-5)] assms(6) by (auto simp: Let_def for_each_append)
  with d(2) rest show ?thesis by blast
qed

theorem delivered_message_counted_witness:
  "\<exists>es d sink ev. callback (fst example_after) (callback_of example_synced)
       \<lparr>me_ConsumerName = Inr ''c'', me_Event = Inr \<lparr>ev_id = ''1'', ev_source = ''source'',
          ev_type = ''kyma.source.order.created.v1'', ev_extensions = Map.empty\<rparr>,
        me_Send = (\<lambda>s h e. \<lparr>sr_ack = False, sr_status = Some 503\<rparr>), me_duration = 5\<rparr> = Ret es \<and>
     for_each record_effect es NewCollector = (Ret (), d) \<and>
     sample (co_deliveryPerSubscription d) (delivery_value (callback_of example_synced) sink ev ''c'' 503) = Some 1"
proof -
  let ?cb = "callback_of example_synced"
  let ?e = "\<lparr>ev_id = ''1'', ev_source = ''source'', ev_type = ''kyma.source.order.created.v1'', ev_extensions = Map.empty\<rparr>"
  let ?msg = "\<lparr>me_ConsumerName = Inr ''c'', me_Event = Inr ?e,
        me_Send = (\<lambda>s h e. \<lparr>sr_ack = False, sr_status = Some 503\<rparr>), me_duration = 5\<rparr> :: msg_env"
  let ?ev = "sent_event (fst example_after) ?e"
  obtain sb where sb: "js_subscriptions (fst example_after) example_key = Some sb" "sb_callback sb = ?cb"
    and free: "CHR ''/'' \<notin> set (sb_subject sb)"
    by (rule example_after_stored)
  obtain sink where sink: "js_sinks (fst example_after) (cb_subKeyPrefix ?cb) = Some sink"
    using sinks_invD(2) [OF js_reachable_sinks [OF example_after_reachable] sb(1) free] sb(2) by auto
  obtain es where es: "callback (fst example_after) ?cb ?msg = Ret es"
    using callback_run [OF sink example_after_client, of ?msg "''c''" ?e] by (auto simp: Let_def)
  obtain d where "for_each record_effect es NewCollector = (Ret (), d)"
    "counted ?cb ?msg sink ?ev ''c'' 503 NewCollector d"
    using delivered_message_counted [OF collector_ok_New sink example_after_client _ _ es, of "''c''" ?e]
    by (auto simp: response_code_def)
  moreover from this(2) have "sample (co_deliveryPerSubscription d) (delivery_value ?cb sink ?ev ''c'' 503) = Some 1"
    by (simp add: counted_def Let_def NewCollector_def new_family_def sample_def Inc_def)
  ultimately show ?thesis using es by blast
qed

end
