(* ===== verification/Object_Cache.thy ===== *)
theory Object_Cache
  imports Eventing_Manager
begin

section \<open>The cache of the Kubernetes client (internal/controller/cache, client, internal/label)\<close>

text \<open>
  The client of the operator reads through a cache that holds, for some kinds, only the objects with
  the label of the operator, and it bypasses the cache for other kinds. Shown is that the operator can
  read every object that it creates itself.
\<close>

definition SelectorCreatedByEventingManager :: "(string \<times> string) list" where
  "SelectorCreatedByEventingManager = [(KeyCreatedBy, ValueEventingManager)]"

text \<open>The fields of the options that are set; a kind stands for the Go type of an object.\<close>

record CacheOptions =
  cao_ByObject :: "(TypeMeta \<times> (string \<times> string) list) list"

record ClientOptions =
  clo_DisableFor :: "TypeMeta list"

definition fromLabelSelector :: "(string \<times> string) list \<Rightarrow> (string \<times> string) list" where
  "fromLabelSelector selector = selector"

abbreviation rbac_v1 :: string where "rbac_v1 \<equiv> ''rbac.authorization.k8s.io/v1''"

definition applySelectors :: "CacheOptions \<Rightarrow> CacheOptions" where
  "applySelectors options =
     (let createdByEventingManager = fromLabelSelector SelectorCreatedByEventingManager in
      options\<lparr>cao_ByObject :=
        [(\<lparr>tm_kind = ''Deployment'', tm_apiVersion = ''apps/v1''\<rparr>, createdByEventingManager),
         (\<lparr>tm_kind = ''ServiceAccount'', tm_apiVersion = ''v1''\<rparr>, createdByEventingManager),
         (\<lparr>tm_kind = ''ClusterRole'', tm_apiVersion = rbac_v1\<rparr>, createdByEventingManager),
         (\<lparr>tm_kind = ''ClusterRoleBinding'', tm_apiVersion = rbac_v1\<rparr>, createdByEventingManager),
         (\<lparr>tm_kind = ''HorizontalPodAutoscaler'', tm_apiVersion = ''autoscaling/v1''\<rparr>, createdByEventingManager)]\<rparr>)"

definition disableCacheForObjects :: "ClientOptions \<Rightarrow> ClientOptions" where
  "disableCacheForObjects options =
     options\<lparr>clo_DisableFor :=
       [\<lparr>tm_kind = ''Secret'', tm_apiVersion = ''v1''\<rparr>, \<lparr>tm_kind = ''Service'', tm_apiVersion = ''v1''\<rparr>,
        \<lparr>tm_kind = ''ConfigMap'', tm_apiVersion = ''v1''\<rparr>]\<rparr>"

text \<open>A label selector that is made from a set asks for each of its pairs.\<close>

definition selects :: "(string \<times> string) list \<Rightarrow> gomap \<Rightarrow> bool" where
  "selects selector labels \<longleftrightarrow> list_all (\<lambda>(k, v). fmlookup (entries labels) k = Some v) selector"

definition readable :: "CacheOptions \<Rightarrow> ClientOptions \<Rightarrow> k8s_object \<Rightarrow> bool" where
  "readable cache client x \<longleftrightarrow>
     obj_type x \<in> set (clo_DisableFor client) \<or>
     (case map_of (cao_ByObject cache) (obj_type x) of
        None \<Rightarrow> True
      | Some selector \<Rightarrow> selects selector (om_labels (obj_meta x)))"

abbreviation reads :: "k8s_object \<Rightarrow> bool" where
  "reads \<equiv> readable (applySelectors \<lparr>cao_ByObject = []\<rparr>) (disableCacheForObjects \<lparr>clo_DisableFor = []\<rparr>)"

lemma reads_labelled:
  assumes "fmlookup (entries (om_labels (obj_meta x))) KeyCreatedBy = Some ValueEventingManager"
  shows "reads x"
  using assms
  by (simp add: readable_def selects_def applySelectors_def fromLabelSelector_def SelectorCreatedByEventingManager_def Let_def
      split: option.split)

lemma getLabels_created_by: "fmlookup (getLabels n b) KeyCreatedBy = Some ValueEventingManager"
  by (simp add: getLabels_def fmlookup_of_list)

lemma desired_publisher_labels:
  assumes "desired_publisher lib bc e nc b = Ret d"
  shows "om_labels (dep_meta d) = Some (getLabels (GetPublisherDeploymentName e) b) \<and> om_ownerReferences (dep_meta d) = []"
  using assms
  by (auto simp: desired_publisher_def newNATSPublisherDeployment_def newEventMeshPublisherDeployment_def deploy_opts Let_def
      split: if_splits option.splits result.splits)

lemma publisher_objects_meta:
  assumes "x = ODeployment d \<or> x \<in> set (publisher_resources e d)" and "om_ownerReferences (dep_meta d) = []"
  shows "om_labels (obj_meta x) = om_labels (dep_meta d) \<and> om_ownerReferences (obj_meta x) = []"
  using assms
  by (auto simp: publisher_resources_def newPublisherProxyServiceAccount_def newPublisherProxyClusterRole_def
      newPublisherProxyClusterRoleBinding_def newPublisherProxyService_def newPublisherProxyMetricsService_def
      newPublisherProxyHealthService_def newHorizontalPodAutoscaler_def Let_def)

text \<open>
  C38. The operator can read what it deploys: the publisher deployment and each of its resources, with
  its owner reference, carries the label that the cache selects.
\<close>

theorem published_objects_readable:
  assumes "desired_publisher lib bc e nc b = Ret d" and "sets_owner lib"
    and "x = ODeployment d \<or> x \<in> set (publisher_resources e d)"
    and "ol_SetControllerReference lib e (obj_meta x) = Inr m"
  shows "reads (set_obj_meta m x)"
proof -
  have "om_labels (obj_meta x) = Some (getLabels (GetPublisherDeploymentName e) b)" "om_ownerReferences (obj_meta x) = []"
    using publisher_objects_meta [OF assms(3)] desired_publisher_labels [OF assms(1)] by simp_all
  with sets_ownerD [OF assms(2,4)] have "om_labels m = Some (getLabels (GetPublisherDeploymentName e) b)" by auto
  then show ?thesis by (intro reads_labelled) (simp add: entries_def getLabels_created_by)
qed

theorem published_objects_readable_witness:
  "\<exists>d m. desired_publisher example_lib example_env_config (example_eventing ''EventMesh'') None ''EventMesh'' = Ret d \<and>
     ol_SetControllerReference example_lib (example_eventing ''EventMesh'') (dep_meta d) = Inr m \<and>
     reads (set_obj_meta m (ODeployment d))"
proof -
  let ?e = "example_eventing ''EventMesh''"
  obtain d where d: "desired_publisher example_lib example_env_config ?e None ''EventMesh'' = Ret d"
    using eventmesh_publisher_ok [OF example_eventing_simps(1) example_quantities]
    by (auto simp: desired_publisher_def example_lib_def)
  have "om_ownerReferences (dep_meta d) = []" using desired_publisher_labels [OF d] by simp
  then obtain m where m: "ol_SetControllerReference example_lib ?e (dep_meta d) = Inr m" by (simp add: example_lib_def)
  with published_objects_readable [OF d example_sets_owner, of "ODeployment d" m] d show ?thesis by auto
qed

text \<open>
  The entry for autoscalers names \<^verbatim>\<open>autoscaling/v1\<close>, but the operator creates and watches
  \<^verbatim>\<open>autoscaling/v2\<close>: an autoscaler of that version is cached whatever its labels are.
\<close>

lemma autoscaler_not_selected:
  "obj_type (OHPA (newHorizontalPodAutoscaler n ns a b c d labels)) = t \<Longrightarrow>
   map_of (cao_ByObject (applySelectors options)) t = None"
  by (auto simp: newHorizontalPodAutoscaler_def applySelectors_def Let_def)

end
