(* ===== verification/Process_Start.thy ===== *)
theory Process_Start
  imports Operator_Managers Peer_Authentication Metrics_Collector Object_Cache
begin

section \<open>The start of the process (cmd/main.go, options, pkg/env/config.go)\<close>

text \<open>
  The command-line options, the environment and \<open>main\<close>: in which order the parts of the operator are
  made, what is given to the reconciler, and with which status the process ends.
\<close>

subsection \<open>options.go\<close>

text \<open>
  The package \<^verbatim>\<open>flag\<close> of the standard library: flags are registered with their defaults, and the
  command line, here already split into names and values, may set them, the last value counts. An
  unknown flag or a value of another type ends the process with status 2.
\<close>

datatype flag_value = FlagInt int | FlagString string | FlagDuration time | FlagBool bool

fun same_flag_type :: "flag_value \<Rightarrow> flag_value \<Rightarrow> bool" where
  "same_flag_type (FlagInt _) (FlagInt _) = True"
| "same_flag_type (FlagString _) (FlagString _) = True"
| "same_flag_type (FlagDuration _) (FlagDuration _) = True"
| "same_flag_type (FlagBool _) (FlagBool _) = True"
| "same_flag_type _ _ = False"

definition flag_Parse ::
  "(string \<times> flag_value) list \<Rightarrow> (string \<times> flag_value) list \<Rightarrow> (string \<rightharpoonup> flag_value) option" where
  "flag_Parse registered args =
     (if list_all (\<lambda>(name, v). case map_of registered name of None \<Rightarrow> False | Some d \<Rightarrow> same_flag_type d v) args
      then Some (map_of registered ++ map_of (rev args)) else None)"

definition flag_int :: "(string \<rightharpoonup> flag_value) \<Rightarrow> string \<Rightarrow> int" where
  "flag_int flags name = (case flags name of Some (FlagInt i) \<Rightarrow> i | _ \<Rightarrow> 0)"

definition flag_string :: "(string \<rightharpoonup> flag_value) \<Rightarrow> string \<Rightarrow> string" where
  "flag_string flags name = (case flags name of Some (FlagString s) \<Rightarrow> s | _ \<Rightarrow> '''')"

definition flag_duration :: "(string \<rightharpoonup> flag_value) \<Rightarrow> string \<Rightarrow> time" where
  "flag_duration flags name = (case flags name of Some (FlagDuration d) \<Rightarrow> d | _ \<Rightarrow> 0)"

definition flag_bool :: "(string \<rightharpoonup> flag_value) \<Rightarrow> string \<Rightarrow> bool" where
  "flag_bool flags name = (case flags name of Some (FlagBool b) \<Rightarrow> b | _ \<Rightarrow> False)"

abbreviation argNameMaxReconnects :: string where "argNameMaxReconnects \<equiv> ''max-reconnects''"
abbreviation argNameMetricsAddr :: string where "argNameMetricsAddr \<equiv> ''metrics-addr''"
abbreviation argNameReconnectWait :: string where "argNameReconnectWait \<equiv> ''reconnect-wait''"
abbreviation argNameReconcilePeriod :: string where "argNameReconcilePeriod \<equiv> ''reconcile-period''"
abbreviation argNameProbeAddr :: string where "argNameProbeAddr \<equiv> ''health-probe-bind-addr''"
abbreviation argNameReadyEndpoint :: string where "argNameReadyEndpoint \<equiv> ''ready-check-endpoint''"
abbreviation argNameHealthEndpoint :: string where "argNameHealthEndpoint \<equiv> ''health-check-endpoint''"

abbreviation defaultMaxReconnects :: int where "defaultMaxReconnects \<equiv> 10"
abbreviation defaultMetricsAddr :: string where "defaultMetricsAddr \<equiv> '':8080''"
abbreviation defaultReconnectWait :: time where "defaultReconnectWait \<equiv> 3 * Second"
abbreviation defaultReconcilePeriod :: time where "defaultReconcilePeriod \<equiv> 600 * Second"
abbreviation defaultProbeAddr :: string where "defaultProbeAddr \<equiv> '':8081''"
abbreviation defaultReadyEndpoint :: string where "defaultReadyEndpoint \<equiv> ''readyz''"
abbreviation defaultHealthEndpoint :: string where "defaultHealthEndpoint \<equiv> ''healthz''"

record Args =
  ar_MaxReconnects :: int
  ar_MetricsAddr :: string
  ar_ReconnectWait :: time
  ar_ReconcilePeriod :: time
  ar_ProbeAddr :: string
  ar_ReadyEndpoint :: string
  ar_HealthEndpoint :: string

record Env =
  en_LogFormat :: string
  en_LogLevel :: string

record Options =
  opt_args :: Args
  opt_env :: Env

definition option_flags :: "(string \<times> flag_value) list" where
  "option_flags =
     [(argNameMaxReconnects, FlagInt defaultMaxReconnects), (argNameMetricsAddr, FlagString defaultMetricsAddr),
      (argNameReconnectWait, FlagDuration defaultReconnectWait), (argNameReconcilePeriod, FlagDuration defaultReconcilePeriod),
      (argNameProbeAddr, FlagString defaultProbeAddr), (argNameReadyEndpoint, FlagString defaultReadyEndpoint),
      (argNameHealthEndpoint, FlagString defaultHealthEndpoint)]"

definition args_of :: "(string \<rightharpoonup> flag_value) \<Rightarrow> Args" where
  "args_of flags =
     \<lparr>ar_MaxReconnects = flag_int flags argNameMaxReconnects, ar_MetricsAddr = flag_string flags argNameMetricsAddr,
      ar_ReconnectWait = flag_duration flags argNameReconnectWait,
      ar_ReconcilePeriod = flag_duration flags argNameReconcilePeriod, ar_ProbeAddr = flag_string flags argNameProbeAddr,
      ar_ReadyEndpoint = flag_string flags argNameReadyEndpoint, ar_HealthEndpoint = flag_string flags argNameHealthEndpoint\<rparr>"

text \<open>How the process ends: with a status, or with a panic.\<close>

datatype exit = Exit nat | Panic string

text \<open>\<open>registered\<close> are the flags of \<open>main\<close>; \<open>process\<close> is \<^verbatim>\<open>envconfig.Process\<close> on the variables of \<open>Env\<close>.\<close>

definition Parse_options ::
  "(string \<times> flag_value) list \<Rightarrow> (string \<times> flag_value) list \<Rightarrow> goerr + Env \<Rightarrow>
   exit + ((string \<rightharpoonup> flag_value) \<times> (goerr + Options))" where
  "Parse_options registered args process =
     (case flag_Parse (registered @ option_flags) args of
        None \<Rightarrow> Inl (Exit 2)
      | Some flags \<Rightarrow>
          Inr (flags, case process of Inl err \<Rightarrow> Inl err | Inr e \<Rightarrow> Inr \<lparr>opt_args = args_of flags, opt_env = e\<rparr>))"

subsection \<open>config.go\<close>

abbreviation backendValueBEB :: string where "backendValueBEB \<equiv> ''BEB''"
abbreviation backendValueNats :: string where "backendValueNats \<equiv> ''NATS''"
abbreviation ErrInvalidBackend :: goerr where "ErrInvalidBackend \<equiv> Sentinel ''invalid backend''"

definition Backend_env :: "(string \<rightharpoonup> string) \<Rightarrow> string result" where
  "Backend_env environ =
     (let backend = ToUpper (case environ ''BACKEND'' of None \<Rightarrow> '''' | Some v \<Rightarrow> v) in
      if backend = backendValueBEB then Ret backendValueBEB
      else if backend = backendValueNats \<or> backend = '''' then Ret backendValueNats
      else Err (Wrapped ['''', '': '' @ backend] [ErrInvalidBackend]))"


subsection \<open>main.go\<close>

text \<open>
  What \<open>main\<close> is given: the command line, the variables of the environment that the two configurations
  read, and the libraries, which act on the world of the operator. \<open>mn_Start\<close> is \<^verbatim>\<open>mgr.Start\<close>: it runs
  the controllers, here with the environment and the state of the Eventing reconciler, until the
  process is told to stop.
\<close>

record manager_options =
  mo_HealthProbeBindAddress :: string
  mo_LeaderElection :: bool
  mo_LeaderElectionID :: string
  mo_SyncPeriod :: time
  mo_MetricsBindAddress :: string
  mo_NewCache :: CacheOptions
  mo_NewClient :: ClientOptions

record ('m, 'c, 'u, 'k) main_env =
  mn_args :: "(string \<times> flag_value) list"
  mn_Env :: "goerr + Env"
  mn_BackendConfig :: "goerr + EnvBackendConfig"
  mn_AddToScheme :: "string \<Rightarrow> goerr option"
  mn_NewLogger :: "string \<Rightarrow> string \<Rightarrow> goerr option"
  mn_GetConfig :: "goerr option"
  mn_NewManager :: "manager_options \<Rightarrow> ('k, unit) call"
  mn_NewDynamicClient :: "goerr option"
  mn_NewClientset :: "goerr option"
  mn_registry :: "string set"
  mn_unstructured :: "('u, 'k) unstructured_client"
  mn_SetupWithManager :: "('k, unit) call"
  mn_AddHealthzCheck :: "('k, unit) call"
  mn_AddReadyzCheck :: "('k, unit) call"
  mn_Start :: "('m, 'c, 'k) op_env \<Rightarrow> ('m, 'c, 'k) op_state \<Rightarrow> ('k, unit) call"

text \<open>A step either ends the process or goes on with a value.\<close>

type_synonym ('k, 'a) step = "(exit + 'a) \<times> 'k"

fun and_then :: "('k, 'a) step \<Rightarrow> ('a \<Rightarrow> 'k \<Rightarrow> ('k, 'b) step) \<Rightarrow> ('k, 'b) step" where
  "and_then (Inl e, k) f = (Inl e, k)"
| "and_then (Inr a, k) f = f a k"

text \<open>\<^verbatim>\<open>os.Exit(1)\<close> or \<^verbatim>\<open>log.Fatalf\<close> on an error.\<close>

definition or_exit :: "('k, 'a) outcome \<Rightarrow> ('k, 'a) step" where
  "or_exit m = (case m of (Ret a, k) \<Rightarrow> (Inr a, k) | (Err err, k) \<Rightarrow> (Inl (Exit 1), k) | (Crash p, k) \<Rightarrow> (Inl (Panic p), k))"

definition or_panic :: "goerr option \<Rightarrow> 'k \<Rightarrow> ('k, unit) step" where
  "or_panic err k = (case err of None \<Rightarrow> (Inr (), k) | Some err \<Rightarrow> (Inl (Panic (Error err)), k))"

definition schemes :: "string list" where
  "schemes =
     [''kubernetes'', ''operator.kyma-project.io/v1alpha1'', ''gateway.kyma-project.io/v2'', ''apiextensions.k8s.io/v1'',
      ''jetstream'', ''jetstream v1alpha2'', ''eventing.kyma-project.io/v1alpha2'', ''security.istio.io/v1beta1'']"

fun registerSchemas :: "(string \<Rightarrow> goerr option) \<Rightarrow> string list \<Rightarrow> 'k \<Rightarrow> ('k, unit) step" where
  "registerSchemas add [] k = (Inr (), k)"
| "registerSchemas add (x # xs) k = and_then (or_panic (add x) k) (\<lambda>_. registerSchemas add xs)"

definition initNATSConnectionBuilder :: "ConnectionBuilder result" where
  "initNATSConnectionBuilder =
     NewBuilder ''nats://eventing-nats.kyma-system.svc.cluster.local:4222'' ''Eventing Reconciler''
       [''MaxReconnects:-1'', ''RetryOnFailedConnect:true'', ''ReconnectWait:1s'']"

abbreviation leaderElectFlag :: string where "leaderElectFlag \<equiv> ''leader-elect''"
abbreviation leaderElectionIDFlag :: string where "leaderElectionIDFlag \<equiv> ''leaderElectionID''"
abbreviation metricsPortFlag :: string where "metricsPortFlag \<equiv> ''metricsPort''"

definition main_flags :: "(string \<times> flag_value) list" where
  "main_flags =
     [(leaderElectFlag, FlagBool False), (leaderElectionIDFlag, FlagString ''26479083.kyma-project.io''),
      (metricsPortFlag, FlagInt 9443)]"

text \<open>The environment of the reconciler: what the libraries give, and what \<open>main\<close> sets.\<close>

definition reconciler_env ::
  "('m, 'c, 'k) op_env \<Rightarrow> Options \<Rightarrow> EnvBackendConfig \<Rightarrow> ConnectionBuilder \<Rightarrow> ('m, 'c, 'k) op_env" where
  "reconciler_env oe opts backendConfig builder =
     oe\<lparr>oe_builder := builder, oe_maxReconnects := ar_MaxReconnects (opt_args opts),
       oe_reconnectWait := ar_ReconnectWait (opt_args opts),
       oe_allowedEventingCR := Some (ebc_eventingCRName backendConfig, ebc_eventingCRNamespace backendConfig)\<rparr>"

text \<open>From the client on; the collector is made and registered before the reconciler.\<close>

definition main_run ::
  "('m, 'c, 'u, 'k) main_env \<Rightarrow> ('m, 'c, 'k) op_env \<Rightarrow> (string \<rightharpoonup> string) \<Rightarrow> Options \<Rightarrow> 'k \<Rightarrow> ('k, unit) step" where
  "main_run mn oe environ opts k =
     and_then (or_panic (mn_NewDynamicClient mn) k) (\<lambda>_ k.
     and_then (or_exit (of_err (mn_NewClientset mn), k)) (\<lambda>_ k.
     and_then (or_exit (case mn_BackendConfig mn of Inl err \<Rightarrow> Err err | Inr c \<Rightarrow> Ret c, k)) (\<lambda>backendConfig k.
     and_then (or_exit (fst (RegisterMetrics NewCollector (mn_registry mn)), k)) (\<lambda>_ k.
     and_then (or_exit (initNATSConnectionBuilder, k)) (\<lambda>builder k.
     let env = reconciler_env oe opts backendConfig builder in
     and_then (or_exit (mn_SetupWithManager mn k)) (\<lambda>_ k.
     and_then (or_exit (SyncPeerAuthentications (oe_client env) (mn_unstructured mn) k)) (\<lambda>_ k.
     and_then (or_exit (mn_AddHealthzCheck mn k)) (\<lambda>_ k.
     and_then (or_exit (mn_AddReadyzCheck mn k)) (\<lambda>_ k.
       or_exit (mn_Start mn env (NewReconciler backendConfig k environ) k))))))))))"

definition manager_options_of :: "(string \<rightharpoonup> flag_value) \<Rightarrow> Options \<Rightarrow> manager_options" where
  "manager_options_of flags opts =
     \<lparr>mo_HealthProbeBindAddress = ar_ProbeAddr (opt_args opts), mo_LeaderElection = flag_bool flags leaderElectFlag,
      mo_LeaderElectionID = flag_string flags leaderElectionIDFlag, mo_SyncPeriod = ar_ReconcilePeriod (opt_args opts),
      mo_MetricsBindAddress = ar_MetricsAddr (opt_args opts), mo_NewCache = applySelectors \<lparr>cao_ByObject = []\<rparr>,
      mo_NewClient = disableCacheForObjects \<lparr>clo_DisableFor = []\<rparr>\<rparr>"

text \<open>A process whose \<open>main\<close> returns ends with status 0.\<close>

definition main :: "('m, 'c, 'u, 'k) main_env \<Rightarrow> ('m, 'c, 'k) op_env \<Rightarrow> (string \<rightharpoonup> string) \<Rightarrow> 'k \<Rightarrow> ('k, unit) step" where
  "main mn oe environ k =
     and_then (registerSchemas (mn_AddToScheme mn) schemes k) (\<lambda>_ k.
       case Parse_options main_flags (mn_args mn) (mn_Env mn) of
         Inl e \<Rightarrow> (Inl e, k)
       | Inr (flags, parsed) \<Rightarrow>
           and_then (or_exit (case parsed of Inl err \<Rightarrow> Err err | Inr opts \<Rightarrow> Ret opts, k)) (\<lambda>opts k.
           and_then (or_exit (of_err (mn_NewLogger mn (en_LogFormat (opt_env opts)) (en_LogLevel (opt_env opts))), k)) (\<lambda>_ k.
           and_then (or_exit (of_err (mn_GetConfig mn), k)) (\<lambda>_ k.
           and_then (or_exit (mn_NewManager mn (manager_options_of flags opts) k)) (\<lambda>_ k.
             main_run mn oe environ opts k)))))"

subsection \<open>What a process that ends well has done\<close>

lemma and_then_Inr: "and_then m f = (Inr b, t) \<longleftrightarrow> (\<exists>a k. m = (Inr a, k) \<and> f a k = (Inr b, t))"
  by (cases "(m, f)" rule: and_then.cases) auto

lemma or_exit_simps [simp]:
  "or_exit (Ret a, k) = (Inr a, k)" "or_exit (Err err, k) = (Inl (Exit 1), k)" "or_exit (Crash p, k) = (Inl (Panic p), k)"
  by (simp_all add: or_exit_def)

lemma or_exit_Inr: "or_exit m = (Inr a, k) \<longleftrightarrow> m = (Ret a, k)"
  by (auto simp: or_exit_def split: prod.splits result.splits)

lemma or_panic_Inr: "or_panic e k = (Inr a, t) \<longleftrightarrow> e = None \<and> t = k"
  by (auto simp: or_panic_def split: option.splits)

lemma registerSchemas_world: "snd (registerSchemas add xs k) = k"
proof (induction xs)
  case (Cons x xs)
  then show ?case by (cases "add x") (simp_all add: or_panic_def)
qed simp

lemma registered_disjoint:
  "for_each MustRegister keys registry = (Ret (), r) \<Longrightarrow> registry \<inter> set keys = {}"
  by (induction keys arbitrary: registry) (auto simp: MustRegister_def split: if_splits)

lemma RegisterMetrics_Ret:
  assumes "fst (RegisterMetrics NewCollector registry) = Ret ()"
  shows "registry \<inter> set family_keys = {}"
  using assms registered_disjoint [of family_keys registry]
  by (auto simp: RegisterMetrics_keys split: prod.splits result.splits)

lemma initNATSConnectionBuilder_Ret: "\<exists>b. initNATSConnectionBuilder = Ret b"
proof -
  have "length (TrimSpace ''nats://eventing-nats.kyma-system.svc.cluster.local:4222'') \<noteq> 0"
    and "length (TrimSpace ''Eventing Reconciler'') \<noteq> 0" by code_simp+
  then show ?thesis by (simp add: initNATSConnectionBuilder_def NewBuilder_def)
qed

lemma slots_ok_New: "slots_ok (NewReconciler c k environ)"
  by (simp add: slots_ok_def NewReconciler_def)

text \<open>
  When the process ends with status 0, the operator has run: the metrics were registered, the
  PeerAuthentications were synchronised first, and the manager was started with a reconciler in its
  initial state that has the reconnection settings of the command line and the Eventing resource of
  the environment.
\<close>

theorem main_runs_operator:
  assumes "main mn oe environ k = (Inr (), k')"
  shows "\<exists>flags opts c builder k1 k2 k3. Parse_options main_flags (mn_args mn) (mn_Env mn) = Inr (flags, Inr opts) \<and>
    mn_BackendConfig mn = Inr c \<and> initNATSConnectionBuilder = Ret builder \<and> mn_registry mn \<inter> set family_keys = {} \<and>
    SyncPeerAuthentications (oe_client oe) (mn_unstructured mn) k1 = (Ret (), k2) \<and>
    mn_Start mn (reconciler_env oe opts c builder) (NewReconciler c k3 environ) k3 = (Ret (), k')"
proof -
  obtain flags opts kr where parse: "Parse_options main_flags (mn_args mn) (mn_Env mn) = Inr (flags, Inr opts)"
    and run: "main_run mn oe environ opts kr = (Inr (), k')"
  proof (cases "Parse_options main_flags (mn_args mn) (mn_Env mn)")
    case (Inr fp)
    obtain flags parsed where fp: "fp = (flags, parsed)" by (rule prod.exhaust)
    with Inr assms that show thesis by (cases parsed) (auto simp: main_def and_then_Inr or_exit_Inr)
  qed (use assms in \<open>simp add: main_def and_then_Inr\<close>)
  from run show ?thesis
    using parse RegisterMetrics_Ret [of "mn_registry mn"]
    by (fastforce simp: main_run_def and_then_Inr or_exit_Inr or_panic_Inr Let_def reconciler_env_def split: sum.splits)
qed

text \<open>A process that starts on an empty cluster.\<close>

definition example_main :: "(string, unit, unit, cluster) main_env" where
  "example_main =
     \<lparr>mn_args = [(argNameMaxReconnects, FlagInt 5)], mn_Env = Inr \<lparr>en_LogFormat = ''json'', en_LogLevel = ''warn''\<rparr>,
      mn_BackendConfig = Inr example_env_config, mn_AddToScheme = (\<lambda>_. None), mn_NewLogger = (\<lambda>_ _. None),
      mn_GetConfig = None, mn_NewManager = (\<lambda>_ k. (Ret (), k)), mn_NewDynamicClient = None, mn_NewClientset = None,
      mn_registry = {}, mn_unstructured = \<lparr>uc_GetDeployment = (\<lambda>_ _ _. Inl not_found), uc_FromUnstructured = (\<lambda>_. Inl not_found),
        uc_ToUnstructured = (\<lambda>_. Inr ()), uc_Patch = (\<lambda>_ k. (None, k))\<rparr>,
      mn_SetupWithManager = (\<lambda>k. (Ret (), k)), mn_AddHealthzCheck = (\<lambda>k. (Ret (), k)),
      mn_AddReadyzCheck = (\<lambda>k. (Ret (), k)), mn_Start = (\<lambda>_ _ k. (Ret (), k))\<rparr>"

lemma example_main_simps:
  "mn_Env example_main = Inr \<lparr>en_LogFormat = ''json'', en_LogLevel = ''warn''\<rparr>"
  "mn_BackendConfig example_main = Inr example_env_config" "mn_AddToScheme example_main = (\<lambda>_. None)"
  "mn_NewLogger example_main = (\<lambda>_ _. None)" "mn_GetConfig example_main = None"
  "mn_NewManager example_main = (\<lambda>_ k. (Ret (), k))" "mn_NewDynamicClient example_main = None"
  "mn_NewClientset example_main = None" "mn_registry example_main = {}" "mn_SetupWithManager example_main = (\<lambda>k. (Ret (), k))"
  "mn_AddHealthzCheck example_main = (\<lambda>k. (Ret (), k))" "mn_AddReadyzCheck example_main = (\<lambda>k. (Ret (), k))"
  "mn_Start example_main = (\<lambda>_ _ k. (Ret (), k))"
  by (simp_all add: example_main_def)

lemma example_main_parse:
  "\<exists>flags opts. Parse_options main_flags (mn_args example_main) (mn_Env example_main) = Inr (flags, Inr opts) \<and>
     ar_MaxReconnects (opt_args opts) = 5"
  by (simp add: example_main_def Parse_options_def flag_Parse_def main_flags_def option_flags_def args_of_def flag_int_def)

lemma example_main_registers: "fst (RegisterMetrics NewCollector {}) = Ret ()"
  using RegisterMetrics_once [OF collector_ok_New, of "{}" undefined] by auto

lemma example_main_sync: "SyncPeerAuthentications (oe_client example_op_env) u empty_cluster = (Ret (), empty_cluster)"
  by (simp add: SyncPeerAuthentications_def PeerAuthenticationCRDExists_def GetCRD_def crd_exists_def IgnoreNotFound_def
      example_op_env_def example_client_def empty_cluster_def)

theorem main_runs_operator_witness:
  "\<exists>flags opts c builder. main example_main example_op_env Map.empty empty_cluster = (Inr (), empty_cluster) \<and>
     Parse_options main_flags (mn_args example_main) (mn_Env example_main) = Inr (flags, Inr opts) \<and>
     mn_Start example_main (reconciler_env example_op_env opts c builder) (NewReconciler c empty_cluster Map.empty) empty_cluster =
       (Ret (), empty_cluster)"
proof -
  obtain flags opts where parse: "Parse_options main_flags (mn_args example_main) (mn_Env example_main) = Inr (flags, Inr opts)"
    using example_main_parse by blast
  have "registerSchemas (mn_AddToScheme example_main) xs k = (Inr (), k)" for xs and k :: cluster
    by (induction xs) (simp_all add: example_main_def or_panic_def)
  moreover obtain b where b: "initNATSConnectionBuilder = Ret b" using initNATSConnectionBuilder_Ret by blast
  ultimately have "main example_main example_op_env Map.empty empty_cluster = (Inr (), empty_cluster)"
    using parse example_main_registers example_main_sync [of "mn_unstructured example_main"]
    by (simp add: main_def main_run_def or_exit_def or_panic_def reconciler_env_def Let_def example_main_simps b)
  from this main_runs_operator [OF this] show ?thesis by (fastforce simp: example_main_def)
qed

subsection \<open>Flags without an effect\<close>

lemma flag_Parse_snoc:
  assumes "map_of registered name = Some d" and "same_flag_type d v"
  shows "flag_Parse registered (args @ [(name, v)]) = map_option (\<lambda>flags. flags(name \<mapsto> v)) (flag_Parse registered args)"
  using assms by (simp add: flag_Parse_def)

lemma main_run_args:
  assumes "ar_MaxReconnects (opt_args opts) = ar_MaxReconnects (opt_args opts')"
    and "ar_ReconnectWait (opt_args opts) = ar_ReconnectWait (opt_args opts')"
  shows "main_run (mn\<lparr>mn_args := args\<rparr>) oe environ opts k = main_run mn oe environ opts' k"
  using assms by (simp add: main_run_def reconciler_env_def)

text \<open>
  Three flags are accepted and change nothing: the port of the metrics, and the endpoints of the
  readiness and of the health check.
\<close>

theorem ignored_flags:
  assumes "(name, v) \<in> {(metricsPortFlag, FlagInt p), (argNameReadyEndpoint, FlagString t), (argNameHealthEndpoint, FlagString t)}"
  shows "main (mn\<lparr>mn_args := mn_args mn @ [(name, v)]\<rparr>) oe environ k = main mn oe environ k"
proof -
  obtain d where d: "map_of (main_flags @ option_flags) name = Some d" "same_flag_type d v"
    using assms by (auto simp: main_flags_def option_flags_def)
  have other: "\<forall>x \<in> {leaderElectFlag, leaderElectionIDFlag, argNameMaxReconnects, argNameMetricsAddr, argNameReconnectWait,
      argNameReconcilePeriod, argNameProbeAddr}. x \<noteq> name"
    using assms by auto
  then have same: "manager_options_of (flags(name \<mapsto> v)) \<lparr>opt_args = args_of (flags(name \<mapsto> v)), opt_env = e\<rparr> =
      manager_options_of flags \<lparr>opt_args = args_of flags, opt_env = e\<rparr>"
    "ar_MaxReconnects (args_of (flags(name \<mapsto> v))) = ar_MaxReconnects (args_of flags)"
    "ar_ReconnectWait (args_of (flags(name \<mapsto> v))) = ar_ReconnectWait (args_of flags)" for flags e
    by (simp_all add: manager_options_of_def args_of_def flag_bool_def flag_string_def flag_int_def flag_duration_def)
  have run: "main_run (mn\<lparr>mn_args := args\<rparr>) oe environ \<lparr>opt_args = args_of (flags(name \<mapsto> v)), opt_env = e\<rparr> k =
      main_run mn oe environ \<lparr>opt_args = args_of flags, opt_env = e\<rparr> k" for k args flags e
    by (rule main_run_args) (simp_all add: same(2,3))
  show ?thesis
    by (cases "flag_Parse (main_flags @ option_flags) (mn_args mn)"; cases "mn_Env mn")
      (simp_all add: main_def Parse_options_def flag_Parse_snoc [OF d] same(1) run [THEN ext])
qed

theorem ignored_flags_witness:
  "main (example_main\<lparr>mn_args := mn_args example_main @ [(metricsPortFlag, FlagInt 1)]\<rparr>) example_op_env Map.empty empty_cluster =
     main example_main example_op_env Map.empty empty_cluster"
  by (rule ignored_flags [where p = 1 and t = "''x''"]) simp

end
