(* ===== verification/Process_Signals.thy ===== *)
theory Process_Signals
  imports Go_Errors
begin

section \<open>Termination signals (pkg/signals/signals.go)\<close>

text \<open>
  A context that is done after the first termination signal; a second signal ends the process. The
  goroutine of the handler reads a channel with room for two signals, into which the run time puts a
  signal without waiting: if the channel is full the signal is lost. Shown is that this loses nothing
  that matters.
\<close>

abbreviation ErrTerminationRequested :: goerr where
  "ErrTerminationRequested \<equiv> Sentinel ''received a termination signal''"

text \<open>Where the goroutine of \<open>setupStopChannel\<close> is.\<close>

datatype waiting = First_signal | Second_signal | Exited

record stop_channel =
  sc_queue :: nat
  sc_stop_closed :: bool
  sc_goroutine :: waiting

abbreviation chanSize :: nat where "chanSize \<equiv> 2"

definition setupStopChannel :: stop_channel where
  "setupStopChannel = \<lparr>sc_queue = 0, sc_stop_closed = False, sc_goroutine = First_signal\<rparr>"

text \<open>\<open>onlyOneSignalHandler\<close> is closed by the first call; closing it again panics.\<close>

definition SetupSignalHandler :: "bool \<Rightarrow> (bool, stop_channel) outcome" where
  "SetupSignalHandler closed =
     (if closed then (Crash ''close of closed channel'', closed) else (Ret setupStopChannel, True))"

definition Err_ctx :: "stop_channel \<Rightarrow> goerr option" where
  "Err_ctx c = (if sc_stop_closed c then Some ErrTerminationRequested else None)"

definition deliver :: "stop_channel \<Rightarrow> stop_channel" where
  "deliver c = (if sc_queue c < chanSize then c\<lparr>sc_queue := Suc (sc_queue c)\<rparr> else c)"

text \<open>One step of the goroutine; it waits while the channel is empty.\<close>

definition goroutine_step :: "stop_channel \<Rightarrow> stop_channel option" where
  "goroutine_step c =
     (if sc_queue c = 0 then None
      else case sc_goroutine c of
        First_signal \<Rightarrow> Some (c\<lparr>sc_queue := sc_queue c - 1, sc_stop_closed := True, sc_goroutine := Second_signal\<rparr>)
      | Second_signal \<Rightarrow> Some (c\<lparr>sc_queue := sc_queue c - 1, sc_goroutine := Exited\<rparr>)
      | Exited \<Rightarrow> None)"

text \<open>The states that are reached when the process has received \<open>n\<close> signals.\<close>

inductive reached :: "nat \<Rightarrow> stop_channel \<Rightarrow> bool" where
  reached_start: "reached 0 setupStopChannel"
| reached_signal: "reached n c \<Longrightarrow> sc_goroutine c \<noteq> Exited \<Longrightarrow> reached (Suc n) (deliver c)"
| reached_step: "reached n c \<Longrightarrow> goroutine_step c = Some c' \<Longrightarrow> reached n c'"

definition consumed :: "stop_channel \<Rightarrow> nat" where
  "consumed c = (case sc_goroutine c of First_signal \<Rightarrow> 0 | Second_signal \<Rightarrow> 1 | Exited \<Rightarrow> 2)"

definition channel_inv :: "nat \<Rightarrow> stop_channel \<Rightarrow> bool" where
  "channel_inv n c \<longleftrightarrow>
     sc_queue c \<le> chanSize \<and> min n 2 \<le> consumed c + sc_queue c \<and> consumed c + sc_queue c \<le> n \<and>
     (sc_stop_closed c \<longleftrightarrow> sc_goroutine c \<noteq> First_signal)"

lemma goroutine_step_None: "goroutine_step c = None \<longleftrightarrow> sc_queue c = 0 \<or> sc_goroutine c = Exited"
  by (simp add: goroutine_step_def split: waiting.split)

lemma reached_inv: "reached n c \<Longrightarrow> channel_inv n c"
proof (induction rule: reached.induct)
  case reached_start
  show ?case by (simp add: channel_inv_def setupStopChannel_def consumed_def)
next
  case (reached_signal n c)
  then show ?case by (auto simp: channel_inv_def deliver_def consumed_def)
next
  case (reached_step n c c')
  then show ?case
    by (auto simp: channel_inv_def goroutine_step_def consumed_def split: if_splits waiting.splits)
qed

text \<open>
  C39. No termination signal is lost: once the goroutine has nothing left to do, the context is done
  exactly if a signal was received, and the process has exited exactly if two were. Before that the
  context is never done without a signal, and the process never exits without a second one.
\<close>

theorem signals_not_lost:
  assumes "reached n c"
  shows "(goroutine_step c = None \<longrightarrow>
      (Err_ctx c = Some ErrTerminationRequested \<longleftrightarrow> 1 \<le> n) \<and> (sc_goroutine c = Exited \<longleftrightarrow> 2 \<le> n)) \<and>
    (Err_ctx c \<noteq> None \<longrightarrow> 1 \<le> n) \<and> (sc_goroutine c = Exited \<longrightarrow> 2 \<le> n)"
  using reached_inv [OF assms]
  by (auto simp: channel_inv_def consumed_def goroutine_step_None Err_ctx_def split: waiting.splits if_splits)

theorem signals_not_lost_witness:
  "\<exists>c. reached 2 c \<and> goroutine_step c = None \<and> Err_ctx c = Some ErrTerminationRequested \<and> sc_goroutine c = Exited"
proof -
  define c where "c = \<lparr>sc_queue = 0, sc_stop_closed = True, sc_goroutine = Exited\<rparr>"
  have "reached 2 (deliver (deliver setupStopChannel))"
    using reached_signal [OF reached_signal [OF reached_start]] by (simp add: setupStopChannel_def deliver_def numeral_2_eq_2)
  moreover have "goroutine_step (deliver (deliver setupStopChannel)) =
      Some \<lparr>sc_queue = 1, sc_stop_closed = True, sc_goroutine = Second_signal\<rparr>"
    by (simp add: goroutine_step_def deliver_def setupStopChannel_def)
  ultimately have "reached 2 \<lparr>sc_queue = 1, sc_stop_closed = True, sc_goroutine = Second_signal\<rparr>" by (rule reached_step)
  then have c: "reached 2 c" by (rule reached_step) (simp add: goroutine_step_def c_def)
  moreover have "goroutine_step c = None" by (simp add: goroutine_step_def c_def)
  ultimately show ?thesis using signals_not_lost [OF c] by auto
qed

end
