(* ===== verification/Spec2Isabelle.thy ===== *)
theory Spec2Isabelle
  imports Eventmesh_Activation Controller_Setup Process_Start Process_Signals
begin

text \<open>
  \<^bold>\<open>A verification development for the Kyma eventing manager.\<close>

  The program is a Kubernetes operator with two layers. The \<^emph>\<open>operator\<close> reconciles the one Eventing
  resource of a cluster: it deploys the publisher proxy, and it starts and stops a subscription
  manager for the selected backend (NATS or EventMesh). A running \<^emph>\<open>subscription manager\<close> reconciles
  the Subscription resources: it validates them, creates what the backend needs and delivers the
  messages of the backend to the sinks.

  \<^bold>\<open>Theories and the code they model\<close> (paths below \<^verbatim>\<open>src/\<close>).

  \<^item> \<open>Prelude\<close>, \<open>Go_Strings\<close>, \<open>Go_Errors\<close>, \<open>Go_Url\<close>, \<open>Go_Sha256\<close>: slices, the functions of
    \<^verbatim>\<open>strings\<close>, \<^verbatim>\<open>net/url\<close> and \<^verbatim>\<open>crypto/sha256\<close> that the program uses, \<^verbatim>\<open>pkg/errors\<close>, error values with
    \<^verbatim>\<open>errors.Is\<close>, results (\<open>Ret\<close>, \<open>Err\<close>, \<open>Crash\<close>), and the control-flow combinators \<open>bindR\<close> and
    \<open>for_each\<close> with the rules by which frame conditions are proved.
  \<^item> \<open>Api_Subscription\<close>, \<open>Cleaners\<close>, \<open>Validation\<close>: \<^verbatim>\<open>api/eventing/v1alpha2\<close>, \<^verbatim>\<open>pkg/backend/cleaner\<close>,
    \<^verbatim>\<open>pkg/backend/eventtype\<close>, \<^verbatim>\<open>internal/controller/eventing/subscription/validator\<close>, \<^verbatim>\<open>pkg/utils\<close>.
  \<^item> \<open>JetStream_Utils\<close>, \<open>JetStream_Backend\<close>, \<open>JetStream_Dispatch\<close>: \<^verbatim>\<open>pkg/backend/jetstream\<close> with its
    maps of NATS subscriptions and sinks, every operation of its \<^verbatim>\<open>Backend\<close> interface, and the message
    callback, with \<^verbatim>\<open>pkg/tracing\<close> and \<^verbatim>\<open>pkg/backend/metrics\<close>.
  \<^item> \<open>JetStream_Reconciler\<close>: \<^verbatim>\<open>internal/controller/eventing/subscription/jetstream\<close>.
  \<^item> \<open>Eventmesh_Utils\<close>, \<open>Ems_Client\<close>, \<open>Eventmesh_Backend\<close>, \<open>Eventmesh_Sync\<close>:
    \<^verbatim>\<open>pkg/backend/utils/eventmesh_utils.go\<close> (names, hashes, the subscription that is wanted),
    \<^verbatim>\<open>pkg/ems\<close> (requests and their errors) and \<^verbatim>\<open>pkg/backend/eventmesh\<close>; the last of them states the
    laws of the service and proves what a synchronisation and a deletion leave on it.
  \<^item> \<open>Api_Rules\<close>, \<open>Go_Time\<close>, \<open>Metrics\<close>, \<open>Eventmesh_Reconciler\<close>: \<^verbatim>\<open>pkg/object/apirule.go\<close> and
    \<^verbatim>\<open>authorization_policy.go\<close>, times in RFC 3339, \<^verbatim>\<open>pkg/backend/metrics\<close>, and every method of
    \<^verbatim>\<open>internal/controller/eventing/subscription/eventmesh/reconciler.go\<close>. \<open>Eventmesh_Conditions\<close>,
    \<open>Eventmesh_Reconcile\<close> and \<open>Eventmesh_Activation\<close> hold their properties: the conditions, a whole
    reconciliation, the waiting for the activation.
  \<^item> \<open>Subscription_Managers\<close>: \<^verbatim>\<open>pkg/subscriptionmanager\<close>, the managers for both backends with their
    cleanups and the factory.
  \<^item> \<open>K8s_Objects\<close>, \<open>Object_Equality\<close>, \<open>Api_Eventing\<close>: the Kubernetes objects the operator writes,
    \<^verbatim>\<open>pkg/object/equality.go\<close>, \<^verbatim>\<open>api/operator/v1alpha1\<close>.
  \<^item> \<open>Publisher_Proxy\<close>, \<open>Kube_Client\<close>, \<open>Eventing_Manager\<close>, \<open>Peer_Authentication\<close>: \<^verbatim>\<open>pkg/eventing\<close>,
    \<^verbatim>\<open>pkg/k8s/client.go\<close>, \<^verbatim>\<open>pkg/istio/peerauthentication\<close>.
  \<^item> \<open>Nats_Connection\<close>, \<open>Resource_Watcher\<close>: \<^verbatim>\<open>internal/connection/nats\<close>, \<^verbatim>\<open>pkg/watcher\<close>.
  \<^item> \<open>Operator_State\<close>, \<open>Sub_Managers\<close>, \<open>Eventing_Reconciler\<close>: \<^verbatim>\<open>internal/controller/operator/eventing\<close>.
    \<open>Operator_Managers\<close> puts the managers of \<open>Subscription_Managers\<close> behind the interface that the
    operator uses, as objects on a heap that share the cluster, the metrics and the two services.
  \<^item> \<open>Metrics_Collector\<close>, \<open>Object_Cache\<close>, \<open>Controller_Setup\<close>: the collector of \<^verbatim>\<open>pkg/backend/metrics\<close>
    with what a dispatch leaves in it, \<^verbatim>\<open>internal/controller/cache\<close> and \<^verbatim>\<open>client\<close>, the set-up of the
    three controllers with the events that trigger them.
  \<^item> \<open>Process_Start\<close>, \<open>Process_Signals\<close>: \<^verbatim>\<open>cmd/main.go\<close>, \<^verbatim>\<open>options\<close>, \<^verbatim>\<open>pkg/env/config.go\<close> and
    \<^verbatim>\<open>pkg/signals\<close>.

  \<^bold>\<open>How the code is represented.\<close> A Go struct is a record, a fallible call returns a \<open>result\<close> whose
  constructors are a value, an error and a panic, and a call with effects returns the new state
  beside it, also when it fails. What a method mutates through a pointer is part of the state it
  returns. Services and libraries are records of functions on an abstract type of outside states:
  the NATS server (\<open>js_server\<close> and its client), the HTTP client for EventMesh (\<open>http_lib\<close>), the
  Kubernetes API (\<open>raw_client\<close>, \<open>em_rec_env\<close>, \<open>dynamic_client\<close>), the NATS client library
  (\<open>natsio\<close>), informers, the subscription managers as the operator sees them
  (\<open>sub_managers\<close>), and the libraries for conditions, hashes, JSON and CloudEvents. What a property
  needs of them is a hypothesis with a name (\<open>object_store\<close>, \<open>sets_owner\<close>,
  \<open>documented_conditions\<close> and the laws of the NATS server in \<open>JetStream_Backend\<close>), and the witness
  of the property instantiates it with a concrete function. The iteration order of a Go map is a
  parameter of the operations that range over it, so that their properties hold for every order.
  Loops are structural recursions over lists; no definition needs fuel. Reconciliations of one
  resource do not overlap: controller-runtime runs one worker per controller, so the model executes
  them one after the other.

  \<^bold>\<open>What is shown.\<close>

  \<^item> Subscriptions on NATS: a reconciliation without an error leaves one NATS subscription per clean
    event type and the sink; a deletion without an error leaves no sink and none of those whose
    subject has no slash; the status that is written is consistent; the finalizer outlives the
    backend objects; an invalid spec ends in a terminal error unless the status cannot be written;
    in every reachable backend state a stored NATS subscription whose subject has no slash has a
    sink, and a decodable message on it is sent once and settled once. One for a subject with a
    slash outlives its Subscription and drops its messages.
  \<^item> Subscriptions on EventMesh: a reconciliation without an error has made EventMesh hold a
    subscription with the wanted settings, and the status records it; the Subscription that it
    updates last, if the stored condition types are distinct, has one condition of each type and is
    ready exactly if all are true (with an error it can be written as ready wrongly); a second synchronisation only
    reads; the finalizer outlives the subscription; a shared APIRule is never deleted; the waiting for
    the activation ends; a cleanup of the manager without a failed step leaves nothing on EventMesh.
  \<^item> Conditions, cleaners, validation, subjects and consumer names: refinement of maps, idempotence,
    round trips, exactness of the association of identifiers, what an accepted Subscription
    guarantees.
  \<^item> Publisher proxy: well-formed deployments, soundness of the comparison, when a stored deployment
    is written again (not for the defaults of the API server, but for every drift), what a deletion
    leaves.
  \<^item> Operator: a reconciliation starts only the manager of the spec, and never leaves two running if
    only that of the recorded backend ran before; deletion blocked by Subscriptions, deletion and backend
    switching clean up, the reported state follows the deployment. Together with the managers of the
    program: after a changed configuration the JetStream manager runs with it on an open connection,
    and the EventMesh manager starts with the credentials of the cluster.
  \<^item> Process: what the operator deploys it can read through its cache, which events trigger it, what a
    process that ends well has done, no termination signal is lost, every delivery is counted once,
    with the response code of the sink.
  \<^item> Where the code falls short of its intention the property states what it does: see the findings
    of the manifest (handlers not registered after a reconnect, a connection that a stop opens, errors
    that are lost, a wrong readiness, a stale EventMesh manager, a manager that a failed
    stop leaves dead but started, a rotated secret that does not reach the manager, a switch
    that never returns after a failed watch, a manager left running, ignored stream settings and
    flags, a panic on a failed connect, identifiers with slashes).

  The locales state the interfaces: \<open>manager_slot\<close> (a subscription manager and its flag,
  interpreted for NATS and EventMesh), \<open>op_frame\<close> (relations that hold across the calls of the
  operator, interpreted for the untouched managers and the invariant), the ones of the JetStream
  backend and of the cleaners, \<open>ems_service\<close> (the laws of EventMesh, interpreted for the requests of
  the client on a store of subscriptions), and \<open>em_backend\<close> (what the reconciler relies on), which
  \<open>em_client\<close>, the backend of this program on any such service, is a sublocale of.

  \<^bold>\<open>Not modelled.\<close> \<^verbatim>\<open>pkg/logger\<close> and \<^verbatim>\<open>pkg/informers\<close>, which wrap libraries (the second is not called);
  the OAuth2 transport of \<^verbatim>\<open>pkg/ems/auth\<close>; logging and Kubernetes events; the buckets that the
  Prometheus library computes; generated deep-copy functions and mocks; test helpers and end-to-end
  tests. The feature flags are arguments of the definitions that read them.
\<close>

end
